(* ===== verification/Prelude.thy ===== *)
theory Prelude
  imports Main "HOL-Library.AList" "HOL-Library.Multiset" "HOL-Library.Product_Lexorder"
begin

text \<open>
  Shared vocabulary of the development: the exceptions the Python code raises, fallible
  computations as values of a sum type, the state-and-exception computations used for code
  that writes to the database, JSON values as the request handlers receive them, insertion
  ordered dictionaries, and the generic list lemmas the component theories rest on.
\<close>

section \<open>Collections of simplification rules\<close>

named_theorems result_simps \<open>rules that run a fallible computation\<close>
named_theorems op_simps \<open>rules that run a database operation\<close>

section \<open>Exceptions and fallible computations\<close>

text \<open>
  The messages of \<^verbatim>\<open>ValidationError\<close> are user-facing (Russian) texts; the model
  carries a short ASCII tag for each, so that two different messages stay different.
\<close>

datatype py_error =
    ValidationError string
  | PermissionDenied
  | DoesNotExist
  | IntegrityError
  | TypeError
  | KeyError
  | IndexError
  | AttributeError
  | ValueError
  | RuntimeError
  | Conflict string \<comment> \<open>\<^verbatim>\<open>GrantConflict\<close>, \<^verbatim>\<open>NotificationConflict\<close>, \<^verbatim>\<open>ConfirmationConflict\<close>\<close>
  | ExternalError string \<comment> \<open>an exception raised by a service outside the repository\<close>

type_synonym 'a result = "py_error + 'a"

definition bindR :: "'a result \<Rightarrow> ('a \<Rightarrow> 'b result) \<Rightarrow> 'b result" where
  "bindR r f = (case r of Inl e \<Rightarrow> Inl e | Inr x \<Rightarrow> f x)"

lemma bindR_simps [simp, result_simps]:
  "bindR (Inl e) f = Inl e"
  "bindR (Inr x) f = f x"
  by (simp_all add: bindR_def)

lemma bindR_Inr_iff: "bindR r f = Inr y \<longleftrightarrow> (\<exists>x. r = Inr x \<and> f x = Inr y)"
  by (cases r) auto

lemma bindR_Inl_iff: "bindR r f = Inl e \<longleftrightarrow> r = Inl e \<or> (\<exists>x. r = Inr x \<and> f x = Inl e)"
  by (cases r) auto

lemma bindR_assoc: "bindR (bindR r f) g = bindR r (\<lambda>x. bindR (f x) g)"
  by (cases r) auto

fun mapR :: "('a \<Rightarrow> 'b result) \<Rightarrow> 'a list \<Rightarrow> 'b list result" where
  "mapR f [] = Inr []"
| "mapR f (x # xs) = bindR (f x) (\<lambda>y. bindR (mapR f xs) (\<lambda>ys. Inr (y # ys)))"

lemma mapR_length: "mapR f xs = Inr ys \<Longrightarrow> length ys = length xs"
  by (induction xs arbitrary: ys) (auto simp: bindR_Inr_iff)

lemma mapR_nth: "mapR f xs = Inr ys \<Longrightarrow> i < length xs \<Longrightarrow> f (xs ! i) = Inr (ys ! i)"
proof (induction xs arbitrary: ys i)
  case Nil
  then show ?case by simp
next
  case (Cons x xs)
  then show ?case by (cases i) (auto simp: bindR_Inr_iff)
qed

lemma mapR_list_all2: "mapR f xs = Inr ys \<longleftrightarrow> list_all2 (\<lambda>x y. f x = Inr y) xs ys"
  by (induction xs arbitrary: ys) (auto simp: bindR_Inr_iff list_all2_Cons1)

section \<open>Operations on a database\<close>

text \<open>
  An operation takes the database and returns its value, or the exception it raised, with the
  database it leaves behind. \<open>atomic\<close> is Django's \<^verbatim>\<open>transaction.atomic\<close>: an exception
  that leaves the block rolls the database back. \<open>catch\<close> is \<^verbatim>\<open>try ... except\<close>, which
  keeps what was written before the exception.
\<close>

type_synonym ('s, 'a) op = "'s \<Rightarrow> 'a result \<times> 's"

definition ret :: "'a \<Rightarrow> ('s, 'a) op" where
  "ret x = (\<lambda>s. (Inr x, s))"

definition raise :: "py_error \<Rightarrow> ('s, 'a) op" where
  "raise e = (\<lambda>s. (Inl e, s))"

definition andthen :: "('s, 'a) op \<Rightarrow> ('a \<Rightarrow> ('s, 'b) op) \<Rightarrow> ('s, 'b) op" where
  "andthen m f = (\<lambda>s. case m s of (Inl e, s') \<Rightarrow> (Inl e, s') | (Inr x, s') \<Rightarrow> f x s')"

definition get_db :: "('s, 's) op" where
  "get_db = (\<lambda>s. (Inr s, s))"

definition modify_db :: "('s \<Rightarrow> 's) \<Rightarrow> ('s, unit) op" where
  "modify_db f = (\<lambda>s. (Inr (), f s))"

definition atomic :: "('s, 'a) op \<Rightarrow> ('s, 'a) op" where
  "atomic m = (\<lambda>s. case m s of (Inl e, s') \<Rightarrow> (Inl e, s) | (Inr x, s') \<Rightarrow> (Inr x, s'))"

definition catch :: "('s, 'a) op \<Rightarrow> (py_error \<Rightarrow> ('s, 'a) op) \<Rightarrow> ('s, 'a) op" where
  "catch m h = (\<lambda>s. case m s of (Inl e, s') \<Rightarrow> h e s' | (Inr x, s') \<Rightarrow> (Inr x, s'))"

definition lift_result :: "'a result \<Rightarrow> ('s, 'a) op" where
  "lift_result r = (\<lambda>s. (r, s))"

lemmas op_defs = ret_def raise_def andthen_def get_db_def modify_db_def atomic_def catch_def
  lift_result_def

lemma op_apply [op_simps]:
  "ret x s = (Inr x, s)"
  "raise e s = (Inl e, s)"
  "get_db s = (Inr s, s)"
  "modify_db f s = (Inr (), f s)"
  "lift_result r s = (r, s)"
  by (simp_all add: op_defs)

lemma andthen_Inr_iff:
  "andthen m f s = (Inr y, t) \<longleftrightarrow> (\<exists>x u. m s = (Inr x, u) \<and> f x u = (Inr y, t))"
  by (auto simp: andthen_def split: prod.splits sum.splits)

lemma atomic_Inr_iff: "atomic m s = (Inr y, t) \<longleftrightarrow> m s = (Inr y, t)"
  by (auto simp: atomic_def split: prod.splits sum.splits)

lemma atomic_rollback: "atomic m s = (Inl e, t) \<Longrightarrow> t = s"
  by (auto simp: atomic_def split: prod.splits sum.splits)

section \<open>JSON values\<close>

datatype json =
    JNull
  | JBool bool
  | JNum int
  | JStr string
  | JArr "json list"
  | JObj "(string \<times> json) list"

text \<open>
  Python hashes and compares \<^verbatim>\<open>True\<close> and \<^verbatim>\<open>1\<close> alike, and refuses to hash lists and
  dictionaries: \<^verbatim>\<open>set(xs)\<close> raises \<^verbatim>\<open>TypeError\<close> on them.
\<close>

fun hashable :: "json \<Rightarrow> bool" where
  "hashable (JArr _) = False"
| "hashable (JObj _) = False"
| "hashable _ = True"

fun hash_key :: "json \<Rightarrow> json" where
  "hash_key (JBool b) = JNum (if b then 1 else 0)"
| "hash_key j = j"

definition py_set :: "json list \<Rightarrow> json set result" where
  "py_set xs = (if list_all hashable xs then Inr (set (map hash_key xs)) else Inl TypeError)"

lemma hash_key_JStr [simp]: "hash_key j = JStr s \<longleftrightarrow> j = JStr s"
  by (cases j) auto

lemma py_set_Inr: "py_set xs = Inr S \<longleftrightarrow> list_all hashable xs \<and> S = hash_key ` set xs"
  by (auto simp: py_set_def)

lemma py_set_JStr [simp]: "py_set (map JStr ks) = Inr (JStr ` set ks)"
  by (auto simp: py_set_def list_all_iff)

text \<open>A list of JSON values whose hash keys are all strings is a list of strings.\<close>

lemma hash_keys_strings:
  assumes "hash_key ` set xs \<subseteq> JStr ` K"
  shows "\<exists>ks. xs = map JStr ks \<and> set ks \<subseteq> K"
  using assms
proof (induction xs)
  case Nil
  then show ?case by simp
next
  case (Cons x xs)
  then obtain ks where "xs = map JStr ks" and "set ks \<subseteq> K" by auto
  moreover from Cons.prems obtain k where "x = JStr k" and "k \<in> K" by auto
  ultimately show ?case by (intro exI [of _ "k # ks"]) auto
qed

lemma card_JStr [simp]: "card (JStr ` S) = card S"
  by (rule card_image) (simp add: inj_on_def)

lemma JStr_image_eq [simp]: "JStr ` A = JStr ` B \<longleftrightarrow> A = B"
  by (rule inj_image_eq_iff) (simp add: inj_def)

section \<open>Lists\<close>

lemma card_set_distinct: "length xs = card (set xs) \<longleftrightarrow> distinct xs"
  by (metis card_distinct distinct_card)

lemma sort_key_Nil_iff: "sort_key f xs = [] \<longleftrightarrow> xs = []"
proof -
  have "length (sort_key f xs) = length xs" by simp
  then show ?thesis by (simp only: length_0_conv [symmetric])
qed

lemma map_insort_key: "map f (insort_key (\<lambda>a. g (f a)) x xs) = insort_key g (f x) (map f xs)"
  by (induction xs) auto

lemma map_sort_key: "map f (sort_key (\<lambda>a. g (f a)) xs) = sort_key g (map f xs)"
  by (induction xs) (auto simp: map_insort_key)

text \<open>A change of the rows that keeps the sort key commutes with sorting; a row with the largest key comes last.\<close>

lemma sort_key_map_same:
  assumes "\<And>x. k (g x) = k x"
  shows "sort_key k (map g xs) = map g (sort_key k xs)"
  using map_sort_key [of g k xs] assms by simp

lemma insort_key_snoc:
  "k y \<le> k x \<Longrightarrow> insort_key k y (ys @ [x]) = insort_key k y ys @ [x]"
  by (induction ys) auto

lemma sort_key_snoc:
  assumes "\<forall>y \<in> set xs. k y \<le> k x"
  shows "sort_key k (xs @ [x]) = sort_key k xs @ [x]"
  using assms by (induction xs) (simp_all add: insort_key_snoc)

lemma filter_all_iff: "length (filter P xs) = length xs \<longleftrightarrow> (\<forall>x \<in> set xs. P x)"
  by (metis filter_id_conv filter_True length_filter_less less_irrefl)

text \<open>\<open>enumerate(xs, start=n)\<close>.\<close>

fun enum_from :: "nat \<Rightarrow> 'a list \<Rightarrow> (nat \<times> 'a) list" where
  "enum_from n [] = []"
| "enum_from n (x # xs) = (n, x) # enum_from (Suc n) xs"

lemma enum_from_eq: "enum_from n xs = zip [n ..< n + length xs] xs"
proof (induction xs arbitrary: n)
  case Nil
  then show ?case by simp
next
  case (Cons x xs)
  have "[n ..< n + length (x # xs)] = n # [Suc n ..< Suc n + length xs]"
    by (simp add: upt_conv_Cons del: upt_Suc)
  with Cons show ?case by (simp del: upt_Suc)
qed

lemma length_enum_from [simp]: "length (enum_from n xs) = length xs"
  by (simp add: enum_from_eq)

lemma map_snd_enum_from [simp]: "map snd (enum_from n xs) = xs"
  by (simp add: enum_from_eq)

lemma map_fst_enum_from [simp]: "map fst (enum_from n xs) = [n ..< n + length xs]"
  by (simp add: enum_from_eq)

lemma nth_enum_from: "i < length xs \<Longrightarrow> enum_from n xs ! i = (n + i, xs ! i)"
  by (simp add: enum_from_eq)

lemma map_index_enum_from: "map (\<lambda>(i, x). f i) (enum_from n xs) = map f [n ..< n + length xs]"
proof (induction xs arbitrary: n)
  case (Cons x xs)
  have "[n ..< n + length (x # xs)] = n # [Suc n ..< Suc n + length xs]"
    by (simp add: upt_conv_Cons del: upt_Suc)
  with Cons show ?case by (simp del: upt_Suc)
qed simp

lemma distinct_map_index_enum_from: "inj f \<Longrightarrow> distinct (map (\<lambda>(i, x). f i) (enum_from n xs))"
  by (simp add: map_index_enum_from distinct_map inj_on_subset [OF _ subset_UNIV])

lemma length_filter_enum_from: "length (filter (\<lambda>(i, x). P x) (enum_from n xs)) = length (filter P xs)"
  by (induction xs arbitrary: n) auto

text \<open>The first element that satisfies a predicate: \<^verbatim>\<open>queryset.first()\<close>, \<^verbatim>\<open>next(..., None)\<close>.\<close>

lemma find_Some_member: "List.find P xs = Some x \<Longrightarrow> x \<in> set xs \<and> P x"
  by (induction xs) (auto split: if_splits)

lemma find_None_all: "List.find P xs = None \<longleftrightarrow> (\<forall>x \<in> set xs. \<not> P x)"
  by (auto simp: find_None_iff)

section \<open>White space\<close>

text \<open>The characters \<^verbatim>\<open>str.split()\<close> treats as white space, among the first 256 code points.\<close>

definition is_space :: "char \<Rightarrow> bool" where
  "is_space c = (let n = of_char c :: nat in
     (9 \<le> n \<and> n \<le> 13) \<or> (28 \<le> n \<and> n \<le> 32) \<or> n = 133 \<or> n = 160)"

text \<open>\<^verbatim>\<open>str.strip()\<close>.\<close>

definition py_strip :: "string \<Rightarrow> string" where
  "py_strip s = rev (dropWhile is_space (rev (dropWhile is_space s)))"

lemma dropWhile_split: "\<exists>ys. xs = ys @ dropWhile P xs \<and> (\<forall>y \<in> set ys. P y)"
  by (rule exI [of _ "takeWhile P xs"]) (auto dest: set_takeWhileD)

lemma py_strip_Nil_iff: "py_strip s = [] \<longleftrightarrow> (\<forall>c \<in> set s. is_space c)"
proof
  assume "py_strip s = []"
  then have "\<forall>c \<in> set (dropWhile is_space s). is_space c" by (simp add: py_strip_def)
  then have "dropWhile is_space s = []" by (cases "dropWhile is_space s") (auto simp: dropWhile_eq_Cons_conv)
  then show "\<forall>c \<in> set s. is_space c" by simp
next
  assume "\<forall>c \<in> set s. is_space c"
  then have "dropWhile is_space s = []" by (simp add: dropWhile_eq_Nil_conv)
  then show "py_strip s = []" unfolding py_strip_def by (simp only: list.simps rev.simps dropWhile.simps)
qed

lemma py_strip_keeps_visible: "c \<in> set s \<Longrightarrow> \<not> is_space c \<Longrightarrow> c \<in> set (py_strip s)"
  unfolding py_strip_def using dropWhile_split [of s is_space] dropWhile_split [of "rev (dropWhile is_space s)" is_space]
  by (metis Un_iff set_append set_rev)

lemma py_strip_twice_Nil [simp]: "py_strip (py_strip s) = [] \<longleftrightarrow> py_strip s = []"
  by (metis py_strip_Nil_iff py_strip_keeps_visible empty_iff list.set(1))

section \<open>Decimal numerals\<close>

text \<open>\<^verbatim>\<open>str(n)\<close> for a non-negative integer.\<close>

definition digit_char :: "nat \<Rightarrow> char" where
  "digit_char d = char_of (48 + d)"

fun str_nat :: "nat \<Rightarrow> string" where
  "str_nat n = (if n < 10 then [digit_char n] else str_nat (n div 10) @ [digit_char (n mod 10)])"

declare str_nat.simps [simp del]

lemma digit_char_inj: "a < 10 \<Longrightarrow> b < 10 \<Longrightarrow> digit_char a = digit_char b \<longleftrightarrow> a = b"
proof -
  assume "a < 10" "b < 10"
  then have "of_char (digit_char a) = 48 + a" "of_char (digit_char b) = 48 + b"
    by (simp_all add: digit_char_def of_char_of)
  then show ?thesis by (metis add_left_cancel)
qed

lemma str_nat_nonempty: "str_nat n \<noteq> []"
  by (subst str_nat.simps) simp

lemma str_nat_inj: "str_nat m = str_nat n \<Longrightarrow> m = n"
proof (induction m arbitrary: n rule: str_nat.induct)
  case (1 m)
  show ?case
  proof (cases "m < 10")
    case True
    with "1.prems" show ?thesis
      using str_nat_nonempty [of "n div 10"]
      by (auto simp: str_nat.simps [of m] str_nat.simps [of n] digit_char_inj split: if_splits)
  next
    case False
    then have "str_nat m = str_nat (m div 10) @ [digit_char (m mod 10)]"
      by (simp add: str_nat.simps [of m])
    moreover have "\<not> n < 10"
      using "1.prems" False str_nat_nonempty [of "m div 10"]
      by (auto simp: str_nat.simps [of m] str_nat.simps [of n])
    then have "str_nat n = str_nat (n div 10) @ [digit_char (n mod 10)]"
      by (simp add: str_nat.simps [of n])
    ultimately have "str_nat (m div 10) = str_nat (n div 10)" "m mod 10 = n mod 10"
      using "1.prems" by (auto simp: digit_char_inj)
    with "1.IH" [OF False, of "n div 10"] show ?thesis by (metis div_mult_mod_eq)
  qed
qed

lemma inj_str_nat: "inj str_nat"
  by (rule injI) (rule str_nat_inj)

section \<open>Time and primary keys\<close>

text \<open>Points in time are microseconds; primary keys are the positive integers of a sequence.\<close>

type_synonym time = int
type_synonym pk = nat

text \<open>The next value of a table's primary key sequence.\<close>

definition fresh_pk :: "pk list \<Rightarrow> pk" where
  "fresh_pk ids = Suc (fold max ids 0)"

lemma fold_max_ge: "x \<in> set (ids :: nat list) \<or> x = a \<Longrightarrow> x \<le> fold max ids a"
proof (induction ids arbitrary: a x)
  case Nil
  then show ?case by simp
next
  case (Cons y ys)
  have "max y a \<le> fold max ys (max y a)" by (rule Cons.IH) simp
  with Cons.prems Cons.IH [of x "max y a"] show ?case by auto
qed

lemma fresh_pk_notin: "fresh_pk ids \<notin> set ids"
proof
  assume "fresh_pk ids \<in> set ids"
  then have "fresh_pk ids \<le> fold max ids 0" by (intro fold_max_ge) simp
  then show False by (simp add: fresh_pk_def)
qed

end
