(* ===== verification/Rounding.thy ===== *)
theory Rounding
  imports Prelude
begin

text \<open>
  The arithmetic of Python's \<^verbatim>\<open>decimal.Decimal\<close> (default context: 28 significant digits,
  half-even) and of its binary floating point numbers (53 significant bits, half-even), as far
  as the platform uses them: non-negative quotients, products by a small constant,
  \<^verbatim>\<open>quantize(..., ROUND_HALF_UP)\<close> and \<^verbatim>\<open>round(x)\<close>. A rounded number is a pair
  \<open>(q, k)\<close> that stands for \<open>q / b ^ k\<close>. The main lemma says when rounding a quotient
  first to the working precision and then to a few decimals gives the same result as rounding
  the exact quotient once.
\<close>

section \<open>Rounding a quotient to an integer\<close>

definition round_half_even :: "nat \<Rightarrow> nat \<Rightarrow> nat" where
  "round_half_even n d =
     (let q = n div d; r = n mod d
      in if 2 * r < d then q
         else if d < 2 * r then q + 1
         else if even q then q else q + 1)"

definition round_half_up :: "nat \<Rightarrow> nat \<Rightarrow> nat" where
  "round_half_up n d = (2 * n + d) div (2 * d)"

lemma round_half_even_bounds:
  assumes "0 < d"
  shows "2 * (round_half_even n d * d) \<le> 2 * n + d"
    and "2 * n \<le> 2 * (round_half_even n d * d) + d"
proof -
  have n: "n = n div d * d + n mod d" by simp
  define q r where "q = n div d" and "r = n mod d"
  have nqr: "n = q * d + r" using n q_def r_def by simp
  have r: "r < d" using assms by (simp add: r_def)
  have cases: "round_half_even n d = q \<and> 2 * r \<le> d \<or> round_half_even n d = q + 1 \<and> d \<le> 2 * r"
    by (auto simp: round_half_even_def Let_def q_def r_def)
  then show "2 * (round_half_even n d * d) \<le> 2 * n + d"
    and "2 * n \<le> 2 * (round_half_even n d * d) + d"
    using nqr r by (auto simp: algebra_simps)
qed

lemma round_half_even_exact:
  assumes "0 < d" and "d dvd n"
  shows "round_half_even n d * d = n"
  using assms by (simp add: round_half_even_def Let_def mod_eq_0_iff_dvd)

lemma round_half_even_le:
  assumes "0 < d" and "n \<le> c * d"
  shows "round_half_even n d \<le> c"
proof -
  have "2 * (round_half_even n d * d) \<le> 2 * n + d" by (rule round_half_even_bounds) fact
  with assms(2) have "2 * round_half_even n d * d \<le> (2 * c + 1) * d" by (simp add: algebra_simps)
  then have "2 * round_half_even n d \<le> 2 * c + 1" by (rule mult_right_le_imp_le) fact
  then show ?thesis by linarith
qed

lemma round_half_even_0 [simp]: "round_half_even 0 d = 0"
  by (simp add: round_half_even_def)

section \<open>Rounding to a number of significant digits\<close>

text \<open>
  The number of digits behind the point that gives the quotient \<open>n / d\<close> its leading digit at
  weight \<open>lo\<close> (\<open>lo = b ^ (p - 1)\<close> for \<open>p\<close> significant digits of base \<open>b\<close>).
\<close>

function sig_shift :: "nat \<Rightarrow> nat \<Rightarrow> nat \<Rightarrow> nat \<Rightarrow> nat" where
  "sig_shift b lo n d =
     (if n = 0 \<or> b \<le> 1 \<or> lo * d \<le> n then 0 else Suc (sig_shift b lo (n * b) d))"
  by pat_completeness auto
termination
proof (relation "measure (\<lambda>(b, lo, n, d). lo * d - n)")
  fix b lo n d :: nat
  assume "\<not> (n = 0 \<or> b \<le> 1 \<or> lo * d \<le> n)"
  then have "n * 2 \<le> n * b" and "0 < n" and "n < lo * d" by auto
  then have "lo * d - n * b < lo * d - n" by linarith
  then show "((b, lo, n * b, d), (b, lo, n, d)) \<in> measure (\<lambda>(b, lo, n, d). lo * d - n)"
    by simp
qed simp

declare sig_shift.simps [simp del]

lemma sig_shift_reaches:
  assumes "0 < n" and "1 < b"
  shows "lo * d \<le> n * b ^ sig_shift b lo n d"
  using assms
proof (induction b lo n d rule: sig_shift.induct)
  case (1 b lo n d)
  show ?case
  proof (cases "lo * d \<le> n")
    case True
    then show ?thesis by (simp add: sig_shift.simps [of b lo n d])
  next
    case False
    with 1 have "lo * d \<le> n * b * b ^ sig_shift b lo (n * b) d" by simp
    with False 1 show ?thesis by (simp add: sig_shift.simps [of b lo n d] mult.assoc)
  qed
qed

lemma sig_shift_zero [simp]: "sig_shift b lo 0 d = 0"
  by (simp add: sig_shift.simps)

definition round_sig :: "nat \<Rightarrow> nat \<Rightarrow> nat \<Rightarrow> nat \<Rightarrow> nat \<times> nat" where
  "round_sig b p n d =
     (let k = sig_shift b (b ^ (p - 1)) n d in (round_half_even (n * b ^ k) d, k))"

lemma round_sig_bounds:
  assumes "round_sig b p n d = (q, k)" and "0 < d"
  shows "2 * (q * d) \<le> 2 * (n * b ^ k) + d"
    and "2 * (n * b ^ k) \<le> 2 * (q * d) + d"
    and "d dvd n * b ^ k \<Longrightarrow> q * d = n * b ^ k"
  using assms round_half_even_bounds [of d "n * b ^ k"] round_half_even_exact [of d "n * b ^ k"]
  by (auto simp: round_sig_def Let_def)

lemma round_sig_digits:
  assumes rs: "round_sig b p n d = (q, k)" and "0 < n" and "0 < d" and "1 < b"
    and small: "n \<le> d * b ^ e" and "e \<le> p - 1"
  shows "p - 1 - e \<le> k"
proof -
  have k: "k = sig_shift b (b ^ (p - 1)) n d" using rs by (simp add: round_sig_def Let_def)
  have "b ^ (p - 1) * d \<le> n * b ^ k"
    unfolding k by (rule sig_shift_reaches) (use assms in auto)
  also have "\<dots> \<le> d * b ^ e * b ^ k" using small by simp
  also have "\<dots> = b ^ (e + k) * d" by (simp add: power_add ac_simps)
  finally have "b ^ (p - 1) \<le> b ^ (e + k)"
    using \<open>0 < d\<close> by (rule mult_right_le_imp_le)
  then have "p - 1 \<le> e + k"
    by (rule power_le_imp_le_exp [OF \<open>1 < b\<close>])
  then show ?thesis by simp
qed

section \<open>Decimal quotients rounded half up to a few decimals\<close>

text \<open>
  Rounding twice is harmless: \<open>q / B\<close> is within half a unit of \<open>n / d\<close> (and exact where
  it can be), and \<open>B\<close> is large enough that no half-way point at \<open>M\<close> parts of a unit lies
  between the two.
\<close>

lemma double_rounding:
  fixes n d q B M :: nat
  assumes d: "0 < d" and B: "0 < B" and M: "M * d < B" and half: "2 * M dvd B"
    and up: "2 * (q * d) \<le> 2 * (n * B) + d"
    and lo: "2 * (n * B) \<le> 2 * (q * d) + d"
    and exact: "d dvd n * B \<Longrightarrow> q * d = n * B"
  shows "round_half_up (q * M) B = round_half_up (n * M) d"
proof -
  define m where "m = round_half_up (n * M) d"
  have "(2 * (n * M) + d) mod (2 * d) < 2 * d" using d by simp
  moreover have eq: "2 * (n * M) + d = 2 * d * m + (2 * (n * M) + d) mod (2 * d)"
    by (simp add: m_def round_half_up_def)
  ultimately have m1: "2 * d * m \<le> 2 * (n * M) + d"
    and m2: "2 * (n * M) + d + 1 \<le> 2 * d * m + 2 * d" by linarith+
  have upM: "2 * (q * d) * M \<le> 2 * (n * B) * M + d * M"
    using mult_right_mono [OF up, of M] by (simp add: algebra_simps)
  have loM: "2 * (n * B) * M \<le> 2 * (q * d) * M + d * M"
    using mult_right_mono [OF lo, of M] by (simp add: algebra_simps)
  have "(2 * (n * M) + d + 1) * B \<le> (2 * d * m + 2 * d) * B"
    using m2 by (rule mult_right_mono) simp
  with upM M have "d * (2 * (q * M) + B) < d * (2 * B * m + 2 * B)"
    by (simp add: algebra_simps)
  then have upper: "2 * (q * M) + B < 2 * B * m + 2 * B" by simp
  have "d * (2 * B * m) \<le> d * (2 * (q * M) + B)"
  proof (cases "2 * d * m = 2 * (n * M) + d")
    case True
    obtain c where c: "B = 2 * M * c" using half by (elim dvdE)
    have "2 * (n * M) = d * (2 * m - 1)"
    proof -
      have "0 < m" using True d by (cases m) auto
      with True show ?thesis by (cases m) (auto simp: algebra_simps)
    qed
    then have "n * B = d * ((2 * m - 1) * c)"
      by (simp only: c mult.assoc [symmetric]) (simp only: ac_simps)
    then have "q * d = n * B" by (intro exact) simp
    then have "d * (2 * (q * M) + B) = B * (2 * (n * M) + d)" by (simp add: algebra_simps)
    also have "\<dots> = B * (2 * d * m)" using True by simp
    finally show ?thesis by (simp add: algebra_simps)
  next
    case False
    with m1 have "2 * d * m + 1 \<le> 2 * (n * M) + d" by simp
    then have "(2 * d * m + 1) * B \<le> (2 * (n * M) + d) * B" by (rule mult_right_mono) simp
    with loM M show ?thesis by (simp add: algebra_simps)
  qed
  then have lower: "2 * B * m \<le> 2 * (q * M) + B" using d by simp
  have "(2 * (q * M) + B) div (2 * B) = m"
    by (rule div_nat_eqI) (use lower upper in \<open>simp_all add: algebra_simps\<close>)
  then show ?thesis by (simp add: round_half_up_def m_def)
qed

definition DEC_PREC :: nat where
  "DEC_PREC = 28"

definition dec_div :: "nat \<Rightarrow> nat \<Rightarrow> nat \<times> nat" where
  "dec_div n d = round_sig 10 DEC_PREC n d"

text \<open>\<^verbatim>\<open>(x * 10 ** j).quantize(1, ROUND_HALF_UP)\<close> for a decimal \<open>x\<close>.\<close>

definition quantize :: "nat \<Rightarrow> nat \<times> nat \<Rightarrow> nat" where
  "quantize j x = round_half_up (fst x * 10 ^ j) (10 ^ snd x)"

lemma quantize_dec_div:
  assumes "0 < d" and "n \<le> d * 1000" and "j \<le> 4" and "d < 10 ^ 20"
  shows "quantize j (dec_div n d) = round_half_up (n * 10 ^ j) d"
proof (cases "n = 0")
  case True
  then have "round_half_up (n * 10 ^ j) d = 0"
    using assms(1) by (simp add: round_half_up_def)
  with True show ?thesis
    by (simp add: dec_div_def quantize_def round_sig_def round_half_up_def)
next
  case False
  obtain q k where qk: "dec_div n d = (q, k)" by fastforce
  note rs = qk [unfolded dec_div_def]
  have "DEC_PREC - 1 - 3 \<le> k"
    by (rule round_sig_digits [OF rs]) (use False assms in \<open>auto simp: DEC_PREC_def\<close>)
  then have k: "24 \<le> k" by (simp add: DEC_PREC_def)
  have "round_half_up (q * 10 ^ j) (10 ^ k) = round_half_up (n * 10 ^ j) d"
  proof (rule double_rounding)
    have "(10 ^ j :: nat) \<le> 10 ^ 4" by (rule power_increasing) (use assms in simp_all)
    then have "10 ^ j * d < 10 ^ 4 * 10 ^ 20"
      by (rule mult_le_less_imp_less) (use assms in simp_all)
    also have "\<dots> \<le> 10 ^ k" using power_increasing [OF k, of "10::nat"] by simp
    finally show "10 ^ j * d < 10 ^ k" .
    have "(2 * 10 ^ j :: nat) dvd 10 ^ (j + 1)" by simp
    also have "(10 ^ (j + 1) :: nat) dvd 10 ^ k"
      by (rule le_imp_power_dvd) (use k assms in simp)
    finally show "(2 * 10 ^ j :: nat) dvd 10 ^ k" .
  qed (use round_sig_bounds [OF rs \<open>0 < d\<close>] assms in auto)
  then show ?thesis by (simp add: quantize_def qk)
qed

lemma round_half_up_le:
  assumes "0 < d" and "n \<le> c * d"
  shows "round_half_up n d \<le> c"
proof -
  have "2 * n + d < 2 * d * (c + 1)" using assms by (simp add: algebra_simps)
  then have "(2 * n + d) div (2 * d) < c + 1"
    using assms(1) by (simp add: less_mult_imp_div_less mult.commute)
  then show ?thesis by (simp add: round_half_up_def)
qed

lemma round_half_up_exact: "0 < d \<Longrightarrow> round_half_up (c * d) d = c"
proof -
  assume "0 < d"
  then have "(2 * (c * d) + d) div (2 * d) = c"
    by (intro div_nat_eqI) (auto simp: algebra_simps)
  then show ?thesis by (simp add: round_half_up_def)
qed

lemma round_half_up_full:
  assumes "n < d" and "d < 2 * c"
  shows "round_half_up (n * c) d < c"
proof -
  have "n * c + c \<le> d * c" using mult_right_mono [of "Suc n" d c] assms by simp
  with assms have "2 * (n * c) + d < c * (2 * d)" by (simp add: algebra_simps)
  then show ?thesis by (simp add: round_half_up_def less_mult_imp_div_less)
qed

section \<open>Binary floating point\<close>

definition FLOAT_PREC :: nat where
  "FLOAT_PREC = 53"

definition float_div :: "nat \<Rightarrow> nat \<Rightarrow> nat \<times> nat" where
  "float_div n d = round_sig 2 FLOAT_PREC n d"

definition float_scale :: "nat \<times> nat \<Rightarrow> nat \<Rightarrow> nat \<times> nat" where
  "float_scale x c = round_sig 2 FLOAT_PREC (fst x * c) (2 ^ snd x)"

definition float_round :: "nat \<times> nat \<Rightarrow> nat" where
  "float_round x = round_half_even (fst x) (2 ^ snd x)"

end
