(* ===== verification/Assessment_Models.thy ===== *)
theory Assessment_Models
  imports Rounding
begin

text \<open>
  The data of the knowledge assessment application (\<^verbatim>\<open>assessment/models.py\<close>,
  \<^verbatim>\<open>assessment/constants.py\<close>): the question bank, exam blueprints, campaigns and
  assignments, exam attempts with their frozen question snapshots, answers and results, and the
  tables that hold them.

  Conventions. Scores are \<^verbatim>\<open>Decimal\<close> values with two decimals and are kept as their number
  of hundredths (\<open>10000\<close> is \<^verbatim>\<open>100.00\<close>). Points in time are microseconds. Payload
  dictionaries the server itself builds are records whose absent keys read as the default
  \<open>[]\<close> the code passes to \<^verbatim>\<open>.get\<close>; payloads that come from a request are JSON values.
\<close>

section \<open>Choices\<close>

datatype SupportLevel = LEVEL_L1 | LEVEL_L2 | LEVEL_PRIME

datatype QuestionDifficulty = MEDIUM | HARD | ADVANCED

text \<open>The column holds a string, so a value outside the choices can occur.\<close>

datatype QuestionType =
    SINGLE_CHOICE
  | MULTIPLE_CHOICE
  | MATCHING
  | ORDERING
  | LINE_SELECTION
  | OTHER_TYPE string

datatype QuestionStatus = DRAFT | ACTIVE | ARCHIVED

datatype ExamAttemptStatus = IN_PROGRESS | COMPLETED | INVALIDATED

datatype DiagnosticBlockType = TEXT_BLOCK | CODE_BLOCK

type_synonym score = nat

abbreviation HUNDRED :: score where
  "HUNDRED \<equiv> 10000"

section \<open>The question bank\<close>

record Topic =
  tp_id :: pk
  tp_name :: string
  tp_slug :: string
  tp_order :: nat
  tp_is_active :: bool

record Skill =
  sk_id :: pk
  sk_topic :: Topic
  sk_name :: string
  sk_slug :: string
  sk_order :: nat
  sk_is_active :: bool

record QuestionFamily =
  fm_id :: pk
  fm_skill :: Skill
  fm_name :: string
  fm_slug :: string
  fm_is_active :: bool

record AnswerOption =
  op_id :: pk
  op_text :: string
  op_is_correct :: bool
  op_order :: nat

record MatchingPair =
  mp_id :: pk
  mp_left_text :: string
  mp_right_text :: string
  mp_order :: nat

record OrderingItem =
  oi_id :: pk
  oi_text :: string
  oi_order :: nat

record SelectableLine =
  sl_id :: pk
  sl_text :: string
  sl_is_correct :: bool
  sl_order :: nat

record Question =
  qn_id :: pk
  qn_family :: QuestionFamily
  qn_title :: string
  qn_slug :: string
  qn_level :: SupportLevel
  qn_difficulty :: QuestionDifficulty
  qn_scenario :: string
  qn_diagnostic_data :: string
  qn_prompt :: string
  qn_answer_type :: QuestionType
  qn_time_limit_seconds :: nat
  qn_explanation :: string
  qn_status :: QuestionStatus
  qn_diagnostic_blocks :: "(DiagnosticBlockType \<times> string) list"
  qn_answer_options :: "AnswerOption list"
  qn_matching_pairs :: "MatchingPair list"
  qn_ordering_items :: "OrderingItem list"
  qn_selectable_lines :: "SelectableLine list"

section \<open>Blueprints, campaigns, assignments\<close>

record BlueprintSkillQuota =
  qt_skill :: Skill
  qt_question_count :: nat
  qt_order :: nat

record ExamBlueprint =
  bp_name :: string
  bp_level :: SupportLevel
  bp_pass_percentage :: nat
  bp_allow_back_navigation :: bool
  bp_shuffle_questions :: bool
  bp_shuffle_answer_options :: bool
  bp_is_active :: bool
  bp_skill_quotas :: "BlueprintSkillQuota list"

record AssessmentCampaign =
  cp_name :: string
  cp_blueprint :: ExamBlueprint
  cp_opens_at :: "time option"
  cp_closes_at :: "time option"
  cp_is_active :: bool

record SupportProfile =
  pr_id :: pk
  pr_level :: SupportLevel
  pr_is_active :: bool

record ExamAssignment =
  as_id :: pk
  as_campaign :: AssessmentCampaign
  as_employee :: SupportProfile
  as_attempt_limit :: nat
  as_is_active :: bool

section \<open>Attempts, snapshots, answers, results\<close>

text \<open>\<^verbatim>\<open>key\<close>/\<^verbatim>\<open>text\<close> pairs shown to the employee.\<close>

type_synonym keyed = "(string \<times> string) list"

record VisiblePayload =
  vp_options :: keyed
  vp_left_items :: keyed
  vp_right_items :: keyed
  vp_items :: keyed
  vp_lines :: keyed

record GradingPayload =
  gp_correct_keys :: "string list"
  gp_matches :: "(string \<times> string) list"
  gp_correct_order :: "string list"

definition empty_visible :: VisiblePayload where
  "empty_visible = \<lparr>vp_options = [], vp_left_items = [], vp_right_items = [], vp_items = [],
     vp_lines = []\<rparr>"

definition empty_grading :: GradingPayload where
  "empty_grading = \<lparr>gp_correct_keys = [], gp_matches = [], gp_correct_order = []\<rparr>"

record SnapshotData =
  sd_source_question :: pk
  sd_topic_name :: string
  sd_topic_slug :: string
  sd_skill_name :: string
  sd_skill_slug :: string
  sd_family_name :: string
  sd_family_slug :: string
  sd_question_title :: string
  sd_question_slug :: string
  sd_question_type :: QuestionType
  sd_difficulty :: QuestionDifficulty
  sd_scenario :: string
  sd_diagnostic_data :: string
  sd_diagnostic_blocks :: "(DiagnosticBlockType \<times> string) list"
  sd_prompt :: string
  sd_time_limit_seconds :: nat
  sd_explanation :: string
  sd_visible_payload :: VisiblePayload
  sd_grading_payload :: GradingPayload

record ExamQuestionSnapshot =
  sn_id :: pk
  sn_attempt_id :: pk
  sn_position :: nat
  sn_started_at :: "time option"
  sn_data :: SnapshotData

record ExamAnswer =
  an_snapshot_id :: pk
  an_response_payload :: json
  an_score_percentage :: score
  an_is_correct :: bool
  an_timed_out :: bool
  an_response_time_seconds :: nat

record ExamAttempt =
  at_id :: pk
  at_assignment_id :: pk
  at_attempt_number :: nat
  at_status :: ExamAttemptStatus
  at_selection_seed :: string
  at_campaign_name :: string
  at_blueprint_name :: string
  at_level :: SupportLevel
  at_pass_percentage :: nat
  at_allow_back_navigation :: bool
  at_shuffle_questions :: bool
  at_shuffle_answer_options :: bool
  at_completed_at :: "time option"

record TopicRow =
  tr_name :: string
  tr_question_count :: nat
  tr_score_percentage :: score

record SkillRow =
  sr_name :: string
  sr_topic_slug :: string
  sr_topic_name :: string
  sr_question_count :: nat
  sr_score_percentage :: score

record AssessmentResult =
  rs_attempt_id :: pk
  rs_score_percentage :: score
  rs_passed :: bool
  rs_total_questions :: nat
  rs_fully_correct_questions :: nat
  rs_topic_breakdown :: "(string \<times> TopicRow) list"
  rs_skill_breakdown :: "(string \<times> SkillRow) list"

section \<open>The tables\<close>

record exam_db =
  db_questions :: "Question list"
  db_assignments :: "ExamAssignment list"
  db_attempts :: "ExamAttempt list"
  db_snapshots :: "ExamQuestionSnapshot list"
  db_answers :: "ExamAnswer list"
  db_results :: "AssessmentResult list"

section \<open>A small question bank\<close>

text \<open>
  Concrete data for the examples of the component theories: one skill with one question family,
  and a question that carries a configuration for every answer type.
\<close>

definition demo_topic :: Topic where
  "demo_topic = \<lparr>tp_id = 1, tp_name = ''Mail'', tp_slug = ''mail'', tp_order = 0, tp_is_active = True\<rparr>"

definition demo_skill :: Skill where
  "demo_skill = \<lparr>sk_id = 1, sk_topic = demo_topic, sk_name = ''SMTP'', sk_slug = ''smtp'',
     sk_order = 0, sk_is_active = True\<rparr>"

definition demo_family :: "pk \<Rightarrow> QuestionFamily" where
  "demo_family i = \<lparr>fm_id = i, fm_skill = demo_skill, fm_name = ''Relay'', fm_slug = ''relay'',
     fm_is_active = True\<rparr>"

definition demo_question :: "pk \<Rightarrow> QuestionType \<Rightarrow> Question" where
  "demo_question i t = \<lparr>qn_id = i, qn_family = demo_family i, qn_title = ''Q'', qn_slug = ''q'',
     qn_level = LEVEL_L1, qn_difficulty = MEDIUM, qn_scenario = [], qn_diagnostic_data = [],
     qn_prompt = ''Why?'', qn_answer_type = t, qn_time_limit_seconds = 60, qn_explanation = [],
     qn_status = ACTIVE, qn_diagnostic_blocks = [],
     qn_answer_options =
       [\<lparr>op_id = 1, op_text = ''a'', op_is_correct = True, op_order = 0\<rparr>,
        \<lparr>op_id = 2, op_text = ''b'', op_is_correct = False, op_order = 1\<rparr>],
     qn_matching_pairs =
       [\<lparr>mp_id = 1, mp_left_text = ''a'', mp_right_text = ''x'', mp_order = 0\<rparr>,
        \<lparr>mp_id = 2, mp_left_text = ''b'', mp_right_text = ''y'', mp_order = 1\<rparr>],
     qn_ordering_items =
       [\<lparr>oi_id = 1, oi_text = ''a'', oi_order = 0\<rparr>,
        \<lparr>oi_id = 2, oi_text = ''b'', oi_order = 1\<rparr>,
        \<lparr>oi_id = 3, oi_text = ''c'', oi_order = 2\<rparr>],
     qn_selectable_lines =
       [\<lparr>sl_id = 1, sl_text = ''a'', sl_is_correct = True, sl_order = 0\<rparr>,
        \<lparr>sl_id = 2, sl_text = ''b'', sl_is_correct = False, sl_order = 1\<rparr>]\<rparr>"

definition demo_snapshot :: "QuestionType \<Rightarrow> SnapshotData" where
  "demo_snapshot t = \<lparr>sd_source_question = 1, sd_topic_name = ''Mail'', sd_topic_slug = ''mail'',
     sd_skill_name = ''SMTP'', sd_skill_slug = ''smtp'', sd_family_name = ''Relay'',
     sd_family_slug = ''relay'', sd_question_title = ''Q'', sd_question_slug = ''q'',
     sd_question_type = t, sd_difficulty = MEDIUM, sd_scenario = [], sd_diagnostic_data = [],
     sd_diagnostic_blocks = [], sd_prompt = ''Why?'', sd_time_limit_seconds = 60,
     sd_explanation = [],
     sd_visible_payload = \<lparr>vp_options = [(''o1'', ''a''), (''o2'', ''b'')],
       vp_left_items = [(''l1'', ''a''), (''l2'', ''b'')],
       vp_right_items = [(''r2'', ''y''), (''r1'', ''x'')],
       vp_items = [(''i3'', ''c''), (''i1'', ''a''), (''i2'', ''b'')],
       vp_lines = [(''n1'', ''a''), (''n2'', ''b'')]\<rparr>,
     sd_grading_payload = \<lparr>gp_correct_keys = [''o1''], gp_matches = [(''l1'', ''r1''), (''l2'', ''r2'')],
       gp_correct_order = [''i1'', ''i2'', ''i3'']\<rparr>\<rparr>"

end
