(* ===== verification/Py_Random.thy ===== *)
theory Py_Random
  imports Prelude
begin

text \<open>
  Python's \<^verbatim>\<open>random.Random\<close> as the platform uses it. A generator is given by what its
  methods draw: \<^verbatim>\<open>sample\<close>, \<^verbatim>\<open>choice\<close> and \<^verbatim>\<open>shuffle\<close> treat their arguments
  uniformly, so each is described by the positions it picks and the next generator state. The
  generator is a parameter of everything that draws; what the documentation promises of it is
  the hypothesis \<open>random_ok\<close>, and \<open>first_random\<close> is one generator that keeps it.
\<close>

record 'r py_random =
  rnd_sample :: "'r \<Rightarrow> nat \<Rightarrow> nat \<Rightarrow> nat list \<times> 'r"
  rnd_choice :: "'r \<Rightarrow> nat \<Rightarrow> nat \<times> 'r"
  rnd_shuffle :: "'r \<Rightarrow> nat \<Rightarrow> nat list \<times> 'r"

definition random_ok :: "'r py_random \<Rightarrow> bool" where
  "random_ok rng \<longleftrightarrow>
     (\<forall>r n k. k \<le> n \<longrightarrow> length (fst (rnd_sample rng r n k)) = k \<and>
        distinct (fst (rnd_sample rng r n k)) \<and> set (fst (rnd_sample rng r n k)) \<subseteq> {..< n}) \<and>
     (\<forall>r n. 0 < n \<longrightarrow> fst (rnd_choice rng r n) < n) \<and>
     (\<forall>r n. mset (fst (rnd_shuffle rng r n)) = mset [0 ..< n])"

definition sample_list :: "'r py_random \<Rightarrow> 'r \<Rightarrow> 'a list \<Rightarrow> nat \<Rightarrow> ('a list \<times> 'r) result" where
  "sample_list rng r xs k =
     (if length xs < k then Inl ValueError
      else case rnd_sample rng r (length xs) k of (ix, r') \<Rightarrow> Inr (map (nth xs) ix, r'))"

definition choice_list :: "'r py_random \<Rightarrow> 'r \<Rightarrow> 'a list \<Rightarrow> ('a \<times> 'r) result" where
  "choice_list rng r xs =
     (if xs = [] then Inl IndexError
      else case rnd_choice rng r (length xs) of (i, r') \<Rightarrow> Inr (xs ! i, r'))"

definition shuffle_list :: "'r py_random \<Rightarrow> 'r \<Rightarrow> 'a list \<Rightarrow> 'a list \<times> 'r" where
  "shuffle_list rng r xs =
     (case rnd_shuffle rng r (length xs) of (ix, r') \<Rightarrow> (map (nth xs) ix, r'))"

definition first_random :: "unit py_random" where
  "first_random = \<lparr>rnd_sample = (\<lambda>r n k. ([0 ..< k], r)), rnd_choice = (\<lambda>r n. (0, r)),
     rnd_shuffle = (\<lambda>r n. ([0 ..< n], r))\<rparr>"

lemma first_random_ok: "random_ok first_random"
  by (auto simp: random_ok_def first_random_def)

lemma mset_shuffle_list:
  assumes "random_ok rng"
  shows "mset (fst (shuffle_list rng r xs)) = mset xs"
proof -
  have "mset (map (nth xs) (fst (rnd_shuffle rng r (length xs)))) = image_mset (nth xs) (mset [0 ..< length xs])"
    using assms by (simp add: random_ok_def)
  also have "\<dots> = mset (map (nth xs) [0 ..< length xs])" by (simp only: mset_map)
  also have "\<dots> = mset xs" by (simp only: map_nth)
  finally show ?thesis by (simp add: shuffle_list_def case_prod_beta)
qed

lemma length_shuffle_list [simp]: "random_ok rng \<Longrightarrow> length (fst (shuffle_list rng r xs)) = length xs"
  by (metis mset_shuffle_list mset_eq_length)

lemma set_shuffle_list [simp]: "random_ok rng \<Longrightarrow> set (fst (shuffle_list rng r xs)) = set xs"
  by (metis mset_shuffle_list mset_eq_setD)

text \<open>A shuffle moves elements by position only.\<close>

lemma map_shuffle_list:
  assumes "random_ok rng"
  shows "fst (shuffle_list rng r (map f xs)) = map f (fst (shuffle_list rng r xs))"
proof -
  have "set (fst (rnd_shuffle rng r (length xs))) = {..< length xs}"
    using assms mset_eq_setD [of "fst (rnd_shuffle rng r (length xs))" "[0 ..< length xs]"]
    by (auto simp: random_ok_def)
  then show ?thesis by (simp add: shuffle_list_def case_prod_beta)
qed

lemma sample_list_Inr:
  assumes ok: "random_ok rng" and s: "sample_list rng r xs k = Inr (ys, r')"
    and xs: "distinct xs"
  shows "length ys = k" and "distinct ys" and "set ys \<subseteq> set xs"
proof -
  obtain ix where ix: "rnd_sample rng r (length xs) k = (ix, r')" and ys: "ys = map (nth xs) ix"
    and k: "k \<le> length xs"
    using s by (auto simp: sample_list_def split: if_splits prod.splits)
  then have ix_ok: "length ix = k" "distinct ix" "set ix \<subseteq> {..< length xs}"
    using ok unfolding random_ok_def by (metis fst_conv)+
  then show "length ys = k" and "set ys \<subseteq> set xs" by (auto simp: ys)
  have "inj_on (nth xs) (set ix)"
    using ix_ok(3) xs by (auto intro: inj_on_nth)
  with ix_ok(2) show "distinct ys" by (simp add: ys distinct_map)
qed

lemma sample_list_succeeds: "k \<le> length xs \<Longrightarrow> \<exists>ys r'. sample_list rng r xs k = Inr (ys, r')"
  by (simp add: sample_list_def split: prod.splits)

lemma choice_list_Inr: "random_ok rng \<Longrightarrow> choice_list rng r xs = Inr (x, r') \<Longrightarrow> x \<in> set xs"
proof -
  assume ok: "random_ok rng" and c: "choice_list rng r xs = Inr (x, r')"
  then have "fst (rnd_choice rng r (length xs)) < length xs" and "x = xs ! fst (rnd_choice rng r (length xs))"
    by (auto simp: choice_list_def random_ok_def split: if_splits prod.splits)
  then show ?thesis by simp
qed

lemma choice_list_succeeds: "xs \<noteq> [] \<Longrightarrow> \<exists>x r'. choice_list rng r xs = Inr (x, r')"
  by (simp add: choice_list_def split: prod.splits)

end
