(* ===== verification/Question_Selection.thy ===== *)
theory Question_Selection
  imports Assessment_Models Py_Random "HOL-Library.Char_ord" "HOL-Library.List_Lexorder"
begin

text \<open>
  Choosing the questions of an attempt (\<^verbatim>\<open>assessment/services/blueprint_validation.py\<close> and
  \<^verbatim>\<open>assessment/services/question_selection.py\<close>). A blueprint lists quotas per skill; every
  quota draws as many question families as it asks for and one question of each. The lemmas show
  that the draw succeeds exactly when the pool is large enough, and that what it returns meets
  every quota without repeating a family.
\<close>

section \<open>The pool\<close>

definition ordered_quotas :: "ExamBlueprint \<Rightarrow> BlueprintSkillQuota list" where
  "ordered_quotas blueprint =
     sort_key (\<lambda>q. (qt_order q, tp_order (sk_topic (qt_skill q)), sk_order (qt_skill q),
       sk_name (qt_skill q))) (bp_skill_quotas blueprint)"

definition eligible :: "ExamBlueprint \<Rightarrow> BlueprintSkillQuota \<Rightarrow> Question \<Rightarrow> bool" where
  "eligible blueprint quota question =
     (qn_level question = bp_level blueprint \<and> qn_status question = ACTIVE \<and>
      sk_id (fm_skill (qn_family question)) = sk_id (qt_skill quota) \<and>
      fm_is_active (qn_family question) \<and> sk_is_active (fm_skill (qn_family question)) \<and>
      tp_is_active (sk_topic (fm_skill (qn_family question))))"

abbreviation family_id :: "Question \<Rightarrow> pk" where
  "family_id question \<equiv> fm_id (qn_family question)"

record PoolStatus =
  ps_topic :: Topic
  ps_skill :: Skill
  ps_required_count :: nat
  ps_available_family_count :: nat
  ps_is_sufficient :: bool

definition get_blueprint_pool_status :: "Question list \<Rightarrow> ExamBlueprint \<Rightarrow> PoolStatus list" where
  "get_blueprint_pool_status questions blueprint =
     map (\<lambda>quota.
       let available_family_count =
             length (remdups (map family_id (filter (eligible blueprint quota) questions)))
       in \<lparr>ps_topic = sk_topic (qt_skill quota), ps_skill = qt_skill quota,
           ps_required_count = qt_question_count quota,
           ps_available_family_count = available_family_count,
           ps_is_sufficient = (qt_question_count quota \<le> available_family_count)\<rparr>)
       (ordered_quotas blueprint)"

definition validate_blueprint_question_pool ::
    "Question list \<Rightarrow> ExamBlueprint \<Rightarrow> PoolStatus list result" where
  "validate_blueprint_question_pool questions blueprint =
     (let pool_status = get_blueprint_pool_status questions blueprint;
          shortages = filter (\<lambda>item. \<not> ps_is_sufficient item) pool_status
      in if pool_status = [] then Inl (ValidationError ''add_a_skill_quota'')
         else if shortages \<noteq> [] then Inl (ValidationError ''question_pool_shortage'')
         else Inr pool_status)"

section \<open>The draw\<close>

text \<open>The eligible questions of a quota, in the order of the query.\<close>

definition quota_questions ::
    "Question list \<Rightarrow> ExamBlueprint \<Rightarrow> BlueprintSkillQuota \<Rightarrow> Question list" where
  "quota_questions questions blueprint quota =
     sort_key (\<lambda>q. (family_id q, qn_id q)) (filter (eligible blueprint quota) questions)"

text \<open>The loop over the drawn families: one question of each.\<close>

fun choose_of_families ::
    "'r py_random \<Rightarrow> Question list \<Rightarrow> pk list \<Rightarrow> 'r \<Rightarrow> (Question list \<times> 'r) result" where
  "choose_of_families rng questions [] r = Inr ([], r)"
| "choose_of_families rng questions (family # families) r =
     bindR (choice_list rng r (filter (\<lambda>q. family_id q = family) questions)) (\<lambda>(question, r1).
     bindR (choose_of_families rng questions families r1) (\<lambda>(chosen, r2).
     Inr (question # chosen, r2)))"

definition select_for_quota ::
    "'r py_random \<Rightarrow> Question list \<Rightarrow> ExamBlueprint \<Rightarrow> BlueprintSkillQuota \<Rightarrow> 'r
     \<Rightarrow> (Question list \<times> 'r) result" where
  "select_for_quota rng bank blueprint quota r =
     (let questions = quota_questions bank blueprint quota;
          family_ids = sort (remdups (map family_id questions))
      in bindR (sample_list rng r family_ids (qt_question_count quota)) (\<lambda>(selected_family_ids, r1).
         choose_of_families rng questions selected_family_ids r1))"

text \<open>The loop over the quotas.\<close>

fun select_for_quotas ::
    "'r py_random \<Rightarrow> Question list \<Rightarrow> ExamBlueprint \<Rightarrow> BlueprintSkillQuota list \<Rightarrow> 'r
     \<Rightarrow> (Question list \<times> 'r) result" where
  "select_for_quotas rng bank blueprint [] r = Inr ([], r)"
| "select_for_quotas rng bank blueprint (quota # quotas) r =
     bindR (select_for_quota rng bank blueprint quota r) (\<lambda>(chosen, r1).
     bindR (select_for_quotas rng bank blueprint quotas r1) (\<lambda>(rest, r2).
     Inr (chosen @ rest, r2)))"

definition select_questions_for_blueprint ::
    "'r py_random \<Rightarrow> (string \<Rightarrow> 'r) \<Rightarrow> Question list \<Rightarrow> ExamBlueprint \<Rightarrow> string
     \<Rightarrow> Question list result" where
  "select_questions_for_blueprint rng seed_random bank blueprint seed =
     bindR (validate_blueprint_question_pool bank blueprint) (\<lambda>_.
     bindR (select_for_quotas rng bank blueprint (ordered_quotas blueprint) (seed_random seed))
       (\<lambda>(selected_questions, r).
     Inr (if bp_shuffle_questions blueprint then fst (shuffle_list rng r selected_questions)
          else selected_questions)))"

section \<open>One quota\<close>

lemma set_ordered_quotas [simp]: "set (ordered_quotas blueprint) = set (bp_skill_quotas blueprint)"
  by (simp add: ordered_quotas_def)

lemma mset_ordered_quotas: "mset (ordered_quotas blueprint) = mset (bp_skill_quotas blueprint)"
  by (simp add: ordered_quotas_def)

lemma set_quota_questions: "set (quota_questions bank blueprint quota) = {q \<in> set bank. eligible blueprint quota q}"
  by (auto simp: quota_questions_def)

lemma choose_of_families_Inr:
  assumes "random_ok rng" and "choose_of_families rng questions families r = Inr (chosen, r')"
  shows "map family_id chosen = families" and "set chosen \<subseteq> set questions"
proof -
  have "map family_id chosen = families \<and> set chosen \<subseteq> set questions"
    using assms(2)
  proof (induction families arbitrary: r chosen)
    case (Cons f fs)
    then obtain q r1 rest where q: "choice_list rng r (filter (\<lambda>q. family_id q = f) questions) = Inr (q, r1)"
      and rest: "choose_of_families rng questions fs r1 = Inr (rest, r')" and "chosen = q # rest"
      by (auto simp: bindR_Inr_iff)
    with Cons.IH [OF rest] choice_list_Inr [OF assms(1) q] show ?case by auto
  qed simp
  then show "map family_id chosen = families" and "set chosen \<subseteq> set questions" by simp_all
qed

lemma choose_of_families_succeeds:
  assumes "set families \<subseteq> family_id ` set questions"
  shows "\<exists>chosen r'. choose_of_families rng questions families r = Inr (chosen, r')"
  using assms
proof (induction families arbitrary: r)
  case (Cons f fs)
  obtain q where "q \<in> set questions" and "family_id q = f" using Cons.prems by auto
  then have "filter (\<lambda>q. family_id q = f) questions \<noteq> []" by (auto simp: filter_empty_conv)
  from choice_list_succeeds [OF this, of rng r]
  obtain q r1 where "choice_list rng r (filter (\<lambda>q. family_id q = f) questions) = Inr (q, r1)"
    by (elim exE)
  moreover have "set fs \<subseteq> family_id ` set questions" using Cons.prems by simp
  then obtain rest r' where "choose_of_families rng questions fs r1 = Inr (rest, r')"
    using Cons.IH [of r1] by (elim meta_impE exE)
  ultimately show ?case by simp
qed simp

lemma select_for_quota_Inr:
  assumes "random_ok rng" and "select_for_quota rng bank blueprint quota r = Inr (chosen, r')"
  shows "length chosen = qt_question_count quota" and "distinct (map family_id chosen)"
    and "q \<in> set chosen \<Longrightarrow> q \<in> set bank \<and> eligible blueprint quota q"
proof -
  let ?qs = "quota_questions bank blueprint quota"
  obtain fams r1 where
    s: "sample_list rng r (sort (remdups (map family_id ?qs))) (qt_question_count quota) = Inr (fams, r1)"
    and c: "choose_of_families rng ?qs fams r1 = Inr (chosen, r')"
    using assms(2) by (auto simp: select_for_quota_def Let_def bindR_Inr_iff)
  note f = sample_list_Inr [OF assms(1) s] and ch = choose_of_families_Inr [OF assms(1) c]
  from f(1) ch(1) show "length chosen = qt_question_count quota" by (metis length_map distinct_sort distinct_remdups)
  from f(2) ch(1) show "distinct (map family_id chosen)" by simp
  show "q \<in> set chosen \<Longrightarrow> q \<in> set bank \<and> eligible blueprint quota q"
    using ch(2) set_quota_questions [of bank blueprint quota] by blast
qed

lemma select_for_quota_succeeds:
  assumes "random_ok rng"
    and "qt_question_count quota \<le> length (remdups (map family_id (filter (eligible blueprint quota) bank)))"
  shows "\<exists>chosen r'. select_for_quota rng bank blueprint quota r = Inr (chosen, r')"
proof -
  let ?qs = "quota_questions bank blueprint quota"
  let ?fams = "sort (remdups (map family_id ?qs))"
  have "set (map family_id ?qs) = set (map family_id (filter (eligible blueprint quota) bank))"
    by (auto simp: set_quota_questions)
  then have "length ?fams = length (remdups (map family_id (filter (eligible blueprint quota) bank)))"
    by (simp only: length_sort length_remdups_card_conv)
  with assms(2) obtain sel r1 where s: "sample_list rng r ?fams (qt_question_count quota) = Inr (sel, r1)"
    using sample_list_succeeds by metis
  moreover have "set sel \<subseteq> family_id ` set ?qs"
    using sample_list_Inr(3) [OF assms(1) s] by simp
  ultimately show ?thesis
    using choose_of_families_succeeds [of sel ?qs rng r1]
    by (simp add: select_for_quota_def Let_def)
qed

section \<open>All quotas\<close>

lemma select_for_quotas_succeeds:
  assumes "random_ok rng"
    and "\<forall>quota \<in> set quotas. qt_question_count quota \<le>
      length (remdups (map family_id (filter (eligible blueprint quota) bank)))"
  shows "\<exists>chosen r'. select_for_quotas rng bank blueprint quotas r = Inr (chosen, r')"
  using assms(2)
proof (induction quotas arbitrary: r)
  case (Cons quota quotas)
  then obtain c r1 where c: "select_for_quota rng bank blueprint quota r = Inr (c, r1)"
    using select_for_quota_succeeds [OF assms(1)] by force
  moreover from Cons obtain rest r2 where "select_for_quotas rng bank blueprint quotas r1 = Inr (rest, r2)"
    by force
  ultimately show ?case by simp
qed simp

text \<open>The questions drawn of one skill.\<close>

abbreviation of_skill :: "pk \<Rightarrow> Question \<Rightarrow> bool" where
  "of_skill s question \<equiv> sk_id (fm_skill (qn_family question)) = s"

text \<open>A family belongs to one skill (\<^verbatim>\<open>QuestionFamily.skill\<close> is a foreign key).\<close>

definition bank_consistent :: "Question list \<Rightarrow> bool" where
  "bank_consistent bank \<longleftrightarrow>
     (\<forall>p \<in> set bank. \<forall>q \<in> set bank. family_id p = family_id q \<longrightarrow> qn_family p = qn_family q)"

lemma select_for_quotas_Inr:
  assumes ok: "random_ok rng" and bank: "bank_consistent bank"
    and "select_for_quotas rng bank blueprint quotas r = Inr (chosen, r')"
    and "distinct (map (sk_id \<circ> qt_skill) quotas)"
  shows "distinct (map family_id chosen) \<and>
    (\<forall>q \<in> set chosen. q \<in> set bank \<and> (\<exists>quota \<in> set quotas. eligible blueprint quota q)) \<and>
    (\<forall>quota \<in> set quotas.
       length (filter (of_skill (sk_id (qt_skill quota))) chosen) = qt_question_count quota)"
  using assms(3,4)
proof (induction quotas arbitrary: r chosen)
  case (Cons quota quotas)
  then obtain c r1 rest where c: "select_for_quota rng bank blueprint quota r = Inr (c, r1)"
    and rest: "select_for_quotas rng bank blueprint quotas r1 = Inr (rest, r')" and ch: "chosen = c @ rest"
    by (auto simp: bindR_Inr_iff)
  note q = select_for_quota_Inr [OF ok c]
  have IH: "distinct (map family_id rest)"
    "\<forall>q \<in> set rest. q \<in> set bank \<and> (\<exists>quota \<in> set quotas. eligible blueprint quota q)"
    "\<forall>quota \<in> set quotas.
       length (filter (of_skill (sk_id (qt_skill quota))) rest) = qt_question_count quota"
    using Cons.IH [OF rest] Cons.prems(2) by simp_all
  let ?s = "sk_id (qt_skill quota)"
  have c_skill: "\<forall>q \<in> set c. of_skill ?s q" using q(3) by (auto simp: eligible_def)
  have rest_skill: "\<forall>q \<in> set rest. \<not> of_skill ?s q"
  proof
    fix q assume "q \<in> set rest"
    with IH(2) obtain other where "other \<in> set quotas" and "of_skill (sk_id (qt_skill other)) q"
      by (auto simp: eligible_def)
    with Cons.prems(2) show "\<not> of_skill ?s q" by (auto simp: image_iff)
  qed
  have "family_id p \<noteq> family_id q" if "p \<in> set c" "q \<in> set rest" for p q
  proof
    assume "family_id p = family_id q"
    with that q(3) IH(2) bank have "qn_family p = qn_family q" by (auto simp: bank_consistent_def)
    with that c_skill rest_skill show False by auto
  qed
  then have "distinct (map family_id chosen)" using q(2) IH(1) by (auto simp: ch)
  moreover have "\<forall>q \<in> set chosen. q \<in> set bank \<and> (\<exists>quota \<in> set (quota # quotas). eligible blueprint quota q)"
    using q(3) IH(2) by (auto simp: ch)
  moreover have "length (filter (of_skill ?s) chosen) = qt_question_count quota"
    using c_skill rest_skill q(1) by (simp add: ch)
  moreover have "length (filter (of_skill (sk_id (qt_skill quota'))) chosen) = qt_question_count quota'"
    if "quota' \<in> set quotas" for quota'
  proof -
    have "sk_id (qt_skill quota') \<noteq> ?s" using that Cons.prems(2) by (auto simp: image_iff)
    then have "filter (of_skill (sk_id (qt_skill quota'))) c = []"
      using c_skill by (auto simp: filter_empty_conv)
    with IH(3) that show ?thesis by (simp add: ch)
  qed
  ultimately show ?case by simp
qed simp

lemma validate_pool_Inr_iff:
  "(\<exists>status. validate_blueprint_question_pool bank blueprint = Inr status) \<longleftrightarrow>
     bp_skill_quotas blueprint \<noteq> [] \<and>
     (\<forall>quota \<in> set (bp_skill_quotas blueprint). qt_question_count quota \<le>
        length (remdups (map family_id (filter (eligible blueprint quota) bank))))"
proof -
  have "get_blueprint_pool_status bank blueprint = [] \<longleftrightarrow> bp_skill_quotas blueprint = []"
    by (simp add: get_blueprint_pool_status_def) (metis set_empty set_ordered_quotas)
  then show ?thesis
    by (auto simp: validate_blueprint_question_pool_def Let_def filter_empty_conv)
      (auto simp: get_blueprint_pool_status_def Let_def)
qed

lemma selection_succeeds_iff:
  assumes "random_ok rng"
  shows "(\<exists>questions. select_questions_for_blueprint rng seed_random bank blueprint seed = Inr questions) \<longleftrightarrow>
    bp_skill_quotas blueprint \<noteq> [] \<and>
    (\<forall>quota \<in> set (bp_skill_quotas blueprint). qt_question_count quota \<le>
       length (remdups (map family_id (filter (eligible blueprint quota) bank))))"
proof -
  have "\<exists>questions. select_questions_for_blueprint rng seed_random bank blueprint seed = Inr questions"
    if "validate_blueprint_question_pool bank blueprint = Inr status" for status
  proof -
    from that validate_pool_Inr_iff have "\<forall>quota \<in> set (ordered_quotas blueprint). qt_question_count quota \<le>
       length (remdups (map family_id (filter (eligible blueprint quota) bank)))" by simp blast
    from select_for_quotas_succeeds [OF assms this] obtain ch r' where
      "select_for_quotas rng bank blueprint (ordered_quotas blueprint) (seed_random seed) = Inr (ch, r')"
      by blast
    with that show ?thesis by (simp add: select_questions_for_blueprint_def)
  qed
  then show ?thesis
    unfolding validate_pool_Inr_iff [symmetric]
    by (auto simp: select_questions_for_blueprint_def bindR_Inr_iff)
qed

lemma selection_Inr:
  assumes ok: "random_ok rng" and bank: "bank_consistent bank"
    and sel: "select_questions_for_blueprint rng seed_random bank blueprint seed = Inr questions"
    and quotas: "distinct (map (sk_id \<circ> qt_skill) (bp_skill_quotas blueprint))"
  shows "distinct (map family_id questions)"
    and "\<forall>q \<in> set questions. q \<in> set bank \<and>
      (\<exists>quota \<in> set (bp_skill_quotas blueprint). eligible blueprint quota q)"
    and "\<forall>quota \<in> set (bp_skill_quotas blueprint).
      length (filter (of_skill (sk_id (qt_skill quota))) questions) = qt_question_count quota"
proof -
  obtain ch r where ch: "select_for_quotas rng bank blueprint (ordered_quotas blueprint) (seed_random seed) = Inr (ch, r)"
    and qs: "questions = (if bp_shuffle_questions blueprint then fst (shuffle_list rng r ch) else ch)"
    using sel by (auto simp: select_questions_for_blueprint_def bindR_Inr_iff)
  have m: "mset questions = mset ch" using mset_shuffle_list [OF ok, of r ch] by (simp add: qs)
  have "mset (map (sk_id \<circ> qt_skill) (ordered_quotas blueprint)) =
      mset (map (sk_id \<circ> qt_skill) (bp_skill_quotas blueprint))"
    by (simp add: mset_ordered_quotas)
  with quotas have "distinct (map (sk_id \<circ> qt_skill) (ordered_quotas blueprint))"
    using mset_eq_imp_distinct_iff by blast
  note all = select_for_quotas_Inr [OF ok bank ch this]
  have "mset (map family_id questions) = mset (map family_id ch)" by (simp add: m)
  with all show "distinct (map family_id questions)" using mset_eq_imp_distinct_iff by blast
  from all show "\<forall>q \<in> set questions. q \<in> set bank \<and>
      (\<exists>quota \<in> set (bp_skill_quotas blueprint). eligible blueprint quota q)"
    using mset_eq_setD [OF m] by simp
  have "length (filter P questions) = length (filter P ch)" for P
    by (metis m mset_filter size_mset)
  with all show "\<forall>quota \<in> set (bp_skill_quotas blueprint).
      length (filter (of_skill (sk_id (qt_skill quota))) questions) = qt_question_count quota"
    by simp
qed

section \<open>Properties of the selection\<close>

definition demo_blueprint :: ExamBlueprint where
  "demo_blueprint = \<lparr>bp_name = ''L1'', bp_level = LEVEL_L1, bp_pass_percentage = 70,
     bp_allow_back_navigation = False, bp_shuffle_questions = True,
     bp_shuffle_answer_options = True, bp_is_active = True,
     bp_skill_quotas = [\<lparr>qt_skill = demo_skill, qt_question_count = 2, qt_order = 0\<rparr>]\<rparr>"

definition demo_bank :: "Question list" where
  "demo_bank = [demo_question 1 SINGLE_CHOICE, demo_question 2 ORDERING, demo_question 3 MATCHING]"

lemma demo_bank_consistent: "bank_consistent demo_bank"
  by (simp add: bank_consistent_def demo_bank_def demo_question_def demo_family_def)

lemma demo_pool: "bp_skill_quotas demo_blueprint \<noteq> [] \<and>
    (\<forall>quota \<in> set (bp_skill_quotas demo_blueprint). qt_question_count quota \<le>
       length (remdups (map family_id (filter (eligible demo_blueprint quota) demo_bank))))"
  by (simp add: demo_blueprint_def demo_bank_def eligible_def demo_question_def demo_family_def
      demo_skill_def demo_topic_def)

text \<open>
  C5. A selection that succeeds meets the blueprint: every quota gets exactly as many questions of
  its skill as it asks for, every question is active, of the blueprint's level and of an active
  family, skill and topic, and no two questions come from the same family.
\<close>

theorem select_questions_meets_quotas:
  assumes "random_ok rng" and "bank_consistent bank"
    and "select_questions_for_blueprint rng seed_random bank blueprint seed = Inr questions"
    and "distinct (map (sk_id \<circ> qt_skill) (bp_skill_quotas blueprint))"
  shows "distinct (map family_id questions) \<and>
    (\<forall>q \<in> set questions. q \<in> set bank \<and>
       (\<exists>quota \<in> set (bp_skill_quotas blueprint). eligible blueprint quota q)) \<and>
    (\<forall>quota \<in> set (bp_skill_quotas blueprint).
       length (filter (of_skill (sk_id (qt_skill quota))) questions) = qt_question_count quota)"
  using selection_Inr [OF assms] by simp

theorem select_questions_meets_quotas_witness:
  "\<exists>questions. select_questions_for_blueprint first_random (\<lambda>_. ()) demo_bank demo_blueprint ''s''
      = Inr questions \<and> distinct (map family_id questions) \<and>
     length (filter (of_skill 1) questions) = 2"
proof -
  obtain questions where q:
    "select_questions_for_blueprint first_random (\<lambda>_. ()) demo_bank demo_blueprint ''s'' = Inr questions"
    using selection_succeeds_iff [OF first_random_ok] demo_pool by blast
  from select_questions_meets_quotas [OF first_random_ok demo_bank_consistent q] q
  show ?thesis by (simp add: demo_blueprint_def demo_skill_def)
qed

text \<open>
  C6. The selection fails for lack of questions and for no other reason: for every seed it returns
  a set of questions if and only if the blueprint has a quota and every quota finds enough active
  question families, so the sampling itself never raises.
\<close>

theorem select_questions_succeeds_iff:
  assumes "random_ok rng"
  shows "(\<exists>questions. select_questions_for_blueprint rng seed_random bank blueprint seed = Inr questions) \<longleftrightarrow>
    bp_skill_quotas blueprint \<noteq> [] \<and>
    (\<forall>quota \<in> set (bp_skill_quotas blueprint). qt_question_count quota \<le>
       length (remdups (map family_id (filter (eligible blueprint quota) bank))))"
  using assms by (rule selection_succeeds_iff)

theorem select_questions_succeeds_iff_witness:
  "(\<exists>questions. select_questions_for_blueprint first_random (\<lambda>_. ()) demo_bank demo_blueprint ''s''
      = Inr questions) \<and>
   \<not> (\<exists>questions. select_questions_for_blueprint first_random (\<lambda>_. ()) [] demo_blueprint ''s''
      = Inr questions)"
  unfolding select_questions_succeeds_iff [OF first_random_ok]
  using demo_pool by (simp add: demo_blueprint_def)

end
