(* ===== verification/Question_Validation.thy ===== *)
theory Question_Validation
  imports Assessment_Models
begin

text \<open>
  The checks an author's question configuration must pass
  (\<^verbatim>\<open>assessment/question_validation.py\<close>). Texts are compared after collapsing white space
  and Unicode case folding; the case folding table is the parameter \<open>casefold\<close>. Each validator
  either returns or raises, and the lemmas give the exact set of configurations it accepts.
\<close>

section \<open>Text normalisation\<close>

function py_split :: "string \<Rightarrow> string list" where
  "py_split s =
     (let t = dropWhile is_space s
      in if t = [] then []
         else takeWhile (\<lambda>c. \<not> is_space c) t # py_split (dropWhile (\<lambda>c. \<not> is_space c) t))"
  by pat_completeness auto
termination
proof (relation "measure length")
  fix s t :: string
  assume t: "t = dropWhile is_space s" and ne: "t \<noteq> []"
  from ne obtain c cs where tc: "t = c # cs" by (cases t) auto
  then have "\<not> is_space c" using t hd_dropWhile [of is_space s] by auto
  then have "length (dropWhile (\<lambda>c. \<not> is_space c) t) < length t"
    by (simp add: tc length_dropWhile_le le_imp_less_Suc)
  also have "length t \<le> length s" by (simp add: t length_dropWhile_le)
  finally show "(dropWhile (\<lambda>c. \<not> is_space c) t, s) \<in> measure length" by simp
qed simp

declare py_split.simps [simp del]

fun join_space :: "string list \<Rightarrow> string" where
  "join_space [] = []"
| "join_space [w] = w"
| "join_space (w # v # ws) = w @ '' '' @ join_space (v # ws)"

definition normalize_text :: "string \<Rightarrow> string" where
  "normalize_text s = join_space (py_split s)"

definition blank :: "string \<Rightarrow> bool" where
  "blank s = list_all is_space s"

lemma py_split_words: "w \<in> set (py_split s) \<Longrightarrow> w \<noteq> [] \<and> list_all (\<lambda>c. \<not> is_space c) w"
proof (induction s rule: py_split.induct)
  case (1 s)
  define t where "t = dropWhile is_space s"
  show ?case
  proof (cases "t = []")
    case True
    with 1 show ?thesis by (simp add: py_split.simps [of s] t_def)
  next
    case False
    have hd: "\<not> is_space (hd t)" using False hd_dropWhile [of is_space s] by (simp add: t_def)
    have "w = takeWhile (\<lambda>c. \<not> is_space c) t \<or> w \<in> set (py_split (dropWhile (\<lambda>c. \<not> is_space c) t))"
      using "1.prems" False by (auto simp: py_split.simps [of s] t_def [symmetric])
    then show ?thesis
    proof
      assume w: "w = takeWhile (\<lambda>c. \<not> is_space c) t"
      moreover have "w \<noteq> []" using w hd False by (cases t) auto
      ultimately show ?thesis by (auto simp: list_all_iff dest: set_takeWhileD)
    next
      assume "w \<in> set (py_split (dropWhile (\<lambda>c. \<not> is_space c) t))"
      then show ?thesis using "1.IH" [OF t_def False] by simp
    qed
  qed
qed

lemma join_space_eq_Nil: "(\<forall>w \<in> set ws. w \<noteq> []) \<Longrightarrow> join_space ws = [] \<longleftrightarrow> ws = []"
  by (cases ws rule: join_space.cases) auto

lemma normalize_text_eq_Nil: "normalize_text s = [] \<longleftrightarrow> blank s"
proof -
  have "normalize_text s = [] \<longleftrightarrow> py_split s = []"
    unfolding normalize_text_def by (rule join_space_eq_Nil) (simp add: py_split_words)
  also have "\<dots> \<longleftrightarrow> dropWhile is_space s = []" by (simp add: py_split.simps [of s] Let_def)
  finally show ?thesis by (auto simp: blank_def list_all_iff dropWhile_eq_Nil_conv)
qed

section \<open>Validators\<close>

type_synonym flagged = "(string \<times> bool) list"

text \<open>The non-blank texts, normalised, with their flag.\<close>

definition prepare_flagged :: "flagged \<Rightarrow> flagged" where
  "prepare_flagged xs =
     filter (\<lambda>(text, _). text \<noteq> []) (map (\<lambda>(text, flag). (normalize_text text, flag)) xs)"

abbreviation count_correct :: "flagged \<Rightarrow> nat" where
  "count_correct xs \<equiv> length (filter snd xs)"

definition validate_answer_configuration ::
    "(string \<Rightarrow> string) \<Rightarrow> QuestionType \<Rightarrow> flagged \<Rightarrow> unit result" where
  "validate_answer_configuration casefold answer_type options =
     (let prepared_options = prepare_flagged options;
          normalized_texts = map (casefold \<circ> fst) prepared_options;
          correct_count = count_correct prepared_options
      in if length prepared_options < 2 then Inl (ValidationError ''two_options_required'')
         else if length normalized_texts \<noteq> card (set normalized_texts)
           then Inl (ValidationError ''options_repeat'')
         else if answer_type = SINGLE_CHOICE then
           (if correct_count \<noteq> 1 then Inl (ValidationError ''single_choice_one_correct'')
            else Inr ())
         else if answer_type = MULTIPLE_CHOICE then
           (if correct_count < 2 then Inl (ValidationError ''multiple_choice_two_correct'')
            else if correct_count = length prepared_options
              then Inl (ValidationError ''multiple_choice_one_incorrect'')
            else Inr ())
         else Inl (ValidationError ''unknown_question_type''))"

definition prepare_pairs :: "(string \<times> string) list \<Rightarrow> (string \<times> string) list" where
  "prepare_pairs xs =
     filter (\<lambda>(l, r). \<not> (l = [] \<and> r = []))
       (map (\<lambda>(l, r). (normalize_text l, normalize_text r)) xs)"

definition validate_matching_configuration ::
    "(string \<Rightarrow> string) \<Rightarrow> (string \<times> string) list \<Rightarrow> unit result" where
  "validate_matching_configuration casefold pairs =
     (let prepared_pairs = prepare_pairs pairs;
          left_values = map (casefold \<circ> fst) prepared_pairs;
          right_values = map (casefold \<circ> snd) prepared_pairs
      in if length prepared_pairs < 2 then Inl (ValidationError ''two_pairs_required'')
         else if length left_values \<noteq> card (set left_values)
           then Inl (ValidationError ''left_parts_repeat'')
         else if length right_values \<noteq> card (set right_values)
           then Inl (ValidationError ''right_parts_repeat'')
         else Inr ())"

definition validate_ordering_configuration ::
    "(string \<Rightarrow> string) \<Rightarrow> string list \<Rightarrow> unit result" where
  "validate_ordering_configuration casefold items =
     (let prepared_items = filter (\<lambda>text. text \<noteq> []) (map normalize_text items);
          normalized_items = map casefold prepared_items
      in if length prepared_items < 3 then Inl (ValidationError ''three_items_required'')
         else if length normalized_items \<noteq> card (set normalized_items)
           then Inl (ValidationError ''items_repeat'')
         else Inr ())"

definition validate_line_selection_configuration ::
    "(string \<Rightarrow> string) \<Rightarrow> flagged \<Rightarrow> unit result" where
  "validate_line_selection_configuration casefold lines =
     (let prepared_lines = prepare_flagged lines;
          normalized_lines = map (casefold \<circ> fst) prepared_lines;
          correct_count = count_correct prepared_lines
      in if length prepared_lines < 2 then Inl (ValidationError ''two_lines_required'')
         else if length normalized_lines \<noteq> card (set normalized_lines)
           then Inl (ValidationError ''lines_repeat'')
         else if correct_count = 0 then Inl (ValidationError ''one_line_correct'')
         else if correct_count = length prepared_lines
           then Inl (ValidationError ''one_line_incorrect'')
         else Inr ())"

lemmas validator_defs = validate_answer_configuration_def validate_matching_configuration_def
  validate_ordering_configuration_def validate_line_selection_configuration_def

lemma prepare_flagged_no_blank:
  "(\<forall>(text, _) \<in> set xs. \<not> blank text) \<Longrightarrow>
     prepare_flagged xs = map (\<lambda>(text, flag). (normalize_text text, flag)) xs"
  by (auto simp: prepare_flagged_def filter_id_conv normalize_text_eq_Nil)

lemma count_correct_no_blank:
  "(\<forall>(text, _) \<in> set xs. \<not> blank text) \<Longrightarrow>
     count_correct (prepare_flagged xs) = count_correct xs"
  by (simp add: prepare_flagged_no_blank filter_map comp_def case_prod_beta)

section \<open>What the validators accept\<close>

text \<open>
  The rule an author has to follow for choice questions: at least two visible options, no two of
  them the same text, and a number of correct ones that fits the question type.
\<close>

fun choice_rule :: "QuestionType \<Rightarrow> nat \<Rightarrow> nat \<Rightarrow> bool" where
  "choice_rule SINGLE_CHOICE n_correct n_shown = (n_correct = 1)"
| "choice_rule MULTIPLE_CHOICE n_correct n_shown = (2 \<le> n_correct \<and> n_correct < n_shown)"
| "choice_rule _ _ _ = False"

lemma repeat_check: "length xs \<noteq> card (set xs) \<longleftrightarrow> \<not> distinct xs"
  by (simp add: card_set_distinct)

lemma count_less_iff: "length (filter P xs) < length xs \<longleftrightarrow> length (filter P xs) \<noteq> length xs"
  using length_filter_le [of P xs] by linarith

lemma validate_answer_configuration_iff:
  "validate_answer_configuration casefold answer_type options = Inr () \<longleftrightarrow>
     2 \<le> length (prepare_flagged options) \<and>
     distinct (map (casefold \<circ> fst) (prepare_flagged options)) \<and>
     choice_rule answer_type (count_correct (prepare_flagged options))
       (length (prepare_flagged options))"
  unfolding validate_answer_configuration_def Let_def repeat_check
  by (cases answer_type) (auto simp: count_less_iff)

lemma validate_matching_configuration_iff:
  "validate_matching_configuration casefold pairs = Inr () \<longleftrightarrow>
     2 \<le> length (prepare_pairs pairs) \<and>
     distinct (map (casefold \<circ> fst) (prepare_pairs pairs)) \<and>
     distinct (map (casefold \<circ> snd) (prepare_pairs pairs))"
  unfolding validate_matching_configuration_def Let_def repeat_check by auto

lemma validate_ordering_configuration_iff:
  "validate_ordering_configuration casefold items = Inr () \<longleftrightarrow>
     3 \<le> length (filter (\<lambda>text. text \<noteq> []) (map normalize_text items)) \<and>
     distinct (map casefold (filter (\<lambda>text. text \<noteq> []) (map normalize_text items)))"
  unfolding validate_ordering_configuration_def Let_def repeat_check by auto

lemma validate_line_selection_configuration_iff:
  "validate_line_selection_configuration casefold lines = Inr () \<longleftrightarrow>
     2 \<le> length (prepare_flagged lines) \<and>
     distinct (map (casefold \<circ> fst) (prepare_flagged lines)) \<and>
     0 < count_correct (prepare_flagged lines) \<and>
     count_correct (prepare_flagged lines) < length (prepare_flagged lines)"
  unfolding validate_line_selection_configuration_def Let_def repeat_check
  by (auto simp: count_less_iff)

end
