(* ===== verification/Answer_Grading.thy ===== *)
theory Answer_Grading
  imports Assessment_Models
begin

text \<open>
  Grading of one submitted answer (\<^verbatim>\<open>assessment/services/answer_grading.py\<close>). The snapshot
  holds what the server froze when the attempt began; the response is any JSON value a request
  carried. A grader returns the score in hundredths of a percent or raises. Choice and line
  questions are all-or-nothing; matching gives the share of correct pairs; ordering the share of
  pairs of items that stand in the right relative order.
\<close>

section \<open>Percentages\<close>

definition percentage :: "nat \<Rightarrow> nat \<Rightarrow> score" where
  "percentage correct total_count =
     (if total_count = 0 then 0 else quantize 4 (dec_div correct total_count))"

text \<open>The two roundings of the code amount to one: the exact share, rounded half up.\<close>

lemma percentage_eq:
  assumes "0 < t" and "c \<le> t" and "t < 10 ^ 20"
  shows "percentage c t = round_half_up (c * 10000) t"
proof -
  have "quantize 4 (dec_div c t) = round_half_up (c * 10 ^ 4) t"
    by (rule quantize_dec_div) (use assms in auto)
  with assms show ?thesis by (simp add: percentage_def)
qed

lemma percentage_le: "c \<le> t \<Longrightarrow> percentage c t \<le> HUNDRED"
proof (cases "t = 0")
  case False
  assume "c \<le> t"
  obtain q k where qk: "dec_div c t = (q, k)" by fastforce
  then have "q = round_half_even (c * 10 ^ k) t"
    by (auto simp: dec_div_def round_sig_def Let_def)
  also have "\<dots> \<le> 10 ^ k"
    by (rule round_half_even_le) (use False \<open>c \<le> t\<close> in \<open>simp_all add: mult.commute\<close>)
  finally have "round_half_up (q * 10 ^ 4) (10 ^ k) \<le> 10 ^ 4"
    by (intro round_half_up_le) simp_all
  with False show ?thesis by (simp add: percentage_def quantize_def qk)
qed (simp add: percentage_def)

lemma percentage_full [simp]: "0 < t \<Longrightarrow> t < 10 ^ 20 \<Longrightarrow> percentage t t = HUNDRED"
  by (simp add: percentage_eq mult.commute [of t] round_half_up_exact)

lemma percentage_zero [simp]: "percentage 0 t = 0"
  by (simp add: percentage_def quantize_def dec_div_def round_sig_def round_half_up_def)

lemma percentage_full_iff:
  assumes "0 < t" and "c \<le> t" and "t < 20000"
  shows "percentage c t = HUNDRED \<longleftrightarrow> c = t"
proof
  assume full: "percentage c t = HUNDRED"
  show "c = t"
  proof (rule ccontr)
    assume "c \<noteq> t"
    with assms have "round_half_up (c * 10000) t < 10000" by (intro round_half_up_full) auto
    with full assms show False by (simp add: percentage_eq)
  qed
next
  assume "c = t"
  with assms show "percentage c t = HUNDRED" by simp
qed

section \<open>Graders\<close>

definition get_selected_keys ::
    "(string \<times> json) list \<Rightarrow> string list \<Rightarrow> json list result" where
  "get_selected_keys response_payload available_keys =
     (case map_of response_payload ''selected_keys'' of
        Some (JArr selected_keys) \<Rightarrow>
          (if selected_keys = [] then Inl (ValidationError ''choose_at_least_one'')
           else bindR (py_set selected_keys) (\<lambda>selected.
             if length selected_keys \<noteq> card selected
               then Inl (ValidationError ''option_chosen_twice'')
             else if selected - JStr ` set available_keys \<noteq> {}
               then Inl (ValidationError ''unknown_option'')
             else Inr selected_keys))
      | _ \<Rightarrow> Inl (ValidationError ''selected_keys_not_a_list''))"

definition grade_choice :: "SnapshotData \<Rightarrow> (string \<times> json) list \<Rightarrow> score result" where
  "grade_choice snapshot response_payload =
     (let available_keys = map fst (vp_options (sd_visible_payload snapshot))
      in bindR (get_selected_keys response_payload available_keys) (\<lambda>selected_keys.
           if sd_question_type snapshot = SINGLE_CHOICE \<and> length selected_keys \<noteq> 1
             then Inl (ValidationError ''only_one_answer_allowed'')
           else bindR (py_set selected_keys) (\<lambda>selected.
             if selected = JStr ` set (gp_correct_keys (sd_grading_payload snapshot))
               then Inr HUNDRED
             else Inr 0)))"

text \<open>\<^verbatim>\<open>submitted == correct_matches.get(left_key)\<close>: \<^verbatim>\<open>None\<close> equals a JSON null only.\<close>

definition match_equal :: "json option \<Rightarrow> string option \<Rightarrow> bool" where
  "match_equal submitted expected =
     (case submitted of
        None \<Rightarrow> False
      | Some v \<Rightarrow> (case expected of None \<Rightarrow> v = JNull | Some r \<Rightarrow> v = JStr r))"

definition grade_matching :: "SnapshotData \<Rightarrow> (string \<times> json) list \<Rightarrow> score result" where
  "grade_matching snapshot response_payload =
     (case map_of response_payload ''matches'' of
        Some (JObj submitted_matches) \<Rightarrow>
          (let left_keys = map fst (vp_left_items (sd_visible_payload snapshot));
               right_keys = map fst (vp_right_items (sd_visible_payload snapshot));
               submitted_right_keys = map snd submitted_matches
           in if set (map fst submitted_matches) \<noteq> set left_keys
                then Inl (ValidationError ''all_items_must_be_matched'')
              else bindR (py_set submitted_right_keys) (\<lambda>used.
                if used \<noteq> JStr ` set right_keys \<or> length submitted_right_keys \<noteq> card used
                  then Inl (ValidationError ''right_items_used_exactly_once'')
                else
                  let correct_matches = gp_matches (sd_grading_payload snapshot);
                      correct_count = length (filter (\<lambda>left_key.
                        match_equal (map_of submitted_matches left_key)
                          (map_of correct_matches left_key)) (remdups left_keys))
                  in Inr (percentage correct_count (length (remdups left_keys)))))
      | _ \<Rightarrow> Inl (ValidationError ''matches_not_an_object''))"

text \<open>
  The position of a key in the submitted order: the dictionary comprehension keeps the last
  position of a repeated key, and repeated keys have been refused before.
\<close>

fun position_of :: "json list \<Rightarrow> json \<Rightarrow> nat" where
  "position_of [] k = 0"
| "position_of (x # xs) k = (if hash_key x = k then 0 else Suc (position_of xs k))"

text \<open>The nested loop over \<^verbatim>\<open>first_index < second_index\<close>.\<close>

fun ordered_pairs :: "('k \<Rightarrow> nat) \<Rightarrow> 'k list \<Rightarrow> nat" where
  "ordered_pairs pos [] = 0"
| "ordered_pairs pos (x # xs) = length (filter (\<lambda>y. pos x < pos y) xs) + ordered_pairs pos xs"

fun all_pairs :: "'k list \<Rightarrow> nat" where
  "all_pairs [] = 0"
| "all_pairs (x # xs) = length xs + all_pairs xs"

definition grade_ordering :: "SnapshotData \<Rightarrow> (string \<times> json) list \<Rightarrow> score result" where
  "grade_ordering snapshot response_payload =
     (case map_of response_payload ''order'' of
        Some (JArr submitted_order) \<Rightarrow>
          (let correct_order = gp_correct_order (sd_grading_payload snapshot)
           in if length submitted_order \<noteq> length correct_order
                then Inl (ValidationError ''all_items_must_be_ordered'')
              else bindR (py_set submitted_order) (\<lambda>submitted.
                if submitted \<noteq> JStr ` set correct_order
                  then Inl (ValidationError ''all_items_must_be_ordered'')
                else if length submitted_order \<noteq> card submitted
                  then Inl (ValidationError ''order_items_repeat'')
                else if length correct_order < 2
                  then Inl (ValidationError ''not_enough_items'')
                else Inr (percentage
                  (ordered_pairs (\<lambda>key. position_of submitted_order (JStr key)) correct_order)
                  (all_pairs correct_order))))
      | _ \<Rightarrow> Inl (ValidationError ''order_not_a_list''))"

definition grade_line_selection :: "SnapshotData \<Rightarrow> (string \<times> json) list \<Rightarrow> score result" where
  "grade_line_selection snapshot response_payload =
     (let available_keys = map fst (vp_lines (sd_visible_payload snapshot))
      in bindR (get_selected_keys response_payload available_keys) (\<lambda>selected_keys.
           bindR (py_set selected_keys) (\<lambda>selected.
             if selected = JStr ` set (gp_correct_keys (sd_grading_payload snapshot))
               then Inr HUNDRED
             else Inr 0)))"

definition grade_snapshot_answer :: "SnapshotData \<Rightarrow> json \<Rightarrow> score result" where
  "grade_snapshot_answer snapshot response =
     (case response of
        JObj response_payload \<Rightarrow>
          (case sd_question_type snapshot of
             SINGLE_CHOICE \<Rightarrow> grade_choice snapshot response_payload
           | MULTIPLE_CHOICE \<Rightarrow> grade_choice snapshot response_payload
           | MATCHING \<Rightarrow> grade_matching snapshot response_payload
           | ORDERING \<Rightarrow> grade_ordering snapshot response_payload
           | LINE_SELECTION \<Rightarrow> grade_line_selection snapshot response_payload
           | OTHER_TYPE _ \<Rightarrow> Inl (ValidationError ''unknown_question_type''))
      | _ \<Rightarrow> Inl (ValidationError ''malformed_answer''))"

section \<open>Selections\<close>

lemma get_selected_keys_Inr_iff:
  "get_selected_keys rp avail = Inr ks \<longleftrightarrow>
     (\<exists>xs. map_of rp ''selected_keys'' = Some (JArr (map JStr xs)) \<and> ks = map JStr xs \<and>
        xs \<noteq> [] \<and> distinct xs \<and> set xs \<subseteq> set avail)"
  (is "?L \<longleftrightarrow> ?R")
proof
  assume ?L
  then obtain S where sel: "map_of rp ''selected_keys'' = Some (JArr ks)" "ks \<noteq> []"
    and S: "py_set ks = Inr S" "length ks = card S" "S \<subseteq> JStr ` set avail"
    by (auto simp: get_selected_keys_def bindR_Inr_iff
        split: option.splits json.splits if_splits)
  from S(1,3) obtain xs where xs: "ks = map JStr xs" "set xs \<subseteq> set avail"
    using hash_keys_strings [of ks "set avail"] by (auto simp: py_set_Inr)
  from S(1) xs have "S = JStr ` set xs" by simp
  with S(2) xs have "length xs = card (set xs)" by simp
  then have "distinct xs" by (simp add: card_set_distinct)
  with sel xs show ?R by auto
next
  assume ?R
  then show ?L
    by (fastforce simp: get_selected_keys_def distinct_card)
qed

lemma grade_selected_set:
  assumes "get_selected_keys rp avail = Inr ks"
  shows "\<exists>xs. ks = map JStr xs \<and> py_set ks = Inr (JStr ` set xs) \<and> distinct xs"
  using assms by (auto simp: get_selected_keys_Inr_iff)

section \<open>Ordering: pairs, inversions and the full score\<close>

lemma all_pairs_eq: "2 * all_pairs xs = length xs * (length xs - 1)"
proof (induction xs)
  case (Cons x xs)
  then show ?case by (cases xs) (auto simp: algebra_simps)
qed simp

lemma ordered_pairs_le: "ordered_pairs pos xs \<le> all_pairs xs"
  by (induction xs) (auto intro: add_mono)

lemma ordered_pairs_full_iff:
  "ordered_pairs pos xs = all_pairs xs \<longleftrightarrow> sorted_wrt (\<lambda>x y. pos x < pos y) xs"
proof (induction xs)
  case (Cons x xs)
  have "length (filter (\<lambda>y. pos x < pos y) xs) \<le> length xs" by simp
  moreover have "ordered_pairs pos xs \<le> all_pairs xs" by (rule ordered_pairs_le)
  ultimately have
    "ordered_pairs pos (x # xs) = all_pairs (x # xs) \<longleftrightarrow>
       length (filter (\<lambda>y. pos x < pos y) xs) = length xs \<and> ordered_pairs pos xs = all_pairs xs"
    unfolding ordered_pairs.simps all_pairs.simps by linarith
  with Cons.IH show ?case by (simp add: filter_all_iff)
qed simp

lemma position_of_nth:
  "distinct ys \<Longrightarrow> i < length ys \<Longrightarrow> position_of (map JStr ys) (JStr (ys ! i)) = i"
proof (induction ys arbitrary: i)
  case (Cons y ys)
  then show ?case by (cases i) auto
qed simp

text \<open>Only the correct order itself has every pair in order.\<close>

lemma sorted_by_position_unique:
  assumes ys: "distinct ys" and xs: "distinct xs" and same: "set xs = set ys"
    and sorted: "sorted_wrt (\<lambda>x y. pos x < pos y) xs"
    and pos: "\<And>i. i < length ys \<Longrightarrow> pos (ys ! i) = i"
  shows "xs = ys"
proof -
  have len: "length xs = length ys" using ys xs same by (metis distinct_card)
  have "map pos ys = [0 ..< length ys]"
    by (rule nth_equalityI) (simp_all add: pos)
  moreover have "map pos xs = [0 ..< length ys]"
  proof (rule sorted_distinct_set_unique)
    show "sorted (map pos xs)" using sorted
      by (auto simp: sorted_map intro: sorted_wrt_mono_rel [rotated])
    have "sorted_wrt (<) (map pos xs)" using sorted by (simp add: sorted_wrt_map)
    then show "distinct (map pos xs)" by (simp add: strict_sorted_iff)
    have "set (map pos xs) = set (map pos ys)" using same by simp
    then show "set (map pos xs) = set [0 ..< length ys]"
      using \<open>map pos ys = [0 ..< length ys]\<close> by simp
  qed simp_all
  ultimately have "map pos xs = map pos ys" by simp
  moreover have "inj_on pos (set ys)"
  proof (rule inj_onI)
    fix x y assume "x \<in> set ys" "y \<in> set ys" "pos x = pos y"
    then show "x = y" using pos by (metis in_set_conv_nth)
  qed
  ultimately show "xs = ys" using same by (intro map_inj_on [of pos]) auto
qed

lemma all_pairs_bound: "length xs \<le> 200 \<Longrightarrow> all_pairs xs < 20000"
proof -
  assume "length xs \<le> 200"
  then have "length xs * (length xs - 1) \<le> 200 * 199" by (intro mult_le_mono) auto
  then have "2 * all_pairs xs \<le> 200 * 199" by (simp add: all_pairs_eq)
  then show ?thesis by simp
qed

lemma all_pairs_pos: "2 \<le> length xs \<Longrightarrow> 0 < all_pairs xs"
  by (cases xs) auto

text \<open>The submissions an ordering question grades at all: the correct items, each once.\<close>

lemma grade_ordering_Inr_iff:
  "grade_ordering snap rp = Inr x \<longleftrightarrow>
     (\<exists>ys. map_of rp ''order'' = Some (JArr (map JStr ys)) \<and> distinct ys \<and>
        set ys = set (gp_correct_order (sd_grading_payload snap)) \<and>
        length ys = length (gp_correct_order (sd_grading_payload snap)) \<and> 2 \<le> length ys \<and>
        x = percentage
          (ordered_pairs (\<lambda>key. position_of (map JStr ys) (JStr key))
            (gp_correct_order (sd_grading_payload snap)))
          (all_pairs (gp_correct_order (sd_grading_payload snap))))"
  (is "?L \<longleftrightarrow> ?R")
proof
  let ?c = "gp_correct_order (sd_grading_payload snap)"
  assume ?L
  then obtain js S where js: "map_of rp ''order'' = Some (JArr js)"
    and len: "length js = length ?c" and S: "py_set js = Inr S" "S = JStr ` set ?c"
    and card: "length js = card S" and two: "\<not> length ?c < 2"
    and x: "x = percentage (ordered_pairs (\<lambda>key. position_of js (JStr key)) ?c) (all_pairs ?c)"
    by (auto simp: grade_ordering_def Let_def bindR_Inr_iff
        split: option.splits json.splits if_splits)
  from S obtain ys where ys: "js = map JStr ys"
    using hash_keys_strings [of js "set ?c"] by (auto simp: py_set_Inr)
  with S have "set ys = set ?c" by simp
  moreover from this card S(2) ys have "length ys = card (set ys)" by simp
  then have "distinct ys" by (simp add: card_set_distinct)
  ultimately show ?R using js ys len two x by auto
next
  assume ?R
  then obtain ys where ys: "map_of rp ''order'' = Some (JArr (map JStr ys))" "distinct ys"
    "set ys = set (gp_correct_order (sd_grading_payload snap))"
    "length ys = length (gp_correct_order (sd_grading_payload snap))" "2 \<le> length ys"
    "x = percentage (ordered_pairs (\<lambda>key. position_of (map JStr ys) (JStr key))
        (gp_correct_order (sd_grading_payload snap)))
      (all_pairs (gp_correct_order (sd_grading_payload snap)))" by blast
  from ys(2) have "card (set ys) = length ys" by (rule distinct_card)
  with ys show ?L by (simp add: grade_ordering_def Let_def)
qed

section \<open>Matching: counting correct pairs\<close>

lemma grade_matching_Inr:
  assumes "grade_matching snap rp = Inr x"
  shows "\<exists>m. map_of rp ''matches'' = Some (JObj m) \<and>
    x = percentage
      (length (filter (\<lambda>k. match_equal (map_of m k)
         (map_of (gp_matches (sd_grading_payload snap)) k))
         (remdups (map fst (vp_left_items (sd_visible_payload snap))))))
      (length (remdups (map fst (vp_left_items (sd_visible_payload snap)))))"
  using assms
  by (auto simp: grade_matching_def Let_def bindR_Inr_iff
      split: option.splits json.splits if_splits)

section \<open>Score bounds and full scores\<close>

lemma grade_bounds:
  assumes "grade_snapshot_answer snapshot response = Inr x"
  shows "x \<le> HUNDRED"
proof -
  have "grade_choice snapshot rp = Inr x \<Longrightarrow> x \<le> HUNDRED" for rp
    by (auto simp: grade_choice_def Let_def bindR_Inr_iff split: if_splits)
  moreover have "grade_line_selection snapshot rp = Inr x \<Longrightarrow> x \<le> HUNDRED" for rp
    by (auto simp: grade_line_selection_def Let_def bindR_Inr_iff split: if_splits)
  moreover have "grade_matching snapshot rp = Inr x \<Longrightarrow> x \<le> HUNDRED" for rp
    by (auto dest!: grade_matching_Inr intro!: percentage_le)
  moreover have "grade_ordering snapshot rp = Inr x \<Longrightarrow> x \<le> HUNDRED" for rp
    by (auto simp: grade_ordering_Inr_iff intro!: percentage_le ordered_pairs_le)
  ultimately show ?thesis
    using assms by (auto simp: grade_snapshot_answer_def split: json.splits QuestionType.splits)
qed

lemma ordering_full_score:
  assumes type: "sd_question_type snapshot = ORDERING"
    and correct: "correct = gp_correct_order (sd_grading_payload snapshot)"
    and distinct: "distinct correct" and size: "2 \<le> length correct" "length correct \<le> 200"
  shows "grade_snapshot_answer snapshot (JObj [(''order'', JArr submitted)]) = Inr HUNDRED \<longleftrightarrow>
    submitted = map JStr correct"
proof -
  have full: "percentage (ordered_pairs pos correct) (all_pairs correct) = HUNDRED \<longleftrightarrow>
      sorted_wrt (\<lambda>x y. pos x < pos y) correct" for pos
    using percentage_full_iff [OF all_pairs_pos ordered_pairs_le all_pairs_bound]
      size ordered_pairs_full_iff by blast
  have unique: "sorted_wrt (\<lambda>x y. position_of (map JStr ys) (JStr x) < position_of (map JStr ys) (JStr y))
      correct \<longleftrightarrow> ys = correct" if "distinct ys" "set ys = set correct" for ys
  proof
    assume "sorted_wrt (\<lambda>x y. position_of (map JStr ys) (JStr x) < position_of (map JStr ys) (JStr y))
      correct"
    then have "correct = ys"
      by (rule sorted_by_position_unique [rotated 3])
        (use that distinct in \<open>simp_all add: position_of_nth\<close>)
    then show "ys = correct" ..
  next
    assume "ys = correct"
    then show "sorted_wrt (\<lambda>x y. position_of (map JStr ys) (JStr x) < position_of (map JStr ys) (JStr y))
      correct" using distinct by (simp add: sorted_wrt_iff_nth_less position_of_nth)
  qed
  have "grade_snapshot_answer snapshot (JObj [(''order'', JArr submitted)]) = Inr HUNDRED \<longleftrightarrow>
      (\<exists>ys. submitted = map JStr ys \<and> distinct ys \<and> set ys = set correct \<and>
         length ys = length correct \<and> ys = correct)"
    using type size
    by (auto simp: grade_snapshot_answer_def grade_ordering_Inr_iff correct [symmetric] full unique
        eq_commute [of HUNDRED])
  with distinct show ?thesis by auto
qed

text \<open>A dictionary's values, read through its lookup.\<close>

lemma dict_values_via_lookup:
  assumes "distinct (map fst m)"
  shows "set (map snd m) = (\<lambda>k. the (map_of m k)) ` set (map fst m)"
  using assms by (force simp: image_iff map_of_eq_Some_iff)

lemma matching_full_score:
  fixes snapshot :: SnapshotData
  defines "left \<equiv> map fst (vp_left_items (sd_visible_payload snapshot))"
    and "right \<equiv> map fst (vp_right_items (sd_visible_payload snapshot))"
    and "pairs \<equiv> gp_matches (sd_grading_payload snapshot)"
  assumes type: "sd_question_type snapshot = MATCHING"
    and pairs: "map fst pairs = left" "mset (map snd pairs) = mset right"
    and distinct: "distinct left" "distinct right"
    and size: "0 < length left" "length left < 20000"
    and dict: "distinct (map fst m)"
  shows "grade_snapshot_answer snapshot (JObj [(''matches'', JObj m)]) = Inr HUNDRED \<longleftrightarrow>
    set (map fst m) = set left \<and> (\<forall>k \<in> set left. map_of m k = map_option JStr (map_of pairs k))"
proof -
  have lookup: "\<exists>r. map_of pairs k = Some r" if "k \<in> set left" for k
    using that pairs(1) by (metis map_of_eq_None_iff not_Some_eq set_map)
  have match: "match_equal (map_of m k) (map_of pairs k) \<longleftrightarrow> map_of m k = map_option JStr (map_of pairs k)"
    if "k \<in> set left" for k
    using lookup [OF that] by (auto simp: match_equal_def split: option.splits)
  have count: "percentage (length (filter P left)) (length left) = HUNDRED \<longleftrightarrow> (\<forall>k \<in> set left. P k)" for P
    using percentage_full_iff [of "length left" "length (filter P left)"] size
    by (simp add: filter_all_iff)
  have valid: "py_set (map snd m) = Inr (JStr ` set right) \<and> length m = card (set right)"
    if keys: "set (map fst m) = set left"
      and all: "\<forall>k \<in> set left. map_of m k = map_option JStr (map_of pairs k)"
  proof -
    have "set (map snd m) = (\<lambda>k. the (map_of m k)) ` set left"
      using dict_values_via_lookup [OF dict] keys by simp
    also have "\<dots> = JStr ` (\<lambda>k. the (map_of pairs k)) ` set left"
      using all lookup by (force simp: image_iff)
    also have "(\<lambda>k. the (map_of pairs k)) ` set left = set (map snd pairs)"
      using dict_values_via_lookup [of pairs] pairs(1) distinct(1) by simp
    also have "\<dots> = set right" using pairs(2) by (rule mset_eq_setD)
    finally have vals: "set (map snd m) = JStr ` set right" .
    have "py_set (map snd m) = Inr (hash_key ` JStr ` set right)"
      unfolding py_set_def list_all_iff set_map [of hash_key] vals by simp
    moreover have "length m = card (set left)" using dict keys by (metis distinct_card length_map)
    moreover have "length left = length right" using pairs by (metis length_map mset_eq_length)
    ultimately show ?thesis using distinct by (simp add: image_image distinct_card)
  qed
  show ?thesis
    unfolding left_def [symmetric] right_def [symmetric]
    using type valid distinct(1)
    by (auto simp: grade_snapshot_answer_def grade_matching_def Let_def bindR_Inr_iff
        left_def [symmetric] right_def [symmetric] pairs_def [symmetric]
        distinct_remdups_id count match eq_commute [of HUNDRED] split: if_splits)
qed

section \<open>Properties of grading\<close>

text \<open>
  Whatever JSON a request carries, a graded answer scores between 0 and 100 percent.
\<close>

theorem grade_snapshot_answer_bounds:
  "grade_snapshot_answer snapshot response = Inr x \<Longrightarrow> x \<le> HUNDRED"
  by (rule grade_bounds)

theorem grade_snapshot_answer_bounds_witness:
  "\<exists>x. grade_snapshot_answer (demo_snapshot ORDERING)
     (JObj [(''order'', JArr [JStr ''i1'', JStr ''i3'', JStr ''i2''])]) = Inr x \<and> x \<le> HUNDRED"
proof -
  have "grade_snapshot_answer (demo_snapshot ORDERING)
     (JObj [(''order'', JArr [JStr ''i1'', JStr ''i3'', JStr ''i2''])]) = Inr 6667"
    by (simp add: grade_snapshot_answer_def grade_ordering_def demo_snapshot_def py_set_def
        percentage_eq round_half_up_def insert_commute)
  with grade_snapshot_answer_bounds [OF this] show ?thesis by blast
qed

text \<open>
  An ordering question of up to 200 distinct items gives the full score to the correct order
  and to no other submission: rounding never lifts a partly wrong order to 100 percent.
\<close>

theorem grade_ordering_full_score:
  assumes "sd_question_type snapshot = ORDERING"
    and "correct = gp_correct_order (sd_grading_payload snapshot)"
    and "distinct correct" and "2 \<le> length correct" and "length correct \<le> 200"
  shows "grade_snapshot_answer snapshot (JObj [(''order'', JArr submitted)]) = Inr HUNDRED \<longleftrightarrow>
    submitted = map JStr correct"
  using assms by (rule ordering_full_score)

theorem grade_ordering_full_score_witness:
  "\<forall>submitted. grade_snapshot_answer (demo_snapshot ORDERING) (JObj [(''order'', JArr submitted)]) = Inr HUNDRED
     \<longleftrightarrow> submitted = map JStr [''i1'', ''i2'', ''i3'']"
  by (intro allI grade_ordering_full_score) (simp_all add: demo_snapshot_def)

text \<open>
  A matching question whose correct pairing uses every item once gives the full score exactly
  to the submission that pairs every left item with its own right item.
\<close>

theorem grade_matching_full_score:
  assumes "sd_question_type snapshot = MATCHING"
    and "left = map fst (vp_left_items (sd_visible_payload snapshot))"
    and "right = map fst (vp_right_items (sd_visible_payload snapshot))"
    and "pairs = gp_matches (sd_grading_payload snapshot)"
    and "map fst pairs = left" and "mset (map snd pairs) = mset right"
    and "distinct left" and "distinct right" and "0 < length left" and "length left < 20000"
    and "distinct (map fst m)"
  shows "grade_snapshot_answer snapshot (JObj [(''matches'', JObj m)]) = Inr HUNDRED \<longleftrightarrow>
    set (map fst m) = set left \<and> (\<forall>k \<in> set left. map_of m k = map_option JStr (map_of pairs k))"
  using assms(5-11) unfolding assms(2-4) by (rule matching_full_score [OF assms(1)])

theorem grade_matching_full_score_witness:
  "grade_snapshot_answer (demo_snapshot MATCHING)
     (JObj [(''matches'', JObj [(''l2'', JStr ''r2''), (''l1'', JStr ''r1'')])]) = Inr HUNDRED"
  by (subst grade_matching_full_score [where snapshot = "demo_snapshot MATCHING"
      and left = "[''l1'', ''l2'']" and right = "[''r2'', ''r1'']"
      and pairs = "[(''l1'', ''r1''), (''l2'', ''r2'')]"])
    (auto simp: demo_snapshot_def)

end
