(* ===== verification/Question_Snapshot.thy ===== *)
theory Question_Snapshot
  imports Question_Validation Answer_Grading Py_Random
begin

text \<open>
  Freezing a question for one attempt (\<^verbatim>\<open>assessment/services/question_snapshot.py\<close>): the
  texts are copied, every option, item and line gets a key by its position, and the server keeps
  the grading payload apart from the payload the employee sees. The generator is seeded per
  question by the parameter \<open>seed_random\<close>, which stands for the SHA-256 digest of the seed text
  fed to \<^verbatim>\<open>random.Random\<close>.
\<close>

section \<open>Keys\<close>

definition option_key :: "nat \<Rightarrow> string" where
  "option_key index = ''option-'' @ str_nat index"

definition left_key :: "nat \<Rightarrow> string" where
  "left_key index = ''left-'' @ str_nat index"

definition right_key :: "nat \<Rightarrow> string" where
  "right_key index = ''right-'' @ str_nat index"

definition item_key :: "nat \<Rightarrow> string" where
  "item_key index = ''item-'' @ str_nat index"

definition line_key :: "nat \<Rightarrow> string" where
  "line_key index = ''line-'' @ str_nat index"

lemmas key_defs = option_key_def left_key_def right_key_def item_key_def line_key_def

lemma inj_keys [simp]: "inj option_key" "inj left_key" "inj right_key" "inj item_key" "inj line_key"
  by (auto simp: inj_def key_defs dest: str_nat_inj)

section \<open>Payloads\<close>

definition build_question_random :: "(string \<Rightarrow> 'r) \<Rightarrow> string \<Rightarrow> pk \<Rightarrow> 'r" where
  "build_question_random seed_random seed question_id =
     seed_random (seed @ '':question:'' @ str_nat question_id)"

definition build_choice_payload ::
    "(string \<Rightarrow> string) \<Rightarrow> 'r py_random \<Rightarrow> 'r \<Rightarrow> bool \<Rightarrow> Question
     \<Rightarrow> (VisiblePayload \<times> GradingPayload) result" where
  "build_choice_payload casefold rng r do_shuffle question =
     (let options = sort_key (\<lambda>o'. (op_order o', op_id o')) (qn_answer_options question)
      in bindR (validate_answer_configuration casefold (qn_answer_type question)
           (map (\<lambda>o'. (op_text o', op_is_correct o')) options)) (\<lambda>_.
         let shown = (if do_shuffle then fst (shuffle_list rng r options) else options);
             numbered = enum_from 1 shown
         in Inr (empty_visible\<lparr>vp_options := map (\<lambda>(i, o'). (option_key i, op_text o')) numbered\<rparr>,
                 empty_grading\<lparr>gp_correct_keys :=
                   map (\<lambda>(i, o'). option_key i) (filter (\<lambda>(i, o'). op_is_correct o') numbered)\<rparr>)))"

definition build_matching_payload ::
    "(string \<Rightarrow> string) \<Rightarrow> 'r py_random \<Rightarrow> 'r \<Rightarrow> Question
     \<Rightarrow> (VisiblePayload \<times> GradingPayload) result" where
  "build_matching_payload casefold rng r question =
     (let pairs = sort_key (\<lambda>p. (mp_order p, mp_id p)) (qn_matching_pairs question)
      in bindR (validate_matching_configuration casefold
           (map (\<lambda>p. (mp_left_text p, mp_right_text p)) pairs)) (\<lambda>_.
         let numbered = enum_from 1 pairs;
             left_items = map (\<lambda>(i, p). (left_key i, mp_left_text p)) numbered;
             right_items = map (\<lambda>(i, p). (right_key i, mp_right_text p)) numbered;
             matches = map (\<lambda>(i, p). (left_key i, right_key i)) numbered
         in Inr (empty_visible\<lparr>vp_left_items := left_items,
                   vp_right_items := fst (shuffle_list rng r right_items)\<rparr>,
                 empty_grading\<lparr>gp_matches := matches\<rparr>)))"

definition build_ordering_payload ::
    "(string \<Rightarrow> string) \<Rightarrow> 'r py_random \<Rightarrow> 'r \<Rightarrow> Question
     \<Rightarrow> (VisiblePayload \<times> GradingPayload) result" where
  "build_ordering_payload casefold rng r question =
     (let items = sort_key (\<lambda>i. (oi_order i, oi_id i)) (qn_ordering_items question)
      in bindR (validate_ordering_configuration casefold (map oi_text items)) (\<lambda>_.
         let numbered = enum_from 1 items;
             visible_items = map (\<lambda>(i, it). (item_key i, oi_text it)) numbered;
             correct_order = map (\<lambda>(i, it). item_key i) numbered
         in Inr (empty_visible\<lparr>vp_items := fst (shuffle_list rng r visible_items)\<rparr>,
                 empty_grading\<lparr>gp_correct_order := correct_order\<rparr>)))"

definition build_line_selection_payload ::
    "(string \<Rightarrow> string) \<Rightarrow> Question \<Rightarrow> (VisiblePayload \<times> GradingPayload) result" where
  "build_line_selection_payload casefold question =
     (let lines = sort_key (\<lambda>l. (sl_order l, sl_id l)) (qn_selectable_lines question)
      in bindR (validate_line_selection_configuration casefold
           (map (\<lambda>l. (sl_text l, sl_is_correct l)) lines)) (\<lambda>_.
         let numbered = enum_from 1 lines
         in Inr (empty_visible\<lparr>vp_lines := map (\<lambda>(i, l). (line_key i, sl_text l)) numbered\<rparr>,
                 empty_grading\<lparr>gp_correct_keys :=
                   map (\<lambda>(i, l). line_key i) (filter (\<lambda>(i, l). sl_is_correct l) numbered)\<rparr>)))"

definition build_common_snapshot_data :: "Question \<Rightarrow> SnapshotData" where
  "build_common_snapshot_data question =
     (let family = qn_family question; skill = fm_skill family; topic = sk_topic skill
      in \<lparr>sd_source_question = qn_id question,
          sd_topic_name = tp_name topic, sd_topic_slug = tp_slug topic,
          sd_skill_name = sk_name skill, sd_skill_slug = sk_slug skill,
          sd_family_name = fm_name family, sd_family_slug = fm_slug family,
          sd_question_title = qn_title question, sd_question_slug = qn_slug question,
          sd_question_type = qn_answer_type question, sd_difficulty = qn_difficulty question,
          sd_scenario = qn_scenario question, sd_diagnostic_data = qn_diagnostic_data question,
          sd_diagnostic_blocks = qn_diagnostic_blocks question, sd_prompt = qn_prompt question,
          sd_time_limit_seconds = qn_time_limit_seconds question,
          sd_explanation = qn_explanation question,
          sd_visible_payload = empty_visible, sd_grading_payload = empty_grading\<rparr>)"

definition build_question_snapshot_data ::
    "(string \<Rightarrow> string) \<Rightarrow> 'r py_random \<Rightarrow> (string \<Rightarrow> 'r) \<Rightarrow> string \<Rightarrow> bool \<Rightarrow> Question
     \<Rightarrow> SnapshotData result" where
  "build_question_snapshot_data casefold rng seed_random seed shuffle_answer_options question =
     (let r = build_question_random seed_random seed (qn_id question);
          update = (\<lambda>(visible, grading). (build_common_snapshot_data question)
            \<lparr>sd_visible_payload := visible, sd_grading_payload := grading\<rparr>);
          with_payload = (\<lambda>payload. bindR payload (\<lambda>vg. Inr (update vg)))
      in case qn_answer_type question of
           SINGLE_CHOICE \<Rightarrow>
             with_payload (build_choice_payload casefold rng r shuffle_answer_options question)
         | MULTIPLE_CHOICE \<Rightarrow>
             with_payload (build_choice_payload casefold rng r shuffle_answer_options question)
         | MATCHING \<Rightarrow> with_payload (build_matching_payload casefold rng r question)
         | ORDERING \<Rightarrow> with_payload (build_ordering_payload casefold rng r question)
         | LINE_SELECTION \<Rightarrow> with_payload (build_line_selection_payload casefold question)
         | OTHER_TYPE _ \<Rightarrow> Inl (ValidationError ''unknown_question_type''))"

section \<open>The answer the grading payload asks for\<close>

definition correct_response :: "SnapshotData \<Rightarrow> json" where
  "correct_response d =
     (case sd_question_type d of
        MATCHING \<Rightarrow> JObj [(''matches'',
          JObj (map (\<lambda>(l, r). (l, JStr r)) (gp_matches (sd_grading_payload d))))]
      | ORDERING \<Rightarrow> JObj [(''order'', JArr (map JStr (gp_correct_order (sd_grading_payload d))))]
      | _ \<Rightarrow> JObj [(''selected_keys'', JArr (map JStr (gp_correct_keys (sd_grading_payload d))))])"

lemma grade_choice_selection:
  assumes "xs \<noteq> []" and "distinct xs" and "set xs \<subseteq> set (map fst (vp_options (sd_visible_payload d)))"
    and "sd_question_type d = SINGLE_CHOICE \<Longrightarrow> length xs = 1"
  shows "grade_choice d [(''selected_keys'', JArr (map JStr xs))] =
    Inr (if set xs = set (gp_correct_keys (sd_grading_payload d)) then HUNDRED else 0)"
proof -
  have "get_selected_keys [(''selected_keys'', JArr (map JStr xs))]
      (map fst (vp_options (sd_visible_payload d))) = Inr (map JStr xs)"
    using assms by (auto simp: get_selected_keys_Inr_iff)
  then show ?thesis using assms(4) by (auto simp: grade_choice_def)
qed

lemma grade_line_selection_selection:
  assumes "xs \<noteq> []" and "distinct xs" and "set xs \<subseteq> set (map fst (vp_lines (sd_visible_payload d)))"
  shows "grade_line_selection d [(''selected_keys'', JArr (map JStr xs))] =
    Inr (if set xs = set (gp_correct_keys (sd_grading_payload d)) then HUNDRED else 0)"
proof -
  have "get_selected_keys [(''selected_keys'', JArr (map JStr xs))]
      (map fst (vp_lines (sd_visible_payload d))) = Inr (map JStr xs)"
    using assms by (auto simp: get_selected_keys_Inr_iff)
  then show ?thesis by (auto simp: grade_line_selection_def)
qed

text \<open>The keys of the flagged elements of a numbered list.\<close>

lemma flagged_keys:
  fixes P :: "'a \<Rightarrow> bool" and f :: "nat \<Rightarrow> string" and g :: "'a \<Rightarrow> string"
  assumes "inj f" and keys: "keys = map (\<lambda>(i, x). f i) (filter (\<lambda>(i, x). P x) (enum_from n xs))"
  shows "distinct keys" and "length keys = length (filter P xs)"
    and "set keys \<subseteq> set (map fst (map (\<lambda>(i, x). (f i, g x)) (enum_from n xs)))"
proof -
  have "distinct (map (\<lambda>(i, x). f i) (enum_from n xs))"
    using assms(1) by (rule distinct_map_index_enum_from)
  then show "distinct keys" unfolding keys by (rule distinct_map_filter)
  show "length keys = length (filter P xs)" by (simp add: keys length_filter_enum_from)
  show "set keys \<subseteq> set (map fst (map (\<lambda>(i, x). (f i, g x)) (enum_from n xs)))"
    by (force simp: keys)
qed

lemma size_filter_shuffle:
  "random_ok rng \<Longrightarrow> length (filter P (fst (shuffle_list rng r xs))) = length (filter P xs)"
  by (metis mset_filter mset_shuffle_list size_mset)

text \<open>The flagged texts the validators count are among the author's flagged texts.\<close>

lemma count_correct_prepare_le: "count_correct (prepare_flagged xs) \<le> count_correct xs"
  by (induction xs) (auto simp: prepare_flagged_def)

lemma choice_rule_pos: "choice_rule t c n \<Longrightarrow> 0 < c"
  by (cases t) auto

section \<open>Frozen questions can be answered\<close>

text \<open>The four payload builders, each with the response its grading payload asks for.\<close>

lemma choice_roundtrip:
  assumes ok: "random_ok rng"
    and built: "build_choice_payload casefold rng r do_shuffle question = Inr (visible, grading)"
    and d: "sd_visible_payload d = visible" "sd_grading_payload d = grading"
      "sd_question_type d = qn_answer_type question"
    and no_blank: "qn_answer_type question = SINGLE_CHOICE \<Longrightarrow>
      \<forall>o' \<in> set (qn_answer_options question). \<not> blank (op_text o')"
  shows "grade_choice d [(''selected_keys'', JArr (map JStr (gp_correct_keys grading)))] = Inr HUNDRED"
proof -
  let ?options = "sort_key (\<lambda>o'. (op_order o', op_id o')) (qn_answer_options question)"
  let ?flagged = "map (\<lambda>o'. (op_text o', op_is_correct o')) ?options"
  define shown where "shown = (if do_shuffle then fst (shuffle_list rng r ?options) else ?options)"
  have rule: "choice_rule (qn_answer_type question) (count_correct (prepare_flagged ?flagged))
      (length (prepare_flagged ?flagged))"
    and vis: "vp_options visible = map (\<lambda>(i, o'). (option_key i, op_text o')) (enum_from 1 shown)"
    and keys: "gp_correct_keys grading =
      map (\<lambda>(i, o'). option_key i) (filter (\<lambda>(i, o'). op_is_correct o') (enum_from 1 shown))"
    using built
    by (auto simp: build_choice_payload_def Let_def bindR_Inr_iff shown_def
        validate_answer_configuration_iff [simplified])
  note fk = flagged_keys [OF inj_keys(1) keys]
  have count: "length (gp_correct_keys grading) = count_correct ?flagged"
    using fk(2) ok by (simp add: shown_def size_filter_shuffle filter_map comp_def)
  have pos: "0 < count_correct ?flagged"
    using choice_rule_pos [OF rule] count_correct_prepare_le [of ?flagged] by linarith
  have single: "length (gp_correct_keys grading) = 1" if "sd_question_type d = SINGLE_CHOICE"
  proof -
    have "count_correct (prepare_flagged ?flagged) = count_correct ?flagged"
      by (rule count_correct_no_blank) (use that d no_blank in auto)
    with rule that d count show ?thesis by simp
  qed
  have "grade_choice d [(''selected_keys'', JArr (map JStr (gp_correct_keys grading)))] =
      Inr (if set (gp_correct_keys grading) = set (gp_correct_keys (sd_grading_payload d)) then HUNDRED else 0)"
    by (rule grade_choice_selection) (use pos count single fk(1) fk(3) [where g = op_text] vis d in auto)
  with d show ?thesis by simp
qed

lemma line_selection_roundtrip:
  assumes built: "build_line_selection_payload casefold question = Inr (visible, grading)"
    and d: "sd_visible_payload d = visible" "sd_grading_payload d = grading"
  shows "grade_line_selection d [(''selected_keys'', JArr (map JStr (gp_correct_keys grading)))] =
    Inr HUNDRED"
proof -
  let ?lines = "sort_key (\<lambda>l. (sl_order l, sl_id l)) (qn_selectable_lines question)"
  let ?flagged = "map (\<lambda>l. (sl_text l, sl_is_correct l)) ?lines"
  have pos: "0 < count_correct (prepare_flagged ?flagged)"
    and vis: "vp_lines visible = map (\<lambda>(i, l). (line_key i, sl_text l)) (enum_from 1 ?lines)"
    and keys: "gp_correct_keys grading =
      map (\<lambda>(i, l). line_key i) (filter (\<lambda>(i, l). sl_is_correct l) (enum_from 1 ?lines))"
    using built
    by (auto simp: build_line_selection_payload_def Let_def bindR_Inr_iff
        validate_line_selection_configuration_iff [simplified])
  note fk = flagged_keys [OF inj_keys(5) keys]
  have "length (gp_correct_keys grading) = count_correct ?flagged"
    using fk(2) by (simp add: filter_map comp_def)
  with pos count_correct_prepare_le [of ?flagged] have "0 < length (gp_correct_keys grading)"
    by linarith
  then have "grade_line_selection d [(''selected_keys'', JArr (map JStr (gp_correct_keys grading)))] =
      Inr (if set (gp_correct_keys grading) = set (gp_correct_keys (sd_grading_payload d)) then HUNDRED else 0)"
    by (intro grade_line_selection_selection) (use fk(1) fk(3) [where g = sl_text] vis d in auto)
  with d show ?thesis by simp
qed

text \<open>What the matching and ordering builders produce.\<close>

lemma build_matching_payload_Inr:
  assumes "random_ok rng" and "build_matching_payload casefold rng r question = Inr (visible, grading)"
  shows "map fst (gp_matches grading) = map fst (vp_left_items visible)"
    and "map fst (vp_left_items visible) = map left_key [1 ..< 1 + length (qn_matching_pairs question)]"
    and "map snd (gp_matches grading) = map right_key [1 ..< 1 + length (qn_matching_pairs question)]"
    and "mset (map fst (vp_right_items visible)) = mset (map snd (gp_matches grading))"
    and "2 \<le> length (qn_matching_pairs question)"
proof -
  let ?pairs = "sort_key (\<lambda>p. (mp_order p, mp_id p)) (qn_matching_pairs question)"
  let ?right = "map (\<lambda>(i, p). (right_key i, mp_right_text p)) (enum_from 1 ?pairs)"
  have two: "2 \<le> length (prepare_pairs (map (\<lambda>p. (mp_left_text p, mp_right_text p)) ?pairs))"
    and left: "vp_left_items visible = map (\<lambda>(i, p). (left_key i, mp_left_text p)) (enum_from 1 ?pairs)"
    and right: "vp_right_items visible = fst (shuffle_list rng r ?right)"
    and matches: "gp_matches grading = map (\<lambda>(i, p). (left_key i, right_key i)) (enum_from 1 ?pairs)"
    using assms(2)
    by (auto simp: build_matching_payload_def Let_def bindR_Inr_iff
        validate_matching_configuration_iff [simplified])
  have len: "length ?pairs = length (qn_matching_pairs question)" by simp
  have fst_map: "map fst (map (\<lambda>(i, p). (f i, g p)) zs) = map (\<lambda>(i, p). f i) zs"
    for f :: "nat \<Rightarrow> string" and g :: "MatchingPair \<Rightarrow> string" and zs
    by (simp add: case_prod_beta comp_def)
  show 1: "map fst (vp_left_items visible) = map left_key [1 ..< 1 + length (qn_matching_pairs question)]"
    unfolding left fst_map map_index_enum_from len ..
  have "map fst (gp_matches grading) = map (\<lambda>(i, p). left_key i) (enum_from 1 ?pairs)"
    unfolding matches by (simp add: case_prod_beta comp_def)
  then show "map fst (gp_matches grading) = map fst (vp_left_items visible)"
    unfolding 1 map_index_enum_from len .
  have "map snd (gp_matches grading) = map (\<lambda>(i, p). right_key i) (enum_from 1 ?pairs)"
    unfolding matches by (simp add: case_prod_beta comp_def)
  then show 3: "map snd (gp_matches grading) = map right_key [1 ..< 1 + length (qn_matching_pairs question)]"
    unfolding map_index_enum_from len .
  have "mset (map fst (vp_right_items visible)) = mset (map fst ?right)"
    unfolding right mset_map mset_shuffle_list [OF assms(1)] ..
  also have "\<dots> = mset (map snd (gp_matches grading))"
    unfolding 3 fst_map map_index_enum_from len ..
  finally show "mset (map fst (vp_right_items visible)) = mset (map snd (gp_matches grading))" .
  have "length (prepare_pairs xs) \<le> length xs" for xs
    unfolding prepare_pairs_def by (metis length_filter_le length_map)
  from this [of "map (\<lambda>p. (mp_left_text p, mp_right_text p)) ?pairs"] two
  show "2 \<le> length (qn_matching_pairs question)" by simp
qed

lemma build_ordering_payload_Inr:
  assumes "random_ok rng" and "build_ordering_payload casefold rng r question = Inr (visible, grading)"
  shows "gp_correct_order grading = map item_key [1 ..< 1 + length (qn_ordering_items question)]"
    and "mset (map fst (vp_items visible)) = mset (gp_correct_order grading)"
    and "3 \<le> length (qn_ordering_items question)"
proof -
  let ?items = "sort_key (\<lambda>i. (oi_order i, oi_id i)) (qn_ordering_items question)"
  let ?shown = "map (\<lambda>(i, it). (item_key i, oi_text it)) (enum_from 1 ?items)"
  have valid: "validate_ordering_configuration casefold (map oi_text ?items) = Inr ()"
    and vis: "vp_items visible = fst (shuffle_list rng r ?shown)"
    and order: "gp_correct_order grading = map (\<lambda>(i, it). item_key i) (enum_from 1 ?items)"
    using assms(2)
    by (auto simp: build_ordering_payload_def Let_def bindR_Inr_iff)
  from valid have three: "3 \<le> length (filter (\<lambda>text. text \<noteq> []) (map normalize_text (map oi_text ?items)))"
    unfolding validate_ordering_configuration_iff ..
  have len: "length ?items = length (qn_ordering_items question)" by simp
  show "gp_correct_order grading = map item_key [1 ..< 1 + length (qn_ordering_items question)]"
    unfolding order map_index_enum_from len ..
  have "mset (map fst (vp_items visible)) = mset (map fst ?shown)"
    unfolding vis mset_map mset_shuffle_list [OF assms(1)] ..
  also have "map fst ?shown = gp_correct_order grading"
    unfolding order by (simp add: case_prod_beta comp_def)
  finally show "mset (map fst (vp_items visible)) = mset (gp_correct_order grading)" .
  have "length (filter P (map normalize_text (map oi_text ?items))) \<le> length (qn_ordering_items question)" for P
    by (metis len length_filter_le length_map)
  with three show "3 \<le> length (qn_ordering_items question)" by (meson order_trans)
qed

lemma distinct_key_range: "inj f \<Longrightarrow> distinct (map f [m ..< n])"
  by (simp add: distinct_map inj_on_subset [OF _ subset_UNIV])

lemma matching_roundtrip:
  assumes ok: "random_ok rng"
    and built: "build_matching_payload casefold rng r question = Inr (visible, grading)"
    and d: "sd_visible_payload d = visible" "sd_grading_payload d = grading"
      "sd_question_type d = MATCHING"
    and small: "length (qn_matching_pairs question) \<le> 200"
  shows "grade_snapshot_answer d (correct_response d) = Inr HUNDRED"
proof -
  note b = build_matching_payload_Inr [OF ok built]
  let ?m = "map (\<lambda>(l, r). (l, JStr r)) (gp_matches grading)"
  have fst_m: "map fst ?m = map fst (gp_matches grading)" by (simp add: case_prod_beta comp_def)
  have left: "distinct (map fst (vp_left_items visible))" unfolding b(2) by (rule distinct_key_range) simp
  have right: "distinct (map fst (vp_right_items visible))"
    using b(3,4) distinct_key_range [OF inj_keys(3)] by (metis mset_eq_imp_distinct_iff)
  have lookup: "map_of ?m k = map_option JStr (map_of (gp_matches grading) k)" for k
    by (induction "gp_matches grading") (auto simp: map_of_map comp_def)
  have len: "length (vp_left_items visible) = length (qn_matching_pairs question)"
    using arg_cong [OF b(2), of length] by (simp del: upt_Suc)
  have "grade_snapshot_answer d (JObj [(''matches'', JObj ?m)]) = Inr HUNDRED"
    by (subst matching_full_score)
      (use b d left right lookup fst_m small len in \<open>auto simp del: map_map\<close>)
  then show ?thesis by (simp add: correct_response_def d)
qed

lemma ordering_roundtrip:
  assumes ok: "random_ok rng"
    and built: "build_ordering_payload casefold rng r question = Inr (visible, grading)"
    and d: "sd_grading_payload d = grading" "sd_question_type d = ORDERING"
    and small: "length (qn_ordering_items question) \<le> 200"
  shows "grade_snapshot_answer d (correct_response d) = Inr HUNDRED"
proof -
  note b = build_ordering_payload_Inr [OF ok built]
  have "distinct (gp_correct_order grading)" unfolding b(1) by (rule distinct_key_range) simp
  moreover have "length (gp_correct_order grading) = length (qn_ordering_items question)"
    unfolding b(1) by (simp del: upt_Suc)
  ultimately show ?thesis
    using ordering_full_score [of d "gp_correct_order grading"] d small b(3)
    by (simp add: correct_response_def)
qed

section \<open>What the visible payload gives away\<close>

text \<open>
  An employee who reads the keys of the page's form fields, and nothing else, can build this
  response: the numbers in the keys are the positions in the author's correct order.
\<close>

definition response_from_keys :: "QuestionType \<Rightarrow> VisiblePayload \<Rightarrow> json" where
  "response_from_keys t visible =
     (if t = MATCHING
      then JObj [(''matches'', JObj (map (\<lambda>i. (left_key i, JStr (right_key i)))
             [1 ..< 1 + length (vp_left_items visible)]))]
      else JObj [(''order'', JArr (map (\<lambda>i. JStr (item_key i)) [1 ..< 1 + length (vp_items visible)]))])"

lemma response_from_keys_matching:
  assumes ok: "random_ok rng"
    and built: "build_matching_payload casefold rng r question = Inr (visible, grading)"
    and d: "sd_visible_payload d = visible" "sd_grading_payload d = grading" "sd_question_type d = MATCHING"
  shows "response_from_keys MATCHING visible = correct_response d"
proof -
  note b = build_matching_payload_Inr [OF ok built]
  have len: "length (vp_left_items visible) = length (qn_matching_pairs question)"
    using arg_cong [OF b(2), of length] by (simp del: upt_Suc)
  have "gp_matches grading = zip (map fst (gp_matches grading)) (map snd (gp_matches grading))"
    by (simp add: zip_map_fst_snd)
  also have "\<dots> = map (\<lambda>i. (left_key i, right_key i)) [1 ..< 1 + length (qn_matching_pairs question)]"
    unfolding b(1) b(2) b(3) zip_map_map by (simp add: zip_same_conv_map del: upt_Suc)
  finally show ?thesis
    by (simp add: response_from_keys_def correct_response_def d len del: upt_Suc)
qed

lemma response_from_keys_ordering:
  assumes ok: "random_ok rng"
    and built: "build_ordering_payload casefold rng r question = Inr (visible, grading)"
    and d: "sd_grading_payload d = grading" "sd_question_type d = ORDERING"
  shows "response_from_keys ORDERING visible = correct_response d"
proof -
  note b = build_ordering_payload_Inr [OF ok built]
  have "length (vp_items visible) = length (gp_correct_order grading)"
    using b(2) by (metis length_map mset_eq_length)
  also have "\<dots> = length (qn_ordering_items question)" unfolding b(1) by (simp del: upt_Suc)
  finally show ?thesis
    by (simp add: response_from_keys_def correct_response_def d b(1) comp_def del: upt_Suc)
qed

section \<open>Independence of the visible options from the correct ones\<close>

text \<open>What is read off a sorted list depends on the sort keys and what is read only.\<close>

lemma sorted_projection_cong:
  assumes "map (\<lambda>x. (k x, t x)) xs = map (\<lambda>x. (k x, t x)) ys"
  shows "map t (sort_key k xs) = map t (sort_key k ys)"
proof -
  have "map t (sort_key k zs) = map snd (sort_key fst (map (\<lambda>x. (k x, t x)) zs))" for zs
    using map_sort_key [of "\<lambda>x. (k x, t x)" fst zs, symmetric] by (simp add: comp_def)
  with assms show ?thesis by metis
qed

lemma keyed_by_text:
  "map (\<lambda>(i, x). (f i, g x)) (enum_from n xs) = map (\<lambda>(i, y). (f i, y)) (enum_from n (map g xs))"
  by (induction xs arbitrary: n) auto

lemma choice_visible_eq:
  assumes ok: "random_ok rng"
    and "build_choice_payload casefold rng r do_shuffle question = Inr (visible, grading)"
  shows "visible = empty_visible\<lparr>vp_options :=
    (let texts = map op_text (sort_key (\<lambda>o'. (op_order o', op_id o')) (qn_answer_options question));
         shown = (if do_shuffle then fst (shuffle_list rng r texts) else texts)
     in map (\<lambda>(i, y). (option_key i, y)) (enum_from 1 shown))\<rparr>"
  using assms
  by (auto simp: build_choice_payload_def Let_def bindR_Inr_iff keyed_by_text [of option_key op_text]
      map_shuffle_list)

section \<open>Properties of frozen questions\<close>

text \<open>The example question can be frozen with every answer type but multiple choice.\<close>

definition demo_swapped :: "pk \<Rightarrow> Question" where
  "demo_swapped i = (demo_question i SINGLE_CHOICE)\<lparr>qn_answer_options :=
     [\<lparr>op_id = 1, op_text = ''a'', op_is_correct = False, op_order = 0\<rparr>,
      \<lparr>op_id = 2, op_text = ''b'', op_is_correct = True, op_order = 1\<rparr>]\<rparr>"

definition builds :: "Question \<Rightarrow> bool" where
  "builds q = (case build_question_snapshot_data id first_random (\<lambda>_. ()) ''seed'' True q of
     Inl _ \<Rightarrow> False | Inr _ \<Rightarrow> True)"

lemma builds_iff:
  "builds q \<longleftrightarrow> (\<exists>d. build_question_snapshot_data id first_random (\<lambda>_. ()) ''seed'' True q = Inr d)"
  by (auto simp: builds_def split: sum.splits)

lemma demo_question_builds:
  "\<exists>d. build_question_snapshot_data id first_random (\<lambda>_. ()) ''seed'' True (demo_question 1 SINGLE_CHOICE) = Inr d"
  "\<exists>d. build_question_snapshot_data id first_random (\<lambda>_. ()) ''seed'' True (demo_question 1 MATCHING) = Inr d"
  "\<exists>d. build_question_snapshot_data id first_random (\<lambda>_. ()) ''seed'' True (demo_question 1 ORDERING) = Inr d"
  unfolding builds_iff [symmetric] by code_simp+

lemma demo_swapped_builds:
  "\<exists>d. build_question_snapshot_data id first_random (\<lambda>_. ()) ''seed'' True (demo_swapped 1) = Inr d"
  unfolding builds_iff [symmetric] by code_simp

text \<open>
  C4. Freezing a question never breaks it: the response that the frozen grading payload asks for
  is graded 100 percent, for every question type, whatever the generator draws. (A single choice
  question must not have blank options: the validator skips those and the payload does not.)
\<close>

theorem snapshot_roundtrip:
  assumes ok: "random_ok rng"
    and built: "build_question_snapshot_data casefold rng seed_random seed shuffled question = Inr d"
    and no_blank: "qn_answer_type question = SINGLE_CHOICE \<Longrightarrow>
      \<forall>o' \<in> set (qn_answer_options question). \<not> blank (op_text o')"
    and small: "length (qn_matching_pairs question) \<le> 200" "length (qn_ordering_items question) \<le> 200"
  shows "grade_snapshot_answer d (correct_response d) = Inr HUNDRED"
proof -
  let ?r = "build_question_random seed_random seed (qn_id question)"
  have type: "sd_question_type d = qn_answer_type question"
    using built
    by (auto simp: build_question_snapshot_data_def Let_def bindR_Inr_iff
        build_common_snapshot_data_def split: QuestionType.splits)
  note simps = build_question_snapshot_data_def Let_def bindR_Inr_iff
    grade_snapshot_answer_def correct_response_def
  show ?thesis
  proof (cases "qn_answer_type question")
    case SINGLE_CHOICE
    with built no_blank choice_roundtrip [OF ok, of casefold ?r shuffled question] type
    show ?thesis by (auto simp: simps)
  next
    case MULTIPLE_CHOICE
    with built choice_roundtrip [OF ok, of casefold ?r shuffled question] type
    show ?thesis by (auto simp: simps)
  next
    case MATCHING
    with built obtain visible grading where
      "build_matching_payload casefold rng ?r question = Inr (visible, grading)"
      "sd_visible_payload d = visible" "sd_grading_payload d = grading"
      by (auto simp: build_question_snapshot_data_def Let_def bindR_Inr_iff)
    with MATCHING type small show ?thesis by (intro matching_roundtrip [OF ok]) auto
  next
    case ORDERING
    with built obtain visible grading where
      "build_ordering_payload casefold rng ?r question = Inr (visible, grading)"
      "sd_grading_payload d = grading"
      by (auto simp: build_question_snapshot_data_def Let_def bindR_Inr_iff)
    with ORDERING type small show ?thesis by (intro ordering_roundtrip [OF ok]) auto
  next
    case LINE_SELECTION
    with built line_selection_roundtrip [of casefold question] type
    show ?thesis by (auto simp: simps)
  next
    case (OTHER_TYPE t)
    with built show ?thesis by (simp add: build_question_snapshot_data_def)
  qed
qed

theorem snapshot_roundtrip_witness:
  "\<exists>d. build_question_snapshot_data id first_random (\<lambda>_. ()) ''seed'' True (demo_question 1 MATCHING)
      = Inr d \<and> grade_snapshot_answer d (correct_response d) = Inr HUNDRED"
proof -
  obtain d where d: "build_question_snapshot_data id first_random (\<lambda>_. ()) ''seed'' True
      (demo_question 1 MATCHING) = Inr d"
    using demo_question_builds(2) by blast
  show ?thesis
    by (intro exI [of _ d] conjI d snapshot_roundtrip [OF first_random_ok d])
      (simp_all add: demo_question_def)
qed

text \<open>
  The options shown for a choice question do not depend on which of them are correct: two
  questions that differ only in the correct flags show the employee the same payload.
\<close>

theorem visible_options_independent:
  assumes "random_ok rng"
    and "build_question_snapshot_data casefold rng seed_random seed shuffled question = Inr d"
    and "build_question_snapshot_data casefold rng seed_random seed shuffled question' = Inr d'"
    and "qn_answer_type question \<in> {SINGLE_CHOICE, MULTIPLE_CHOICE}"
    and "qn_answer_type question' \<in> {SINGLE_CHOICE, MULTIPLE_CHOICE}"
    and "qn_id question' = qn_id question"
    and "map (\<lambda>o'. ((op_order o', op_id o'), op_text o')) (qn_answer_options question') =
         map (\<lambda>o'. ((op_order o', op_id o'), op_text o')) (qn_answer_options question)"
  shows "sd_visible_payload d' = sd_visible_payload d"
proof -
  let ?r = "build_question_random seed_random seed (qn_id question)"
  have texts: "map op_text (sort_key (\<lambda>o'. (op_order o', op_id o')) (qn_answer_options question')) =
      map op_text (sort_key (\<lambda>o'. (op_order o', op_id o')) (qn_answer_options question))"
    using assms(7) by (rule sorted_projection_cong)
  obtain g where g: "build_choice_payload casefold rng ?r shuffled question = Inr (sd_visible_payload d, g)"
    using assms(2,4) by (auto simp: build_question_snapshot_data_def Let_def bindR_Inr_iff)
  obtain g' where
    g': "build_choice_payload casefold rng ?r shuffled question' = Inr (sd_visible_payload d', g')"
    using assms(3,5,6) by (auto simp: build_question_snapshot_data_def Let_def bindR_Inr_iff)
  show ?thesis
    unfolding choice_visible_eq [OF assms(1) g] choice_visible_eq [OF assms(1) g'] texts ..
qed

theorem visible_options_independent_witness:
  "\<exists>d d'. build_question_snapshot_data id first_random (\<lambda>_. ()) ''seed'' True
        (demo_question 1 SINGLE_CHOICE) = Inr d \<and>
     build_question_snapshot_data id first_random (\<lambda>_. ()) ''seed'' True
        (demo_swapped 1) = Inr d' \<and> sd_visible_payload d' = sd_visible_payload d"
proof -
  obtain d d' where d: "build_question_snapshot_data id first_random (\<lambda>_. ()) ''seed'' True
      (demo_question 1 SINGLE_CHOICE) = Inr d"
    and d': "build_question_snapshot_data id first_random (\<lambda>_. ()) ''seed'' True
      (demo_swapped 1) = Inr d'"
    using demo_question_builds(1) demo_swapped_builds by blast
  show ?thesis
    by (intro exI [of _ d] exI [of _ d'] conjI d d' visible_options_independent
        [OF first_random_ok d d']) (simp_all add: demo_question_def demo_swapped_def)
qed

text \<open>
  C22. For matching and ordering questions the keys the employee's page receives number the items
  by the author's correct order, so the response read off the visible payload alone always earns
  100 percent: these two question types leak their answers to the browser.
\<close>

theorem visible_keys_reveal_answer:
  assumes ok: "random_ok rng"
    and built: "build_question_snapshot_data casefold rng seed_random seed shuffled question = Inr d"
    and type: "qn_answer_type question \<in> {MATCHING, ORDERING}"
    and small: "length (qn_matching_pairs question) \<le> 200" "length (qn_ordering_items question) \<le> 200"
  shows "grade_snapshot_answer d
    (response_from_keys (sd_question_type d) (sd_visible_payload d)) = Inr HUNDRED"
proof (cases "qn_answer_type question = MATCHING")
  case True
  with built obtain visible grading where b:
    "build_matching_payload casefold rng (build_question_random seed_random seed (qn_id question)) question
       = Inr (visible, grading)"
    and d: "sd_visible_payload d = visible" "sd_grading_payload d = grading" "sd_question_type d = MATCHING"
    by (auto simp: build_question_snapshot_data_def Let_def bindR_Inr_iff build_common_snapshot_data_def)
  from matching_roundtrip [OF ok b d small(1)] response_from_keys_matching [OF ok b d] d
  show ?thesis by simp
next
  case False
  with type built obtain visible grading where b:
    "build_ordering_payload casefold rng (build_question_random seed_random seed (qn_id question)) question
       = Inr (visible, grading)"
    and d: "sd_grading_payload d = grading" "sd_question_type d = ORDERING"
    and v: "sd_visible_payload d = visible"
    by (auto simp: build_question_snapshot_data_def Let_def bindR_Inr_iff build_common_snapshot_data_def)
  from ordering_roundtrip [OF ok b d small(2)] response_from_keys_ordering [OF ok b d] d v
  show ?thesis by simp
qed

theorem visible_keys_reveal_answer_witness:
  "\<exists>d. build_question_snapshot_data id first_random (\<lambda>_. ()) ''seed'' True (demo_question 1 ORDERING)
      = Inr d \<and>
     grade_snapshot_answer d (response_from_keys (sd_question_type d) (sd_visible_payload d)) = Inr HUNDRED"
proof -
  obtain d where d: "build_question_snapshot_data id first_random (\<lambda>_. ()) ''seed'' True
      (demo_question 1 ORDERING) = Inr d"
    using demo_question_builds(3) by blast
  show ?thesis
    by (intro exI [of _ d] conjI d visible_keys_reveal_answer [OF first_random_ok d])
      (simp_all add: demo_question_def)
qed

end
