(* ===== verification/Exam_Flow.thy ===== *)
theory Exam_Flow
  imports Question_Selection Question_Snapshot
begin

text \<open>
  The life of an exam attempt (\<^verbatim>\<open>assessment/services/attempts.py\<close>,
  \<^verbatim>\<open>answers.py\<close>, \<^verbatim>\<open>question_flow.py\<close>): starting an attempt against an assignment,
  opening the current question, timing it out, and submitting answers. Every operation runs on
  the tables of \<open>exam_db\<close>; rows are kept in the order they were created. The unique constraints
  of the models are part of the row-creating operations and raise \<^verbatim>\<open>IntegrityError\<close>.

  \<open>now\<close> is the resolved value of the optional argument; \<open>token\<close> is what
  \<^verbatim>\<open>secrets.token_hex\<close> returns when no seed is given.
\<close>

section \<open>Rows\<close>

definition get_assignment :: "pk \<Rightarrow> (exam_db, ExamAssignment) op" where
  "get_assignment i = (\<lambda>db. case List.find (\<lambda>a. as_id a = i) (db_assignments db) of
     None \<Rightarrow> (Inl DoesNotExist, db) | Some a \<Rightarrow> (Inr a, db))"

definition get_attempt :: "pk \<Rightarrow> (exam_db, ExamAttempt) op" where
  "get_attempt i = (\<lambda>db. case List.find (\<lambda>t. at_id t = i) (db_attempts db) of
     None \<Rightarrow> (Inl DoesNotExist, db) | Some t \<Rightarrow> (Inr t, db))"

definition get_snapshot :: "pk \<Rightarrow> (exam_db, ExamQuestionSnapshot) op" where
  "get_snapshot i = (\<lambda>db. case List.find (\<lambda>s. sn_id s = i) (db_snapshots db) of
     None \<Rightarrow> (Inl DoesNotExist, db) | Some s \<Rightarrow> (Inr s, db))"

definition assignment_attempts :: "exam_db \<Rightarrow> pk \<Rightarrow> ExamAttempt list" where
  "assignment_attempts db i = filter (\<lambda>t. at_assignment_id t = i) (db_attempts db)"

definition attempt_snapshots :: "exam_db \<Rightarrow> pk \<Rightarrow> ExamQuestionSnapshot list" where
  "attempt_snapshots db i = filter (\<lambda>s. sn_attempt_id s = i) (db_snapshots db)"

definition answer_of :: "exam_db \<Rightarrow> pk \<Rightarrow> ExamAnswer option" where
  "answer_of db i = List.find (\<lambda>a. an_snapshot_id a = i) (db_answers db)"

text \<open>Unique per assignment: the attempt number.\<close>

definition create_attempt :: "ExamAttempt \<Rightarrow> (exam_db, ExamAttempt) op" where
  "create_attempt attempt = (\<lambda>db.
     if \<exists>t \<in> set (db_attempts db). at_assignment_id t = at_assignment_id attempt \<and>
          at_attempt_number t = at_attempt_number attempt
       then (Inl IntegrityError, db)
     else let row = attempt\<lparr>at_id := fresh_pk (map at_id (db_attempts db))\<rparr>
       in (Inr row, db\<lparr>db_attempts := db_attempts db @ [row]\<rparr>))"

text \<open>Unique per attempt: the position.\<close>

definition create_snapshot :: "pk \<Rightarrow> nat \<Rightarrow> SnapshotData \<Rightarrow> (exam_db, unit) op" where
  "create_snapshot attempt_id position data = (\<lambda>db.
     if \<exists>s \<in> set (db_snapshots db). sn_attempt_id s = attempt_id \<and> sn_position s = position
       then (Inl IntegrityError, db)
     else (Inr (), db\<lparr>db_snapshots := db_snapshots db @
       [\<lparr>sn_id = fresh_pk (map sn_id (db_snapshots db)), sn_attempt_id = attempt_id,
         sn_position = position, sn_started_at = None, sn_data = data\<rparr>]\<rparr>))"

text \<open>Unique: the snapshot (a one-to-one field).\<close>

definition create_answer :: "ExamAnswer \<Rightarrow> (exam_db, ExamAnswer) op" where
  "create_answer answer = (\<lambda>db.
     if answer_of db (an_snapshot_id answer) \<noteq> None then (Inl IntegrityError, db)
     else (Inr answer, db\<lparr>db_answers := db_answers db @ [answer]\<rparr>))"

definition save_answer :: "ExamAnswer \<Rightarrow> (exam_db, unit) op" where
  "save_answer answer = modify_db (\<lambda>db. db\<lparr>db_answers :=
     map (\<lambda>a. if an_snapshot_id a = an_snapshot_id answer then answer else a) (db_answers db)\<rparr>)"

definition save_started_at :: "pk \<Rightarrow> time \<Rightarrow> (exam_db, unit) op" where
  "save_started_at i t = modify_db (\<lambda>db. db\<lparr>db_snapshots :=
     map (\<lambda>s. if sn_id s = i then s\<lparr>sn_started_at := Some t\<rparr> else s) (db_snapshots db)\<rparr>)"

section \<open>Starting an attempt\<close>

definition validate_assignment_for_start :: "ExamAssignment \<Rightarrow> time \<Rightarrow> unit result" where
  "validate_assignment_for_start assignment now =
     (let campaign = as_campaign assignment;
          blueprint = cp_blueprint campaign;
          employee = as_employee assignment
      in if \<not> as_is_active assignment then Inl (ValidationError ''assignment_inactive'')
         else if \<not> pr_is_active employee then Inl (ValidationError ''employee_inactive'')
         else if pr_level employee \<noteq> bp_level blueprint then Inl (ValidationError ''level_mismatch'')
         else if \<not> cp_is_active campaign then Inl (ValidationError ''campaign_inactive'')
         else if \<not> bp_is_active blueprint then Inl (ValidationError ''blueprint_inactive'')
         else if (case cp_opens_at campaign of None \<Rightarrow> False | Some t \<Rightarrow> now < t)
           then Inl (ValidationError ''not_open_yet'')
         else if (case cp_closes_at campaign of None \<Rightarrow> False | Some t \<Rightarrow> t \<le> now)
           then Inl (ValidationError ''already_closed'')
         else Inr ())"

text \<open>The in-progress attempt with the highest number.\<close>

definition existing_in_progress :: "exam_db \<Rightarrow> pk \<Rightarrow> ExamAttempt option" where
  "existing_in_progress db i =
     (case sort_key (\<lambda>t. - int (at_attempt_number t))
         (filter (\<lambda>t. at_status t = IN_PROGRESS) (assignment_attempts db i)) of
        [] \<Rightarrow> None | t # _ \<Rightarrow> Some t)"

text \<open>The loop over the selected questions.\<close>

fun create_snapshots ::
    "(string \<Rightarrow> string) \<Rightarrow> 'r py_random \<Rightarrow> (string \<Rightarrow> 'r) \<Rightarrow> string \<Rightarrow> bool \<Rightarrow> pk
     \<Rightarrow> (nat \<times> Question) list \<Rightarrow> (exam_db, unit) op" where
  "create_snapshots casefold rng seed_random seed shuffled attempt_id [] = ret ()"
| "create_snapshots casefold rng seed_random seed shuffled attempt_id ((position, question) # rest) =
     andthen (lift_result (build_question_snapshot_data casefold rng seed_random seed shuffled question))
       (\<lambda>data. andthen (create_snapshot attempt_id position data)
       (\<lambda>_. create_snapshots casefold rng seed_random seed shuffled attempt_id rest))"

definition start_exam_attempt ::
    "(string \<Rightarrow> string) \<Rightarrow> 'r py_random \<Rightarrow> (string \<Rightarrow> 'r) \<Rightarrow> string \<Rightarrow> pk \<Rightarrow> string option \<Rightarrow> time
     \<Rightarrow> (exam_db, ExamAttempt \<times> bool) op" where
  "start_exam_attempt casefold rng seed_random token assignment_id seed now =
     atomic (andthen (get_assignment assignment_id) (\<lambda>assignment. andthen get_db (\<lambda>db.
       case existing_in_progress db (as_id assignment) of
         Some existing_attempt \<Rightarrow> ret (existing_attempt, False)
       | None \<Rightarrow>
           andthen (lift_result (validate_assignment_for_start assignment now)) (\<lambda>_.
           let attempts = assignment_attempts db (as_id assignment);
               attempt_count = length attempts;
               last_attempt_number = fold max (map at_attempt_number attempts) 0;
               selection_seed = (case seed of Some s \<Rightarrow> s | None \<Rightarrow> token);
               campaign = as_campaign assignment;
               blueprint = cp_blueprint campaign
           in if as_attempt_limit assignment \<le> attempt_count
                then raise (ValidationError ''no_attempts_left'')
              else
                andthen (lift_result (select_questions_for_blueprint rng seed_random
                  (db_questions db) blueprint selection_seed)) (\<lambda>selected_questions.
                andthen (create_attempt
                  \<lparr>at_id = 0, at_assignment_id = as_id assignment,
                   at_attempt_number = last_attempt_number + 1, at_status = IN_PROGRESS,
                   at_selection_seed = selection_seed, at_campaign_name = cp_name campaign,
                   at_blueprint_name = bp_name blueprint, at_level = bp_level blueprint,
                   at_pass_percentage = bp_pass_percentage blueprint,
                   at_allow_back_navigation = bp_allow_back_navigation blueprint,
                   at_shuffle_questions = bp_shuffle_questions blueprint,
                   at_shuffle_answer_options = bp_shuffle_answer_options blueprint,
                   at_completed_at = None\<rparr>) (\<lambda>attempt.
                andthen (create_snapshots casefold rng seed_random selection_seed
                  (bp_shuffle_answer_options blueprint) (at_id attempt)
                  (enum_from 1 selected_questions)) (\<lambda>_.
                ret (attempt, True))))))))"

section \<open>Submitting an answer\<close>

definition get_question_deadline :: "ExamQuestionSnapshot \<Rightarrow> time option" where
  "get_question_deadline snapshot =
     map_option (\<lambda>t. t + 1000000 * int (sd_time_limit_seconds (sn_data snapshot)))
       (sn_started_at snapshot)"

text \<open>\<^verbatim>\<open>max(0, int((now - started_at).total_seconds()))\<close>.\<close>

definition elapsed_seconds :: "time \<Rightarrow> time \<Rightarrow> nat" where
  "elapsed_seconds started_at now = (if now < started_at then 0 else nat ((now - started_at) div 1000000))"

definition submit_exam_answer ::
    "pk \<Rightarrow> json \<Rightarrow> time \<Rightarrow> (exam_db, ExamAnswer \<times> bool) op" where
  "submit_exam_answer snapshot_id response_payload now =
     atomic (andthen (get_snapshot snapshot_id) (\<lambda>snapshot.
       andthen (get_attempt (sn_attempt_id snapshot)) (\<lambda>attempt. andthen get_db (\<lambda>db.
       if at_status attempt \<noteq> IN_PROGRESS then raise (ValidationError ''attempt_not_active'')
       else case sn_started_at snapshot of
         None \<Rightarrow> raise (ValidationError ''question_not_opened'')
       | Some started_at \<Rightarrow>
           let limit = sd_time_limit_seconds (sn_data snapshot);
               deadline = started_at + 1000000 * int limit
           in case answer_of db (sn_id snapshot) of
             Some existing_answer \<Rightarrow>
               if \<not> at_allow_back_navigation attempt
                 then raise (ValidationError ''answer_already_sent'')
               else if deadline \<le> now then raise (ValidationError ''question_time_over'')
               else andthen (lift_result (grade_snapshot_answer (sn_data snapshot) response_payload))
                 (\<lambda>score. let answer = existing_answer
                    \<lparr>an_response_payload := response_payload, an_score_percentage := score,
                     an_is_correct := (score = HUNDRED), an_timed_out := False,
                     an_response_time_seconds := elapsed_seconds started_at now\<rparr>
                  in andthen (save_answer answer) (\<lambda>_. ret (answer, False)))
           | None \<Rightarrow>
               let timed_out = (deadline \<le> now);
                   response_time_seconds = min (elapsed_seconds started_at now) limit
               in andthen (lift_result (if timed_out then Inr 0
                    else grade_snapshot_answer (sn_data snapshot) response_payload)) (\<lambda>score.
                  andthen (create_answer
                    \<lparr>an_snapshot_id = sn_id snapshot,
                     an_response_payload = (if timed_out then JObj [] else response_payload),
                     an_score_percentage = score,
                     an_is_correct = (\<not> timed_out \<and> score = HUNDRED), an_timed_out = timed_out,
                     an_response_time_seconds = response_time_seconds\<rparr>) (\<lambda>answer.
                  ret (answer, True)))))))"

section \<open>Moving through the questions\<close>

definition unanswered_snapshots :: "exam_db \<Rightarrow> pk \<Rightarrow> ExamQuestionSnapshot list" where
  "unanswered_snapshots db attempt_id =
     filter (\<lambda>s. answer_of db (sn_id s) = None) (attempt_snapshots db attempt_id)"

definition get_current_question :: "exam_db \<Rightarrow> pk \<Rightarrow> ExamQuestionSnapshot option" where
  "get_current_question db attempt_id =
     (case sort_key sn_position (unanswered_snapshots db attempt_id) of [] \<Rightarrow> None | s # _ \<Rightarrow> Some s)"

lemma get_current_question_Some:
  "get_current_question db i = Some s \<Longrightarrow>
     s \<in> set (attempt_snapshots db i) \<and> answer_of db (sn_id s) = None"
proof -
  assume a: "get_current_question db i = Some s"
  then obtain ss where "sort_key sn_position (unanswered_snapshots db i) = s # ss"
    by (auto simp: get_current_question_def split: list.splits)
  then have "s \<in> set (sort_key sn_position (unanswered_snapshots db i))" by simp
  then show ?thesis by (simp add: unanswered_snapshots_def)
qed

lemma get_current_question_None_iff: "get_current_question db i = None \<longleftrightarrow> unanswered_snapshots db i = []"
  by (auto simp: get_current_question_def split: list.splits)
    (metis length_0_conv length_sort)+

text \<open>What a submission does when the question has no answer yet.\<close>

lemma find_Some_split: "List.find P xs = Some x \<Longrightarrow> P x \<and> x \<in> set xs"
  by (auto dest: find_Some_member)

lemma submit_unanswered_Inr:
  assumes "submit_exam_answer i payload now db = (Inr (answer, created), db')"
    and "answer_of db i = None"
  shows "db' = db\<lparr>db_answers := db_answers db @ [answer]\<rparr>" and "an_snapshot_id answer = i" and created
  using assms
  by (auto simp: submit_exam_answer_def atomic_Inr_iff andthen_Inr_iff get_snapshot_def get_attempt_def
      op_apply create_answer_def Let_def dest!: find_Some_split
      split: option.splits if_splits)

lemma answer_of_append:
  "answer_of (db\<lparr>db_answers := db_answers db @ [a]\<rparr>) i =
     (case answer_of db i of Some b \<Rightarrow> Some b | None \<Rightarrow> if an_snapshot_id a = i then Some a else None)"
proof -
  have "List.find P (xs @ [a]) = (case List.find P xs of Some b \<Rightarrow> Some b | None \<Rightarrow> if P a then Some a else None)" for P xs
    by (induction xs) auto
  then show ?thesis by (simp add: answer_of_def)
qed

lemma submit_decreases:
  assumes current: "get_current_question db i = Some s"
    and submit: "submit_exam_answer (sn_id s) payload now db = (Inr r, db')"
  shows "length (unanswered_snapshots db' i) < length (unanswered_snapshots db i)"
proof -
  obtain answer created where r: "r = (answer, created)" by fastforce
  note s = get_current_question_Some [OF current]
  from submit_unanswered_Inr [OF submit [unfolded r]] s
  have db': "db' = db\<lparr>db_answers := db_answers db @ [answer]\<rparr>" "an_snapshot_id answer = sn_id s"
    by simp_all
  have "unanswered_snapshots db' i = filter (\<lambda>x. sn_id x \<noteq> sn_id s) (unanswered_snapshots db i)"
    unfolding unanswered_snapshots_def filter_filter attempt_snapshots_def
    by (rule filter_cong) (auto simp: db' answer_of_append split: option.splits)
  moreover have "s \<in> set (unanswered_snapshots db i)" using s by (simp add: unanswered_snapshots_def)
  ultimately show ?thesis by (simp add: length_filter_less [of s])
qed

text \<open>
  The \<^verbatim>\<open>while True\<close> loop of \<^verbatim>\<open>open_current_question\<close>: it ends because every round
  that does not return answers one more question.
\<close>

function open_loop :: "pk \<Rightarrow> time \<Rightarrow> exam_db \<Rightarrow> ExamQuestionSnapshot option result \<times> exam_db" where
  "open_loop attempt_id now db =
     (case get_current_question db attempt_id of
        None \<Rightarrow> (Inr None, db)
      | Some snapshot \<Rightarrow>
          (case get_question_deadline snapshot of
             None \<Rightarrow> andthen (save_started_at (sn_id snapshot) now)
               (\<lambda>_. ret (Some (snapshot\<lparr>sn_started_at := Some now\<rparr>))) db
           | Some deadline \<Rightarrow>
               if now < deadline then (Inr (Some snapshot), db)
               else (case submit_exam_answer (sn_id snapshot) (JObj []) now db of
                 (Inl e, db') \<Rightarrow> (Inl e, db')
               | (Inr _, db') \<Rightarrow> open_loop attempt_id now db')))"
  by pat_completeness auto
termination
  by (relation "measure (\<lambda>(i, _, db). length (unanswered_snapshots db i))")
    (auto dest: submit_decreases [OF _ sym])

declare open_loop.simps [simp del]

definition open_current_question :: "pk \<Rightarrow> time \<Rightarrow> (exam_db, ExamQuestionSnapshot option) op" where
  "open_current_question attempt_id now =
     atomic (andthen (get_attempt attempt_id) (\<lambda>attempt.
       if at_status attempt \<noteq> IN_PROGRESS then ret None
       else open_loop (at_id attempt) now))"

end
