(* ===== verification/Exam_Results.thy ===== *)
theory Exam_Results
  imports Exam_Flow
begin

text \<open>
  Completing an attempt (\<^verbatim>\<open>assessment/services/results.py\<close>): the average of the answers'
  scores, the breakdown per topic and skill, and the result row that is written once.
\<close>

section \<open>Operations\<close>

text \<open>
  The scores are hundredths; \<^verbatim>\<open>sum(scores, ZERO) / Decimal(len(scores))\<close> is rounded to the
  working precision of the decimal context, then half up to two decimals.
\<close>

definition average_score :: "score list \<Rightarrow> score" where
  "average_score scores =
     (if scores = [] then 0
      else quantize 2 (dec_div (sum_list scores) (100 * length scores)))"

text \<open>The \<^verbatim>\<open>defaultdict\<close>s of the breakdown: slug to the name(s) seen last and the scores.\<close>

type_synonym topic_scores = "(string \<times> string \<times> score list) list"
type_synonym skill_scores = "(string \<times> (string \<times> string \<times> string) \<times> score list) list"

definition add_topic :: "ExamQuestionSnapshot \<times> ExamAnswer \<Rightarrow> topic_scores \<Rightarrow> topic_scores" where
  "add_topic = (\<lambda>(snapshot, answer) topics.
     let slug = sd_topic_slug (sn_data snapshot);
         scores = (case map_of topics slug of None \<Rightarrow> [] | Some (_, xs) \<Rightarrow> xs)
     in AList.update slug (sd_topic_name (sn_data snapshot), scores @ [an_score_percentage answer]) topics)"

definition add_skill :: "ExamQuestionSnapshot \<times> ExamAnswer \<Rightarrow> skill_scores \<Rightarrow> skill_scores" where
  "add_skill = (\<lambda>(snapshot, answer) skills.
     let data = sn_data snapshot;
         slug = sd_skill_slug data;
         scores = (case map_of skills slug of None \<Rightarrow> [] | Some (_, xs) \<Rightarrow> xs)
     in AList.update slug ((sd_skill_name data, sd_topic_slug data, sd_topic_name data),
          scores @ [an_score_percentage answer]) skills)"

definition topic_row :: "string \<times> score list \<Rightarrow> TopicRow" where
  "topic_row = (\<lambda>(name, scores). \<lparr>tr_name = name, tr_question_count = length scores,
     tr_score_percentage = average_score scores\<rparr>)"

definition skill_row :: "(string \<times> string \<times> string) \<times> score list \<Rightarrow> SkillRow" where
  "skill_row = (\<lambda>((name, topic_slug, topic_name), scores). \<lparr>sr_name = name,
     sr_topic_slug = topic_slug, sr_topic_name = topic_name, sr_question_count = length scores,
     sr_score_percentage = average_score scores\<rparr>)"

definition build_breakdown ::
    "(ExamQuestionSnapshot \<times> ExamAnswer) list
     \<Rightarrow> (string \<times> TopicRow) list \<times> (string \<times> SkillRow) list" where
  "build_breakdown answers =
     (let topics = fold add_topic answers []; skills = fold add_skill answers []
      in (map (map_prod id topic_row) topics, map (map_prod id skill_row) skills))"

text \<open>The answers of an attempt with their snapshots, by position.\<close>

definition attempt_answers :: "exam_db \<Rightarrow> pk \<Rightarrow> (ExamQuestionSnapshot \<times> ExamAnswer) list" where
  "attempt_answers db i =
     sort_key (\<lambda>(s, a). sn_position s)
       (concat (map (\<lambda>a. map (\<lambda>s. (s, a))
          (filter (\<lambda>s. sn_id s = an_snapshot_id a) (attempt_snapshots db i))) (db_answers db)))"

definition result_of :: "exam_db \<Rightarrow> pk \<Rightarrow> AssessmentResult option" where
  "result_of db i = List.find (\<lambda>r. rs_attempt_id r = i) (db_results db)"

definition create_result :: "AssessmentResult \<Rightarrow> (exam_db, AssessmentResult) op" where
  "create_result result = (\<lambda>db.
     if result_of db (rs_attempt_id result) \<noteq> None then (Inl IntegrityError, db)
     else (Inr result, db\<lparr>db_results := db_results db @ [result]\<rparr>))"

definition save_completed :: "pk \<Rightarrow> time \<Rightarrow> (exam_db, unit) op" where
  "save_completed i now = modify_db (\<lambda>db. db\<lparr>db_attempts :=
     map (\<lambda>t. if at_id t = i then t\<lparr>at_status := COMPLETED, at_completed_at := Some now\<rparr> else t)
       (db_attempts db)\<rparr>)"

definition build_result ::
    "ExamAttempt \<Rightarrow> nat \<Rightarrow> (ExamQuestionSnapshot \<times> ExamAnswer) list \<Rightarrow> AssessmentResult" where
  "build_result attempt snapshots_count answers =
     (let scores = map (an_score_percentage \<circ> snd) answers;
          score_percentage = average_score scores;
          fully_correct_questions = length (filter (an_is_correct \<circ> snd) answers);
          (topic_breakdown, skill_breakdown) = build_breakdown answers
      in \<lparr>rs_attempt_id = at_id attempt, rs_score_percentage = score_percentage,
          rs_passed = (100 * at_pass_percentage attempt \<le> score_percentage),
          rs_total_questions = snapshots_count,
          rs_fully_correct_questions = fully_correct_questions,
          rs_topic_breakdown = topic_breakdown, rs_skill_breakdown = skill_breakdown\<rparr>)"

definition complete_exam_attempt :: "pk \<Rightarrow> time \<Rightarrow> (exam_db, AssessmentResult \<times> bool) op" where
  "complete_exam_attempt attempt_id now =
     atomic (andthen (get_attempt attempt_id) (\<lambda>attempt. andthen get_db (\<lambda>db.
       if at_status attempt = INVALIDATED then raise (ValidationError ''attempt_invalidated'')
       else if at_status attempt = COMPLETED then
         (case result_of db (at_id attempt) of
            Some result \<Rightarrow> ret (result, False)
          | None \<Rightarrow> raise (ValidationError ''result_missing''))
       else
         let snapshots_count = length (attempt_snapshots db (at_id attempt));
             answers = attempt_answers db (at_id attempt)
         in if snapshots_count = 0 then raise (ValidationError ''attempt_has_no_questions'')
            else if length answers \<noteq> snapshots_count
              then raise (ValidationError ''questions_left_unanswered'')
            else andthen (create_result (build_result attempt snapshots_count answers)) (\<lambda>result.
              andthen (save_completed (at_id attempt) now) (\<lambda>_. ret (result, True))))))"

section \<open>Averages\<close>

text \<open>A list of scores that can be averaged: each at most 100 percent.\<close>

abbreviation scores_ok :: "score list \<Rightarrow> bool" where
  "scores_ok scores \<equiv> list_all (\<lambda>x. x \<le> HUNDRED) scores"

lemma sum_scores_le: "scores_ok scores \<Longrightarrow> sum_list scores \<le> HUNDRED * length scores"
  by (induction scores) auto

lemma round_half_up_scale: "0 < k \<Longrightarrow> round_half_up (n * k) (k * d) = round_half_up n d"
proof -
  assume "0 < k"
  then have "(2 * (n * k) + k * d) div (2 * (k * d)) = (k * (2 * n + d)) div (k * (2 * d))"
    by (simp add: algebra_simps)
  also have "\<dots> = (2 * n + d) div (2 * d)" using \<open>0 < k\<close> by simp
  finally show ?thesis by (simp add: round_half_up_def)
qed

lemma average_score_eq:
  assumes "scores \<noteq> []" and "scores_ok scores" and "length scores < 10 ^ 18"
  shows "average_score scores = round_half_up (sum_list scores) (length scores)"
proof -
  have "quantize 2 (dec_div (sum_list scores) (100 * length scores)) =
      round_half_up (sum_list scores * 10 ^ 2) (100 * length scores)"
  proof (rule quantize_dec_div)
    show "sum_list scores \<le> 100 * length scores * 1000" using sum_scores_le [OF assms(2)] by simp
  qed (use assms in simp_all)
  also have "\<dots> = round_half_up (sum_list scores) (length scores)"
    using round_half_up_scale [of 100] by simp
  finally show ?thesis using assms(1) by (simp add: average_score_def)
qed

lemma average_score_le:
  assumes "scores_ok scores" and "length scores < 10 ^ 18"
  shows "average_score scores \<le> HUNDRED"
proof (cases "scores = []")
  case False
  with sum_scores_le [OF assms(1)] show ?thesis
    unfolding average_score_eq [OF False assms] by (intro round_half_up_le) simp_all
qed (simp add: average_score_def)

lemma le_round_half_up_iff: "0 < d \<Longrightarrow> c \<le> round_half_up n d \<longleftrightarrow> 2 * c * d \<le> 2 * n + d"
  unfolding round_half_up_def by (subst less_eq_div_iff_mult_less_eq) (simp_all add: mult_ac)

section \<open>The breakdown\<close>

text \<open>Adding a score under a slug keeps the other slugs and appends to its own list.\<close>

definition push :: "'k \<Rightarrow> 'n \<Rightarrow> 'v \<Rightarrow> ('k \<times> 'n \<times> 'v list) list \<Rightarrow> ('k \<times> 'n \<times> 'v list) list" where
  "push k n v m = AList.update k (n, (case map_of m k of None \<Rightarrow> [] | Some (_, xs) \<Rightarrow> xs) @ [v]) m"

lemma add_topic_push: "add_topic (s, a) = push (sd_topic_slug (sn_data s)) (sd_topic_name (sn_data s)) (an_score_percentage a)"
  by (simp add: fun_eq_iff add_topic_def push_def Let_def)

lemma add_skill_push: "add_skill (s, a) = push (sd_skill_slug (sn_data s))
    (sd_skill_name (sn_data s), sd_topic_slug (sn_data s), sd_topic_name (sn_data s)) (an_score_percentage a)"
  by (simp add: fun_eq_iff add_skill_def push_def Let_def)

lemma distinct_push: "distinct (map fst m) \<Longrightarrow> distinct (map fst (push k n v m))"
  by (simp add: push_def distinct_update)

definition scores_at :: "('k \<times> 'n \<times> 'v list) list \<Rightarrow> 'k \<Rightarrow> 'v list" where
  "scores_at m k = (case map_of m k of None \<Rightarrow> [] | Some (_, xs) \<Rightarrow> xs)"

lemma scores_at_push: "scores_at (push k n v m) k' = (if k' = k then scores_at m k @ [v] else scores_at m k')"
  by (simp add: scores_at_def push_def update_conv')

lemma fold_push:
  fixes key :: "'a \<Rightarrow> 'k" and name :: "'a \<Rightarrow> 'n" and val :: "'a \<Rightarrow> 'v" and xs m
  assumes "distinct (map fst m)"
  defines "m' \<equiv> fold (\<lambda>x. push (key x) (name x) (val x)) xs m"
  shows "distinct (map fst m')" and "fst ` set m' = fst ` set m \<union> key ` set xs"
    and "scores_at m' k = scores_at m k @ map val (filter (\<lambda>x. key x = k) xs)"
proof -
  have "distinct (map fst m') \<and> fst ` set m' = fst ` set m \<union> key ` set xs \<and>
    scores_at m' k = scores_at m k @ map val (filter (\<lambda>x. key x = k) xs)"
    using assms(1) unfolding m'_def
  proof (induction xs arbitrary: m)
    case (Cons x xs)
    have dom: "fst ` set (push (key x) (name x) (val x) m) = insert (key x) (fst ` set m)"
      by (simp add: push_def dom_update [unfolded dom_map_of_conv_image_fst])
    from Cons.IH [OF distinct_push [OF Cons.prems], of "key x" "name x" "val x"]
    show ?case by (auto simp: dom scores_at_push)
  qed simp
  then show "distinct (map fst m')" and "fst ` set m' = fst ` set m \<union> key ` set xs"
    and "scores_at m' k = scores_at m k @ map val (filter (\<lambda>x. key x = k) xs)" by simp_all
qed

lemma sum_update:
  "distinct (map fst m) \<Longrightarrow>
     sum_list (map (f \<circ> snd) (AList.update k v m)) + (case map_of m k of None \<Rightarrow> 0 | Some u \<Rightarrow> f u) =
     sum_list (map (f \<circ> snd) m) + (f v :: nat)"
proof (induction m)
  case (Cons p m)
  show ?case
  proof (cases "fst p = k")
    case True
    with Cons.prems have "map_of m k = None" by (auto simp: map_of_eq_None_iff)
    with True show ?thesis by (cases p) simp
  next
    case False
    with Cons show ?thesis by (cases p) (simp split: option.splits)
  qed
qed simp

lemma sum_push:
  "distinct (map fst m) \<Longrightarrow>
     sum_list (map (\<lambda>x. length (snd (snd x))) (push k n v m)) = Suc (sum_list (map (\<lambda>x. length (snd (snd x))) m))"
  using sum_update [of m "length \<circ> snd" k "(n, scores_at m k @ [v])"]
  unfolding push_def scores_at_def
  by (cases "map_of m k") (simp_all add: comp_def case_prod_beta del: map_of_eq_Some_iff)

lemma sum_fold_push:
  assumes "distinct (map fst m)"
  shows "sum_list (map (\<lambda>x. length (snd (snd x))) (fold (\<lambda>x. push (key x) (name x) (val x)) xs m)) =
    length xs + sum_list (map (\<lambda>x. length (snd (snd x))) m)"
  using assms
proof (induction xs arbitrary: m)
  case (Cons x xs)
  from Cons.IH [OF distinct_push [OF Cons.prems], of "key x" "name x" "val x"] Cons.prems
  show ?case by (simp add: sum_push)
qed simp

abbreviation topic_slug :: "ExamQuestionSnapshot \<times> ExamAnswer \<Rightarrow> string" where
  "topic_slug x \<equiv> sd_topic_slug (sn_data (fst x))"

abbreviation skill_slug :: "ExamQuestionSnapshot \<times> ExamAnswer \<Rightarrow> string" where
  "skill_slug x \<equiv> sd_skill_slug (sn_data (fst x))"

abbreviation answer_score :: "ExamQuestionSnapshot \<times> ExamAnswer \<Rightarrow> score" where
  "answer_score x \<equiv> an_score_percentage (snd x)"

lemma fold_topics: "fold add_topic answers m =
    fold (\<lambda>x. push (topic_slug x) (sd_topic_name (sn_data (fst x))) (answer_score x)) answers m"
  by (rule fold_cong) (auto simp: add_topic_push)

lemma fold_skills: "fold add_skill answers m =
    fold (\<lambda>x. push (skill_slug x) (sd_skill_name (sn_data (fst x)), topic_slug x,
      sd_topic_name (sn_data (fst x))) (answer_score x)) answers m"
  by (rule fold_cong) (auto simp: add_skill_push)

text \<open>An entry of a folded dictionary holds the scores of its own slug.\<close>

lemma entry_scores:
  assumes "distinct (map fst m)" and "(k, n, xs) \<in> set m"
  shows "scores_at m k = xs"
  using map_of_is_SomeI [OF assms] by (simp add: scores_at_def del: map_of_eq_Some_iff)

lemma breakdown_topics:
  assumes "fst (build_breakdown answers) = topics"
  shows "distinct (map fst topics)" and "fst ` set topics = topic_slug ` set answers"
    and "sum_list (map (tr_question_count \<circ> snd) topics) = length answers"
    and "(k, row) \<in> set topics \<Longrightarrow> tr_question_count row = length (filter (\<lambda>x. topic_slug x = k) answers) \<and>
      tr_score_percentage row = average_score (map answer_score (filter (\<lambda>x. topic_slug x = k) answers))"
proof -
  let ?m = "fold add_topic answers []"
  have topics: "topics = map (map_prod id topic_row) ?m"
    using assms by (simp add: build_breakdown_def Let_def)
  note f = fold_push [of "[]", where key = topic_slug and val = answer_score and xs = answers
      and name = "\<lambda>x. sd_topic_name (sn_data (fst x))", folded fold_topics]
  have keys: "map fst topics = map fst ?m" by (simp add: topics comp_def)
  with f(1) show "distinct (map fst topics)" by simp
  have "set (map fst topics) = set (map fst ?m)" by (simp only: keys)
  with f(2) show "fst ` set topics = topic_slug ` set answers" by simp
  show "sum_list (map (tr_question_count \<circ> snd) topics) = length answers"
    using sum_fold_push [of "[]" topic_slug "\<lambda>x. sd_topic_name (sn_data (fst x))" answer_score answers, folded fold_topics]
    by (simp add: topics comp_def topic_row_def case_prod_beta)
  assume "(k, row) \<in> set topics"
  then obtain n xs where e: "(k, n, xs) \<in> set ?m" and row: "row = topic_row (n, xs)"
    by (auto simp: topics)
  from entry_scores [OF _ e] f(1) f(3) [of k]
  have "xs = map answer_score (filter (\<lambda>x. topic_slug x = k) answers)" by (simp add: scores_at_def)
  then show "tr_question_count row = length (filter (\<lambda>x. topic_slug x = k) answers) \<and>
      tr_score_percentage row = average_score (map answer_score (filter (\<lambda>x. topic_slug x = k) answers))"
    by (simp add: row topic_row_def)
qed

lemma breakdown_skills:
  assumes "snd (build_breakdown answers) = skills"
  shows "distinct (map fst skills)" and "fst ` set skills = skill_slug ` set answers"
    and "sum_list (map (sr_question_count \<circ> snd) skills) = length answers"
    and "(k, row) \<in> set skills \<Longrightarrow> sr_question_count row = length (filter (\<lambda>x. skill_slug x = k) answers) \<and>
      sr_score_percentage row = average_score (map answer_score (filter (\<lambda>x. skill_slug x = k) answers))"
proof -
  let ?m = "fold add_skill answers []"
  let ?name = "\<lambda>x. (sd_skill_name (sn_data (fst x)), topic_slug x, sd_topic_name (sn_data (fst x)))"
  have skills: "skills = map (map_prod id skill_row) ?m"
    using assms by (simp add: build_breakdown_def Let_def)
  note f = fold_push [of "[]", where key = skill_slug and val = answer_score and xs = answers
      and name = ?name, folded fold_skills]
  have keys: "map fst skills = map fst ?m" by (simp add: skills comp_def)
  with f(1) show "distinct (map fst skills)" by simp
  have "set (map fst skills) = set (map fst ?m)" by (simp only: keys)
  with f(2) show "fst ` set skills = skill_slug ` set answers" by simp
  show "sum_list (map (sr_question_count \<circ> snd) skills) = length answers"
    using sum_fold_push [of "[]" skill_slug ?name answer_score answers, folded fold_skills]
    by (simp add: skills comp_def skill_row_def case_prod_beta)
  assume "(k, row) \<in> set skills"
  then obtain n xs where e: "(k, n, xs) \<in> set ?m" and row: "row = skill_row (n, xs)"
    by (auto simp: skills)
  from entry_scores [OF _ e] f(1) f(3) [of k]
  have "xs = map answer_score (filter (\<lambda>x. skill_slug x = k) answers)" by (simp add: scores_at_def)
  then show "sr_question_count row = length (filter (\<lambda>x. skill_slug x = k) answers) \<and>
      sr_score_percentage row = average_score (map answer_score (filter (\<lambda>x. skill_slug x = k) answers))"
    by (simp add: row skill_row_def case_prod_beta)
qed

section \<open>Properties of results\<close>

definition demo_attempt :: ExamAttempt where
  "demo_attempt = \<lparr>at_id = 1, at_assignment_id = 1, at_attempt_number = 1, at_status = IN_PROGRESS,
     at_selection_seed = ''s'', at_campaign_name = ''2026'', at_blueprint_name = ''L1'',
     at_level = LEVEL_L1, at_pass_percentage = 70, at_allow_back_navigation = False,
     at_shuffle_questions = False, at_shuffle_answer_options = False, at_completed_at = None\<rparr>"

definition demo_answer :: "pk \<Rightarrow> score \<Rightarrow> ExamQuestionSnapshot \<times> ExamAnswer" where
  "demo_answer i x =
     (\<lparr>sn_id = i, sn_attempt_id = 1, sn_position = i, sn_started_at = Some 0,
       sn_data = demo_snapshot SINGLE_CHOICE\<rparr>,
      \<lparr>an_snapshot_id = i, an_response_payload = JObj [], an_score_percentage = x,
       an_is_correct = (x = HUNDRED), an_timed_out = False, an_response_time_seconds = 5\<rparr>)"

text \<open>
  C21. The verdict is the exact one up to the announced rounding: with at least one answer, an
  attempt passes if and only if the exact mean of its scores is at least the pass percentage minus
  half a hundredth of a percent. The 28-digit decimal division never changes a verdict.
\<close>

theorem build_result_passed_iff:
  assumes "answers \<noteq> []" and "scores_ok (map answer_score answers)" and "length answers < 10 ^ 18"
  shows "rs_passed (build_result attempt n answers) \<longleftrightarrow>
    2 * (100 * at_pass_percentage attempt) * length answers
      \<le> 2 * sum_list (map answer_score answers) + length answers"
proof -
  have "rs_passed (build_result attempt n answers) \<longleftrightarrow>
      100 * at_pass_percentage attempt \<le> average_score (map answer_score answers)"
    by (simp add: build_result_def Let_def case_prod_beta comp_def)
  also have "average_score (map answer_score answers) =
      round_half_up (sum_list (map answer_score answers)) (length answers)"
    using average_score_eq [of "map answer_score answers"] assms by simp
  finally show ?thesis using assms(1) by (simp add: le_round_half_up_iff)
qed

theorem build_result_passed_iff_witness:
  "rs_passed (build_result demo_attempt 2 [demo_answer 1 10000, demo_answer 2 3999]) \<and>
   \<not> rs_passed (build_result demo_attempt 2 [demo_answer 1 10000, demo_answer 2 3998])"
  by (simp add: build_result_passed_iff demo_answer_def demo_attempt_def)

text \<open>
  The topic and skill breakdowns account for every answered question once: each slug has one
  row, its count is the number of answers of that slug and its score their average, and the
  counts add up to the number of answers.
\<close>

theorem build_breakdown_partitions:
  assumes "build_breakdown answers = (topics, skills)"
  shows "distinct (map fst topics) \<and> distinct (map fst skills) \<and>
    sum_list (map (tr_question_count \<circ> snd) topics) = length answers \<and>
    sum_list (map (sr_question_count \<circ> snd) skills) = length answers \<and>
    (\<forall>(k, row) \<in> set topics. tr_question_count row = length (filter (\<lambda>x. topic_slug x = k) answers) \<and>
      tr_score_percentage row = average_score (map answer_score (filter (\<lambda>x. topic_slug x = k) answers))) \<and>
    (\<forall>(k, row) \<in> set skills. sr_question_count row = length (filter (\<lambda>x. skill_slug x = k) answers) \<and>
      sr_score_percentage row = average_score (map answer_score (filter (\<lambda>x. skill_slug x = k) answers)))"
proof -
  have t: "fst (build_breakdown answers) = topics" and s: "snd (build_breakdown answers) = skills"
    using assms by simp_all
  from breakdown_topics [OF t] breakdown_skills [OF s] show ?thesis by blast
qed

theorem build_breakdown_partitions_witness:
  "\<exists>topics skills. build_breakdown [demo_answer 1 10000, demo_answer 2 3999] = (topics, skills) \<and>
     sum_list (map (tr_question_count \<circ> snd) topics) = 2 \<and>
     sum_list (map (sr_question_count \<circ> snd) skills) = 2"
proof -
  obtain topics skills where b: "build_breakdown [demo_answer 1 10000, demo_answer 2 3999] = (topics, skills)"
    by fastforce
  from build_breakdown_partitions [OF b] b show ?thesis by simp
qed

end
