(* ===== verification/Exam_Invariants.thy ===== *)
theory Exam_Invariants
  imports Exam_Results
begin

text \<open>
  The invariant of the exam tables and the proof that every operation of the life cycle keeps it.
  The steps of the system are the four service calls; an exception rolls the tables back, so a
  step relates the tables before a call with the tables it leaves behind, whatever its outcome.
\<close>

section \<open>The invariant\<close>

definition keys_ok :: "exam_db \<Rightarrow> bool" where
  "keys_ok db \<longleftrightarrow> distinct (map as_id (db_assignments db)) \<and> distinct (map at_id (db_attempts db)) \<and>
     distinct (map sn_id (db_snapshots db)) \<and> distinct (map an_snapshot_id (db_answers db)) \<and>
     distinct (map rs_attempt_id (db_results db))"

definition attempts_ok :: "exam_db \<Rightarrow> bool" where
  "attempts_ok db \<longleftrightarrow>
     distinct (map (\<lambda>t. (at_assignment_id t, at_attempt_number t)) (db_attempts db)) \<and>
     (\<forall>i. length (filter (\<lambda>t. at_status t = IN_PROGRESS) (assignment_attempts db i)) \<le> 1) \<and>
     (\<forall>a \<in> set (db_assignments db). length (assignment_attempts db (as_id a)) \<le> as_attempt_limit a)"

definition answer_ok :: "ExamAnswer \<Rightarrow> bool" where
  "answer_ok a \<longleftrightarrow> an_score_percentage a \<le> HUNDRED \<and>
     (an_is_correct a \<longleftrightarrow> an_score_percentage a = HUNDRED) \<and>
     (an_timed_out a \<longrightarrow> an_score_percentage a = 0 \<and> an_response_payload a = JObj [])"

definition answers_ok :: "exam_db \<Rightarrow> bool" where
  "answers_ok db \<longleftrightarrow>
     (\<forall>s \<in> set (db_snapshots db). \<exists>t \<in> set (db_attempts db). at_id t = sn_attempt_id s) \<and>
     (\<forall>a \<in> set (db_answers db). answer_ok a \<and>
        (\<exists>s \<in> set (db_snapshots db). sn_id s = an_snapshot_id a \<and> sn_started_at s \<noteq> None))"

definition results_ok :: "exam_db \<Rightarrow> bool" where
  "results_ok db \<longleftrightarrow>
     (\<forall>r \<in> set (db_results db). \<exists>t \<in> set (db_attempts db). at_id t = rs_attempt_id r \<and> at_status t \<noteq> IN_PROGRESS) \<and>
     (\<forall>t \<in> set (db_attempts db). at_status t = COMPLETED \<longrightarrow>
        unanswered_snapshots db (at_id t) = [] \<and> (\<exists>r \<in> set (db_results db). rs_attempt_id r = at_id t))"

definition exam_inv :: "exam_db \<Rightarrow> bool" where
  "exam_inv db \<longleftrightarrow> keys_ok db \<and> attempts_ok db \<and> answers_ok db \<and> results_ok db"

lemmas exam_inv_defs = exam_inv_def keys_ok_def attempts_ok_def answers_ok_def results_ok_def

section \<open>Row-level changes keep it\<close>

lemma find_by_id:
  assumes "distinct (map f xs)" and "x \<in> set xs" and "f x = i"
  shows "List.find (\<lambda>y. f y = i) xs = Some x"
  using assms by (induction xs) (auto simp: image_iff)

lemma answer_of_None_iff: "answer_of db i = None \<longleftrightarrow> i \<notin> an_snapshot_id ` set (db_answers db)"
  by (auto simp: answer_of_def find_None_all)

lemma answer_of_Some: "answer_of db i = Some a \<Longrightarrow> a \<in> set (db_answers db) \<and> an_snapshot_id a = i"
  by (auto simp: answer_of_def dest: find_Some_member)

lemma unanswered_eq:
  "unanswered_snapshots db i = filter (\<lambda>s. sn_attempt_id s = i \<and> sn_id s \<notin> an_snapshot_id ` set (db_answers db)) (db_snapshots db)"
  by (auto simp: unanswered_snapshots_def attempt_snapshots_def answer_of_None_iff intro: filter_cong)

lemma unanswered_Nil_iff:
  "unanswered_snapshots db i = [] \<longleftrightarrow>
     (\<forall>s \<in> set (db_snapshots db). sn_attempt_id s = i \<longrightarrow> sn_id s \<in> an_snapshot_id ` set (db_answers db))"
  by (auto simp: unanswered_eq filter_empty_conv)

lemma inv_add_attempt:
  assumes inv: "exam_inv db" and a: "assignment \<in> set (db_assignments db)"
    and t: "at_assignment_id t = as_id assignment" "at_status t = IN_PROGRESS"
      "at_id t = fresh_pk (map at_id (db_attempts db))"
    and number: "\<forall>u \<in> set (db_attempts db). at_assignment_id u = at_assignment_id t \<longrightarrow>
      at_attempt_number u \<noteq> at_attempt_number t"
    and idle: "filter (\<lambda>u. at_status u = IN_PROGRESS) (assignment_attempts db (as_id assignment)) = []"
    and room: "length (assignment_attempts db (as_id assignment)) < as_attempt_limit assignment"
  shows "exam_inv (db\<lparr>db_attempts := db_attempts db @ [t]\<rparr>)"
proof -
  let ?db = "db\<lparr>db_attempts := db_attempts db @ [t]\<rparr>"
  have fresh: "at_id t \<notin> at_id ` set (db_attempts db)"
    using fresh_pk_notin [of "map at_id (db_attempts db)"] t(3) by simp
  then have "keys_ok ?db" using inv by (simp add: exam_inv_defs)
  moreover have list: "assignment_attempts ?db i =
      assignment_attempts db i @ (if i = as_id assignment then [t] else [])" for i
    using t(1) by (simp add: assignment_attempts_def)
  have "attempts_ok ?db"
    unfolding attempts_ok_def
  proof (intro conjI allI ballI)
    show "distinct (map (\<lambda>t. (at_assignment_id t, at_attempt_number t)) (db_attempts ?db))"
      using inv number by (auto simp: exam_inv_def attempts_ok_def)
    show "length (filter (\<lambda>t. at_status t = IN_PROGRESS) (assignment_attempts ?db i)) \<le> 1" for i
      using inv idle by (simp add: list exam_inv_def attempts_ok_def)
    fix b assume b: "b \<in> set (db_assignments ?db)"
    show "length (assignment_attempts ?db (as_id b)) \<le> as_attempt_limit b"
    proof (cases "as_id b = as_id assignment")
      case True
      with a b inv have "b = assignment" by (auto simp: exam_inv_defs distinct_map inj_on_def)
      with room show ?thesis by (simp add: list)
    next
      case False
      with b inv show ?thesis by (simp add: list exam_inv_def attempts_ok_def)
    qed
  qed
  moreover have "answers_ok ?db" using inv by (auto simp: exam_inv_def answers_ok_def)
  moreover have "results_ok ?db"
    using inv t(2) by (auto simp: exam_inv_def results_ok_def unanswered_eq)
  ultimately show ?thesis by (simp add: exam_inv_def)
qed

lemma inv_add_snapshot:
  assumes inv: "exam_inv db" and t: "t \<in> set (db_attempts db)" "at_id t = sn_attempt_id s"
    "at_status t = IN_PROGRESS" and s: "sn_id s = fresh_pk (map sn_id (db_snapshots db))"
  shows "exam_inv (db\<lparr>db_snapshots := db_snapshots db @ [s]\<rparr>)"
proof -
  let ?db = "db\<lparr>db_snapshots := db_snapshots db @ [s]\<rparr>"
  have fresh: "sn_id s \<notin> sn_id ` set (db_snapshots db)"
    using fresh_pk_notin [of "map sn_id (db_snapshots db)"] s by simp
  have "keys_ok ?db" using inv fresh by (simp add: exam_inv_defs)
  moreover have "attempts_ok ?db" using inv by (simp add: exam_inv_def attempts_ok_def assignment_attempts_def)
  moreover have "answers_ok ?db" using inv t by (auto simp: exam_inv_def answers_ok_def)
  moreover have "results_ok ?db"
    unfolding results_ok_def
  proof (intro conjI ballI impI)
    fix u assume u: "u \<in> set (db_attempts ?db)" "at_status u = COMPLETED"
    have "at_id u \<noteq> sn_attempt_id s"
    proof
      assume "at_id u = sn_attempt_id s"
      with t u inv have "u = t" by (auto simp: exam_inv_defs distinct_map inj_on_def)
      with t u show False by simp
    qed
    moreover have "unanswered_snapshots db (at_id u) = []" using inv u by (simp add: exam_inv_def results_ok_def)
    ultimately show "unanswered_snapshots ?db (at_id u) = []" by (simp add: unanswered_eq)
    show "\<exists>r \<in> set (db_results ?db). rs_attempt_id r = at_id u"
      using inv u by (simp add: exam_inv_def results_ok_def)
  qed (use inv in \<open>simp add: exam_inv_def results_ok_def\<close>)
  ultimately show ?thesis by (simp add: exam_inv_def)
qed

lemma inv_add_answer:
  assumes inv: "exam_inv db" and s: "s \<in> set (db_snapshots db)" "sn_id s = an_snapshot_id a"
    "sn_started_at s \<noteq> None" and a: "answer_ok a" "answer_of db (an_snapshot_id a) = None"
  shows "exam_inv (db\<lparr>db_answers := db_answers db @ [a]\<rparr>)"
proof -
  let ?db = "db\<lparr>db_answers := db_answers db @ [a]\<rparr>"
  have "keys_ok ?db" using inv a(2) by (simp add: exam_inv_defs answer_of_None_iff)
  moreover have "attempts_ok ?db" using inv by (simp add: exam_inv_def attempts_ok_def assignment_attempts_def)
  moreover have "answers_ok ?db" using inv s a(1) by (auto simp: exam_inv_def answers_ok_def)
  moreover have "results_ok ?db" using inv by (auto simp: exam_inv_def results_ok_def unanswered_Nil_iff)
  ultimately show ?thesis by (simp add: exam_inv_def)
qed

lemma inv_update_answers:
  assumes inv: "exam_inv db" and f: "\<And>b. an_snapshot_id (f b) = an_snapshot_id b"
    "\<And>b. answer_ok b \<Longrightarrow> answer_ok (f b)"
  shows "exam_inv (db\<lparr>db_answers := map f (db_answers db)\<rparr>)"
proof -
  have "an_snapshot_id \<circ> f = an_snapshot_id" using f(1) by auto
  with inv f show ?thesis
    by (auto simp: exam_inv_defs unanswered_eq assignment_attempts_def image_image)
qed

lemma inv_update_snapshots:
  assumes inv: "exam_inv db" and f: "\<And>s. sn_id (f s) = sn_id s" "\<And>s. sn_attempt_id (f s) = sn_attempt_id s"
    "\<And>s. sn_started_at s \<noteq> None \<Longrightarrow> sn_started_at (f s) \<noteq> None"
  shows "exam_inv (db\<lparr>db_snapshots := map f (db_snapshots db)\<rparr>)"
proof -
  have "sn_id \<circ> f = sn_id" using f(1) by auto
  moreover have "\<exists>s \<in> set (db_snapshots db). sn_id s = i \<and> sn_started_at (f s) \<noteq> None"
    if "\<exists>s \<in> set (db_snapshots db). sn_id s = i \<and> sn_started_at s \<noteq> None" for i
    using that f(3) by blast
  ultimately show ?thesis using inv f(1,2)
    by (simp add: exam_inv_defs unanswered_Nil_iff assignment_attempts_def)
qed

lemma inv_complete:
  assumes inv: "exam_inv db" and t: "t \<in> set (db_attempts db)" "at_status t = IN_PROGRESS"
    and all: "unanswered_snapshots db (at_id t) = []"
    and r: "rs_attempt_id r = at_id t" "result_of db (at_id t) = None"
    and f: "f = (\<lambda>u. if at_id u = at_id t then u\<lparr>at_status := COMPLETED, at_completed_at := Some now\<rparr> else u)"
  shows "exam_inv (db\<lparr>db_results := db_results db @ [r], db_attempts := map f (db_attempts db)\<rparr>)"
proof -
  let ?db = "db\<lparr>db_results := db_results db @ [r], db_attempts := map f (db_attempts db)\<rparr>"
  have f_ids: "at_id (f u) = at_id u" "at_assignment_id (f u) = at_assignment_id u"
    "at_attempt_number (f u) = at_attempt_number u" "at_status (f u) = IN_PROGRESS \<Longrightarrow> at_status u = IN_PROGRESS"
    "at_status u \<noteq> IN_PROGRESS \<Longrightarrow> at_status (f u) \<noteq> IN_PROGRESS"
    "at_status (f u) = COMPLETED \<Longrightarrow> at_id u = at_id t \<or> at_status u = COMPLETED" for u
    by (auto simp: f split: if_splits)
  have "keys_ok ?db"
    using inv r f_ids(1) by (auto simp: exam_inv_defs comp_def result_of_def find_None_all)
  moreover have list: "assignment_attempts ?db i = map f (assignment_attempts db i)" for i
    by (simp add: assignment_attempts_def filter_map comp_def f_ids(2))
  have fewer: "length (filter (\<lambda>u. at_status (f u) = IN_PROGRESS) xs) \<le>
      length (filter (\<lambda>u. at_status u = IN_PROGRESS) xs)" for xs
    by (induction xs) (auto dest: f_ids(4))
  have "attempts_ok ?db"
    unfolding attempts_ok_def
  proof (intro conjI allI ballI)
    show "distinct (map (\<lambda>t. (at_assignment_id t, at_attempt_number t)) (db_attempts ?db))"
      using inv by (simp add: exam_inv_def attempts_ok_def comp_def f_ids(1-3))
    fix i
    have "length (filter (\<lambda>t. at_status t = IN_PROGRESS) (assignment_attempts db i)) \<le> 1"
      using inv by (simp add: exam_inv_def attempts_ok_def)
    with fewer [of "assignment_attempts db i"]
    have "length (filter (\<lambda>u. at_status (f u) = IN_PROGRESS) (assignment_attempts db i)) \<le> 1" by linarith
    then show "length (filter (\<lambda>t. at_status t = IN_PROGRESS) (assignment_attempts ?db i)) \<le> 1"
      unfolding list filter_map length_map comp_def .
  next
    show "b \<in> set (db_assignments ?db) \<Longrightarrow> length (assignment_attempts ?db (as_id b)) \<le> as_attempt_limit b" for b
      using inv by (simp add: exam_inv_def attempts_ok_def list)
  qed
  moreover have "answers_ok ?db" using inv f_ids(1) by (auto simp: exam_inv_def answers_ok_def)
  moreover have "results_ok ?db"
    unfolding results_ok_def
  proof (intro conjI ballI impI)
    fix q assume "q \<in> set (db_results ?db)"
    then consider "q = r" | "q \<in> set (db_results db)" by auto
    then obtain u where "u \<in> set (db_attempts db)" "at_id u = rs_attempt_id q" "at_status (f u) \<noteq> IN_PROGRESS"
    proof cases
      case 1
      with that [of t] t r show ?thesis by (simp add: f)
    next
      case 2
      with inv that f_ids(5) show ?thesis by (auto simp: exam_inv_def results_ok_def)
    qed
    then show "\<exists>u \<in> set (db_attempts ?db). at_id u = rs_attempt_id q \<and> at_status u \<noteq> IN_PROGRESS"
      using f_ids(1) by auto
  next
    fix v assume "v \<in> set (db_attempts ?db)" and v: "at_status v = COMPLETED"
    then obtain u where u: "u \<in> set (db_attempts db)" "v = f u" by auto
    with v f_ids(6) have c: "at_id u = at_id t \<or> at_status u = COMPLETED" by blast
    then have "unanswered_snapshots db (at_id v) = []"
      using inv u all f_ids(1) by (auto simp: exam_inv_def results_ok_def)
    then show "unanswered_snapshots ?db (at_id v) = []" by (simp add: unanswered_eq)
    show "\<exists>q \<in> set (db_results ?db). rs_attempt_id q = at_id v"
      using c inv u r(1) f_ids(1) by (auto simp: exam_inv_def results_ok_def)
  qed
  ultimately show ?thesis by (simp add: exam_inv_def)
qed

section \<open>Operations keep it\<close>

lemma create_snapshot_Inr:
  "create_snapshot i p d db = (Inr u, db') \<longleftrightarrow>
     (\<forall>s \<in> set (db_snapshots db). \<not> (sn_attempt_id s = i \<and> sn_position s = p)) \<and>
     db' = db\<lparr>db_snapshots := db_snapshots db @ [\<lparr>sn_id = fresh_pk (map sn_id (db_snapshots db)),
       sn_attempt_id = i, sn_position = p, sn_started_at = None, sn_data = d\<rparr>]\<rparr>"
  by (auto simp: create_snapshot_def)

lemma create_snapshots_Inr:
  assumes "create_snapshots casefold rng seed_random seed shuffled i xs db = (Inr u, db')"
  shows "\<exists>snaps. db' = db\<lparr>db_snapshots := db_snapshots db @ snaps\<rparr> \<and> length snaps = length xs \<and>
    (\<forall>k < length xs. sn_attempt_id (snaps ! k) = i \<and> sn_position (snaps ! k) = fst (xs ! k) \<and>
       sn_started_at (snaps ! k) = None \<and>
       build_question_snapshot_data casefold rng seed_random seed shuffled (snd (xs ! k)) = Inr (sn_data (snaps ! k)))"
  using assms
proof (induction xs arbitrary: db)
  case Nil
  then show ?case by (auto simp: op_apply intro!: exI [of _ "[]"])
next
  case (Cons x xs)
  obtain p q where x: "x = (p, q)" by fastforce
  from Cons.prems obtain d db1 where d: "build_question_snapshot_data casefold rng seed_random seed shuffled q = Inr d"
    and c: "create_snapshot i p d db = (Inr (), db1)"
    and rest: "create_snapshots casefold rng seed_random seed shuffled i xs db1 = (Inr u, db')"
    by (auto simp: x andthen_Inr_iff op_apply)
  let ?s = "\<lparr>sn_id = fresh_pk (map sn_id (db_snapshots db)), sn_attempt_id = i, sn_position = p,
    sn_started_at = None, sn_data = d\<rparr>"
  from Cons.IH [OF rest] obtain snaps where
    snaps: "db' = db1\<lparr>db_snapshots := db_snapshots db1 @ snaps\<rparr>" "length snaps = length xs"
    "\<forall>k < length xs. sn_attempt_id (snaps ! k) = i \<and> sn_position (snaps ! k) = fst (xs ! k) \<and>
       sn_started_at (snaps ! k) = None \<and>
       build_question_snapshot_data casefold rng seed_random seed shuffled (snd (xs ! k)) = Inr (sn_data (snaps ! k))"
    by blast
  have "db' = db\<lparr>db_snapshots := db_snapshots db @ ?s # snaps\<rparr>"
    using c snaps(1) by (simp add: create_snapshot_Inr)
  with snaps(2,3) d show ?case
    by (intro exI [of _ "?s # snaps"]) (auto simp: x nth_Cons split: nat.splits)
qed

lemma create_snapshots_inv:
  assumes "create_snapshots casefold rng seed_random seed shuffled (at_id t) xs db = (Inr u, db')"
    and "exam_inv db" and "t \<in> set (db_attempts db)" and "at_status t = IN_PROGRESS"
  shows "exam_inv db'"
  using assms
proof (induction xs arbitrary: db)
  case Nil
  then show ?case by (simp add: op_apply)
next
  case (Cons x xs)
  obtain p q where x: "x = (p, q)" by fastforce
  from Cons.prems(1) obtain d db1 where c: "create_snapshot (at_id t) p d db = (Inr (), db1)"
    and rest: "create_snapshots casefold rng seed_random seed shuffled (at_id t) xs db1 = (Inr u, db')"
    by (auto simp: x andthen_Inr_iff op_apply)
  have "exam_inv db1" "t \<in> set (db_attempts db1)"
    using c inv_add_snapshot [OF Cons.prems(2,3)] Cons.prems(3,4) by (auto simp: create_snapshot_Inr)
  from Cons.IH [OF rest this Cons.prems(4)] show ?case .
qed

lemma existing_None: "existing_in_progress db i = None \<Longrightarrow>
    filter (\<lambda>u. at_status u = IN_PROGRESS) (assignment_attempts db i) = []"
  by (auto simp: existing_in_progress_def split: list.splits) (metis length_0_conv length_sort)

lemma existing_Some:
  assumes "existing_in_progress db i = Some t"
  shows "t \<in> set (assignment_attempts db i)" and "at_status t = IN_PROGRESS"
proof -
  let ?xs = "filter (\<lambda>t. at_status t = IN_PROGRESS) (assignment_attempts db i)"
  from assms obtain ts where "sort_key (\<lambda>t. - int (at_attempt_number t)) ?xs = t # ts"
    by (auto simp: existing_in_progress_def split: list.splits)
  then have "t \<in> set (sort_key (\<lambda>t. - int (at_attempt_number t)) ?xs)" by simp
  then show "t \<in> set (assignment_attempts db i)" and "at_status t = IN_PROGRESS" by simp_all
qed

text \<open>The two ways a start succeeds: it resumes, or it creates.\<close>

lemma start_Inr_cases:
  assumes "start_exam_attempt casefold rng seed_random token i seed now db = (Inr (attempt, created), db')"
  obtains (resumed) "db' = db" "\<not> created" "existing_in_progress db i = Some attempt"
  | (created) assignment questions db1 where created
      "assignment \<in> set (db_assignments db)" "as_id assignment = i"
      "existing_in_progress db i = None" "validate_assignment_for_start assignment now = Inr ()"
      "length (assignment_attempts db i) < as_attempt_limit assignment"
      "select_questions_for_blueprint rng seed_random (db_questions db) (cp_blueprint (as_campaign assignment))
         (case seed of Some s \<Rightarrow> s | None \<Rightarrow> token) = Inr questions"
      "at_assignment_id attempt = i" "at_status attempt = IN_PROGRESS"
      "at_id attempt = fresh_pk (map at_id (db_attempts db))"
      "at_attempt_number attempt = fold max (map at_attempt_number (assignment_attempts db i)) 0 + 1"
      "db1 = db\<lparr>db_attempts := db_attempts db @ [attempt]\<rparr>"
      "create_snapshots casefold rng seed_random (case seed of Some s \<Rightarrow> s | None \<Rightarrow> token)
         (bp_shuffle_answer_options (cp_blueprint (as_campaign assignment))) (at_id attempt)
         (enum_from 1 questions) db1 = (Inr (), db')"
proof -
  obtain assignment where a: "List.find (\<lambda>a. as_id a = i) (db_assignments db) = Some assignment"
    using assms
    by (auto simp: start_exam_attempt_def atomic_Inr_iff andthen_Inr_iff get_assignment_def split: option.splits)
  then have a': "assignment \<in> set (db_assignments db)" "as_id assignment = i"
    by (auto dest: find_Some_member)
  show thesis
  proof (cases "existing_in_progress db i")
    case None
    with assms a a' show ?thesis
      by (auto simp: start_exam_attempt_def atomic_Inr_iff andthen_Inr_iff get_assignment_def op_apply
          Let_def create_attempt_def split: if_splits intro!: that(2))
  next
    case (Some t)
    with assms a a' show ?thesis
      by (auto simp: start_exam_attempt_def atomic_Inr_iff andthen_Inr_iff get_assignment_def op_apply
          intro!: that(1))
  qed
qed

lemma new_number:
  assumes "n = fold max (map at_attempt_number (assignment_attempts db i)) 0 + 1"
    and "u \<in> set (db_attempts db)" and "at_assignment_id u = i"
  shows "at_attempt_number u \<noteq> n"
proof -
  have "at_attempt_number u \<le> fold max (map at_attempt_number (assignment_attempts db i)) 0"
    by (rule fold_max_ge) (use assms(2,3) in \<open>auto simp: assignment_attempts_def\<close>)
  with assms(1) show ?thesis by simp
qed

lemma start_inv:
  assumes "start_exam_attempt casefold rng seed_random token i seed now db = (Inr (attempt, created), db')"
    and inv: "exam_inv db"
  shows "exam_inv db'"
  using assms(1)
proof (cases rule: start_Inr_cases)
  case resumed
  with inv show ?thesis by simp
next
  case (created assignment questions db1)
  have "exam_inv db1"
    unfolding created(12)
    by (rule inv_add_attempt [OF inv created(2)])
      (use created existing_None new_number in \<open>auto\<close>)
  moreover have "attempt \<in> set (db_attempts db1)" by (simp add: created(12))
  ultimately show ?thesis using create_snapshots_inv [OF created(13)] created(9) by blast
qed

lemma submit_Inr_cases:
  assumes "submit_exam_answer i payload now db = (Inr (answer, created), db')"
  obtains (new) s t started where "s \<in> set (db_snapshots db)" "sn_id s = i" "sn_started_at s = Some started"
      "t \<in> set (db_attempts db)" "at_id t = sn_attempt_id s" "at_status t = IN_PROGRESS"
      "answer_of db i = None" created "db' = db\<lparr>db_answers := db_answers db @ [answer]\<rparr>"
      "an_snapshot_id answer = i" "answer_ok answer"
      "an_timed_out answer \<longleftrightarrow> started + 1000000 * int (sd_time_limit_seconds (sn_data s)) \<le> now"
      "an_response_time_seconds answer \<le> sd_time_limit_seconds (sn_data s)"
  | (again) s t old where "s \<in> set (db_snapshots db)" "sn_id s = i" "sn_started_at s \<noteq> None"
      "t \<in> set (db_attempts db)" "at_id t = sn_attempt_id s" "at_status t = IN_PROGRESS"
      "at_allow_back_navigation t" "answer_of db i = Some old" "\<not> created"
      "db' = db\<lparr>db_answers := map (\<lambda>a. if an_snapshot_id a = i then answer else a) (db_answers db)\<rparr>"
      "an_snapshot_id answer = i" "answer_ok answer"
proof -
  obtain s t where s: "List.find (\<lambda>s. sn_id s = i) (db_snapshots db) = Some s"
    and t: "List.find (\<lambda>t. at_id t = sn_attempt_id s) (db_attempts db) = Some t"
    and active: "at_status t = IN_PROGRESS"
    using assms
    by (auto simp: submit_exam_answer_def atomic_Inr_iff andthen_Inr_iff get_snapshot_def get_attempt_def
        op_apply split: option.splits if_splits)
  note st = find_Some_member [OF s] find_Some_member [OF t]
  from assms s t st active obtain started where started: "sn_started_at s = Some started"
    by (auto simp: submit_exam_answer_def atomic_Inr_iff andthen_Inr_iff get_snapshot_def get_attempt_def
        op_apply split: option.splits)
  show thesis
  proof (cases "answer_of db i")
    case None
    with assms s t st active started show ?thesis
      by (auto simp: submit_exam_answer_def atomic_Inr_iff andthen_Inr_iff get_snapshot_def get_attempt_def
          op_apply Let_def create_answer_def answer_ok_def dest: grade_bounds split: if_splits
          intro!: that(1) [of s started t])
  next
    case (Some old)
    with assms s t st active started show ?thesis
      by (auto simp: submit_exam_answer_def atomic_Inr_iff andthen_Inr_iff get_snapshot_def get_attempt_def
          op_apply Let_def save_answer_def answer_ok_def dest: grade_bounds answer_of_Some split: if_splits
          intro!: that(2) [of s t old])
  qed
qed

lemma submit_inv:
  assumes "submit_exam_answer i payload now db = (Inr r, db')" and inv: "exam_inv db"
  shows "exam_inv db'"
proof -
  obtain answer created where "r = (answer, created)" by fastforce
  with assms(1) have "submit_exam_answer i payload now db = (Inr (answer, created), db')" by simp
  then show ?thesis
  proof (cases rule: submit_Inr_cases)
    case (new s t started)
    with inv_add_answer [OF inv, of s answer] show ?thesis by simp
  next
    case (again s t old)
    then show ?thesis by (auto intro!: inv_update_answers [OF inv])
  qed
qed

lemma open_loop_inv:
  "open_loop i now db = (r, db') \<Longrightarrow> exam_inv db \<Longrightarrow> exam_inv db'"
proof (induction i now db arbitrary: r db' rule: open_loop.induct)
  case (1 i now db)
  show ?case
  proof (cases "get_current_question db i")
    case None
    with "1.prems" show ?thesis by (simp add: open_loop.simps [of i now db])
  next
    case (Some s)
    show ?thesis
    proof (cases "get_question_deadline s")
      case None
      with Some "1.prems" show ?thesis
        by (auto simp: open_loop.simps [of i now db] andthen_def op_apply save_started_at_def
            intro!: inv_update_snapshots)
    next
      case (Some d)
      note cur = \<open>get_current_question db i = Some s\<close>
      obtain x db1 where sub: "submit_exam_answer (sn_id s) (JObj []) now db = (x, db1)" by fastforce
      show ?thesis
      proof (cases "now < d")
        case True
        with cur Some "1.prems" show ?thesis by (simp add: open_loop.simps [of i now db])
      next
        case False
        show ?thesis
        proof (cases x)
          case (Inl e)
          with sub have "db1 = db" unfolding submit_exam_answer_def by (auto dest: atomic_rollback)
          with cur Some False sub Inl "1.prems" show ?thesis by (simp add: open_loop.simps [of i now db])
        next
          case (Inr y)
          with sub "1.prems"(2) have "exam_inv db1" by (auto intro: submit_inv)
          moreover have "open_loop i now db1 = (r, db')"
            using cur Some False sub Inr "1.prems"(1) by (simp add: open_loop.simps [of i now db])
          ultimately show ?thesis
            using "1.IH" [OF cur Some False sub [symmetric] Inr] by blast
        qed
      qed
    qed
  qed
qed

section \<open>Completion\<close>

lemma sum_filter_swap:
  "sum_list (map (\<lambda>a. length (filter (\<lambda>s. P s a) S)) A) = sum_list (map (\<lambda>s. length (filter (\<lambda>a. P s a) A)) S)"
proof (induction A)
  case (Cons a A)
  have "length (filter (\<lambda>s. P s a) S) + sum_list (map (\<lambda>s. length (filter (\<lambda>b. P s b) A)) S) =
      sum_list (map (\<lambda>s. length (filter (\<lambda>b. P s b) (a # A))) S)"
    by (induction S) auto
  with Cons show ?case by simp
qed simp

lemma length_filter_key:
  "distinct (map f xs) \<Longrightarrow> length (filter (\<lambda>x. f x = k) xs) = (if k \<in> f ` set xs then 1 else 0)"
  by (induction xs) (auto simp: filter_empty_conv)

lemma sum_indicator: "sum_list (map (\<lambda>x. if P x then 1 else 0) xs) = length (filter P xs)"
  by (induction xs) auto

lemma length_attempt_answers:
  assumes "exam_inv db"
  shows "length (attempt_answers db i) =
    length (filter (\<lambda>s. sn_id s \<in> an_snapshot_id ` set (db_answers db)) (attempt_snapshots db i))"
proof -
  let ?S = "attempt_snapshots db i" and ?A = "db_answers db"
  have d: "distinct (map an_snapshot_id ?A)" using assms by (simp add: exam_inv_defs)
  have "length (attempt_answers db i) = sum_list (map (\<lambda>a. length (filter (\<lambda>s. sn_id s = an_snapshot_id a) ?S)) ?A)"
    by (simp add: attempt_answers_def length_concat comp_def)
  also have "\<dots> = sum_list (map (\<lambda>s. length (filter (\<lambda>a. an_snapshot_id a = sn_id s) ?A)) ?S)"
    unfolding sum_filter_swap [where P = "\<lambda>s a. sn_id s = an_snapshot_id a"] by (simp add: eq_commute)
  also have "\<dots> = sum_list (map (\<lambda>s. if sn_id s \<in> an_snapshot_id ` set ?A then 1 else 0) ?S)"
    by (simp only: length_filter_key [OF d])
  also have "\<dots> = length (filter (\<lambda>s. sn_id s \<in> an_snapshot_id ` set ?A) ?S)"
    by (rule sum_indicator)
  finally show ?thesis .
qed

lemma all_answered_iff:
  assumes "exam_inv db"
  shows "length (attempt_answers db i) = length (attempt_snapshots db i) \<longleftrightarrow> unanswered_snapshots db i = []"
  unfolding length_attempt_answers [OF assms] filter_all_iff unanswered_Nil_iff
  by (auto simp: attempt_snapshots_def)

lemma complete_Inr_cases:
  assumes "complete_exam_attempt i now db = (Inr (result, created), db')"
  obtains (stored) t where "db' = db" "\<not> created" "t \<in> set (db_attempts db)" "at_id t = i"
      "at_status t = COMPLETED" "result_of db i = Some result"
  | (new) t where created "t \<in> set (db_attempts db)" "at_id t = i" "at_status t = IN_PROGRESS"
      "result_of db i = None" "attempt_snapshots db i \<noteq> []"
      "length (attempt_answers db i) = length (attempt_snapshots db i)"
      "result = build_result t (length (attempt_snapshots db i)) (attempt_answers db i)"
      "db' = db\<lparr>db_results := db_results db @ [result], db_attempts :=
         map (\<lambda>u. if at_id u = at_id t then u\<lparr>at_status := COMPLETED, at_completed_at := Some now\<rparr> else u)
           (db_attempts db)\<rparr>"
proof -
  obtain t where t: "List.find (\<lambda>t. at_id t = i) (db_attempts db) = Some t"
    using assms by (auto simp: complete_exam_attempt_def atomic_Inr_iff andthen_Inr_iff get_attempt_def
        split: option.splits)
  note t' = find_Some_member [OF t]
  have rid: "rs_attempt_id (build_result u n xs) = at_id u" for u n xs
    by (simp add: build_result_def Let_def case_prod_beta)
  show thesis
  proof (cases "at_status t")
    case IN_PROGRESS
    with assms t t' show ?thesis
      by (auto simp: complete_exam_attempt_def atomic_Inr_iff andthen_Inr_iff get_attempt_def op_apply
          Let_def create_result_def save_completed_def rid split: if_splits intro!: that(2) [of t])
  next
    case COMPLETED
    with assms t t' show ?thesis
      by (auto simp: complete_exam_attempt_def atomic_Inr_iff andthen_Inr_iff get_attempt_def op_apply
          split: option.splits intro!: that(1) [of t])
  next
    case INVALIDATED
    with assms t t' show ?thesis
      by (auto simp: complete_exam_attempt_def atomic_Inr_iff andthen_Inr_iff get_attempt_def op_apply)
  qed
qed

lemma build_result_id: "rs_attempt_id (build_result u n xs) = at_id u"
  by (simp add: build_result_def Let_def case_prod_beta)

lemma complete_inv:
  assumes "complete_exam_attempt i now db = (Inr (result, created), db')" and inv: "exam_inv db"
  shows "exam_inv db'"
  using assms(1)
proof (cases rule: complete_Inr_cases)
  case (stored t)
  with inv show ?thesis by simp
next
  case (new t)
  with inv_complete [OF inv, of t result] all_answered_iff [OF inv, of i] show ?thesis
    by (simp add: build_result_id)
qed

section \<open>Steps and reachable tables\<close>

inductive exam_step ::
    "(string \<Rightarrow> string) \<Rightarrow> 'r py_random \<Rightarrow> (string \<Rightarrow> 'r) \<Rightarrow> exam_db \<Rightarrow> exam_db \<Rightarrow> bool"
  for casefold rng seed_random where
  step_start: "start_exam_attempt casefold rng seed_random token i seed now db = (r, db') \<Longrightarrow>
    exam_step casefold rng seed_random db db'"
| step_open: "open_current_question i now db = (r, db') \<Longrightarrow> exam_step casefold rng seed_random db db'"
| step_submit: "submit_exam_answer i payload now db = (r, db') \<Longrightarrow> exam_step casefold rng seed_random db db'"
| step_complete: "complete_exam_attempt i now db = (r, db') \<Longrightarrow> exam_step casefold rng seed_random db db'"

inductive_cases exam_step_cases: "exam_step casefold rng seed_random db db'"

lemma open_inv:
  assumes "open_current_question i now db = (r, db')" and inv: "exam_inv db"
  shows "exam_inv db'"
proof (cases r)
  case (Inl e)
  with assms show ?thesis unfolding open_current_question_def by (auto dest: atomic_rollback)
next
  case (Inr x)
  with assms(1) inv show ?thesis
    by (auto simp: open_current_question_def atomic_Inr_iff andthen_Inr_iff get_attempt_def op_apply
        split: option.splits if_splits intro: open_loop_inv)
qed

lemma exam_step_inv:
  assumes "exam_step casefold rng seed_random db db'" and inv: "exam_inv db"
  shows "exam_inv db'"
  using assms(1)
proof cases
  case (step_start token i seed now r)
  then show ?thesis
  proof (cases r)
    case (Inl e)
    with step_start inv show ?thesis unfolding start_exam_attempt_def by (auto dest: atomic_rollback)
  next
    case (Inr x)
    with step_start inv show ?thesis by (cases x) (auto intro: start_inv)
  qed
next
  case (step_open i now r)
  with inv show ?thesis by (auto intro: open_inv)
next
  case (step_submit i payload now r)
  then show ?thesis
  proof (cases r)
    case (Inl e)
    with step_submit inv show ?thesis unfolding submit_exam_answer_def by (auto dest: atomic_rollback)
  next
    case (Inr x)
    with step_submit inv show ?thesis by (auto intro: submit_inv)
  qed
next
  case (step_complete i now r)
  then show ?thesis
  proof (cases r)
    case (Inl e)
    with step_complete inv show ?thesis unfolding complete_exam_attempt_def by (auto dest: atomic_rollback)
  next
    case (Inr x)
    with step_complete inv show ?thesis by (cases x) (auto intro: complete_inv)
  qed
qed

lemma exam_reachable_inv:
  "(exam_step casefold rng seed_random)\<^sup>*\<^sup>* db db' \<Longrightarrow> exam_inv db \<Longrightarrow> exam_inv db'"
  by (induction rule: rtranclp_induct) (auto intro: exam_step_inv)

end
