(* ===== verification/Exam_Views.thy ===== *)
theory Exam_Views
  imports Exam_Invariants
begin

text \<open>
  The employee's pages (\<^verbatim>\<open>assessment/views.py\<close>): the state of an assignment on the
  dashboard, starting it, the page of the current question and the submission of an answer. A
  view returns where it redirects or which page it renders, with the flash messages it queued;
  templates are not modelled. \<^verbatim>\<open>get_object_or_404\<close> raises \<open>DoesNotExist\<close>. The request is
  given by the profiles of its user and, for a form, by the posted key/value pairs.
\<close>

section \<open>Requests and responses\<close>

datatype response =
    RedirectDashboard
  | RedirectOverview pk
  | RedirectQuestion pk
  | OverviewPage pk nat nat
  | QuestionPage pk ExamQuestionSnapshot nat nat int

type_synonym post = "(string \<times> string) list"

text \<open>\<^verbatim>\<open>QueryDict.getlist\<close> and \<^verbatim>\<open>QueryDict.get\<close> (the last value).\<close>

definition getlist :: "post \<Rightarrow> string \<Rightarrow> string list" where
  "getlist post key = map snd (filter (\<lambda>(k, _). k = key) post)"

definition get_last :: "post \<Rightarrow> string \<Rightarrow> string" where
  "get_last post key = (case rev (getlist post key) of [] \<Rightarrow> [] | v # _ \<Rightarrow> v)"

definition get_employee_profile :: "SupportProfile list \<Rightarrow> SupportProfile result" where
  "get_employee_profile user_profiles =
     (case List.find pr_is_active user_profiles of
        None \<Rightarrow> Inl PermissionDenied | Some profile \<Rightarrow> Inr profile)"

section \<open>The dashboard\<close>

record AssignmentState =
  st_code :: string
  st_tone :: string
  st_description :: string
  st_attempt :: "ExamAttempt option"

definition get_assignment_state :: "exam_db \<Rightarrow> ExamAssignment \<Rightarrow> time \<Rightarrow> AssignmentState" where
  "get_assignment_state db assignment now =
     (let attempts = rev (assignment_attempts db (as_id assignment));
          active_attempt = List.find (\<lambda>t. at_status t = IN_PROGRESS) attempts;
          campaign = as_campaign assignment;
          blueprint = cp_blueprint campaign;
          attempts_used = length attempts
      in if active_attempt \<noteq> None then
           \<lparr>st_code = ''in_progress'', st_tone = ''primary'', st_description = ''started_continue'',
            st_attempt = active_attempt\<rparr>
         else if \<not> bp_is_active blueprint then
           \<lparr>st_code = ''unavailable'', st_tone = ''neutral'', st_description = ''test_unavailable'',
            st_attempt = None\<rparr>
         else if \<not> cp_is_active campaign then
           \<lparr>st_code = ''unavailable'', st_tone = ''neutral'', st_description = ''campaign_inactive'',
            st_attempt = None\<rparr>
         else if (case cp_opens_at campaign of None \<Rightarrow> False | Some t \<Rightarrow> now < t) then
           \<lparr>st_code = ''upcoming'', st_tone = ''warning'', st_description = ''opens_later'',
            st_attempt = None\<rparr>
         else if (case cp_closes_at campaign of None \<Rightarrow> False | Some t \<Rightarrow> t \<le> now) then
           \<lparr>st_code = ''expired'', st_tone = ''neutral'', st_description = ''closed'',
            st_attempt = None\<rparr>
         else if as_attempt_limit assignment \<le> attempts_used then
           \<lparr>st_code = ''completed'', st_tone = ''success'', st_description = ''attempts_used_up'',
            st_attempt = (case attempts of [] \<Rightarrow> None | t # _ \<Rightarrow> Some t)\<rparr>
         else
           \<lparr>st_code = ''available'', st_tone = ''success'',
            st_description = (if attempts_used \<noteq> 0 then ''new_attempt'' else ''ready''),
            st_attempt = None\<rparr>)"

definition start_assignment ::
    "(string \<Rightarrow> string) \<Rightarrow> 'r py_random \<Rightarrow> (string \<Rightarrow> 'r) \<Rightarrow> string \<Rightarrow> SupportProfile list \<Rightarrow> pk \<Rightarrow> time
     \<Rightarrow> (exam_db, response \<times> string list) op" where
  "start_assignment casefold rng seed_random token user_profiles assignment_id now =
     andthen (lift_result (get_employee_profile user_profiles)) (\<lambda>profile.
     andthen (get_assignment assignment_id) (\<lambda>assignment.
     if pr_id (as_employee assignment) \<noteq> pr_id profile then raise DoesNotExist
     else catch (andthen (start_exam_attempt casefold rng seed_random token assignment_id None now)
         (\<lambda>(attempt, _). ret (RedirectOverview (at_id attempt), [])))
       (\<lambda>e. case e of ValidationError m \<Rightarrow> ret (RedirectDashboard, [m]) | _ \<Rightarrow> raise e)))"

section \<open>Questions\<close>

definition get_employee_attempt :: "SupportProfile list \<Rightarrow> pk \<Rightarrow> (exam_db, ExamAttempt) op" where
  "get_employee_attempt user_profiles attempt_id =
     andthen (lift_result (get_employee_profile user_profiles)) (\<lambda>profile.
     andthen (get_attempt attempt_id) (\<lambda>attempt.
     andthen (get_assignment (at_assignment_id attempt)) (\<lambda>assignment.
     if pr_id (as_employee assignment) \<noteq> pr_id profile then raise DoesNotExist else ret attempt)))"

definition attempt_overview :: "SupportProfile list \<Rightarrow> pk \<Rightarrow> (exam_db, response \<times> string list) op" where
  "attempt_overview user_profiles attempt_id =
     andthen (get_employee_attempt user_profiles attempt_id) (\<lambda>attempt. andthen get_db (\<lambda>db.
     let snapshots = attempt_snapshots db (at_id attempt);
         answered_count = length (filter (\<lambda>s. answer_of db (sn_id s) \<noteq> None) snapshots)
     in ret (OverviewPage (at_id attempt) (length snapshots) answered_count, [])))"

text \<open>The loop over the left items of a matching question.\<close>

definition posted_matches :: "post \<Rightarrow> keyed \<Rightarrow> (string \<times> json) list" where
  "posted_matches post left_items =
     fold (\<lambda>item matches.
         let left_key = fst item; right_key = get_last post (''match_'' @ left_key)
         in if right_key \<noteq> [] then AList.update left_key (JStr right_key) matches else matches)
       left_items []"

definition build_response_payload :: "post \<Rightarrow> SnapshotData \<Rightarrow> json result" where
  "build_response_payload post snapshot =
     (let strings = (\<lambda>key. JArr (map JStr (getlist post key)))
      in if sd_question_type snapshot \<in> {SINGLE_CHOICE, MULTIPLE_CHOICE, LINE_SELECTION}
           then Inr (JObj [(''selected_keys'', strings ''selected_keys'')])
         else if sd_question_type snapshot = MATCHING
           then Inr (JObj [(''matches'', JObj (posted_matches post
                  (vp_left_items (sd_visible_payload snapshot))))])
         else if sd_question_type snapshot = ORDERING
           then Inr (JObj [(''order'', strings ''order'')])
         else Inl (ValidationError ''unknown_question_type''))"

definition attempt_question :: "SupportProfile list \<Rightarrow> pk \<Rightarrow> time \<Rightarrow> (exam_db, response \<times> string list) op" where
  "attempt_question user_profiles attempt_id now =
     andthen (get_employee_attempt user_profiles attempt_id) (\<lambda>attempt.
     if at_status attempt \<noteq> IN_PROGRESS then ret (RedirectOverview (at_id attempt), [])
     else andthen (open_current_question (at_id attempt) now) (\<lambda>current.
       case current of
         None \<Rightarrow> andthen (complete_exam_attempt (at_id attempt) now) (\<lambda>_.
           ret (RedirectOverview (at_id attempt), []))
       | Some snapshot \<Rightarrow> andthen get_db (\<lambda>db.
           let deadline = the (sn_started_at snapshot) + 1000000 * int (sd_time_limit_seconds (sn_data snapshot));
               remaining_seconds = max 0 (- ((now - deadline) div 1000000));
               snapshots = attempt_snapshots db (at_id attempt);
               answered_count = length (filter (\<lambda>s. answer_of db (sn_id s) \<noteq> None) snapshots)
           in ret (QuestionPage (at_id attempt) snapshot (length snapshots) answered_count
                (remaining_seconds * 1000), []))))"

definition finish_or_next :: "pk \<Rightarrow> time \<Rightarrow> string list \<Rightarrow> (exam_db, response \<times> string list) op" where
  "finish_or_next attempt_id now msgs = andthen get_db (\<lambda>db.
     case get_current_question db attempt_id of
       None \<Rightarrow> andthen (complete_exam_attempt attempt_id now) (\<lambda>_. ret (RedirectOverview attempt_id, msgs))
     | Some _ \<Rightarrow> ret (RedirectQuestion attempt_id, msgs))"

definition submit_question_answer ::
    "SupportProfile list \<Rightarrow> pk \<Rightarrow> pk \<Rightarrow> post \<Rightarrow> time \<Rightarrow> time \<Rightarrow> (exam_db, response \<times> string list) op" where
  "submit_question_answer user_profiles attempt_id snapshot_id post now later =
     andthen (get_employee_attempt user_profiles attempt_id) (\<lambda>attempt.
     if at_status attempt \<noteq> IN_PROGRESS then ret (RedirectOverview (at_id attempt), [])
     else andthen (get_snapshot snapshot_id) (\<lambda>snapshot.
       if sn_attempt_id snapshot \<noteq> at_id attempt then raise DoesNotExist
       else andthen get_db (\<lambda>db. case get_current_question db (at_id attempt) of
         None \<Rightarrow> andthen (complete_exam_attempt (at_id attempt) now) (\<lambda>_.
           ret (RedirectOverview (at_id attempt), []))
       | Some current_snapshot \<Rightarrow>
           if sn_id current_snapshot \<noteq> sn_id snapshot
             then ret (RedirectQuestion (at_id attempt), [''question_already_passed''])
           else andthen (catch
               (andthen (lift_result (build_response_payload post (sn_data snapshot))) (\<lambda>payload.
                andthen (submit_exam_answer (sn_id snapshot) payload now) (\<lambda>(answer, _).
                ret (Inr answer))))
               (\<lambda>e. case e of ValidationError m \<Rightarrow> ret (Inl m) | _ \<Rightarrow> raise e)) (\<lambda>outcome.
             case outcome of
               Inl m \<Rightarrow> ret (RedirectQuestion (at_id attempt), [m])
             | Inr answer \<Rightarrow> finish_or_next (at_id attempt) later
                 (if an_timed_out answer then [''question_time_over''] else [])))))"

section \<open>Opening the current question\<close>

text \<open>What the loop guarantees of the question it hands out.\<close>

definition open_for :: "time \<Rightarrow> ExamQuestionSnapshot \<Rightarrow> bool" where
  "open_for now s = (case sn_started_at s of
     None \<Rightarrow> False
   | Some t \<Rightarrow> t = now \<or> now < t + 1000000 * int (sd_time_limit_seconds (sn_data s)))"

definition timed_out_only :: "exam_db \<Rightarrow> exam_db \<Rightarrow> bool" where
  "timed_out_only db db' \<longleftrightarrow> (\<exists>new. db_answers db' = db_answers db @ new \<and>
     list_all (\<lambda>a. an_timed_out a \<and> an_score_percentage a = 0) new)"

lemma submit_overdue:
  assumes inv: "exam_inv db" and s: "get_current_question db i = Some s" "get_question_deadline s = Some d"
    "d \<le> now" and t: "t \<in> set (db_attempts db)" "at_id t = i" "at_status t = IN_PROGRESS"
  shows "\<exists>answer. submit_exam_answer (sn_id s) payload now db =
      (Inr (answer, True), db\<lparr>db_answers := db_answers db @ [answer]\<rparr>) \<and>
    an_timed_out answer \<and> an_score_percentage answer = 0 \<and> an_snapshot_id answer = sn_id s"
proof -
  note c = get_current_question_Some [OF s(1)]
  have mem: "s \<in> set (db_snapshots db)" "sn_attempt_id s = i" using c by (simp_all add: attempt_snapshots_def)
  have fs: "List.find (\<lambda>x. sn_id x = sn_id s) (db_snapshots db) = Some s"
    using inv mem by (intro find_by_id) (simp_all add: exam_inv_defs)
  have ft: "List.find (\<lambda>x. at_id x = i) (db_attempts db) = Some t"
    using inv t by (intro find_by_id) (simp_all add: exam_inv_defs)
  obtain st where st: "sn_started_at s = Some st" "d = st + 1000000 * int (sd_time_limit_seconds (sn_data s))"
    using s(2) by (auto simp: get_question_deadline_def)
  show ?thesis
    using fs ft mem t c st s(3)
    by (simp add: submit_exam_answer_def atomic_def andthen_def get_snapshot_def get_attempt_def
        op_apply Let_def create_answer_def)
qed

lemma get_current_question_started:
  assumes "get_current_question db i = Some s" and "exam_inv db"
    and "db' = db\<lparr>db_snapshots := map (\<lambda>x. if sn_id x = sn_id s then x\<lparr>sn_started_at := Some now\<rparr> else x) (db_snapshots db)\<rparr>"
  shows "get_current_question db' i = Some (s\<lparr>sn_started_at := Some now\<rparr>)"
proof -
  let ?f = "\<lambda>x. if sn_id x = sn_id s then x\<lparr>sn_started_at := Some now\<rparr> else x"
  have f: "sn_id (?f x) = sn_id x" "sn_attempt_id (?f x) = sn_attempt_id x" "sn_position (?f x) = sn_position x" for x
    by simp_all
  have "unanswered_snapshots db' i = map ?f (unanswered_snapshots db i)"
    by (simp add: assms(3) unanswered_eq filter_map comp_def f cong: filter_cong)
  then have "sort_key sn_position (unanswered_snapshots db' i) = map ?f (sort_key sn_position (unanswered_snapshots db i))"
    using map_sort_key [of ?f sn_position "unanswered_snapshots db i"] by (simp add: f)
  with assms(1) show ?thesis by (auto simp: get_current_question_def split: list.splits)
qed

lemma open_loop_spec:
  assumes "exam_inv db" and "t \<in> set (db_attempts db)" and "at_id t = i" and "at_status t = IN_PROGRESS"
  shows "\<exists>r db'. open_loop i now db = (Inr r, db') \<and> r = get_current_question db' i \<and>
    (\<forall>s. r = Some s \<longrightarrow> open_for now s) \<and> timed_out_only db db' \<and> db_attempts db' = db_attempts db"
  using assms
proof (induction i now db rule: open_loop.induct)
  case (1 i now db)
  show ?case
  proof (cases "get_current_question db i")
    case None
    then show ?thesis by (auto simp: open_loop.simps [of i now db] timed_out_only_def)
  next
    case (Some s)
    show ?thesis
    proof (cases "get_question_deadline s")
      case None
      with Some get_current_question_started [OF Some "1.prems"(1) refl] show ?thesis
        by (auto simp: open_loop.simps [of i now db] andthen_def op_apply save_started_at_def
            open_for_def timed_out_only_def)
    next
      case (Some d)
      note cur = \<open>get_current_question db i = Some s\<close>
      show ?thesis
      proof (cases "now < d")
        case True
        with cur Some show ?thesis
          by (auto simp: open_loop.simps [of i now db] open_for_def get_question_deadline_def timed_out_only_def)
      next
        case False
        then have late: "d \<le> now" by simp
        obtain a where a: "submit_exam_answer (sn_id s) (JObj []) now db =
            (Inr (a, True), db\<lparr>db_answers := db_answers db @ [a]\<rparr>)" "an_timed_out a" "an_score_percentage a = 0"
          using submit_overdue [OF "1.prems"(1) cur Some late "1.prems"(2-4)] by blast
        let ?db = "db\<lparr>db_answers := db_answers db @ [a]\<rparr>"
        have "exam_inv ?db" by (rule submit_inv [OF a(1) "1.prems"(1)])
        from "1.IH" [OF cur Some False a(1) [symmetric] refl this] "1.prems"(2-4)
        obtain r db' where ih: "open_loop i now ?db = (Inr r, db')" "r = get_current_question db' i"
          "\<forall>s. r = Some s \<longrightarrow> open_for now s" "timed_out_only ?db db'" "db_attempts db' = db_attempts db"
          by auto
        have "timed_out_only db db'" using ih(4) a(2,3) by (auto simp: timed_out_only_def)
        with ih cur Some False a(1) show ?thesis by (simp add: open_loop.simps [of i now db])
      qed
    qed
  qed
qed

lemma open_current_question_spec:
  assumes inv: "exam_inv db" and t: "t \<in> set (db_attempts db)" "at_id t = i" "at_status t = IN_PROGRESS"
  shows "\<exists>r db'. open_current_question i now db = (Inr r, db') \<and> r = get_current_question db' i \<and>
    (\<forall>s. r = Some s \<longrightarrow> open_for now s) \<and> timed_out_only db db' \<and> db_attempts db' = db_attempts db"
proof -
  have "List.find (\<lambda>x. at_id x = i) (db_attempts db) = Some t"
    using inv t by (intro find_by_id) (simp_all add: exam_inv_defs)
  with open_loop_spec [OF inv t, of now] t show ?thesis
    by (auto simp: open_current_question_def atomic_def andthen_def get_attempt_def)
qed

section \<open>Completing\<close>

lemma find_map_keep:
  "(\<And>x. P (f x) = P x) \<Longrightarrow> List.find P (map f xs) = map_option f (List.find P xs)"
  by (induction xs) auto

lemma find_snoc: "List.find P xs = None \<Longrightarrow> P x \<Longrightarrow> List.find P (xs @ [x]) = Some x"
  by (induction xs) (auto split: if_splits)

lemma complete_succeeds:
  assumes inv: "exam_inv db" and t: "t \<in> set (db_attempts db)" "at_id t = i" "at_status t = IN_PROGRESS"
    and snaps: "attempt_snapshots db i \<noteq> []" and all: "unanswered_snapshots db i = []"
  shows "\<exists>result db'. complete_exam_attempt i now db = (Inr (result, True), db') \<and>
    complete_exam_attempt i later db' = (Inr (result, False), db') \<and> db_answers db' = db_answers db"
proof -
  let ?n = "length (attempt_snapshots db i)" and ?xs = "attempt_answers db i"
  let ?r = "build_result t ?n ?xs"
  let ?f = "\<lambda>u. if at_id u = i then u\<lparr>at_status := COMPLETED, at_completed_at := Some now\<rparr> else u"
  let ?db = "db\<lparr>db_results := db_results db @ [?r], db_attempts := map ?f (db_attempts db)\<rparr>"
  have ft: "List.find (\<lambda>x. at_id x = i) (db_attempts db) = Some t"
    using inv t by (intro find_by_id) (simp_all add: exam_inv_defs)
  have none: "result_of db i = None"
    unfolding result_of_def find_None_all
  proof (intro ballI notI)
    fix r assume "r \<in> set (db_results db)" "rs_attempt_id r = i"
    with inv obtain u where u: "u \<in> set (db_attempts db)" "at_id u = i" "at_status u \<noteq> IN_PROGRESS"
      by (auto simp: exam_inv_def results_ok_def)
    with t inv have "u = t" by (auto simp: exam_inv_defs distinct_map inj_on_def)
    with u t show False by simp
  qed
  have n: "length ?xs = ?n" using all_answered_iff [OF inv] all by simp
  have "complete_exam_attempt i now db = (Inr (?r, True), ?db)"
    using ft t none n snaps
    by (simp add: complete_exam_attempt_def atomic_def andthen_def get_attempt_def op_apply Let_def
        create_result_def save_completed_def build_result_id)
  moreover have "List.find (\<lambda>x. at_id x = i) (map ?f (db_attempts db)) =
      map_option ?f (List.find (\<lambda>x. at_id x = i) (db_attempts db))"
    by (rule find_map_keep) simp
  then have "List.find (\<lambda>x. at_id x = i) (db_attempts ?db) = Some (?f t)" using ft by simp
  moreover have "result_of ?db i = Some ?r" using none t by (simp add: result_of_def build_result_id find_snoc)
  ultimately show ?thesis
    using t by (intro exI [of _ ?r] exI [of _ ?db])
      (simp add: complete_exam_attempt_def [of i later] atomic_def andthen_def get_attempt_def op_apply)
qed

section \<open>The submission view\<close>

definition validation_only :: "'a result \<Rightarrow> bool" where
  "validation_only r \<longleftrightarrow> (\<forall>e. r = Inl e \<longrightarrow> (\<exists>m. e = ValidationError m))"

lemma validation_only_simps [simp]:
  "validation_only (Inr x)" "validation_only (Inl (ValidationError m))"
  by (simp_all add: validation_only_def)

lemma validation_only_bindR:
  "validation_only r \<Longrightarrow> (\<And>x. r = Inr x \<Longrightarrow> validation_only (f x)) \<Longrightarrow> validation_only (bindR r f)"
  by (auto simp: validation_only_def bindR_Inl_iff)

text \<open>A form can only post strings, so the graders never meet an unhashable value.\<close>

lemma py_set_strings: "list_all (\<lambda>j. \<exists>x. j = JStr x) xs \<Longrightarrow> validation_only (py_set xs)"
proof -
  assume "list_all (\<lambda>j. \<exists>x. j = JStr x) xs"
  then have "list_all hashable xs" by (auto simp: list_all_iff)
  then show ?thesis by (simp add: py_set_def)
qed

lemma get_selected_keys_validation:
  assumes "map_of rp ''selected_keys'' = Some (JArr (map JStr ks))"
  shows "validation_only (get_selected_keys rp available)"
  using assms by (auto simp: get_selected_keys_def intro!: validation_only_bindR)

lemma grade_choice_validation:
  "validation_only (grade_choice d [(''selected_keys'', JArr (map JStr ks))])"
proof -
  have "validation_only (py_set xs)" if "get_selected_keys [(''selected_keys'', JArr (map JStr ks))] av = Inr xs" for av xs
    using that grade_selected_set [OF that] by auto
  then show ?thesis
    unfolding grade_choice_def Let_def
    by (intro validation_only_bindR get_selected_keys_validation) (auto intro!: validation_only_bindR)
qed

lemma grade_line_validation:
  "validation_only (grade_line_selection d [(''selected_keys'', JArr (map JStr ks))])"
proof -
  have "validation_only (py_set xs)" if "get_selected_keys [(''selected_keys'', JArr (map JStr ks))] av = Inr xs" for av xs
    using that grade_selected_set [OF that] by auto
  then show ?thesis
    unfolding grade_line_selection_def Let_def
    by (intro validation_only_bindR get_selected_keys_validation) (auto intro!: validation_only_bindR)
qed

lemma grade_ordering_validation: "validation_only (grade_ordering d [(''order'', JArr (map JStr ks))])"
  by (auto simp: grade_ordering_def Let_def)

lemma grade_matching_validation:
  assumes "list_all (\<lambda>(k, v). \<exists>x. v = JStr x) m"
  shows "validation_only (grade_matching d [(''matches'', JObj m)])"
proof -
  have "list_all (\<lambda>j. \<exists>x. j = JStr x) (map snd m)" using assms by (auto simp: list_all_iff)
  from py_set_strings [OF this] show ?thesis
    by (auto simp: grade_matching_def Let_def intro!: validation_only_bindR)
qed

lemma update_strings:
  "list_all (\<lambda>(k, v). \<exists>x. v = JStr x) m \<Longrightarrow> list_all (\<lambda>(k, v). \<exists>x. v = JStr x) (AList.update k (JStr v) m)"
  by (induction m) auto

lemma posted_matches_strings: "list_all (\<lambda>(k, v). \<exists>x. v = JStr x) (posted_matches post items)"
proof -
  let ?f = "\<lambda>item matches.
    let left_key = fst item; right_key = get_last post (''match_'' @ left_key)
    in if right_key \<noteq> [] then AList.update left_key (JStr right_key) matches else matches"
  have "list_all (\<lambda>(k, v). \<exists>x. v = JStr x) m \<Longrightarrow> list_all (\<lambda>(k, v). \<exists>x. v = JStr x) (fold ?f items m)" for m
    by (induction items arbitrary: m) (simp_all add: Let_def update_strings)
  from this [of "[]"] show ?thesis unfolding posted_matches_def by simp
qed

lemma grade_posted_validation:
  assumes "build_response_payload post d = Inr payload"
  shows "validation_only (grade_snapshot_answer d payload)"
  using assms
  by (cases "sd_question_type d")
    (auto simp: build_response_payload_def Let_def grade_snapshot_answer_def grade_choice_validation
      grade_line_validation grade_ordering_validation intro!: grade_matching_validation posted_matches_strings)

lemma submit_posted_validation:
  assumes inv: "exam_inv db" and s: "s \<in> set (db_snapshots db)"
    and t: "t \<in> set (db_attempts db)" "at_id t = sn_attempt_id s"
    and posted: "build_response_payload post (sn_data s) = Inr payload"
  shows "validation_only (fst (submit_exam_answer (sn_id s) payload now db))"
proof -
  have fs: "List.find (\<lambda>x. sn_id x = sn_id s) (db_snapshots db) = Some s"
    using inv s by (intro find_by_id) (simp_all add: exam_inv_defs)
  have ft: "List.find (\<lambda>x. at_id x = sn_attempt_id s) (db_attempts db) = Some t"
    using inv t by (intro find_by_id) (simp_all add: exam_inv_defs)
  have g: "validation_only (grade_snapshot_answer (sn_data s) payload)"
    by (rule grade_posted_validation [OF posted])
  show ?thesis
    using g
    by (simp add: submit_exam_answer_def atomic_def andthen_def get_snapshot_def get_attempt_def fs ft
        op_apply Let_def create_answer_def save_answer_def raise_def
        split: option.split sum.split)
      (auto simp: validation_only_def)
qed

text \<open>
  The view as a whole: it never fails for the employee's own question, whatever is posted, it
  never changes an answer that was already given, and it adds one at most.
\<close>

lemma finish_or_next_succeeds:
  assumes "exam_inv db" and "t \<in> set (db_attempts db)" "at_id t = i" "at_status t = IN_PROGRESS"
    and "attempt_snapshots db i \<noteq> []"
  shows "\<exists>r db'. finish_or_next i now msgs db = (Inr r, db') \<and> db_answers db' = db_answers db"
proof (cases "get_current_question db i")
  case None
  then have "unanswered_snapshots db i = []" by (simp add: get_current_question_None_iff)
  from complete_succeeds [OF assms this, of now now] None show ?thesis
    by (auto simp: finish_or_next_def andthen_def op_apply)
next
  case (Some s)
  then show ?thesis by (simp add: finish_or_next_def andthen_def op_apply)
qed

lemma submit_view_succeeds:
  assumes inv: "exam_inv db"
    and own: "get_employee_attempt user_profiles i db = (Inr t, db)"
    and s: "s \<in> set (db_snapshots db)" "sn_attempt_id s = at_id t"
  shows "\<exists>r db' new. submit_question_answer user_profiles i (sn_id s) post now later db = (Inr r, db') \<and>
    db_answers db' = db_answers db @ new \<and> length new \<le> 1"
proof -
  have t: "t \<in> set (db_attempts db)"
    using own by (auto simp: get_employee_attempt_def andthen_Inr_iff get_attempt_def get_assignment_def
        op_apply dest: find_Some_member split: option.splits if_splits)
  have fs: "List.find (\<lambda>x. sn_id x = sn_id s) (db_snapshots db) = Some s"
    using inv s by (intro find_by_id) (simp_all add: exam_inv_defs)
  have snaps: "attempt_snapshots db (at_id t) \<noteq> []" using s by (auto simp: attempt_snapshots_def filter_empty_conv)
  note start = submit_question_answer_def andthen_def own get_snapshot_def fs op_apply s(2)
  consider "at_status t \<noteq> IN_PROGRESS" | "at_status t = IN_PROGRESS" "get_current_question db (at_id t) = None"
    | c where "at_status t = IN_PROGRESS" "get_current_question db (at_id t) = Some c" "sn_id c \<noteq> sn_id s"
    | c where "at_status t = IN_PROGRESS" "get_current_question db (at_id t) = Some c" "sn_id c = sn_id s"
    by (cases "get_current_question db (at_id t)") auto
  then show ?thesis
  proof cases
    case 1
    then show ?thesis by (simp add: start)
  next
    case 2
    then have "unanswered_snapshots db (at_id t) = []" by (simp add: get_current_question_None_iff)
    from complete_succeeds [OF inv t refl 2(1) snaps this, of now now] 2 show ?thesis
      by (auto simp: start)
  next
    case (3 c)
    then show ?thesis by (simp add: start)
  next
    case (4 c)
    have unanswered: "answer_of db (sn_id s) = None" using get_current_question_Some [OF 4(2)] 4(3) by simp
    show ?thesis
    proof (cases "build_response_payload post (sn_data s)")
      case (Inl e)
      then obtain m where "e = ValidationError m" by (auto simp: build_response_payload_def Let_def split: if_splits)
      with Inl 4 show ?thesis by (simp add: start catch_def)
    next
      case (Inr payload)
      obtain x db1 where sub: "submit_exam_answer (sn_id s) payload now db = (x, db1)" by fastforce
      show ?thesis
      proof (cases x)
        case (Inl e)
        with sub submit_posted_validation [OF inv s(1) t _ Inr, of now] s(2)
        obtain m where "e = ValidationError m" by (auto simp: validation_only_def)
        moreover have "db1 = db" using sub Inl unfolding submit_exam_answer_def by (auto dest: atomic_rollback)
        ultimately show ?thesis using 4 Inr Inl sub by (simp add: start catch_def)
      next
        case (Inr y)
        obtain a c where y: "y = (a, c)" by fastforce
        from submit_unanswered_Inr [OF sub [unfolded Inr y] unanswered]
        have db1: "db1 = db\<lparr>db_answers := db_answers db @ [a]\<rparr>" by simp
        have "exam_inv db1" using submit_inv [OF sub [unfolded Inr] inv] .
        from finish_or_next_succeeds [OF this _ refl 4(1), of later "if an_timed_out a then [''question_time_over''] else []"] t snaps
        show ?thesis
          using 4 \<open>build_response_payload post (sn_data s) = Inr payload\<close> sub Inr y
          by (auto simp: start catch_def db1 attempt_snapshots_def)
      qed
    qed
  qed
qed

section \<open>Example tables\<close>

definition demo_assignment :: ExamAssignment where
  "demo_assignment = \<lparr>as_id = 1,
     as_campaign = \<lparr>cp_name = ''2026'', cp_blueprint = demo_blueprint, cp_opens_at = Some 0,
       cp_closes_at = None, cp_is_active = True\<rparr>,
     as_employee = \<lparr>pr_id = 7, pr_level = LEVEL_L1, pr_is_active = True\<rparr>,
     as_attempt_limit = 1, as_is_active = True\<rparr>"

text \<open>Before any attempt, and with a running attempt of two questions of which the first is overdue at 61 s.\<close>

definition demo_db :: exam_db where
  "demo_db = \<lparr>db_questions = demo_bank, db_assignments = [demo_assignment], db_attempts = [],
     db_snapshots = [], db_answers = [], db_results = []\<rparr>"

definition demo_running :: exam_db where
  "demo_running = demo_db\<lparr>db_attempts := [demo_attempt],
     db_snapshots := [fst (demo_answer 1 0), (fst (demo_answer 2 0))\<lparr>sn_started_at := None\<rparr>]\<rparr>"

definition demo_answered :: exam_db where
  "demo_answered = demo_db\<lparr>db_attempts := [demo_attempt],
     db_snapshots := [fst (demo_answer 1 0), fst (demo_answer 2 0)],
     db_answers := [snd (demo_answer 1 10000), snd (demo_answer 2 4000)]\<rparr>"

lemmas demo_defs = demo_db_def demo_running_def demo_answered_def demo_assignment_def
  demo_attempt_def demo_answer_def

lemma demo_inv: "exam_inv demo_db" "exam_inv demo_running" "exam_inv demo_answered"
  by (simp_all add: exam_inv_defs demo_defs unanswered_eq assignment_attempts_def answer_ok_def)

section \<open>Properties of the exam life cycle\<close>

text \<open>
  C1. Every history of starts, openings, submissions and completions, failed calls included, keeps
  the tables consistent: attempt numbers are unique per assignment, an assignment has at most one
  running attempt and never more attempts than its limit, a question has at most one answer and
  only after it was opened, scores stay within 0 to 100 percent, a timed-out answer scores zero,
  and an attempt is marked completed exactly once, with a result and all its questions answered.
\<close>

theorem exam_tables_stay_consistent:
  assumes "(exam_step casefold rng seed_random)\<^sup>*\<^sup>* db db'" and "exam_inv db"
  shows "exam_inv db'"
  using assms by (rule exam_reachable_inv)

theorem exam_tables_stay_consistent_witness:
  "\<exists>db'. (exam_step id first_random (\<lambda>_. ()))\<^sup>*\<^sup>* demo_running db' \<and>
     length (db_answers db') = 1 \<and> exam_inv db'"
proof -
  obtain a where a: "submit_exam_answer 1 (JObj []) 61000000 demo_running =
      (Inr (a, True), demo_running\<lparr>db_answers := db_answers demo_running @ [a]\<rparr>)"
    using submit_overdue [OF demo_inv(2), of 1 "fst (demo_answer 1 0)" 60000000 61000000 demo_attempt "JObj []"]
    by (auto simp: get_current_question_def unanswered_eq get_question_deadline_def demo_snapshot_def demo_defs)
  let ?db = "demo_running\<lparr>db_answers := db_answers demo_running @ [a]\<rparr>"
  have r: "(exam_step id first_random (\<lambda>_. ()))\<^sup>*\<^sup>* demo_running ?db"
    by (rule r_into_rtranclp) (rule exam_step.step_submit [OF a])
  have "length (db_answers ?db) = 1" by (simp add: demo_defs)
  with r exam_tables_stay_consistent [OF r demo_inv(2)] show ?thesis by blast
qed

text \<open>
  C2. Opening the current question of a running attempt always returns: it hands out the first
  unanswered question, which is either just being opened or still within its time limit, and it
  returns nothing exactly when every question has an answer. On the way it records overdue
  questions as timed out with score zero and touches no other answer.
\<close>

theorem open_current_question_correct:
  assumes "exam_inv db" and "t \<in> set (db_attempts db)" and "at_id t = i" and "at_status t = IN_PROGRESS"
  shows "\<exists>r db'. open_current_question i now db = (Inr r, db') \<and> r = get_current_question db' i \<and>
    (\<forall>s. r = Some s \<longrightarrow> open_for now s) \<and> (r = None \<longleftrightarrow> unanswered_snapshots db' i = []) \<and>
    timed_out_only db db'"
  using open_current_question_spec [OF assms, of now] get_current_question_None_iff by metis

theorem open_current_question_correct_witness:
  "\<exists>r db'. open_current_question 1 61000000 demo_running = (Inr r, db') \<and> r = get_current_question db' 1"
  using open_current_question_correct [OF demo_inv(2), of demo_attempt 1 61000000]
  by (auto simp: demo_running_def demo_attempt_def)

text \<open>
  When every question of a running attempt is answered, completing it succeeds and creates the
  result; completing it again returns the same result and changes nothing.
\<close>

theorem complete_exam_attempt_once:
  assumes "exam_inv db" and "t \<in> set (db_attempts db)" and "at_id t = i" and "at_status t = IN_PROGRESS"
    and "attempt_snapshots db i \<noteq> []" and "unanswered_snapshots db i = []"
  shows "\<exists>result db'. complete_exam_attempt i now db = (Inr (result, True), db') \<and>
    complete_exam_attempt i later db' = (Inr (result, False), db') \<and> db_answers db' = db_answers db"
  using assms by (rule complete_succeeds)

theorem complete_exam_attempt_once_witness:
  "\<exists>result db'. complete_exam_attempt 1 5 demo_answered = (Inr (result, True), db') \<and>
    complete_exam_attempt 1 6 db' = (Inr (result, False), db') \<and> db_answers db' = db_answers demo_answered"
  by (rule complete_exam_attempt_once [OF demo_inv(3), of demo_attempt])
    (simp_all add: demo_defs unanswered_eq attempt_snapshots_def)

text \<open>
  C3. Whatever an employee posts for a question of their own attempt, the submission view answers
  with a redirect and no unhandled exception; it adds at most one answer and never changes one
  that is already stored, even when the blueprint allows going back.
\<close>

theorem submit_question_answer_total:
  assumes "exam_inv db" and "get_employee_attempt user_profiles i db = (Inr t, db)"
    and "s \<in> set (db_snapshots db)" and "sn_attempt_id s = at_id t"
  shows "\<exists>r db' new. submit_question_answer user_profiles i (sn_id s) post now later db = (Inr r, db') \<and>
    db_answers db' = db_answers db @ new \<and> length new \<le> 1"
  using assms by (rule submit_view_succeeds)

theorem submit_question_answer_total_witness:
  "\<exists>r db' new. submit_question_answer [as_employee demo_assignment] 1 1 [(''selected_keys'', ''o1'')]
      5 6 demo_running = (Inr r, db') \<and>
    db_answers db' = db_answers demo_running @ new \<and> length new \<le> 1"
  using submit_question_answer_total [OF demo_inv(2), of "[as_employee demo_assignment]" 1 demo_attempt
      "fst (demo_answer 1 0)" "[(''selected_keys'', ''o1'')]" 5 6]
  by (simp add: demo_defs get_employee_attempt_def get_employee_profile_def andthen_def op_apply
      get_attempt_def get_assignment_def)

lemma find_in_progress_None_iff:
  "List.find (\<lambda>t. at_status t = IN_PROGRESS) (rev (assignment_attempts db i)) = None \<longleftrightarrow>
     existing_in_progress db i = None"
proof -
  have "existing_in_progress db i = None \<longleftrightarrow>
      filter (\<lambda>u. at_status u = IN_PROGRESS) (assignment_attempts db i) = []"
    using existing_None by (auto simp: existing_in_progress_def)
  then show ?thesis by (auto simp: find_None_all filter_empty_conv)
qed

text \<open>
  The dashboard and the start button agree: for an active assignment of an active employee of
  the right level, the dashboard shows it as available exactly when a start would not be refused
  (no attempt is running, the campaign is open and attempts are left).
\<close>

theorem assignment_available_iff_startable:
  assumes "as_is_active assignment" and "pr_is_active (as_employee assignment)"
    and "pr_level (as_employee assignment) = bp_level (cp_blueprint (as_campaign assignment))"
  shows "st_code (get_assignment_state db assignment now) = ''available'' \<longleftrightarrow>
    existing_in_progress db (as_id assignment) = None \<and>
    validate_assignment_for_start assignment now = Inr () \<and>
    length (assignment_attempts db (as_id assignment)) < as_attempt_limit assignment"
  using assms
  by (auto simp: get_assignment_state_def validate_assignment_for_start_def Let_def
      find_in_progress_None_iff [symmetric] split: option.splits)

theorem assignment_available_iff_startable_witness:
  "st_code (get_assignment_state demo_db demo_assignment 5) = ''available'' \<and>
   st_code (get_assignment_state demo_running demo_assignment 5) \<noteq> ''available''"
proof -
  have ok: "as_is_active demo_assignment" "pr_is_active (as_employee demo_assignment)"
    "pr_level (as_employee demo_assignment) = bp_level (cp_blueprint (as_campaign demo_assignment))"
    by (simp_all add: demo_assignment_def demo_blueprint_def)
  show ?thesis
    unfolding assignment_available_iff_startable [OF ok]
    by (simp add: demo_defs demo_blueprint_def validate_assignment_for_start_def assignment_attempts_def
        existing_in_progress_def)
qed

end
