(* ===== verification/Sandbox_Models.thy ===== *)
theory Sandbox_Models
  imports Prelude
begin

text \<open>
  The data of the ticket sandbox (\<^verbatim>\<open>sandbox/models.py\<close>, \<^verbatim>\<open>sandbox/ledger_models.py\<close>):
  queues, tasks, attempts with their check and environment state, check runs, program
  completions, and the tables of the append-only evidence ledger; and the read-only technical
  evidence (\<^verbatim>\<open>sandbox/services/technical_evidence.py\<close>) the attempt's properties are made of.

  An empty \<^verbatim>\<open>CharField\<close> is the empty string. Texts shown to people are ASCII tags. UUIDs are
  their canonical strings. Rows are kept in the order they were created.
\<close>

section \<open>Choices\<close>

datatype Level = CANDIDATE | L1 | L2 | ADMIN

datatype Status = ST_NEW | ST_IN_PROGRESS | ST_ON_REVIEW | ST_FAILED | ST_PASSED

datatype CheckStatus = CK_IDLE | CK_RUNNING | CK_PASSED | CK_FAILED | CK_ERROR

datatype EnvironmentStatus = EN_IDLE | EN_STARTING | EN_READY | EN_RESTARTING | EN_ERROR

datatype MentorDecision = NOT_REVIEWED | APPROVED | NEEDS_REVISION

datatype StuckReason = STUCK_NONE | STUCK_ENVIRONMENT | STUCK_CHECK

datatype CheckRunResult = RUN_PASSED | RUN_FAILED

datatype CompletionSource = TECHNICAL_CHECK | LEGACY_RESTORE

section \<open>Queues, tasks, attempts\<close>

record Queue =
  qu_id :: pk
  qu_name :: string
  qu_slug :: string
  qu_order :: nat
  qu_is_active :: bool
  qu_required_level :: Level

record Task =
  tk_id :: pk
  tk_queue :: Queue
  tk_slug :: string
  tk_order :: nat
  tk_requires_manual_review :: bool
  tk_is_active :: bool

record TaskAttempt =
  ta_id :: pk
  ta_user_id :: pk
  ta_task :: Task
  ta_attempt_number :: nat
  ta_is_current :: bool
  ta_status :: Status
  ta_attempts_count :: nat
  ta_restart_count :: nat
  ta_started_at :: "time option"
  ta_finished_at :: "time option"
  ta_technical_passed_at :: "time option"
  ta_check_status :: CheckStatus
  ta_check_started_at :: "time option"
  ta_check_finished_at :: "time option"
  ta_environment_status :: EnvironmentStatus
  ta_environment_started_at :: "time option"
  ta_environment_finished_at :: "time option"
  ta_stuck_reason :: StuckReason
  ta_last_check_output :: string
  ta_trainee_report :: string
  ta_client_answer :: string
  ta_container_id :: string
  ta_container_name :: string
  ta_shell_command :: string
  ta_environment_cleanup_requested :: bool
  ta_terminal_container_name :: string
  ta_terminal_url :: string
  ta_terminal_port :: "nat option"
  ta_mentor_feedback :: string
  ta_mentor_decision :: MentorDecision
  ta_mentor_reviewed_by :: "pk option"
  ta_mentor_reviewed_at :: "time option"
  ta_mentor_feedback_seen_at :: "time option"

record CheckRun =
  cr_id :: pk
  cr_attempt_id :: pk
  cr_result :: CheckRunResult
  cr_output :: string
  cr_exit_code :: int
  cr_created_at :: time

section \<open>Completions\<close>

record CompletionEntry =
  en_task_id :: pk
  en_task_slug :: string
  en_order :: nat
  en_attempt_id :: pk
  en_evidence_source :: string
  en_passed_at :: time
  en_check_run_id :: "pk option"

record SandboxProgramCompletion =
  pc_id :: pk
  pc_user_id :: pk
  pc_program_key :: string
  pc_completed_at :: time
  pc_source :: CompletionSource
  pc_composition_fingerprint :: string
  pc_snapshot :: "CompletionEntry list"

section \<open>The evidence ledger\<close>

record ManifestEntry =
  me_task_id :: pk
  me_task_slug :: string
  me_order :: nat
  me_requires_review :: "bool option"
  me_criteria_version :: "string option"
  me_criteria_digest :: "string option"

record SandboxProgramManifest =
  mf_id :: pk
  mf_user_id :: pk
  mf_program_key :: string
  mf_source :: string
  mf_snapshot :: "ManifestEntry list"
  mf_digest :: string
  mf_recorded_at :: time

record SandboxAttemptCoverage =
  cv_attempt_id :: pk
  cv_user_id :: pk
  cv_task_id :: pk
  cv_attempt_number :: nat
  cv_origin :: string
  cv_initial_checks :: nat
  cv_initial_resets :: nat
  cv_manifest_id :: "pk option"

record SandboxEvidenceGap =
  eg_attempt_id :: pk
  eg_reason :: string
  eg_source :: string

record TechnicalCheckExecution =
  ex_id :: pk
  ex_run_id :: string
  ex_attempt_id :: pk
  ex_user_id :: pk
  ex_task_id :: pk
  ex_attempt_number :: nat
  ex_ordinal :: nat
  ex_requested_at :: time
  ex_checker_kind :: string
  ex_criteria_digest :: "string option"
  ex_source :: string

datatype CheckPhase = PH_STARTED | PH_FINISHED | PH_DUPLICATE

record TechnicalCheckExecutionEvent =
  ce_execution_id :: pk
  ce_phase :: CheckPhase
  ce_occurred_at :: time
  ce_result :: string
  ce_failure_class :: string
  ce_reason :: string
  ce_checker_started :: "bool option"
  ce_exit_code :: "int option"
  ce_check_run_id :: "pk option"

datatype EnvironmentKind = KIND_START | KIND_RESET | KIND_CLEANUP

datatype EnvironmentPhase = EP_REQUESTED | EP_STARTED | EP_FINISHED | EP_DUPLICATE

record SandboxEnvironmentEvent =
  ev_id :: pk
  ev_operation_id :: string
  ev_attempt_id :: pk
  ev_user_id :: pk
  ev_task_id :: pk
  ev_attempt_number :: nat
  ev_kind :: EnvironmentKind
  ev_phase :: EnvironmentPhase
  ev_actor_id :: "pk option"
  ev_origin :: string
  ev_requested_at :: time
  ev_occurred_at :: time
  ev_outcome :: string
  ev_reason :: string

record SandboxAnswerSubmission =
  sm_id :: pk
  sm_operation_id :: string
  sm_attempt_id :: pk
  sm_user_id :: pk
  sm_task_id :: pk
  sm_attempt_number :: nat
  sm_ordinal :: nat
  sm_submitted_at :: time
  sm_client_answer :: string
  sm_trainee_report :: string
  sm_digest :: string

record SandboxAnswerReviewEvent =
  rv_id :: pk
  rv_submission_id :: pk
  rv_actor_id :: pk
  rv_reviewed_at :: time
  rv_decision :: string
  rv_comment :: string
  rv_operation_id :: string
  rv_kind :: string
  rv_supersedes :: "pk option"

text \<open>The achievement application's durable source records (\<^verbatim>\<open>AchievementSourceEvent\<close>).\<close>

record AchievementSourceEvent =
  so_id :: pk
  so_provider :: string
  so_external_id :: string
  so_user_id :: pk
  so_context :: json
  so_payload :: json
  so_available_at :: "time option"
  so_status :: string
  so_schema_version :: nat
  so_attempts :: nat
  so_error :: string
  so_result :: json
  so_processed_at :: "time option"

record SandboxUser =
  us_id :: pk
  us_is_staff :: bool
  us_date_joined :: time

section \<open>The tables\<close>

text \<open>
  \<open>sb_boundary\<close> is the singleton row of \<^verbatim>\<open>SandboxLedgerBoundary\<close>: the time the ledger was
  enabled and the highest user id at that time.
\<close>

record sandbox_db =
  sb_boundary :: "(time \<times> pk) option"
  sb_users :: "SandboxUser list"
  sb_queues :: "Queue list"
  sb_tasks :: "Task list"
  sb_attempts :: "TaskAttempt list"
  sb_check_runs :: "CheckRun list"
  sb_completions :: "SandboxProgramCompletion list"
  sb_manifests :: "SandboxProgramManifest list"
  sb_coverage :: "SandboxAttemptCoverage list"
  sb_gaps :: "SandboxEvidenceGap list"
  sb_executions :: "TechnicalCheckExecution list"
  sb_check_events :: "TechnicalCheckExecutionEvent list"
  sb_env_events :: "SandboxEnvironmentEvent list"
  sb_submissions :: "SandboxAnswerSubmission list"
  sb_reviews :: "SandboxAnswerReviewEvent list"
  sb_source_events :: "AchievementSourceEvent list"

section \<open>Technical evidence\<close>

text \<open>\<open>None\<close> is the source \<^verbatim>\<open>"missing"\<close>.\<close>

record TechnicalEvidence =
  te_source :: string
  te_passed_at :: "time option"
  te_check_run_id :: "pk option"

definition is_completed :: "TechnicalEvidence \<Rightarrow> bool" where
  "is_completed e = (te_source e \<noteq> ''missing'')"

definition missing_evidence :: TechnicalEvidence where
  "missing_evidence = \<lparr>te_source = ''missing'', te_passed_at = None, te_check_run_id = None\<rparr>"

text \<open>The successful check runs of an attempt, oldest first.\<close>

definition successful_runs :: "sandbox_db \<Rightarrow> pk \<Rightarrow> CheckRun list" where
  "successful_runs db attempt_id =
     sort_key (\<lambda>r. (cr_created_at r, cr_id r))
       (filter (\<lambda>r. cr_attempt_id r = attempt_id \<and> cr_result r = RUN_PASSED \<and> cr_exit_code r = 0)
         (sb_check_runs db))"

definition conflicting_check_evidence :: "sandbox_db \<Rightarrow> pk \<Rightarrow> bool" where
  "conflicting_check_evidence db attempt_id =
     list_ex (\<lambda>r. cr_attempt_id r = attempt_id \<and>
       (cr_result r = RUN_PASSED \<and> cr_exit_code r \<noteq> 0 \<or> cr_result r = RUN_FAILED \<and> cr_exit_code r = 0))
       (sb_check_runs db)"

definition get_technical_evidence :: "sandbox_db \<Rightarrow> TaskAttempt \<Rightarrow> TechnicalEvidence" where
  "get_technical_evidence db attempt =
     (case ta_technical_passed_at attempt of
        Some t \<Rightarrow> \<lparr>te_source = ''technical_passed_at'', te_passed_at = Some t, te_check_run_id = None\<rparr>
      | None \<Rightarrow>
          (case successful_runs db (ta_id attempt) of
             [] \<Rightarrow> missing_evidence
           | r # _ \<Rightarrow> \<lparr>te_source = ''check_run'', te_passed_at = Some (cr_created_at r),
               te_check_run_id = Some (cr_id r)\<rparr>))"

definition credit_task_completed :: "sandbox_db \<Rightarrow> pk \<Rightarrow> pk \<Rightarrow> bool" where
  "credit_task_completed db user_id task_id =
     (case List.find (\<lambda>a. ta_user_id a = user_id \<and> tk_id (ta_task a) = task_id \<and> ta_attempt_number a = 1)
         (sb_attempts db) of
        None \<Rightarrow> False | Some a \<Rightarrow> is_completed (get_technical_evidence db a))"

record ProgressDiagnostic =
  pd_attempt_id :: pk
  pd_user_id :: pk
  pd_task_id :: pk
  pd_code :: string

definition diagnose_technical_evidence :: "sandbox_db \<Rightarrow> TaskAttempt \<Rightarrow> ProgressDiagnostic list" where
  "diagnose_technical_evidence db attempt =
     (let diagnostic = (\<lambda>code. \<lparr>pd_attempt_id = ta_id attempt, pd_user_id = ta_user_id attempt,
            pd_task_id = tk_id (ta_task attempt), pd_code = code\<rparr>);
          missing = \<not> is_completed (get_technical_evidence db attempt)
      in (if missing \<and> ta_status attempt = ST_PASSED
            then [diagnostic ''passed_without_technical_evidence''] else []) @
         (if missing \<and> ta_check_status attempt = CK_PASSED
            then [diagnostic ''check_status_without_technical_evidence''] else []) @
         (if conflicting_check_evidence db (ta_id attempt)
            then [diagnostic ''conflicting_check_run''] else []))"

section \<open>Properties of an attempt\<close>

definition technical_passed :: "sandbox_db \<Rightarrow> TaskAttempt \<Rightarrow> bool" where
  "technical_passed db attempt = is_completed (get_technical_evidence db attempt)"

definition is_extra_attempt :: "TaskAttempt \<Rightarrow> bool" where
  "is_extra_attempt attempt = (1 < ta_attempt_number attempt)"

definition is_credit_attempt :: "TaskAttempt \<Rightarrow> bool" where
  "is_credit_attempt attempt = (ta_attempt_number attempt = 1)"

definition can_start_environment :: "sandbox_db \<Rightarrow> TaskAttempt \<Rightarrow> bool" where
  "can_start_environment db attempt = (\<not> technical_passed db attempt \<and> ta_container_name attempt = [])"

definition can_restart_environment :: "sandbox_db \<Rightarrow> TaskAttempt \<Rightarrow> bool" where
  "can_restart_environment db attempt = (\<not> technical_passed db attempt)"

definition can_access_terminal :: "sandbox_db \<Rightarrow> TaskAttempt \<Rightarrow> bool" where
  "can_access_terminal db attempt =
     (if \<not> ta_is_current attempt \<or> ta_environment_cleanup_requested attempt then False
      else if ta_environment_status attempt \<noteq> EN_READY then False
      else if \<not> (ta_container_name attempt \<noteq> [] \<and> ta_terminal_container_name attempt \<noteq> [] \<and>
                 ta_terminal_url attempt \<noteq> []) then False
      else if ta_status attempt \<in> {ST_ON_REVIEW, ST_PASSED} then False
      else if \<not> technical_passed db attempt then True
      else technical_passed db attempt \<and> tk_requires_manual_review (ta_task attempt) \<and>
           is_credit_attempt attempt \<and> ta_status attempt = ST_IN_PROGRESS)"

definition can_rerun :: "sandbox_db \<Rightarrow> TaskAttempt \<Rightarrow> bool" where
  "can_rerun db attempt =
     (ta_is_current attempt \<and> technical_passed db attempt \<and> ta_status attempt = ST_PASSED)"

definition can_go_next :: "sandbox_db \<Rightarrow> TaskAttempt \<Rightarrow> bool" where
  "can_go_next db attempt =
     (if is_extra_attempt attempt then credit_task_completed db (ta_user_id attempt) (tk_id (ta_task attempt))
      else technical_passed db attempt)"

definition waiting_for_mentor_review :: "sandbox_db \<Rightarrow> TaskAttempt \<Rightarrow> bool" where
  "waiting_for_mentor_review db attempt =
     (technical_passed db attempt \<and> tk_requires_manual_review (ta_task attempt) \<and>
      ta_status attempt = ST_ON_REVIEW \<and> ta_mentor_decision attempt = NOT_REVIEWED)"

definition needs_text_revision :: "sandbox_db \<Rightarrow> TaskAttempt \<Rightarrow> bool" where
  "needs_text_revision db attempt =
     (technical_passed db attempt \<and> ta_mentor_decision attempt = NEEDS_REVISION)"

definition can_edit_client_answer :: "sandbox_db \<Rightarrow> TaskAttempt \<Rightarrow> bool" where
  "can_edit_client_answer db attempt =
     (tk_requires_manual_review (ta_task attempt) \<and> is_credit_attempt attempt \<and>
      technical_passed db attempt \<and> ta_status attempt \<notin> {ST_ON_REVIEW, ST_PASSED} \<and>
      (ta_is_current attempt \<or> ta_mentor_decision attempt = NEEDS_REVISION))"

definition is_available :: "sandbox_db \<Rightarrow> TaskAttempt \<Rightarrow> bool" where
  "is_available db attempt =
     (if tk_order (ta_task attempt) = 1 then True
      else list_ex (\<lambda>a. ta_user_id a = ta_user_id attempt \<and>
          qu_id (tk_queue (ta_task a)) = qu_id (tk_queue (ta_task attempt)) \<and>
          int (tk_order (ta_task a)) = int (tk_order (ta_task attempt)) - 1 \<and> ta_attempt_number a = 1 \<and>
          is_completed (get_technical_evidence db a)) (sb_attempts db))"

definition mentor_feedback_read_state :: "TaskAttempt \<Rightarrow> string" where
  "mentor_feedback_read_state attempt =
     (if ta_mentor_decision attempt = NOT_REVIEWED \<or> ta_mentor_feedback attempt = [] then ''none''
      else case ta_mentor_feedback_seen_at attempt of
        None \<Rightarrow> ''unread''
      | Some seen \<Rightarrow> (case ta_mentor_reviewed_at attempt of
          None \<Rightarrow> ''unknown''
        | Some reviewed \<Rightarrow> if seen < reviewed then ''unread'' else ''read''))"

definition has_unread_mentor_feedback :: "TaskAttempt \<Rightarrow> bool" where
  "has_unread_mentor_feedback attempt = (mentor_feedback_read_state attempt = ''unread'')"

section \<open>Reading and writing attempts\<close>

definition get_task_attempt :: "pk \<Rightarrow> (sandbox_db, TaskAttempt) op" where
  "get_task_attempt i = (\<lambda>db. case List.find (\<lambda>a. ta_id a = i) (sb_attempts db) of
     None \<Rightarrow> (Inl DoesNotExist, db) | Some a \<Rightarrow> (Inr a, db))"

text \<open>
  \<^verbatim>\<open>attempt.save(update_fields=...)\<close> and \<^verbatim>\<open>filter(pk=...).update(...)\<close>: the row is changed by
  \<open>f\<close>, which writes the named columns and keeps the others.
\<close>

definition update_attempt :: "pk \<Rightarrow> (TaskAttempt \<Rightarrow> TaskAttempt) \<Rightarrow> (sandbox_db, unit) op" where
  "update_attempt i f = modify_db (\<lambda>db. db\<lparr>sb_attempts :=
     map (\<lambda>a. if ta_id a = i then f a else a) (sb_attempts db)\<rparr>)"

section \<open>Evidence is monotone\<close>

text \<open>An attempt's evidence cannot be lost while check runs are only added and a set time stays set.\<close>

definition runs_extend :: "sandbox_db \<Rightarrow> sandbox_db \<Rightarrow> bool" where
  "runs_extend db db' \<longleftrightarrow> (\<exists>new. sb_check_runs db' = sb_check_runs db @ new)"

lemma successful_runs_Nil_iff:
  "successful_runs db i = [] \<longleftrightarrow>
     (\<forall>r \<in> set (sb_check_runs db). \<not> (cr_attempt_id r = i \<and> cr_result r = RUN_PASSED \<and> cr_exit_code r = 0))"
  unfolding successful_runs_def sort_key_Nil_iff filter_empty_conv by simp

lemma technical_passed_iff:
  "technical_passed db a \<longleftrightarrow> ta_technical_passed_at a \<noteq> None \<or>
     (\<exists>r \<in> set (sb_check_runs db). cr_attempt_id r = ta_id a \<and> cr_result r = RUN_PASSED \<and> cr_exit_code r = 0)"
proof -
  have "technical_passed db a \<longleftrightarrow> ta_technical_passed_at a \<noteq> None \<or> successful_runs db (ta_id a) \<noteq> []"
    by (cases "ta_technical_passed_at a"; cases "successful_runs db (ta_id a)")
      (simp_all add: technical_passed_def get_technical_evidence_def is_completed_def missing_evidence_def)
  then show ?thesis by (auto simp: successful_runs_Nil_iff)
qed

lemma technical_passed_mono:
  assumes "technical_passed db a" and "runs_extend db db'" and "ta_id a' = ta_id a"
    and "ta_technical_passed_at a \<noteq> None \<Longrightarrow> ta_technical_passed_at a' \<noteq> None"
  shows "technical_passed db' a'"
  using assms unfolding technical_passed_iff runs_extend_def by auto

end
