(* ===== verification/Fenced_Runs.thy ===== *)
theory Fenced_Runs
  imports Prelude
begin

text \<open>
  The interface a queue worker relies on when the same job may be delivered more than once: a run
  is begun under an identifier, and a late result is checked against the run before it is written.
  The laws are what the evidence ledger promises; the lemmas are what the workers need. The ledger
  theory interprets both locales, once for technical checks and once for environment operations.
\<close>

locale fenced_runs =
  fixes key :: "'r \<Rightarrow> 'i"
    and begun :: "'i \<Rightarrow> 's \<Rightarrow> bool"
    and begin_run :: "'c \<Rightarrow> 's \<Rightarrow> ('r \<times> bool) result \<times> 's"
    and step :: "'s \<Rightarrow> 's \<Rightarrow> bool"
  assumes begin_first: "begin_run c s = (Inr (r, True), s') \<Longrightarrow> \<not> begun (key r) s"
    and begin_marks: "begin_run c s = (Inr (r, True), s') \<Longrightarrow> begun (key r) s'"
    and step_keeps: "step s s' \<Longrightarrow> begun i s \<Longrightarrow> begun i s'"
begin

lemma begun_persists: "step\<^sup>*\<^sup>* s s' \<Longrightarrow> begun i s \<Longrightarrow> begun i s'"
  by (induction rule: rtranclp_induct) (auto intro: step_keeps)

lemma begins_once:
  assumes "begin_run c s = (Inr (r, True), s1)" and "step\<^sup>*\<^sup>* s1 s2"
    and "begin_run c' s2 = (Inr (r', started), s3)" and "key r' = key r"
  shows "\<not> started"
proof
  assume started
  with assms(3,4) have "\<not> begun (key r) s2" using begin_first by metis
  with begun_persists [OF assms(2) begin_marks [OF assms(1)]] show False by simp
qed

end

locale fenced_results = fenced_runs key begun begin_run step
  for key :: "'r \<Rightarrow> 'i" and begun :: "'i \<Rightarrow> 's \<Rightarrow> bool"
    and begin_run :: "'c \<Rightarrow> 's \<Rightarrow> ('r \<times> bool) result \<times> 's"
    and step :: "'s \<Rightarrow> 's \<Rightarrow> bool" +
  fixes closed :: "'i \<Rightarrow> 's \<Rightarrow> bool"
    and live :: "'r \<Rightarrow> 's \<Rightarrow> unit result \<times> 's"
  assumes closed_keeps: "step s s' \<Longrightarrow> closed i s \<Longrightarrow> closed i s'"
    and live_open: "live r s = (Inr (), s') \<Longrightarrow> \<not> closed (key r) s"
begin

lemma closed_persists: "step\<^sup>*\<^sup>* s s' \<Longrightarrow> closed i s \<Longrightarrow> closed i s'"
  by (induction rule: rtranclp_induct) (auto intro: closed_keeps)

lemma late_result_rejected:
  assumes "closed (key r) s" and "step\<^sup>*\<^sup>* s s'"
  shows "fst (live r s') \<noteq> Inr ()"
proof
  assume "fst (live r s') = Inr ()"
  then have "\<not> closed (key r) s'" using live_open by (metis prod.collapse)
  with closed_persists [OF assms(2,1)] show False by simp
qed

end

end
