(* ===== verification/Effects.thy ===== *)
theory Effects
  imports Prelude
begin

text \<open>
  What an operation may do to the database, as a preorder between the state before and the state
  it leaves behind, whether it returns or raises. The locale proves once that the sequencing,
  transaction and exception combinators keep such a preorder; components interpret it for the
  orders they care about (an append-only ledger only grows, a technical pass is never lost).
\<close>

definition keeps :: "('s \<Rightarrow> 's \<Rightarrow> bool) \<Rightarrow> ('s, 'a) op \<Rightarrow> bool" where
  "keeps R m \<longleftrightarrow> (\<forall>s. R s (snd (m s)))"

lemma keepsD: "keeps R m \<Longrightarrow> m s = (r, s') \<Longrightarrow> R s s'"
  unfolding keeps_def by (metis snd_conv)

locale effect_order =
  fixes R :: "'s \<Rightarrow> 's \<Rightarrow> bool"
  assumes unchanged: "R s s"
    and chained: "R s t \<Longrightarrow> R t u \<Longrightarrow> R s u"
begin

lemma keeps_ret: "keeps R (ret x)"
  by (simp add: keeps_def op_apply unchanged)

lemma keeps_raise: "keeps R (raise e)"
  by (simp add: keeps_def op_apply unchanged)

lemma keeps_get_db: "keeps R get_db"
  by (simp add: keeps_def op_apply unchanged)

lemma keeps_lift_result: "keeps R (lift_result r)"
  by (simp add: keeps_def op_apply unchanged)

lemma keeps_modify_db: "(\<And>s. R s (f s)) \<Longrightarrow> keeps R (modify_db f)"
  by (simp add: keeps_def op_apply)

lemma keeps_andthen: "keeps R m \<Longrightarrow> (\<And>x. keeps R (f x)) \<Longrightarrow> keeps R (andthen m f)"
  unfolding keeps_def andthen_def by (auto split: prod.split sum.split intro: chained) (metis chained snd_conv)+

text \<open>A run from a given state, where the parts are only known to keep the order on the states they meet.\<close>

lemma run_andthen:
  assumes "R s (snd (m s))" and "\<And>x u. m s = (Inr x, u) \<Longrightarrow> R u (snd (f x u))"
  shows "R s (snd (andthen m f s))"
proof (cases "m s")
  case (Pair r u)
  with assms show ?thesis by (cases r) (auto simp: andthen_def intro: chained)
qed

lemma run_keeps: "keeps R m \<Longrightarrow> R s (snd (m s))"
  by (simp add: keeps_def)

lemma run_atomic: "R s (snd (m s)) \<Longrightarrow> R s (snd (atomic m s))"
  by (cases "m s") (auto simp: atomic_def unchanged split: sum.split)

lemma keeps_atomic: "keeps R m \<Longrightarrow> keeps R (atomic m)"
  unfolding keeps_def atomic_def by (auto simp: unchanged split: prod.split sum.split) (metis snd_conv)

lemma keeps_catch: "keeps R m \<Longrightarrow> (\<And>e. keeps R (h e)) \<Longrightarrow> keeps R (catch m h)"
  unfolding keeps_def catch_def by (auto split: prod.split sum.split intro: chained) (metis chained snd_conv)+

lemma keeps_if: "keeps R m \<Longrightarrow> keeps R n \<Longrightarrow> keeps R (if b then m else n)"
  by simp

lemma keeps_option: "keeps R m \<Longrightarrow> (\<And>x. keeps R (f x)) \<Longrightarrow> keeps R (case x of None \<Rightarrow> m | Some x \<Rightarrow> f x)"
  by (simp split: option.split)

lemma keeps_prod: "(\<And>a b. keeps R (f a b)) \<Longrightarrow> keeps R (case p of (a, b) \<Rightarrow> f a b)"
  by (simp split: prod.split)

lemma keeps_sum: "(\<And>a. keeps R (f a)) \<Longrightarrow> (\<And>b. keeps R (g b)) \<Longrightarrow> keeps R (case p of Inl a \<Rightarrow> f a | Inr b \<Rightarrow> g b)"
  by (simp split: sum.split)

lemma keeps_Let: "(\<And>x. keeps R (f x)) \<Longrightarrow> keeps R (Let x f)"
  by simp

lemmas keeps_intros = keeps_ret keeps_raise keeps_get_db keeps_lift_result keeps_andthen keeps_atomic
  keeps_catch keeps_if keeps_option keeps_prod keeps_sum keeps_Let

end

end
