(* ===== verification/Ledger.thy ===== *)
theory Ledger
  imports Sandbox_Models Fenced_Runs Effects "HOL-Library.Sublist"
begin

text \<open>
  The append-only evidence ledger (\<^verbatim>\<open>sandbox/services/ledger.py\<close>, with the constraints of
  \<^verbatim>\<open>sandbox/ledger_models.py\<close>): coverage of attempts and gaps in it, executions of technical
  checks with their phases, environment operations with their phases, submitted answers and the
  reviews of them, and the source records handed to the achievements application.

  The session variable that marks a trusted writer to the database triggers is not modelled: all
  operations here run as trusted writers. \<open>services\<close> holds what the process takes from its
  surroundings: the next random UUID, UUID parsing, the JSON digest, and the digests of files.
\<close>

record services =
  sv_uuid4 :: string
  sv_parse_uuid :: "string \<Rightarrow> string option"
  sv_digest :: "json \<Rightarrow> string"
  sv_file_digest :: "string \<Rightarrow> string option"

section \<open>Rows\<close>

text \<open>Unique constraints raise \<^verbatim>\<open>IntegrityError\<close>.\<close>

definition insert_unless :: "(sandbox_db \<Rightarrow> bool) \<Rightarrow> (sandbox_db \<Rightarrow> sandbox_db) \<Rightarrow> 'a \<Rightarrow> (sandbox_db, 'a) op" where
  "insert_unless clash ins x = (\<lambda>db. if clash db then (Inl IntegrityError, db) else (Inr x, ins db))"

definition create_coverage :: "SandboxAttemptCoverage \<Rightarrow> (sandbox_db, SandboxAttemptCoverage) op" where
  "create_coverage row = insert_unless
     (\<lambda>db. \<exists>c \<in> set (sb_coverage db). cv_attempt_id c = cv_attempt_id row)
     (\<lambda>db. db\<lparr>sb_coverage := sb_coverage db @ [row]\<rparr>) row"

definition create_execution :: "TechnicalCheckExecution \<Rightarrow> (sandbox_db, TechnicalCheckExecution) op" where
  "create_execution new = andthen get_db (\<lambda>db.
     let row = new\<lparr>ex_id := fresh_pk (map ex_id (sb_executions db))\<rparr>
     in insert_unless
       (\<lambda>db. \<exists>e \<in> set (sb_executions db). ex_run_id e = ex_run_id row \<or>
          ex_attempt_id e = ex_attempt_id row \<and> ex_ordinal e = ex_ordinal row)
       (\<lambda>db. db\<lparr>sb_executions := sb_executions db @ [row]\<rparr>) row)"

definition create_check_event :: "TechnicalCheckExecutionEvent \<Rightarrow> (sandbox_db, unit) op" where
  "create_check_event row = insert_unless
     (\<lambda>db. \<exists>e \<in> set (sb_check_events db). ce_execution_id e = ce_execution_id row \<and> ce_phase e = ce_phase row)
     (\<lambda>db. db\<lparr>sb_check_events := sb_check_events db @ [row]\<rparr>) ()"

definition create_env_event :: "SandboxEnvironmentEvent \<Rightarrow> (sandbox_db, SandboxEnvironmentEvent) op" where
  "create_env_event new = andthen get_db (\<lambda>db.
     let row = new\<lparr>ev_id := fresh_pk (map ev_id (sb_env_events db))\<rparr>
     in insert_unless
       (\<lambda>db. \<exists>e \<in> set (sb_env_events db). ev_operation_id e = ev_operation_id row \<and> ev_phase e = ev_phase row)
       (\<lambda>db. db\<lparr>sb_env_events := sb_env_events db @ [row]\<rparr>) row)"

definition create_submission :: "SandboxAnswerSubmission \<Rightarrow> (sandbox_db, SandboxAnswerSubmission) op" where
  "create_submission new = andthen get_db (\<lambda>db.
     let row = new\<lparr>sm_id := fresh_pk (map sm_id (sb_submissions db))\<rparr>
     in insert_unless
       (\<lambda>db. \<exists>s \<in> set (sb_submissions db). sm_operation_id s = sm_operation_id row \<or>
          sm_attempt_id s = sm_attempt_id row \<and> sm_ordinal s = sm_ordinal row)
       (\<lambda>db. db\<lparr>sb_submissions := sb_submissions db @ [row]\<rparr>) row)"

text \<open>The last row by a number: \<^verbatim>\<open>order_by("-ordinal").first()\<close>.\<close>

definition last_by :: "('a \<Rightarrow> nat) \<Rightarrow> 'a list \<Rightarrow> 'a option" where
  "last_by f xs = (case sort_key (\<lambda>x. - int (f x)) xs of [] \<Rightarrow> None | x # _ \<Rightarrow> Some x)"

section \<open>Helpers\<close>

definition operation_id :: "services \<Rightarrow> string option \<Rightarrow> string result" where
  "operation_id sv value =
     (case value of
        None \<Rightarrow> Inr (sv_uuid4 sv)
      | Some v \<Rightarrow> if v = [] then Inr (sv_uuid4 sv)
          else (case sv_parse_uuid sv v of
                  None \<Rightarrow> Inl (ValidationError ''invalid_operation_id'') | Some u \<Rightarrow> Inr u))"

definition gap :: "pk \<Rightarrow> string \<Rightarrow> string \<Rightarrow> (sandbox_db, unit) op" where
  "gap attempt_id reason source = modify_db (\<lambda>db.
     if \<exists>c \<in> set (sb_coverage db). cv_attempt_id c = attempt_id
     then db\<lparr>sb_gaps := sb_gaps db @ [\<lparr>eg_attempt_id = attempt_id, eg_reason = reason, eg_source = source\<rparr>]\<rparr>
     else db)"

definition checker_identity :: "services \<Rightarrow> Task \<Rightarrow> string \<times> string option" where
  "checker_identity sv task =
     (let alternative = (qu_slug (tk_queue task) = ''l1'' \<and> tk_slug task = ''wordpress-500-after-move'');
          path = (if alternative then ''sandbox/task_checks/wordpress_runtime.php''
                  else ''training_tasks/'' @ qu_slug (tk_queue task) @ ''/'' @ tk_slug task @ ''/files/check.sh'')
      in (if alternative then ''server_php'' else ''task_checker'', sv_file_digest sv path))"

definition observe :: "TaskAttempt \<Rightarrow> (sandbox_db, SandboxAttemptCoverage) op" where
  "observe attempt = andthen get_db (\<lambda>db.
     case List.find (\<lambda>c. cv_attempt_id c = ta_id attempt) (sb_coverage db) of
       Some coverage \<Rightarrow> ret coverage
     | None \<Rightarrow> create_coverage
         \<lparr>cv_attempt_id = ta_id attempt, cv_user_id = ta_user_id attempt,
          cv_task_id = tk_id (ta_task attempt), cv_attempt_number = ta_attempt_number attempt,
          cv_origin = ''legacy_observed'', cv_initial_checks = ta_attempts_count attempt,
          cv_initial_resets = ta_restart_count attempt, cv_manifest_id = None\<rparr>)"

section \<open>Technical checks\<close>

definition check_finished :: "sandbox_db \<Rightarrow> pk \<Rightarrow> bool" where
  "check_finished db execution_id =
     list_ex (\<lambda>e. ce_execution_id e = execution_id \<and> ce_phase e = PH_FINISHED) (sb_check_events db)"

definition check_event :: "pk \<Rightarrow> CheckPhase \<Rightarrow> time \<Rightarrow> string \<Rightarrow> TechnicalCheckExecutionEvent" where
  "check_event execution_id phase now reason =
     \<lparr>ce_execution_id = execution_id, ce_phase = phase, ce_occurred_at = now, ce_result = ''unknown'',
      ce_failure_class = ''unknown'', ce_reason = reason, ce_checker_started = None,
      ce_exit_code = None, ce_check_run_id = None\<rparr>"

definition request_check ::
    "services \<Rightarrow> TaskAttempt \<Rightarrow> string \<Rightarrow> string option \<Rightarrow> time \<Rightarrow> (sandbox_db, TechnicalCheckExecution) op" where
  "request_check sv attempt source run_id now =
     atomic (andthen (get_task_attempt (ta_id attempt)) (\<lambda>_.
       andthen (observe attempt) (\<lambda>_. andthen get_db (\<lambda>db.
       let ordinal = fold max (map ex_ordinal
             (filter (\<lambda>e. ex_attempt_id e = ta_id attempt) (sb_executions db))) 0 + 1;
           (kind, version) = checker_identity sv (ta_task attempt)
       in andthen (lift_result (operation_id sv run_id)) (\<lambda>op.
          andthen (create_execution
            \<lparr>ex_id = 0, ex_run_id = op, ex_attempt_id = ta_id attempt, ex_user_id = ta_user_id attempt,
             ex_task_id = tk_id (ta_task attempt), ex_attempt_number = ta_attempt_number attempt,
             ex_ordinal = ordinal, ex_requested_at = now, ex_checker_kind = kind,
             ex_criteria_digest = version, ex_source = source\<rparr>) (\<lambda>execution.
          andthen (if source \<noteq> ''service'' then gap (ta_id attempt) ''unregistered_check_request'' ''service''
                   else ret ()) (\<lambda>_.
          ret execution)))))))"

definition check_duplicate :: "pk \<Rightarrow> time \<Rightarrow> (sandbox_db, unit) op" where
  "check_duplicate execution_id now = andthen get_db (\<lambda>db.
     if \<exists>e \<in> set (sb_check_events db). ce_execution_id e = execution_id \<and> ce_phase e = PH_DUPLICATE then ret ()
     else create_check_event (check_event execution_id PH_DUPLICATE now ''duplicate_delivery''))"

definition begin_check ::
    "TaskAttempt \<Rightarrow> string \<Rightarrow> time \<Rightarrow> (sandbox_db, TechnicalCheckExecution \<times> bool) op" where
  "begin_check attempt run_id now =
     atomic (andthen (get_task_attempt (ta_id attempt)) (\<lambda>_. andthen get_db (\<lambda>db.
       case List.find (\<lambda>e. ex_run_id e = run_id \<and> ex_attempt_id e = ta_id attempt \<and>
           ex_user_id e = ta_user_id attempt \<and> ex_task_id e = tk_id (ta_task attempt)) (sb_executions db) of
         None \<Rightarrow> raise DoesNotExist
       | Some execution \<Rightarrow>
           if list_ex (\<lambda>e. ce_execution_id e = ex_id execution) (sb_check_events db)
           then andthen (check_duplicate (ex_id execution) now) (\<lambda>_. ret (execution, False))
           else andthen (create_check_event (check_event (ex_id execution) PH_STARTED now [])) (\<lambda>_.
             ret (execution, True)))))"

text \<open>\<^verbatim>\<open>attempt._ledger_execution\<close> is passed explicitly.\<close>

definition check_live :: "TechnicalCheckExecution option \<Rightarrow> (sandbox_db, unit) op" where
  "check_live execution =
     (case execution of
        None \<Rightarrow> ret ()
      | Some e \<Rightarrow> andthen get_db (\<lambda>db.
          if \<not> list_ex (\<lambda>x. ex_id x = ex_id e) (sb_executions db) then raise DoesNotExist
          else if check_finished db (ex_id e) then raise (ValidationError ''late_result_rejected'')
          else ret ()))"

definition finish_check ::
    "TechnicalCheckExecution option \<Rightarrow> string \<Rightarrow> string \<Rightarrow> string \<Rightarrow> int option \<Rightarrow> pk option \<Rightarrow> bool option
     \<Rightarrow> time \<Rightarrow> (sandbox_db, unit) op" where
  "finish_check execution result failure_class reason exit_code check_run_id checker_started now =
     (case execution of
        None \<Rightarrow> ret ()
      | Some e \<Rightarrow> andthen get_db (\<lambda>db.
          if check_finished db (ex_id e) then ret ()
          else create_check_event
            \<lparr>ce_execution_id = ex_id e, ce_phase = PH_FINISHED, ce_occurred_at = now, ce_result = result,
             ce_failure_class = failure_class, ce_reason = reason, ce_checker_started = checker_started,
             ce_exit_code = exit_code, ce_check_run_id = check_run_id\<rparr>))"

section \<open>Environment operations\<close>

text \<open>The acting user, where one is known.\<close>

definition request_environment ::
    "services \<Rightarrow> TaskAttempt \<Rightarrow> EnvironmentKind \<Rightarrow> SandboxUser option \<Rightarrow> string \<Rightarrow> string option \<Rightarrow> time
     \<Rightarrow> (sandbox_db, SandboxEnvironmentEvent \<times> bool) op" where
  "request_environment sv attempt kind actor origin op_id now =
     atomic (andthen (get_task_attempt (ta_id attempt)) (\<lambda>_.
       if origin \<notin> {''trainee'', ''maintenance'', ''unknown''}
         then raise (ValidationError ''invalid_environment_origin'')
       else if origin = ''trainee'' \<and> (case actor of None \<Rightarrow> True | Some u \<Rightarrow> us_id u \<noteq> ta_user_id attempt)
         then raise PermissionDenied
       else if origin = ''maintenance'' \<and> (case actor of None \<Rightarrow> False | Some u \<Rightarrow> \<not> us_is_staff u)
         then raise PermissionDenied
       else andthen (lift_result (operation_id sv op_id)) (\<lambda>op. andthen get_db (\<lambda>db.
         case List.find (\<lambda>e. ev_operation_id e = op \<and> ev_phase e = EP_REQUESTED) (sb_env_events db) of
           Some old \<Rightarrow>
             if (ev_attempt_id old, ev_kind old, ev_origin old, ev_actor_id old) \<noteq>
                (ta_id attempt, kind, origin, map_option us_id actor)
             then raise (ValidationError ''operation_id_conflict'')
             else ret (old, False)
         | None \<Rightarrow> andthen (observe attempt) (\<lambda>_.
             andthen (create_env_event
               \<lparr>ev_id = 0, ev_operation_id = op, ev_attempt_id = ta_id attempt,
                ev_user_id = ta_user_id attempt, ev_task_id = tk_id (ta_task attempt),
                ev_attempt_number = ta_attempt_number attempt, ev_kind = kind, ev_phase = EP_REQUESTED,
                ev_actor_id = map_option us_id actor, ev_origin = origin, ev_requested_at = now,
                ev_occurred_at = now, ev_outcome = ''unknown'', ev_reason = []\<rparr>) (\<lambda>event.
             ret (event, True)))))))"

definition environment_phase ::
    "SandboxEnvironmentEvent \<Rightarrow> EnvironmentPhase \<Rightarrow> string \<Rightarrow> string \<Rightarrow> time
     \<Rightarrow> (sandbox_db, SandboxEnvironmentEvent \<times> bool) op" where
  "environment_phase request phase outcome reason now = andthen get_db (\<lambda>db.
     case List.find (\<lambda>e. ev_operation_id e = ev_operation_id request \<and> ev_phase e = phase) (sb_env_events db) of
       Some e \<Rightarrow> ret (e, False)
     | None \<Rightarrow> andthen (create_env_event (request\<lparr>ev_phase := phase, ev_occurred_at := now,
         ev_outcome := outcome, ev_reason := reason\<rparr>)) (\<lambda>e. ret (e, True)))"

definition environment_finished :: "sandbox_db \<Rightarrow> string \<Rightarrow> bool" where
  "environment_finished db op =
     list_ex (\<lambda>e. ev_operation_id e = op \<and> ev_phase e = EP_FINISHED) (sb_env_events db)"

text \<open>
  The two halves of \<^verbatim>\<open>begin_environment\<close>: finding or registering the request, and deciding
  whether it may start.
\<close>

definition registered_request ::
    "services \<Rightarrow> TaskAttempt \<Rightarrow> EnvironmentKind \<Rightarrow> string option \<Rightarrow> SandboxUser option \<Rightarrow> string \<Rightarrow> time
     \<Rightarrow> (sandbox_db, SandboxEnvironmentEvent) op" where
  "registered_request sv attempt kind op_id actor origin now = andthen get_db (\<lambda>db.
     case (case op_id of None \<Rightarrow> None | Some op \<Rightarrow>
         List.find (\<lambda>e. ev_operation_id e = op \<and> ev_phase e = EP_REQUESTED \<and>
           ev_attempt_id e = ta_id attempt \<and> ev_kind e = kind) (sb_env_events db)) of
       Some request \<Rightarrow> ret request
     | None \<Rightarrow>
         andthen (if op_id \<in> {None, Some []} \<and> origin = ''unknown''
           then andthen (observe attempt) (\<lambda>_.
             gap (ta_id attempt) ''unregistered_environment_request'' ''service'')
           else ret ()) (\<lambda>_.
         if kind = KIND_START \<and> origin = ''trainee'' \<and> ta_container_name attempt \<noteq> []
           then raise (ValidationError ''existing_environment_must_reset'')
         else andthen (request_environment sv attempt kind actor origin op_id now) (\<lambda>(request, _).
           ret request)))"

definition claim_environment ::
    "TaskAttempt \<Rightarrow> SandboxEnvironmentEvent \<Rightarrow> time \<Rightarrow> (sandbox_db, SandboxEnvironmentEvent \<times> bool) op" where
  "claim_environment attempt request now = andthen get_db (\<lambda>db.
     let op = ev_operation_id request
     in if list_ex (\<lambda>e. ev_operation_id e = op \<and> ev_phase e \<in> {EP_STARTED, EP_FINISHED}) (sb_env_events db)
        then andthen (environment_phase request EP_DUPLICATE ''unknown'' ''duplicate_delivery'' now)
          (\<lambda>_. ret (request, False))
        else if list_ex (\<lambda>e. ev_attempt_id e = ta_id attempt \<and> ev_phase e = EP_REQUESTED \<and>
            ev_operation_id e \<noteq> op \<and> \<not> environment_finished db (ev_operation_id e)) (sb_env_events db)
        then andthen (environment_phase request EP_FINISHED ''not_started'' ''already_running'' now)
          (\<lambda>_. ret (request, False))
        else andthen (environment_phase request EP_STARTED ''unknown'' [] now)
          (\<lambda>_. ret (request, True)))"

definition begin_environment ::
    "services \<Rightarrow> TaskAttempt \<Rightarrow> EnvironmentKind \<Rightarrow> string option \<Rightarrow> SandboxUser option \<Rightarrow> string \<Rightarrow> time
     \<Rightarrow> (sandbox_db, SandboxEnvironmentEvent \<times> bool) op" where
  "begin_environment sv attempt kind op_id actor origin now =
     atomic (andthen (get_task_attempt (ta_id attempt)) (\<lambda>_.
       andthen (registered_request sv attempt kind op_id actor origin now) (\<lambda>request.
       claim_environment attempt request now)))"

text \<open>\<^verbatim>\<open>attempt._ledger_environment_request\<close> is passed explicitly.\<close>

definition environment_live :: "SandboxEnvironmentEvent option \<Rightarrow> (sandbox_db, unit) op" where
  "environment_live request =
     (case request of
        None \<Rightarrow> ret ()
      | Some r \<Rightarrow> andthen get_db (\<lambda>db.
          if \<not> list_ex (\<lambda>e. ev_id e = ev_id r) (sb_env_events db) then raise DoesNotExist
          else if environment_finished db (ev_operation_id r)
            then raise (ValidationError ''environment_operation_closed'')
          else ret ()))"

section \<open>Interruption\<close>

fun close_executions :: "string \<Rightarrow> time \<Rightarrow> TechnicalCheckExecution list \<Rightarrow> (sandbox_db, unit) op" where
  "close_executions reason now [] = ret ()"
| "close_executions reason now (e # es) = andthen get_db (\<lambda>db.
     andthen (if check_finished db (ex_id e) then ret ()
              else create_check_event (check_event (ex_id e) PH_FINISHED now reason)) (\<lambda>_.
     close_executions reason now es))"

fun close_requests :: "string \<Rightarrow> time \<Rightarrow> SandboxEnvironmentEvent list \<Rightarrow> (sandbox_db, unit) op" where
  "close_requests reason now [] = ret ()"
| "close_requests reason now (r # rs) = andthen get_db (\<lambda>db.
     andthen (if environment_finished db (ev_operation_id r) then ret ()
              else andthen (environment_phase r EP_FINISHED ''unknown'' reason now) (\<lambda>_. ret ())) (\<lambda>_.
     close_requests reason now rs))"

definition interrupt :: "pk \<Rightarrow> string \<Rightarrow> time \<Rightarrow> (sandbox_db, unit) op" where
  "interrupt attempt_id reason now =
     atomic (andthen (get_task_attempt attempt_id) (\<lambda>_. andthen get_db (\<lambda>db.
       andthen (close_executions reason now
         (filter (\<lambda>e. ex_attempt_id e = attempt_id) (sb_executions db))) (\<lambda>_. andthen get_db (\<lambda>db.
       close_requests reason now
         (filter (\<lambda>e. ev_attempt_id e = attempt_id \<and> ev_phase e = EP_REQUESTED) (sb_env_events db)))))))"

section \<open>The ledger only grows\<close>

definition ledger_extends :: "sandbox_db \<Rightarrow> sandbox_db \<Rightarrow> bool" where
  "ledger_extends db db' \<longleftrightarrow>
     prefix (sb_manifests db) (sb_manifests db') \<and> prefix (sb_coverage db) (sb_coverage db') \<and>
     prefix (sb_gaps db) (sb_gaps db') \<and> prefix (sb_executions db) (sb_executions db') \<and>
     prefix (sb_check_events db) (sb_check_events db') \<and> prefix (sb_env_events db) (sb_env_events db') \<and>
     prefix (sb_submissions db) (sb_submissions db') \<and> prefix (sb_reviews db) (sb_reviews db') \<and>
     prefix (sb_completions db) (sb_completions db') \<and> prefix (sb_source_events db) (sb_source_events db')"

text \<open>The unique constraints of the ledger tables.\<close>

definition ledger_keys :: "sandbox_db \<Rightarrow> bool" where
  "ledger_keys db \<longleftrightarrow> distinct (map cv_attempt_id (sb_coverage db)) \<and>
     distinct (map ex_id (sb_executions db)) \<and> distinct (map ex_run_id (sb_executions db)) \<and>
     distinct (map (\<lambda>e. (ex_attempt_id e, ex_ordinal e)) (sb_executions db)) \<and>
     distinct (map (\<lambda>e. (ce_execution_id e, ce_phase e)) (sb_check_events db)) \<and>
     distinct (map ev_id (sb_env_events db)) \<and>
     distinct (map (\<lambda>e. (ev_operation_id e, ev_phase e)) (sb_env_events db)) \<and>
     distinct (map sm_operation_id (sb_submissions db)) \<and>
     distinct (map (\<lambda>s. (sm_attempt_id s, sm_ordinal s)) (sb_submissions db)) \<and>
     distinct (map (\<lambda>s. (so_provider s, so_external_id s)) (sb_source_events db))"

definition ledger_step :: "sandbox_db \<Rightarrow> sandbox_db \<Rightarrow> bool" where
  "ledger_step db db' \<longleftrightarrow> ledger_extends db db' \<and> (ledger_keys db \<longrightarrow> ledger_keys db')"

interpretation grows: effect_order ledger_step
  by unfold_locales (auto simp: ledger_step_def ledger_extends_def intro: prefix_order.trans)

lemma grows_insert:
  "(\<And>db. \<not> clash db \<Longrightarrow> ledger_step db (ins db)) \<Longrightarrow> keeps ledger_step (insert_unless clash ins x)"
  by (simp add: keeps_def insert_unless_def grows.unchanged)

lemma grows_coverage: "keeps ledger_step (create_coverage c)"
  unfolding create_coverage_def
  by (rule grows_insert) (auto simp: ledger_step_def ledger_extends_def ledger_keys_def)

lemma grows_gap: "keeps ledger_step (gap i reason source)"
  unfolding gap_def
  by (rule grows.keeps_modify_db) (simp add: ledger_step_def ledger_extends_def ledger_keys_def)

lemma grows_check_event: "keeps ledger_step (create_check_event ce)"
  unfolding create_check_event_def
  by (rule grows_insert) (auto simp: ledger_step_def ledger_extends_def ledger_keys_def)

lemma fresh_pk_image: "fresh_pk (map f xs) \<notin> f ` set xs"
  using fresh_pk_notin [of "map f xs"] by simp

lemma grows_execution: "keeps ledger_step (create_execution e)"
  unfolding keeps_def create_execution_def
  by (auto simp: andthen_def op_apply insert_unless_def Let_def grows.unchanged ledger_step_def
      ledger_extends_def ledger_keys_def fresh_pk_image)

lemma grows_env_event: "keeps ledger_step (create_env_event ev)"
  unfolding keeps_def create_env_event_def
  by (auto simp: andthen_def op_apply insert_unless_def Let_def grows.unchanged ledger_step_def
      ledger_extends_def ledger_keys_def fresh_pk_image)

lemma grows_submission: "keeps ledger_step (create_submission sm)"
  unfolding keeps_def create_submission_def
  by (auto simp: andthen_def op_apply insert_unless_def Let_def grows.unchanged ledger_step_def
      ledger_extends_def ledger_keys_def)

lemmas grows_rows = grows_coverage grows_gap grows_check_event grows_execution grows_env_event
  grows_submission

lemma get_task_attempt_Inr_iff:
  "get_task_attempt i db = (Inr a, db') \<longleftrightarrow> db' = db \<and> List.find (\<lambda>a. ta_id a = i) (sb_attempts db) = Some a"
  by (auto simp: get_task_attempt_def split: option.splits)

lemma grows_get_task_attempt: "keeps ledger_step (get_task_attempt i)"
  by (simp add: keeps_def get_task_attempt_def grows.unchanged split: option.split)

lemma grows_update_attempt: "keeps ledger_step (update_attempt i f)"
  by (simp add: keeps_def update_attempt_def op_apply ledger_step_def ledger_extends_def ledger_keys_def)

lemmas grows_basic = grows.keeps_intros grows_rows grows_get_task_attempt grows_update_attempt

lemma grows_observe: "keeps ledger_step (observe attempt)"
  unfolding observe_def by (intro grows_basic)

lemma grows_request_check: "keeps ledger_step (request_check sv attempt source run_id now)"
  unfolding request_check_def by (intro grows_basic grows_observe)

lemma grows_check_duplicate: "keeps ledger_step (check_duplicate i now)"
  unfolding check_duplicate_def by (intro grows_basic)

lemma grows_begin_check: "keeps ledger_step (begin_check attempt run_id now)"
  unfolding begin_check_def by (intro grows_basic grows_check_duplicate)

lemma grows_check_live: "keeps ledger_step (check_live execution)"
  unfolding check_live_def by (intro grows_basic)

lemma grows_finish_check:
  "keeps ledger_step (finish_check execution result failure_class reason exit_code run started now)"
  unfolding finish_check_def by (intro grows_basic)

lemma grows_request_environment:
  "keeps ledger_step (request_environment sv attempt kind actor origin op_id now)"
  unfolding request_environment_def by (intro grows_basic grows_observe)

lemma grows_environment_phase: "keeps ledger_step (environment_phase request phase outcome reason now)"
  unfolding environment_phase_def by (intro grows_basic)

lemma grows_registered_request:
  "keeps ledger_step (registered_request sv attempt kind op_id actor origin now)"
  unfolding registered_request_def by (intro grows_basic grows_observe grows_request_environment)

lemma grows_begin_environment:
  "keeps ledger_step (begin_environment sv attempt kind op_id actor origin now)"
  unfolding begin_environment_def claim_environment_def
  by (intro grows_basic grows_registered_request grows_environment_phase)

lemma grows_environment_live: "keeps ledger_step (environment_live request)"
  unfolding environment_live_def by (intro grows_basic)

lemma grows_close_executions: "keeps ledger_step (close_executions reason now es)"
  by (induction es) (simp_all, (intro grows_basic; assumption)+)

lemma grows_close_requests: "keeps ledger_step (close_requests reason now rs)"
  by (induction rs) (simp_all, (intro grows_basic grows_environment_phase; assumption)+)

lemma grows_interrupt: "keeps ledger_step (interrupt i reason now)"
  unfolding interrupt_def by (intro grows_basic grows_close_executions grows_close_requests)

lemmas grows_ledger = grows_observe grows_request_check grows_check_duplicate grows_begin_check
  grows_check_live grows_finish_check grows_request_environment grows_environment_phase
  grows_begin_environment grows_environment_live grows_interrupt

section \<open>Runs are fenced\<close>

lemma prefix_list_ex: "prefix xs ys \<Longrightarrow> list_ex P xs \<Longrightarrow> list_ex P ys"
  by (auto simp: prefix_def)

lemma prefix_find: "prefix xs ys \<Longrightarrow> List.find P xs = Some x \<Longrightarrow> List.find P ys = Some x"
  by (induction xs arbitrary: ys) (auto simp: prefix_def split: if_splits)

text \<open>A check run has begun when its execution has any event; it is closed when one is \<open>PH_FINISHED\<close>.\<close>

definition check_begun :: "pk \<Rightarrow> sandbox_db \<Rightarrow> bool" where
  "check_begun i db = list_ex (\<lambda>x. ce_execution_id x = i) (sb_check_events db)"

definition environment_begun :: "string \<Rightarrow> sandbox_db \<Rightarrow> bool" where
  "environment_begun op db =
     list_ex (\<lambda>e. ev_operation_id e = op \<and> ev_phase e \<in> {EP_STARTED, EP_FINISHED}) (sb_env_events db)"

lemma check_events_grow: "ledger_step db db' \<Longrightarrow> list_ex P (sb_check_events db) \<Longrightarrow> list_ex P (sb_check_events db')"
  unfolding ledger_step_def ledger_extends_def by (meson prefix_list_ex)

lemma env_events_grow: "ledger_step db db' \<Longrightarrow> list_ex P (sb_env_events db) \<Longrightarrow> list_ex P (sb_env_events db')"
  unfolding ledger_step_def ledger_extends_def by (meson prefix_list_ex)

text \<open>The calls a worker makes, with the row they return.\<close>

definition begin_check_call ::
    "TaskAttempt \<times> string \<times> time \<Rightarrow> (sandbox_db, TechnicalCheckExecution \<times> bool) op" where
  "begin_check_call = (\<lambda>(attempt, run_id, now). begin_check attempt run_id now)"

definition begin_environment_call ::
    "services \<times> TaskAttempt \<times> EnvironmentKind \<times> string option \<times> SandboxUser option \<times> string \<times> time
     \<Rightarrow> (sandbox_db, SandboxEnvironmentEvent \<times> bool) op" where
  "begin_environment_call = (\<lambda>(sv, attempt, kind, op_id, actor, origin, now).
     begin_environment sv attempt kind op_id actor origin now)"

lemma begin_check_True:
  assumes "begin_check attempt run_id now db = (Inr (e, True), db')"
  shows "\<not> check_begun (ex_id e) db" and "check_begun (ex_id e) db'"
  using assms
  by (auto simp: begin_check_def atomic_Inr_iff andthen_Inr_iff op_apply check_begun_def get_task_attempt_Inr_iff
      create_check_event_def insert_unless_def check_event_def split: option.splits if_splits)

lemma environment_phase_Inr:
  assumes "environment_phase request phase outcome reason now db = (Inr r, db')"
  shows "list_ex (\<lambda>e. ev_operation_id e = ev_operation_id request \<and> ev_phase e = phase) (sb_env_events db')"
  using assms
  by (auto simp: environment_phase_def andthen_Inr_iff op_apply create_env_event_def insert_unless_def Let_def
      list_ex_iff split: option.splits if_splits dest: find_Some_member)

lemma begin_environment_True:
  assumes "begin_environment sv attempt kind op_id actor origin now db = (Inr (r, True), db')"
  shows "\<not> environment_begun (ev_operation_id r) db" and "environment_begun (ev_operation_id r) db'"
proof -
  obtain db1 x where m: "registered_request sv attempt kind op_id actor origin now db = (Inr r, db1)"
    and fresh: "\<not> environment_begun (ev_operation_id r) db1"
    and started: "environment_phase r EP_STARTED ''unknown'' [] now db1 = (Inr x, db')"
    using assms
    by (auto simp: begin_environment_def atomic_Inr_iff andthen_Inr_iff get_task_attempt_Inr_iff
        claim_environment_def op_apply Let_def environment_begun_def split: if_splits)
  have "ledger_step db db1" using keepsD [OF grows_registered_request m] .
  with fresh show "\<not> environment_begun (ev_operation_id r) db"
    unfolding environment_begun_def using env_events_grow by blast
  from environment_phase_Inr [OF started] show "environment_begun (ev_operation_id r) db'"
    unfolding environment_begun_def by (auto simp: list_ex_iff)
qed

interpretation checks: fenced_results ex_id check_begun begin_check_call ledger_step
  "\<lambda>i db. check_finished db i" "\<lambda>e. check_live (Some e)"
  by unfold_locales
    (auto simp: begin_check_call_def check_live_def andthen_def op_apply check_begun_def check_finished_def
      dest: begin_check_True check_events_grow split: if_splits)

interpretation environments: fenced_results ev_operation_id environment_begun begin_environment_call ledger_step
  "\<lambda>op db. environment_finished db op" "\<lambda>r. environment_live (Some r)"
  by unfold_locales
    (auto simp: begin_environment_call_def environment_live_def andthen_def op_apply environment_begun_def
      environment_finished_def dest: begin_environment_True env_events_grow split: if_splits)

end
