(* ===== verification/Answer_Ledger.thy ===== *)
theory Answer_Ledger
  imports Ledger
begin

text \<open>
  The part of the ledger that holds written answers (\<^verbatim>\<open>submit_answer\<close>,
  \<^verbatim>\<open>review_answer\<close> in \<^verbatim>\<open>sandbox/services/ledger.py\<close>, the save hook of
  \<^verbatim>\<open>SandboxAnswerReviewEvent\<close>), the durable source records of the achievements application
  (\<^verbatim>\<open>achievements/services/events.py\<close>, \<^verbatim>\<open>publish\<close>), and the records made when an attempt
  is created (\<^verbatim>\<open>ensure_manifest\<close>, \<^verbatim>\<open>created_attempt\<close>). What happens after the
  transaction commits (waking the evaluators) is not part of these operations.
\<close>

section \<open>Source records\<close>

definition PROVIDERS :: "string list" where
  "PROVIDERS = [''roadmap_confirmation'', ''sandbox_completion'', ''sandbox_technical'', ''sandbox_review'',
     ''weekly_metric'', ''stage_transition'', ''probation_completion'']"

definition publish ::
    "string \<Rightarrow> string \<Rightarrow> pk \<Rightarrow> json \<Rightarrow> json \<Rightarrow> time option \<Rightarrow> (sandbox_db, AchievementSourceEvent) op" where
  "publish provider external_id user_id context payload available_at =
     atomic (if provider \<notin> set PROVIDERS then raise (ValidationError ''unknown_provider'')
       else andthen get_db (\<lambda>db.
         case List.find (\<lambda>e. so_provider e = provider \<and> so_external_id e = external_id) (sb_source_events db) of
           Some event \<Rightarrow>
             if so_user_id event \<noteq> user_id \<or> so_context event \<noteq> context \<or> so_payload event \<noteq> payload
             then raise (ValidationError ''source_id_reused'') else ret event
         | None \<Rightarrow>
             let event = \<lparr>so_id = fresh_pk (map so_id (sb_source_events db)), so_provider = provider,
                   so_external_id = external_id, so_user_id = user_id, so_context = context,
                   so_payload = payload, so_available_at = available_at, so_status = ''pending'',
                   so_schema_version = 1, so_attempts = 0, so_error = [], so_result = JArr [], so_processed_at = None\<rparr>
             in andthen (modify_db (\<lambda>db. db\<lparr>sb_source_events := sb_source_events db @ [event]\<rparr>))
                  (\<lambda>_. ret event)))"

text \<open>A new source record is accepted unless its identifier is already used.\<close>

definition source_free :: "sandbox_db \<Rightarrow> string \<Rightarrow> string \<Rightarrow> bool" where
  "source_free db provider external_id \<longleftrightarrow>
     (\<forall>e \<in> set (sb_source_events db). \<not> (so_provider e = provider \<and> so_external_id e = external_id))"

lemma publish_new:
  assumes "provider \<in> set PROVIDERS" and "source_free db provider external_id"
  shows "\<exists>e. publish provider external_id user_id context payload available_at db =
    (Inr e, db\<lparr>sb_source_events := sb_source_events db @ [e]\<rparr>)"
proof -
  have "List.find (\<lambda>e. so_provider e = provider \<and> so_external_id e = external_id) (sb_source_events db) = None"
    using assms(2) by (simp add: find_None_all source_free_def)
  with assms(1) show ?thesis
    by (simp add: publish_def atomic_def andthen_def op_apply Let_def)
qed

definition program_context :: json where
  "program_context = JObj [(''program_key'', JStr ''l1'')]"

section \<open>Submissions\<close>

definition submit_answer ::
    "services \<Rightarrow> TaskAttempt \<Rightarrow> string \<Rightarrow> string \<Rightarrow> string option \<Rightarrow> time
     \<Rightarrow> (sandbox_db, SandboxAnswerSubmission \<times> bool) op" where
  "submit_answer sv attempt client_answer trainee_report op_id now =
     atomic (andthen (get_task_attempt (ta_id attempt)) (\<lambda>fresh. andthen get_db (\<lambda>db.
       if \<not> is_credit_attempt fresh \<or> \<not> tk_requires_manual_review (ta_task fresh) \<or> \<not> technical_passed db fresh
         then raise (ValidationError ''not_a_reviewed_answer'')
       else andthen (observe attempt) (\<lambda>_.
         andthen (lift_result (operation_id sv op_id)) (\<lambda>op. andthen get_db (\<lambda>db.
         let body = sv_digest sv (JArr [JStr client_answer, JStr trainee_report])
         in case List.find (\<lambda>s. sm_operation_id s = op) (sb_submissions db) of
              Some old \<Rightarrow>
                if sm_attempt_id old \<noteq> ta_id attempt \<or> sm_digest old \<noteq> body
                then raise (ValidationError ''submission_operation_conflict'') else ret (old, False)
            | None \<Rightarrow>
                let ordinal = fold max (map sm_ordinal
                      (filter (\<lambda>s. sm_attempt_id s = ta_id attempt) (sb_submissions db))) 0 + 1
                in andthen (create_submission
                  \<lparr>sm_id = 0, sm_operation_id = op, sm_attempt_id = ta_id attempt,
                   sm_user_id = ta_user_id attempt, sm_task_id = tk_id (ta_task attempt),
                   sm_attempt_number = ta_attempt_number attempt, sm_ordinal = ordinal,
                   sm_submitted_at = now, sm_client_answer = client_answer,
                   sm_trainee_report = trainee_report, sm_digest = body\<rparr>) (\<lambda>submission.
                ret (submission, True))))))))"

section \<open>Reviews\<close>

definition submission_reviews :: "sandbox_db \<Rightarrow> pk \<Rightarrow> SandboxAnswerReviewEvent list" where
  "submission_reviews db submission_id = filter (\<lambda>r. rv_submission_id r = submission_id) (sb_reviews db)"

text \<open>\<^verbatim>\<open>SandboxAnswerReviewEvent.save\<close> of a new row.\<close>

definition save_review ::
    "SandboxAnswerSubmission \<Rightarrow> SandboxAnswerReviewEvent \<Rightarrow> (sandbox_db, SandboxAnswerReviewEvent) op" where
  "save_review submission new = andthen get_db (\<lambda>db.
     if \<not> list_ex (\<lambda>u. us_id u = rv_actor_id new \<and> us_is_staff u) (sb_users db)
       then raise (ValidationError ''only_staff_records_a_review'')
     else if rv_decision new \<notin> {''approved'', ''needs_revision'', ''not_reviewed''}
       then raise (ValidationError ''invalid_review_decision'')
     else andthen (get_task_attempt (sm_attempt_id submission)) (\<lambda>attempt.
       let latest = last_by sm_ordinal
             (filter (\<lambda>s. sm_attempt_id s = sm_attempt_id submission) (sb_submissions db));
           previous = last_by rv_id (submission_reviews db (rv_submission_id new))
       in if (ta_user_id attempt, tk_id (ta_task attempt), ta_attempt_number attempt) \<noteq>
             (sm_user_id submission, sm_task_id submission, sm_attempt_number submission)
            then raise (ValidationError ''submission_identity_mismatch'')
          else if (py_strip (ta_client_answer attempt), py_strip (ta_trainee_report attempt)) \<noteq>
             (py_strip (sm_client_answer submission), py_strip (sm_trainee_report submission))
            then raise (ValidationError ''review_must_refer_to_submitted_text'')
          else if map_option sm_id latest \<noteq> Some (rv_submission_id new) \<or>
             rv_supersedes new \<noteq> map_option rv_id previous \<or>
             rv_kind new \<noteq> (if previous \<noteq> None then ''correction'' else ''decision'')
            then raise (ValidationError ''review_requires_current_submission'')
          else let row = new\<lparr>rv_id := fresh_pk (map rv_id (sb_reviews db))\<rparr>
            in insert_unless
              (\<lambda>db. \<exists>r \<in> set (sb_reviews db). rv_operation_id r = rv_operation_id row)
              (\<lambda>db. db\<lparr>sb_reviews := sb_reviews db @ [row]\<rparr>) row))"

definition review_answer ::
    "services \<Rightarrow> TaskAttempt \<Rightarrow> SandboxUser \<Rightarrow> string \<Rightarrow> string \<Rightarrow> pk option \<Rightarrow> string option \<Rightarrow> time
     \<Rightarrow> (sandbox_db, SandboxAnswerReviewEvent option) op" where
  "review_answer sv attempt actor decision comment submission_id op_id now =
     atomic (if \<not> us_is_staff actor then raise PermissionDenied
       else andthen get_db (\<lambda>db.
       if \<not> list_ex (\<lambda>u. us_id u = ta_user_id attempt) (sb_users db) then raise DoesNotExist
       else andthen (get_task_attempt (ta_id attempt)) (\<lambda>_. andthen (observe attempt) (\<lambda>_. andthen get_db (\<lambda>db.
       case last_by sm_ordinal (filter (\<lambda>s. sm_attempt_id s = ta_id attempt \<and>
           sm_user_id s = ta_user_id attempt \<and> sm_task_id s = tk_id (ta_task attempt)) (sb_submissions db)) of
         None \<Rightarrow>
           if submission_id \<noteq> None then raise (ValidationError ''foreign_submission'')
           else andthen (gap (ta_id attempt) ''review_without_submission'' ''service'') (\<lambda>_. ret None)
       | Some submission \<Rightarrow>
           andthen (case submission_id of
               None \<Rightarrow> gap (ta_id attempt) ''review_version_unspecified'' ''service''
             | Some i \<Rightarrow> if sm_id submission \<noteq> i then raise (ValidationError ''stale_submission_version'')
                 else ret ()) (\<lambda>_.
           andthen (get_task_attempt (ta_id attempt)) (\<lambda>fresh.
           if (py_strip (ta_client_answer fresh), py_strip (ta_trainee_report fresh)) \<noteq>
              (py_strip (sm_client_answer submission), py_strip (sm_trainee_report submission))
             then raise (ValidationError ''draft_is_not_the_submitted_version'')
           else andthen (lift_result (operation_id sv op_id)) (\<lambda>op. andthen get_db (\<lambda>db.
             case List.find (\<lambda>r. rv_operation_id r = op) (sb_reviews db) of
               Some previous \<Rightarrow>
                 if (rv_submission_id previous, rv_actor_id previous, rv_decision previous, rv_comment previous) \<noteq>
                    (sm_id submission, us_id actor, decision, comment)
                 then raise (ValidationError ''review_operation_conflict'') else ret (Some previous)
             | None \<Rightarrow>
                 let last = last_by rv_id (submission_reviews db (sm_id submission))
                 in if (case last of None \<Rightarrow> False | Some l \<Rightarrow>
                      (rv_actor_id l, rv_decision l, rv_comment l) = (us_id actor, decision, comment))
                    then ret last
                    else andthen (save_review submission
                      \<lparr>rv_id = 0, rv_submission_id = sm_id submission, rv_actor_id = us_id actor,
                       rv_reviewed_at = now, rv_decision = decision, rv_comment = comment,
                       rv_operation_id = op, rv_kind = (if last \<noteq> None then ''correction'' else ''decision''),
                       rv_supersedes = map_option rv_id last\<rparr>) (\<lambda>event.
                    andthen (if ta_attempt_number attempt = 1 \<and>
                        qu_slug (tk_queue (ta_task attempt)) = ''l1'' \<and>
                        (case last of None \<Rightarrow> True | Some l \<Rightarrow> rv_decision l \<noteq> decision)
                      then andthen (publish ''sandbox_review'' (str_nat (rv_id event)) (ta_user_id attempt)
                        program_context
                        (JObj [(''review_id'', JNum (int (rv_id event))),
                               (''submission_id'', JNum (int (sm_id submission))),
                               (''attempt_id'', JNum (int (ta_id attempt))),
                               (''kind'', JStr (rv_kind event))]) None) (\<lambda>_. ret ())
                      else ret ()) (\<lambda>_. ret (Some event))))))))))))"

section \<open>New attempts\<close>

text \<open>The frozen requirements as the JSON document that is digested.\<close>

definition manifest_json :: "ManifestEntry list \<Rightarrow> json" where
  "manifest_json entries = JObj [(''schema_version'', JNum 1), (''program_key'', JStr ''l1''), (''requirements_version'', JNum 1),
     (''tasks'', JArr (map (\<lambda>e. JObj
     [(''task_id'', JNum (int (me_task_id e))), (''task_slug'', JStr (me_task_slug e)), (''order'', JNum (int (me_order e))),
      (''requires_review'', case me_requires_review e of None \<Rightarrow> JNull | Some b \<Rightarrow> JBool b),
      (''criteria_version'', case me_criteria_version e of None \<Rightarrow> JNull | Some s \<Rightarrow> JStr s),
      (''criteria_digest'', case me_criteria_digest e of None \<Rightarrow> JNull | Some s \<Rightarrow> JStr s)]) entries))]"

definition ensure_manifest :: "services \<Rightarrow> pk \<Rightarrow> Task \<Rightarrow> time \<Rightarrow> (sandbox_db, SandboxProgramManifest option) op" where
  "ensure_manifest sv user_id task now =
     (if qu_slug (tk_queue task) \<noteq> ''l1'' then ret None
      else andthen get_db (\<lambda>db.
        case List.find (\<lambda>u. us_id u = user_id) (sb_users db) of
          None \<Rightarrow> raise DoesNotExist
        | Some owner \<Rightarrow>
        case List.find (\<lambda>m. mf_user_id m = user_id \<and> mf_program_key m = ''l1'') (sb_manifests db) of
          Some existing \<Rightarrow> ret (Some existing)
        | None \<Rightarrow>
        case List.find (\<lambda>q. qu_id q = qu_id (tk_queue task)) (sb_queues db) of
          None \<Rightarrow> raise DoesNotExist
        | Some queue \<Rightarrow>
        andthen (case List.find (\<lambda>c. pc_user_id c = user_id \<and> pc_program_key c = ''l1'') (sb_completions db) of
            Some completion \<Rightarrow> ret (''legacy_completion'',
              map (\<lambda>e. \<lparr>me_task_id = en_task_id e, me_task_slug = en_task_slug e, me_order = en_order e,
                me_requires_review = None, me_criteria_version = None, me_criteria_digest = None\<rparr>)
                (pc_snapshot completion))
          | None \<Rightarrow>
              (case sb_boundary db of
                 None \<Rightarrow> raise DoesNotExist
               | Some (enabled_at, ceiling) \<Rightarrow> ret
                   (if list_ex (\<lambda>a. ta_user_id a = user_id \<and> ta_attempt_number a = 1 \<and>
                        qu_id (tk_queue (ta_task a)) = qu_id queue) (sb_attempts db) then ''existing_program''
                    else if ceiling < us_id owner \<and> enabled_at \<le> us_date_joined owner then ''from_start''
                    else ''existing_account'',
                    map (\<lambda>t. \<lparr>me_task_id = tk_id t, me_task_slug = tk_slug t, me_order = tk_order t,
                      me_requires_review = Some (tk_requires_manual_review t),
                      me_criteria_version = Some ''technical-v1'',
                      me_criteria_digest = snd (checker_identity sv t)\<rparr>)
                      (filter (\<lambda>t. tk_is_active t \<and> qu_is_active queue)
                        (sort_key (\<lambda>t. (tk_order t, tk_id t))
                          (filter (\<lambda>t. qu_id (tk_queue t) = qu_id queue) (sb_tasks db)))))))
          (\<lambda>(source, entries).
          let row = \<lparr>mf_id = fresh_pk (map mf_id (sb_manifests db)), mf_user_id = user_id,
                mf_program_key = ''l1'', mf_source = source, mf_snapshot = entries,
                mf_digest = sv_digest sv (manifest_json entries), mf_recorded_at = now\<rparr>
          in andthen (modify_db (\<lambda>db. db\<lparr>sb_manifests := sb_manifests db @ [row]\<rparr>)) (\<lambda>_.
             ret (Some row)))))"

definition pristine :: "TaskAttempt \<Rightarrow> bool" where
  "pristine a \<longleftrightarrow> ta_status a = ST_NEW \<and> ta_started_at a = None \<and> ta_technical_passed_at a = None \<and>
     ta_container_name a = [] \<and> ta_attempts_count a = 0 \<and> ta_restart_count a = 0 \<and>
     ta_client_answer a = [] \<and> ta_trainee_report a = [] \<and> ta_check_status a = CK_IDLE \<and>
     ta_environment_status a = EN_IDLE \<and> ta_mentor_decision a = NOT_REVIEWED \<and>
     ta_finished_at a = None \<and> ta_check_started_at a = None \<and> ta_check_finished_at a = None \<and>
     ta_environment_started_at a = None \<and> ta_environment_finished_at a = None \<and>
     ta_mentor_reviewed_at a = None \<and> ta_mentor_reviewed_by a = None \<and> ta_mentor_feedback a = [] \<and>
     ta_container_id a = [] \<and> ta_terminal_container_name a = [] \<and> ta_terminal_url a = [] \<and>
     ta_terminal_port a \<in> {None, Some 0} \<and> ta_shell_command a = []"

definition created_attempt ::
    "TaskAttempt \<Rightarrow> SandboxProgramManifest option \<Rightarrow> (sandbox_db, SandboxAttemptCoverage) op" where
  "created_attempt attempt manifest = create_coverage
     \<lparr>cv_attempt_id = ta_id attempt, cv_user_id = ta_user_id attempt, cv_task_id = tk_id (ta_task attempt),
      cv_attempt_number = ta_attempt_number attempt,
      cv_origin = (if pristine attempt then ''creation'' else ''imported_state''),
      cv_initial_checks = ta_attempts_count attempt, cv_initial_resets = ta_restart_count attempt,
      cv_manifest_id = map_option mf_id manifest\<rparr>"

section \<open>The ledger only grows\<close>

lemma grows_publish: "keeps ledger_step (publish provider external_id user_id context payload available_at)"
proof -
  have "ledger_step db (db\<lparr>sb_source_events := sb_source_events db @ [e]\<rparr>)"
    if "List.find (\<lambda>e. so_provider e = provider \<and> so_external_id e = external_id) (sb_source_events db) = None"
      "so_provider e = provider" "so_external_id e = external_id" for db e
    using that by (auto simp: ledger_step_def ledger_extends_def ledger_keys_def find_None_all)
  then show ?thesis
    unfolding publish_def
    by (intro grows.keeps_atomic grows.keeps_if grows.keeps_raise)
      (auto simp: keeps_def andthen_def op_apply grows.unchanged Let_def split: option.split)
qed

lemma grows_save_review: "keeps ledger_step (save_review submission new)"
  unfolding save_review_def
  by (intro grows_basic grows_insert) (simp add: ledger_step_def ledger_extends_def ledger_keys_def)

lemma grows_submit_answer: "keeps ledger_step (submit_answer sv attempt answer report op_id now)"
  unfolding submit_answer_def by (intro grows_basic grows_observe)

lemma grows_review_answer:
  "keeps ledger_step (review_answer sv attempt actor decision comment submission_id op_id now)"
  unfolding review_answer_def
  by (intro grows_basic grows_observe grows_save_review grows_publish)

lemma grows_ensure_manifest: "keeps ledger_step (ensure_manifest sv user_id task now)"
  unfolding ensure_manifest_def
  by (intro grows_basic grows.keeps_modify_db) (simp add: ledger_step_def ledger_extends_def ledger_keys_def)

lemma grows_created_attempt: "keeps ledger_step (created_attempt attempt manifest)"
  unfolding created_attempt_def by (rule grows_coverage)

lemmas grows_answers = grows_publish grows_submit_answer grows_review_answer grows_ensure_manifest
  grows_created_attempt

end
