(* ===== verification/Completions.thy ===== *)
theory Completions
  imports Answer_Ledger
begin

text \<open>
  The immutable record that a trainee has completed the L1 program
  (\<^verbatim>\<open>sandbox/services/completions.py\<close>): reading the current composition, freezing the
  technical evidence of every active task, and storing the record once per user. The retry on
  SQLite lock errors is not modelled. The snapshot the service builds is a typed record; the checks
  of \<^verbatim>\<open>validate_completion_snapshot\<close> that concern the JSON shape of a foreign snapshot have no
  counterpart.
\<close>

section \<open>Operations\<close>

definition PROGRAM_KEY :: string where
  "PROGRAM_KEY = ''l1''"

definition composition_fingerprint :: "services \<Rightarrow> string \<Rightarrow> pk list \<Rightarrow> string" where
  "composition_fingerprint sv program_key task_ids =
     sv_digest sv (JObj [(''program_key'', JStr program_key), (''schema_version'', JNum 1),
       (''task_ids'', JArr (map (JNum \<circ> int) (sort task_ids)))])"

definition entry_errors :: "time \<Rightarrow> CompletionEntry \<Rightarrow> string list" where
  "entry_errors completed_at entry =
     (if en_task_id entry = 0 \<or> en_attempt_id entry = 0 then [''ids_required'']
      else
        (if en_evidence_source entry \<notin> {''technical_passed_at'', ''check_run''} then [''unknown_evidence''] else []) @
        (if en_check_run_id entry = Some 0 then [''invalid_check_run''] else []) @
        (if en_evidence_source entry = ''check_run'' \<and> en_check_run_id entry = None
           then [''check_run_required''] else []) @
        (if completed_at < en_passed_at entry then [''invalid_evidence_time''] else []))"

definition validate_completion_snapshot :: "services \<Rightarrow> SandboxProgramCompletion \<Rightarrow> unit result" where
  "validate_completion_snapshot sv completion =
     (let entries = pc_snapshot completion;
          ids = map en_task_id (filter (\<lambda>e. en_task_id e \<noteq> 0 \<and> en_attempt_id e \<noteq> 0) entries);
          errors = concat (map (entry_errors (pc_completed_at completion)) entries) @
            (if length ids \<noteq> card (set ids) then [''tasks_must_be_unique''] else [])
      in if entries = [] then Inl (ValidationError ''empty_program_snapshot'')
         else if errors \<noteq> [] then Inl (ValidationError ''invalid_snapshot'')
         else if pc_composition_fingerprint completion \<noteq>
             composition_fingerprint sv (pc_program_key completion) ids
           then Inl (ValidationError ''fingerprint_mismatch'')
         else Inr ())"

record CompletionCandidate =
  cc_user_id :: pk
  cc_eligible :: bool
  cc_reason :: string
  cc_fingerprint :: string
  cc_snapshot :: "CompletionEntry list"
  cc_completed_at :: "time option"

definition not_eligible :: "pk \<Rightarrow> string \<Rightarrow> string \<Rightarrow> CompletionCandidate" where
  "not_eligible user_id reason fingerprint =
     \<lparr>cc_user_id = user_id, cc_eligible = False, cc_reason = reason, cc_fingerprint = fingerprint,
      cc_snapshot = [], cc_completed_at = None\<rparr>"

definition credit_attempt :: "sandbox_db \<Rightarrow> pk \<Rightarrow> pk \<Rightarrow> TaskAttempt option" where
  "credit_attempt db user_id task_id =
     List.find (\<lambda>a. ta_user_id a = user_id \<and> tk_id (ta_task a) = task_id \<and> ta_attempt_number a = 1)
       (rev (sb_attempts db))"

text \<open>The loop over the tasks, with its early returns.\<close>

fun candidate_entries :: "sandbox_db \<Rightarrow> pk \<Rightarrow> time \<Rightarrow> Task list \<Rightarrow> string + CompletionEntry list" where
  "candidate_entries db user_id now [] = Inr []"
| "candidate_entries db user_id now (task # tasks) =
     (case credit_attempt db user_id (tk_id task) of
        None \<Rightarrow> Inl ''missing_technical_evidence''
      | Some attempt \<Rightarrow>
          let evidence = get_technical_evidence db attempt
          in if \<not> is_completed evidence then Inl ''missing_technical_evidence''
             else (case te_passed_at evidence of
               None \<Rightarrow> Inl ''invalid_evidence_time''
             | Some passed_at \<Rightarrow>
                 if now < passed_at then Inl ''invalid_evidence_time''
                 else (case candidate_entries db user_id now tasks of
                   Inl reason \<Rightarrow> Inl reason
                 | Inr entries \<Rightarrow> Inr (\<lparr>en_task_id = tk_id task, en_task_slug = tk_slug task,
                     en_order = tk_order task, en_attempt_id = ta_id attempt,
                     en_evidence_source = te_source evidence, en_passed_at = passed_at,
                     en_check_run_id = (case te_check_run_id evidence of
                        Some i \<Rightarrow> Some i
                      | None \<Rightarrow> (case successful_runs db (ta_id attempt) of
                          [] \<Rightarrow> None | r # _ \<Rightarrow> Some (cr_id r)))\<rparr> # entries))))"

definition candidate :: "services \<Rightarrow> sandbox_db \<Rightarrow> pk \<Rightarrow> time \<Rightarrow> Task list \<Rightarrow> CompletionCandidate" where
  "candidate sv db user_id now tasks =
     (let fingerprint = composition_fingerprint sv PROGRAM_KEY (map tk_id tasks)
      in if tasks = [] then not_eligible user_id ''empty_program'' fingerprint
         else (case candidate_entries db user_id now tasks of
           Inl reason \<Rightarrow> not_eligible user_id reason fingerprint
         | Inr entries \<Rightarrow> \<lparr>cc_user_id = user_id, cc_eligible = True, cc_reason = ''eligible'',
             cc_fingerprint = fingerprint, cc_snapshot = entries,
             cc_completed_at = Some (Max (set (map en_passed_at entries)))\<rparr>))"

definition active_queue :: "sandbox_db \<Rightarrow> string \<Rightarrow> Queue option" where
  "active_queue db slug = List.find (\<lambda>q. qu_slug q = slug \<and> qu_is_active q) (sb_queues db)"

definition active_tasks :: "sandbox_db \<Rightarrow> Queue \<Rightarrow> Task list" where
  "active_tasks db queue =
     sort_key (\<lambda>t. (tk_order t, tk_id t))
       (filter (\<lambda>t. qu_id (tk_queue t) = qu_id queue \<and> tk_is_active t) (sb_tasks db))"

text \<open>\<^verbatim>\<open>analyze_program_completion\<close> and \<^verbatim>\<open>_locked_candidate\<close> read the same rows.\<close>

definition locked_candidate :: "services \<Rightarrow> sandbox_db \<Rightarrow> pk \<Rightarrow> time \<Rightarrow> CompletionCandidate" where
  "locked_candidate sv db user_id now =
     (case active_queue db PROGRAM_KEY of
        None \<Rightarrow> not_eligible user_id ''active_queue_missing'' []
      | Some queue \<Rightarrow> candidate sv db user_id now (active_tasks db queue))"

definition completion_of :: "sandbox_db \<Rightarrow> pk \<Rightarrow> SandboxProgramCompletion option" where
  "completion_of db user_id =
     List.find (\<lambda>c. pc_user_id c = user_id \<and> pc_program_key c = PROGRAM_KEY) (sb_completions db)"

text \<open>\<^verbatim>\<open>get_or_create\<close>, whose insert runs the model's \<^verbatim>\<open>clean\<close>, and the source record.\<close>

definition store_completion ::
    "services \<Rightarrow> CompletionCandidate \<Rightarrow> CompletionSource \<Rightarrow> (sandbox_db, SandboxProgramCompletion \<times> bool) op" where
  "store_completion sv cand source = andthen get_db (\<lambda>db.
     case completion_of db (cc_user_id cand) of
       Some completion \<Rightarrow> ret (completion, False)
     | None \<Rightarrow>
         let row = \<lparr>pc_id = fresh_pk (map pc_id (sb_completions db)), pc_user_id = cc_user_id cand,
               pc_program_key = PROGRAM_KEY,
               pc_completed_at = (case cc_completed_at cand of Some t \<Rightarrow> t | None \<Rightarrow> 0), pc_source = source,
               pc_composition_fingerprint = cc_fingerprint cand, pc_snapshot = cc_snapshot cand\<rparr>
         in andthen (lift_result (validate_completion_snapshot sv row)) (\<lambda>_.
            andthen (modify_db (\<lambda>db. db\<lparr>sb_completions := sb_completions db @ [row]\<rparr>)) (\<lambda>_.
            andthen (publish ''sandbox_completion'' (str_nat (pc_id row)) (pc_user_id row) program_context
              (JObj [(''completion_id'', JNum (int (pc_id row)))]) None) (\<lambda>_.
            ret (row, True)))))"

definition record_completion_after_success ::
    "services \<Rightarrow> pk \<Rightarrow> pk \<Rightarrow> time \<Rightarrow> (sandbox_db, SandboxProgramCompletion option \<times> bool) op" where
  "record_completion_after_success sv attempt_id check_run_id now =
     atomic (andthen get_db (\<lambda>db.
       case List.find (\<lambda>a. ta_id a = attempt_id \<and> ta_attempt_number a = 1) (sb_attempts db) of
         None \<Rightarrow> ret (None, False)
       | Some trigger \<Rightarrow>
           if qu_slug (tk_queue (ta_task trigger)) \<noteq> PROGRAM_KEY then ret (None, False)
           else if \<not> list_ex (\<lambda>r. cr_id r = check_run_id \<and> cr_attempt_id r = ta_id trigger \<and>
               cr_result r = RUN_PASSED \<and> cr_exit_code r = 0) (sb_check_runs db) \<or>
             ta_technical_passed_at trigger = None
             then raise (ValidationError ''successful_check_required'')
           else (case completion_of db (ta_user_id trigger) of
             Some existing \<Rightarrow> ret (Some existing, False)
           | None \<Rightarrow>
               let cand = locked_candidate sv db (ta_user_id trigger) now
               in if \<not> cc_eligible cand \<or> tk_id (ta_task trigger) \<notin> set (map en_task_id (cc_snapshot cand))
                  then ret (None, False)
                  else andthen (store_completion sv cand TECHNICAL_CHECK) (\<lambda>(c, created).
                    ret (Some c, created)))))"

definition restore_program_completion ::
    "services \<Rightarrow> pk \<Rightarrow> string \<Rightarrow> time \<Rightarrow> (sandbox_db, SandboxProgramCompletion \<times> bool) op" where
  "restore_program_completion sv user_id expected_fingerprint now =
     atomic (andthen get_db (\<lambda>db.
       case completion_of db user_id of
         Some existing \<Rightarrow> ret (existing, False)
       | None \<Rightarrow>
           let cand = locked_candidate sv db user_id now
           in if cc_fingerprint cand \<noteq> expected_fingerprint
                then raise (ValidationError ''composition_changed'')
              else if \<not> cc_eligible cand then raise (ValidationError ''completion_not_proved'')
              else store_completion sv cand LEGACY_RESTORE))"

section \<open>The candidate\<close>

text \<open>A task counts when the credit attempt has evidence that is not dated in the future.\<close>

definition task_proved :: "sandbox_db \<Rightarrow> pk \<Rightarrow> time \<Rightarrow> Task \<Rightarrow> bool" where
  "task_proved db user_id now task =
     (case credit_attempt db user_id (tk_id task) of
        None \<Rightarrow> False
      | Some a \<Rightarrow> is_completed (get_technical_evidence db a) \<and>
          (case te_passed_at (get_technical_evidence db a) of None \<Rightarrow> False | Some t \<Rightarrow> t \<le> now))"

lemma candidate_entries_Inr_iff:
  "(\<exists>entries. candidate_entries db user_id now tasks = Inr entries) \<longleftrightarrow> list_all (task_proved db user_id now) tasks"
proof (induction tasks)
  case (Cons t ts)
  then show ?case
    by (cases "candidate_entries db user_id now ts")
      (auto simp: task_proved_def [of db user_id now t] Let_def not_less split: option.split)
qed simp

lemma candidate_entries_shape:
  "candidate_entries db user_id now tasks = Inr entries \<Longrightarrow>
     map en_task_id entries = map tk_id tasks \<and> (\<forall>e \<in> set entries. en_passed_at e \<le> now)"
  by (induction tasks arbitrary: entries)
    (auto simp: Let_def not_less split: option.splits sum.splits if_splits)

lemma evidence_source:
  "is_completed (get_technical_evidence db a) \<Longrightarrow>
     te_source (get_technical_evidence db a) = ''technical_passed_at'' \<or>
     te_source (get_technical_evidence db a) = ''check_run'' \<and>
     te_check_run_id (get_technical_evidence db a) = Some (cr_id (hd (successful_runs db (ta_id a)))) \<and>
     successful_runs db (ta_id a) \<noteq> []"
  by (auto simp: get_technical_evidence_def is_completed_def missing_evidence_def split: option.splits list.splits)

text \<open>Primary keys are positive.\<close>

definition keys_positive :: "sandbox_db \<Rightarrow> bool" where
  "keys_positive db \<longleftrightarrow> (\<forall>t \<in> set (sb_tasks db). 0 < tk_id t) \<and> (\<forall>a \<in> set (sb_attempts db). 0 < ta_id a) \<and>
     (\<forall>r \<in> set (sb_check_runs db). 0 < cr_id r)"

lemma candidate_entries_valid:
  assumes "candidate_entries db user_id now tasks = Inr entries" and "keys_positive db"
    and "set tasks \<subseteq> set (sb_tasks db)" and "e \<in> set entries" and "en_passed_at e \<le> completed_at"
  shows "entry_errors completed_at e = [] \<and> en_task_id e \<noteq> 0 \<and> en_attempt_id e \<noteq> 0"
  using assms(1,3,4)
proof (induction tasks arbitrary: entries)
  case (Cons t ts)
  obtain a es x where a: "credit_attempt db user_id (tk_id t) = Some a"
    and c: "is_completed (get_technical_evidence db a)"
    and es: "candidate_entries db user_id now ts = Inr es"
    and entries: "entries = x # es"
    and x: "en_task_id x = tk_id t" "en_attempt_id x = ta_id a"
      "en_evidence_source x = te_source (get_technical_evidence db a)"
      "en_check_run_id x = (case te_check_run_id (get_technical_evidence db a) of Some i \<Rightarrow> Some i
         | None \<Rightarrow> (case successful_runs db (ta_id a) of [] \<Rightarrow> None | r # _ \<Rightarrow> Some (cr_id r)))"
    using Cons.prems(1) by (auto simp: Let_def split: option.splits sum.splits if_splits)
  show ?case
  proof (cases "e = x")
    case True
    have "a \<in> set (sb_attempts db)"
      using a by (auto simp: credit_attempt_def dest: find_Some_member)
    then have ids: "0 < tk_id t" "0 < ta_id a"
      using assms(2) Cons.prems(2) by (auto simp: keys_positive_def)
    have run: "r \<in> set (successful_runs db (ta_id a)) \<Longrightarrow> 0 < cr_id r" for r
      using assms(2) by (auto simp: keys_positive_def successful_runs_def)
    have "en_check_run_id x \<noteq> Some 0"
      using evidence_source [OF c] run
      by (auto simp: x(4) get_technical_evidence_def missing_evidence_def split: option.splits list.splits)
    moreover have "en_evidence_source x = ''check_run'' \<Longrightarrow> en_check_run_id x \<noteq> None"
      using evidence_source [OF c] by (auto simp: x(3,4))
    moreover have "en_evidence_source x \<in> {''technical_passed_at'', ''check_run''}"
      using evidence_source [OF c] by (auto simp: x(3))
    ultimately show ?thesis
      using ids assms(5) True x(1,2) by (simp add: entry_errors_def)
  next
    case False
    with Cons entries es show ?thesis by auto
  qed
qed simp

text \<open>An eligible candidate always passes the validation of the model.\<close>

lemma candidate_eligible:
  assumes "cc_eligible (candidate sv db user_id now tasks)"
  shows "\<exists>entries. tasks \<noteq> [] \<and> candidate_entries db user_id now tasks = Inr entries \<and>
    candidate sv db user_id now tasks = \<lparr>cc_user_id = user_id, cc_eligible = True, cc_reason = ''eligible'',
      cc_fingerprint = composition_fingerprint sv PROGRAM_KEY (map tk_id tasks), cc_snapshot = entries,
      cc_completed_at = Some (Max (set (map en_passed_at entries)))\<rparr>"
  using assms by (auto simp: candidate_def Let_def not_eligible_def split: if_splits sum.splits)

lemma candidate_eligible_iff:
  "cc_eligible (candidate sv db user_id now tasks) \<longleftrightarrow> tasks \<noteq> [] \<and> list_all (task_proved db user_id now) tasks"
  unfolding candidate_entries_Inr_iff [symmetric]
  by (auto simp: candidate_def Let_def not_eligible_def split: sum.splits)

lemma candidate_snapshot_valid:
  assumes cand: "cand = candidate sv db user_id now tasks" "cc_eligible cand"
    and db: "keys_positive db" "set tasks \<subseteq> set (sb_tasks db)" "distinct (map tk_id tasks)"
    and row: "pc_snapshot row = cc_snapshot cand" "cc_completed_at cand = Some (pc_completed_at row)"
      "pc_composition_fingerprint row = cc_fingerprint cand" "pc_program_key row = PROGRAM_KEY"
  shows "validate_completion_snapshot sv row = Inr ()"
proof -
  obtain entries where e: "tasks \<noteq> []" "candidate_entries db user_id now tasks = Inr entries"
    and c: "cand = \<lparr>cc_user_id = user_id, cc_eligible = True, cc_reason = ''eligible'',
      cc_fingerprint = composition_fingerprint sv PROGRAM_KEY (map tk_id tasks), cc_snapshot = entries,
      cc_completed_at = Some (Max (set (map en_passed_at entries)))\<rparr>"
    using candidate_eligible [of sv db user_id now tasks] cand by auto
  note shape = candidate_entries_shape [OF e(2)]
  have "entries \<noteq> []" using shape e(1) by auto
  have snap: "pc_snapshot row = entries" and at: "pc_completed_at row = Max (set (map en_passed_at entries))"
    using row(1,2) c by simp_all
  have le: "x \<in> set entries \<Longrightarrow> en_passed_at x \<le> pc_completed_at row" for x
    unfolding at by (intro Max_ge) auto
  note valid = candidate_entries_valid [OF e(2) db(1,2) _ le]
  have "filter (\<lambda>e. en_task_id e \<noteq> 0 \<and> en_attempt_id e \<noteq> 0) entries = entries"
    using valid by (simp add: filter_id_conv)
  moreover have "concat (map (entry_errors (pc_completed_at row)) entries) = []"
    using valid by (simp add: concat_eq_Nil_conv)
  moreover have "length (map en_task_id entries) = card (set (map en_task_id entries))"
    using distinct_card [of "map en_task_id entries"] shape db(3) by simp
  ultimately show ?thesis
    using \<open>entries \<noteq> []\<close> shape row(3,4) c
    by (simp add: validate_completion_snapshot_def Let_def snap)
qed

section \<open>Storing\<close>

lemma find_snoc_new: "List.find P xs = None \<Longrightarrow> P x \<Longrightarrow> List.find P (xs @ [x]) = Some x"
  by (induction xs) (auto split: if_splits)

lemma store_completion_cases:
  assumes "store_completion sv cand source db = (Inr (c, created), db')"
  shows "created \<and> completion_of db (cc_user_id cand) = None \<and> sb_completions db' = sb_completions db @ [c] \<and>
      pc_user_id c = cc_user_id cand \<and> pc_program_key c = PROGRAM_KEY \<and> pc_snapshot c = cc_snapshot cand \<and>
      pc_composition_fingerprint c = cc_fingerprint cand \<and> validate_completion_snapshot sv c = Inr () \<or>
    \<not> created \<and> completion_of db (cc_user_id cand) = Some c \<and> db' = db"
proof (cases "completion_of db (cc_user_id cand)")
  case None
  have "sb_completions t = sb_completions s" if "publish p x u ct pl av s = (Inr e, t)" for p x u ct pl av s e t
    using that by (auto simp: publish_def atomic_Inr_iff andthen_Inr_iff op_apply Let_def
        split: if_splits option.splits)
  with assms None show ?thesis
    by (fastforce simp: store_completion_def andthen_Inr_iff op_apply Let_def)
next
  case (Some x)
  with assms show ?thesis by (simp add: store_completion_def andthen_Inr_iff op_apply)
qed

lemma store_completion_succeeds:
  assumes "completion_of db (cc_user_id cand) = None"
    and "\<And>row. pc_snapshot row = cc_snapshot cand \<Longrightarrow> cc_completed_at cand = Some (pc_completed_at row) \<Longrightarrow>
      pc_composition_fingerprint row = cc_fingerprint cand \<Longrightarrow> pc_program_key row = PROGRAM_KEY \<Longrightarrow>
      validate_completion_snapshot sv row = Inr ()"
    and "cc_completed_at cand \<noteq> None"
    and "source_free db ''sandbox_completion'' (str_nat (fresh_pk (map pc_id (sb_completions db))))"
  shows "\<exists>c db'. store_completion sv cand source db = (Inr (c, True), db') \<and>
    sb_completions db' = sb_completions db @ [c] \<and> sb_attempts db' = sb_attempts db"
proof -
  let ?row = "\<lparr>pc_id = fresh_pk (map pc_id (sb_completions db)), pc_user_id = cc_user_id cand,
     pc_program_key = PROGRAM_KEY, pc_completed_at = (case cc_completed_at cand of Some t \<Rightarrow> t | None \<Rightarrow> 0),
     pc_source = source, pc_composition_fingerprint = cc_fingerprint cand, pc_snapshot = cc_snapshot cand\<rparr>"
  have v: "validate_completion_snapshot sv ?row = Inr ()"
    by (rule assms(2)) (use assms(3) in auto)
  let ?db = "db\<lparr>sb_completions := sb_completions db @ [?row]\<rparr>"
  have "source_free ?db ''sandbox_completion'' (str_nat (pc_id ?row))"
    using assms(4) by (simp add: source_free_def)
  moreover have "''sandbox_completion'' \<in> set PROVIDERS" by (simp add: PROVIDERS_def)
  ultimately obtain e where "publish ''sandbox_completion'' (str_nat (pc_id ?row)) (pc_user_id ?row) program_context
      (JObj [(''completion_id'', JNum (int (pc_id ?row)))]) None ?db =
      (Inr e, ?db\<lparr>sb_source_events := sb_source_events ?db @ [e]\<rparr>)"
    using publish_new by blast
  with v assms(1) show ?thesis
    by (simp add: store_completion_def andthen_def op_apply Let_def)
qed

section \<open>Recording\<close>

lemma grows_store_completion: "keeps ledger_step (store_completion sv cand source)"
  unfolding store_completion_def
  by (intro grows_basic grows_publish grows.keeps_modify_db)
    (simp add: ledger_step_def ledger_extends_def ledger_keys_def)

lemma grows_record_completion: "keeps ledger_step (record_completion_after_success sv i r now)"
  unfolding record_completion_after_success_def by (intro grows_basic grows_store_completion)

lemma grows_restore_completion: "keeps ledger_step (restore_program_completion sv u f now)"
  unfolding restore_program_completion_def by (intro grows_basic grows_store_completion)

text \<open>At most one completion per user and program.\<close>

definition completions_unique :: "sandbox_db \<Rightarrow> bool" where
  "completions_unique db \<longleftrightarrow> distinct (map (\<lambda>c. (pc_user_id c, pc_program_key c)) (sb_completions db))"

lemma store_completion_unique:
  assumes "store_completion sv cand source db = (r, db')" and "completions_unique db"
  shows "completions_unique (if \<exists>x. r = Inr x then db' else db)"
proof (cases r)
  case (Inr x)
  obtain c created where "x = (c, created)" by fastforce
  with assms Inr store_completion_cases [of sv cand source db c created db'] show ?thesis
    by (auto simp: completions_unique_def completion_of_def find_None_all) metis
qed (use assms in simp)

text \<open>When a successful check records a completion, what is stored is the frozen composition.\<close>

lemma record_completion_created:
  assumes "record_completion_after_success sv attempt_id run_id now db = (Inr (Some c, True), db')"
  shows "\<exists>trigger queue. trigger \<in> set (sb_attempts db) \<and> ta_id trigger = attempt_id \<and>
    active_queue db PROGRAM_KEY = Some queue \<and> active_tasks db queue \<noteq> [] \<and>
    list_all (task_proved db (ta_user_id trigger) now) (active_tasks db queue) \<and>
    map en_task_id (pc_snapshot c) = map tk_id (active_tasks db queue) \<and>
    pc_user_id c = ta_user_id trigger \<and> sb_completions db' = sb_completions db @ [c]"
proof -
  obtain trigger where t: "List.find (\<lambda>a. ta_id a = attempt_id \<and> ta_attempt_number a = 1) (sb_attempts db) = Some trigger"
    and el: "cc_eligible (locked_candidate sv db (ta_user_id trigger) now)"
    and st: "store_completion sv (locked_candidate sv db (ta_user_id trigger) now) TECHNICAL_CHECK db = (Inr (c, True), db')"
    using assms
    by (auto simp: record_completion_after_success_def atomic_Inr_iff andthen_Inr_iff op_apply Let_def
        split: option.splits if_splits)
  from el obtain queue where q: "active_queue db PROGRAM_KEY = Some queue"
    by (auto simp: locked_candidate_def not_eligible_def split: option.splits)
  then have lc: "locked_candidate sv db (ta_user_id trigger) now =
      candidate sv db (ta_user_id trigger) now (active_tasks db queue)"
    by (simp add: locked_candidate_def)
  from candidate_eligible [OF el [unfolded lc]] obtain entries where
    e: "candidate_entries db (ta_user_id trigger) now (active_tasks db queue) = Inr entries"
    and c: "cc_snapshot (candidate sv db (ta_user_id trigger) now (active_tasks db queue)) = entries"
      "cc_user_id (candidate sv db (ta_user_id trigger) now (active_tasks db queue)) = ta_user_id trigger"
    by auto
  have "active_tasks db queue \<noteq> [] \<and> list_all (task_proved db (ta_user_id trigger) now) (active_tasks db queue)"
    using el by (simp add: lc candidate_eligible_iff)
  with q c find_Some_member [OF t] store_completion_cases [OF st] candidate_entries_shape [OF e] lc
  show ?thesis by auto
qed

end
