(* ===== verification/Progress.thy ===== *)
theory Progress
  imports Completions Rounding
begin

text \<open>
  Technical progress in a queue (\<^verbatim>\<open>sandbox/services/progress.py\<close>): which required tasks a
  trainee has completed, the counters of the answer workflow, the percentage, and the attached
  completion record. All builders only read. The percentage is computed in double precision
  floating point and rounded half to even.
\<close>

section \<open>Operations\<close>

record SandboxQueueProgress =
  qp_queue_exists :: bool
  qp_queue_slug :: string
  qp_queue_name :: string
  qp_total_count :: nat
  qp_passed_count :: nat
  qp_remaining_count :: int
  qp_on_review_count :: nat
  qp_progress_percent :: nat
  qp_is_ready :: bool
  qp_needs_revision_count :: nat
  qp_unsubmitted_count :: nat
  qp_unread_feedback_count :: nat
  qp_approved_answer_count :: nat
  qp_feedback_read_state_unknown_count :: nat
  qp_required_task_ids :: "pk list"
  qp_technically_completed_task_ids :: "pk list"
  qp_diagnostics :: "ProgressDiagnostic list"
  qp_completion_id :: "pk option"
  qp_completed_at :: "time option"
  qp_completion_fingerprint :: string
  qp_completion_task_ids :: "pk list"

definition empty_progress :: "string \<Rightarrow> bool \<Rightarrow> string \<Rightarrow> SandboxQueueProgress" where
  "empty_progress queue_slug queue_exists queue_name =
     \<lparr>qp_queue_exists = queue_exists, qp_queue_slug = queue_slug, qp_queue_name = queue_name,
      qp_total_count = 0, qp_passed_count = 0, qp_remaining_count = 0, qp_on_review_count = 0,
      qp_progress_percent = 0, qp_is_ready = False, qp_needs_revision_count = 0,
      qp_unsubmitted_count = 0, qp_unread_feedback_count = 0, qp_approved_answer_count = 0,
      qp_feedback_read_state_unknown_count = 0, qp_required_task_ids = [],
      qp_technically_completed_task_ids = [], qp_diagnostics = [], qp_completion_id = None,
      qp_completed_at = None, qp_completion_fingerprint = [], qp_completion_task_ids = []\<rparr>"

text \<open>\<^verbatim>\<open>round(completed / total * 100)\<close>.\<close>

definition progress_percent :: "nat \<Rightarrow> nat \<Rightarrow> nat" where
  "progress_percent completed total_tasks = float_round (float_scale (float_div completed total_tasks) 100)"

text \<open>The branch of the answer workflow an attempt is counted under.\<close>

definition answer_branch :: "sandbox_db \<Rightarrow> TaskAttempt \<Rightarrow> string" where
  "answer_branch db attempt =
     (if \<not> tk_requires_manual_review (ta_task attempt) then []
      else if ta_mentor_decision attempt = NEEDS_REVISION then ''needs_revision''
      else if ta_mentor_decision attempt = APPROVED then ''approved''
      else if ta_status attempt = ST_ON_REVIEW then ''on_review''
      else if is_completed (get_technical_evidence db attempt) then ''unsubmitted''
      else [])"

definition attach_completion :: "sandbox_db \<Rightarrow> string \<Rightarrow> pk \<Rightarrow> SandboxQueueProgress \<Rightarrow> SandboxQueueProgress" where
  "attach_completion db queue_slug user_id progress =
     (case List.find (\<lambda>c. pc_user_id c = user_id \<and> pc_program_key c = queue_slug) (rev (sb_completions db)) of
        None \<Rightarrow> progress
      | Some record \<Rightarrow> progress\<lparr>qp_completion_id := Some (pc_id record),
          qp_completed_at := Some (pc_completed_at record),
          qp_completion_fingerprint := pc_composition_fingerprint record,
          qp_completion_task_ids := map en_task_id (pc_snapshot record)\<rparr>)"

definition credit_attempts :: "sandbox_db \<Rightarrow> pk list \<Rightarrow> pk \<Rightarrow> TaskAttempt list" where
  "credit_attempts db task_ids user_id =
     sort_key (\<lambda>a. tk_id (ta_task a))
       (filter (\<lambda>a. ta_user_id a = user_id \<and> tk_id (ta_task a) \<in> set task_ids \<and> ta_attempt_number a = 1)
         (sb_attempts db))"

text \<open>The body of the loop over the users.\<close>

definition user_progress :: "sandbox_db \<Rightarrow> Queue \<Rightarrow> pk list \<Rightarrow> pk \<Rightarrow> SandboxQueueProgress" where
  "user_progress db queue task_ids user_id =
     (let attempts = credit_attempts db task_ids user_id;
          completed_ids = remdups (map (\<lambda>a. tk_id (ta_task a))
            (filter (\<lambda>a. is_completed (get_technical_evidence db a)) attempts));
          count = (\<lambda>branch. length (filter (\<lambda>a. answer_branch db a = branch) attempts));
          reviewed = filter (\<lambda>a. tk_requires_manual_review (ta_task a)) attempts;
          completed_count = length completed_ids
      in \<lparr>qp_queue_exists = True, qp_queue_slug = qu_slug queue, qp_queue_name = qu_name queue,
          qp_total_count = length task_ids, qp_passed_count = completed_count,
          qp_remaining_count = int (length task_ids) - int completed_count,
          qp_on_review_count = count ''on_review'',
          qp_progress_percent = progress_percent completed_count (length task_ids),
          qp_is_ready = (completed_count = length task_ids),
          qp_needs_revision_count = count ''needs_revision'',
          qp_unsubmitted_count = count ''unsubmitted'',
          qp_unread_feedback_count = length (filter has_unread_mentor_feedback reviewed),
          qp_approved_answer_count = count ''approved'',
          qp_feedback_read_state_unknown_count =
            length (filter (\<lambda>a. \<not> has_unread_mentor_feedback a \<and> mentor_feedback_read_state a = ''unknown'') reviewed),
          qp_required_task_ids = task_ids,
          qp_technically_completed_task_ids = filter (\<lambda>pk. pk \<in> set completed_ids) task_ids,
          qp_diagnostics = concat (map (diagnose_technical_evidence db) attempts),
          qp_completion_id = None, qp_completed_at = None, qp_completion_fingerprint = [],
          qp_completion_task_ids = []\<rparr>)"

definition build_sandbox_queue_progress_map ::
    "sandbox_db \<Rightarrow> pk list \<Rightarrow> string \<Rightarrow> (pk \<times> SandboxQueueProgress) list" where
  "build_sandbox_queue_progress_map db users queue_slug =
     (let user_ids = remdups users;
          each = (\<lambda>f. map (\<lambda>user_id. (user_id, attach_completion db queue_slug user_id (f user_id))) user_ids)
      in case active_queue db queue_slug of
           None \<Rightarrow> each (\<lambda>_. empty_progress queue_slug False [])
         | Some queue \<Rightarrow>
             let task_ids = map tk_id (active_tasks db queue)
             in if task_ids = [] then each (\<lambda>_. empty_progress queue_slug True (qu_name queue))
                else each (user_progress db queue task_ids))"

definition build_sandbox_queue_progress :: "sandbox_db \<Rightarrow> pk \<Rightarrow> string \<Rightarrow> SandboxQueueProgress" where
  "build_sandbox_queue_progress db user_id queue_slug =
     (case map_of (build_sandbox_queue_progress_map db [user_id] queue_slug) user_id of
        None \<Rightarrow> empty_progress queue_slug False [] | Some progress \<Rightarrow> progress)"

section \<open>The percentage\<close>

lemma round_half_even_multiple: "0 < d \<Longrightarrow> round_half_even (c * d) d = c"
  using round_half_even_exact [of d "c * d"] by simp

lemma progress_percent_full:
  assumes "0 < n"
  shows "progress_percent n n = 100"
proof -
  obtain k where k: "float_div n n = (2 ^ k, k)"
    using assms round_half_even_multiple [of n "2 ^ k" for k]
    by (simp add: float_div_def round_sig_def Let_def mult.commute)
  obtain j where "float_scale (2 ^ k, k) 100 = (100 * 2 ^ j, j)"
  proof
    let ?j = "snd (float_scale (2 ^ k, k) 100)"
    show "float_scale (2 ^ k, k) 100 = (100 * 2 ^ ?j, ?j)"
      using round_half_even_multiple [of "2 ^ k" "100 * 2 ^ ?j"]
      by (simp add: float_scale_def round_sig_def Let_def mult_ac)
  qed
  with k show ?thesis
    by (simp add: progress_percent_def float_round_def round_half_even_multiple)
qed

text \<open>
  The error of the two roundings is far below the distance between \<open>100 * c / n\<close> and \<open>99.5\<close>.
\<close>

lemma progress_percent_less:
  assumes cn: "c < n" and n: "n < 200"
  shows "progress_percent c n < 100"
proof (cases "c = 0")
  case True
  then show ?thesis
    by (simp add: progress_percent_def float_div_def float_scale_def float_round_def round_sig_def Let_def)
next
  case False
  obtain q k where qk: "float_div c n = (q, k)" by fastforce
  obtain p j where pj: "float_scale (q, k) 100 = (p, j)" by fastforce
  have k: "52 \<le> k"
    using round_sig_digits [OF qk [unfolded float_div_def], of 0] False cn by (simp add: FLOAT_PREC_def)
  have up1: "2 * (q * n) \<le> 2 * (c * 2 ^ k) + n"
    using round_sig_bounds(1) [OF qk [unfolded float_div_def]] cn by simp
  have q: "q \<le> 2 ^ k"
  proof -
    have "2 * (q * n) \<le> 2 * (c * 2 ^ k) + n" by (rule up1)
    also have "\<dots> \<le> 2 * ((n - 1) * 2 ^ k) + n * 1" using cn by (intro add_mono mult_le_mono) auto
    also have "\<dots> \<le> 2 * (n * 2 ^ k)"
    proof -
      have "n \<le> 2 * 2 ^ k" using n k power_increasing [of 52 k "2 :: nat"] by simp
      then show ?thesis by (cases n) (simp_all add: algebra_simps)
    qed
    finally show ?thesis using cn by simp
  qed
  have sc: "round_sig 2 FLOAT_PREC (q * 100) (2 ^ k) = (p, j)" using pj by (simp add: float_scale_def)
  have up2: "2 * (p * 2 ^ k) \<le> 2 * (q * 100 * 2 ^ j) + 2 ^ k" using round_sig_bounds(1) [OF sc] by simp
  have j: "45 \<le> j"
  proof (cases "q = 0")
    case True
    have "2 * (c * 2 ^ k) \<le> n"
      using round_sig_bounds(2) [OF qk [unfolded float_div_def]] True cn by simp
    moreover have "2 ^ 52 \<le> c * 2 ^ k" using False k power_increasing [of 52 k "2 :: nat"] by (cases c) simp_all
    ultimately show ?thesis using n by simp
  next
    case False
    have "q * 100 \<le> 2 ^ k * 2 ^ 7" using q by simp
    then show ?thesis using round_sig_digits [OF sc, of 7] False by (simp add: FLOAT_PREC_def)
  qed
  have "2 * (p * 2 ^ k) * n \<le> 100 * 2 ^ j * (2 * (q * n)) + 2 ^ k * n"
    using mult_le_mono1 [OF up2, of n] by (simp add: algebra_simps)
  also have "\<dots> \<le> 100 * 2 ^ j * (2 * (c * 2 ^ k) + n) + 2 ^ k * n"
    using up1 by simp
  finally have bound: "2 * (p * n) * 2 ^ k \<le> 200 * c * 2 ^ j * 2 ^ k + (100 * n * 2 ^ j + n * 2 ^ k)"
    by (simp add: algebra_simps)
  have "100 * n * 4 \<le> 2 ^ k"
    using n k power_increasing [of 52 k "2 :: nat"] by simp
  then have "100 * n * 4 * 2 ^ j \<le> 2 ^ k * 2 ^ j" by (rule mult_le_mono1)
  moreover have "n * 4 \<le> 2 ^ j"
    using n j power_increasing [of 45 j "2 :: nat"] by simp
  then have "n * 4 * 2 ^ k \<le> 2 ^ j * 2 ^ k" by (rule mult_le_mono1)
  moreover have "0 < (2 :: nat) ^ j * 2 ^ k" by simp
  ultimately have small: "100 * n * 2 ^ j + n * 2 ^ k < 2 ^ j * 2 ^ k"
    by (simp only: mult_ac)
  have "2 * (p * n) * 2 ^ k < (200 * c + 1) * 2 ^ j * 2 ^ k"
    using bound small by (simp add: algebra_simps)
  then have pn: "2 * (p * n) < (200 * c + 1) * 2 ^ j" by simp
  have "round_half_even p (2 ^ j) \<le> 99 \<or> 199 * 2 ^ j \<le> 2 * p"
  proof (cases "round_half_even p (2 ^ j) \<le> 99")
    case False
    then have "100 * 2 ^ j \<le> round_half_even p (2 ^ j) * 2 ^ j" by simp
    moreover have "2 * (round_half_even p (2 ^ j) * 2 ^ j) \<le> 2 * p + 2 ^ j"
      using round_half_even_bounds(1) [of "2 ^ j" p] by simp
    ultimately show ?thesis by linarith
  qed simp
  moreover have "\<not> 199 * 2 ^ j \<le> 2 * p"
  proof
    assume "199 * 2 ^ j \<le> 2 * p"
    then have "199 * 2 ^ j * n \<le> 2 * p * n" by (rule mult_le_mono1)
    also have "2 * p * n < (200 * c + 1) * 2 ^ j" using pn by (simp only: mult.assoc)
    finally have "199 * n * 2 ^ j < (200 * c + 1) * 2 ^ j" by (simp only: mult_ac)
    then have "199 * n < 200 * c + 1" by (simp only: mult_less_cancel2)
    with cn n show False by simp
  qed
  ultimately show ?thesis
    using qk pj by (simp add: progress_percent_def float_round_def)
qed


section \<open>Readiness\<close>

text \<open>
  The unique constraint of \<^verbatim>\<open>TaskAttempt\<close> on user, task and attempt number.
\<close>

definition attempts_unique :: "sandbox_db \<Rightarrow> bool" where
  "attempts_unique db \<longleftrightarrow>
     distinct (map (\<lambda>a. (ta_user_id a, tk_id (ta_task a), ta_attempt_number a)) (sb_attempts db))"

lemma find_rev_unique:
  assumes "distinct (map key xs)" and "\<And>x. P x \<longleftrightarrow> key x = k"
  shows "List.find P (rev xs) = Some x \<longleftrightarrow> x \<in> set xs \<and> P x"
proof
  assume "List.find P (rev xs) = Some x"
  then show "x \<in> set xs \<and> P x" by (auto dest: find_Some_member)
next
  assume x: "x \<in> set xs \<and> P x"
  then obtain y where y: "List.find P (rev xs) = Some y"
    by (cases "List.find P (rev xs)") (auto simp: find_None_all)
  then have "y \<in> set xs" "P y" by (auto dest: find_Some_member)
  with x assms y show "List.find P (rev xs) = Some x"
    by (metis distinct_map inj_onD)
qed

lemma credit_attempt_iff:
  assumes "attempts_unique db"
  shows "credit_attempt db user_id task_id = Some a \<longleftrightarrow>
    a \<in> set (sb_attempts db) \<and> ta_user_id a = user_id \<and> tk_id (ta_task a) = task_id \<and> ta_attempt_number a = 1"
  unfolding credit_attempt_def
  by (rule find_rev_unique [where key = "\<lambda>a. (ta_user_id a, tk_id (ta_task a), ta_attempt_number a)"
        and k = "(user_id, task_id, 1)"])
    (use assms in \<open>auto simp: attempts_unique_def\<close>)

lemma completed_ids_iff:
  assumes "attempts_unique db"
  shows "task_id \<in> (\<lambda>a. tk_id (ta_task a)) ` set (filter (\<lambda>a. is_completed (get_technical_evidence db a))
      (credit_attempts db task_ids user_id)) \<longleftrightarrow>
    task_id \<in> set task_ids \<and>
    (\<exists>a. credit_attempt db user_id task_id = Some a \<and> technical_passed db a)"
  by (auto simp: credit_attempts_def credit_attempt_iff [OF assms] technical_passed_def image_iff)

definition completed_tasks :: "sandbox_db \<Rightarrow> pk \<Rightarrow> pk list \<Rightarrow> pk set" where
  "completed_tasks db user_id task_ids =
     {t \<in> set task_ids. \<exists>a. credit_attempt db user_id t = Some a \<and> technical_passed db a}"

lemma user_progress_counts:
  assumes "attempts_unique db" and p: "p = user_progress db queue task_ids user_id"
  shows "qp_passed_count p = card (completed_tasks db user_id task_ids)"
    and "qp_total_count p = length task_ids"
    and "qp_technically_completed_task_ids p =
      filter (\<lambda>t. t \<in> completed_tasks db user_id task_ids) task_ids"
    and "qp_remaining_count p = int (length task_ids) - int (qp_passed_count p)"
    and "qp_progress_percent p = progress_percent (qp_passed_count p) (length task_ids)"
    and "qp_is_ready p \<longleftrightarrow> qp_passed_count p = length task_ids"
proof -
  let ?ids = "remdups (map (\<lambda>a. tk_id (ta_task a))
    (filter (\<lambda>a. is_completed (get_technical_evidence db a)) (credit_attempts db task_ids user_id)))"
  have ids: "set ?ids = completed_tasks db user_id task_ids"
    by (rule set_eqI)
      (simp only: set_remdups set_map completed_ids_iff [OF assms(1)] completed_tasks_def mem_Collect_eq)
  then show "qp_passed_count p = card (completed_tasks db user_id task_ids)"
    using distinct_card [of ?ids] by (simp add: p user_progress_def Let_def)
  show "qp_technically_completed_task_ids p = filter (\<lambda>t. t \<in> completed_tasks db user_id task_ids) task_ids"
    using ids by (simp add: p user_progress_def Let_def)
qed (simp_all add: p user_progress_def Let_def)

lemma completed_tasks_card:
  assumes "distinct task_ids"
  shows "card (completed_tasks db user_id task_ids) \<le> length task_ids"
    and "card (completed_tasks db user_id task_ids) = length task_ids \<longleftrightarrow>
      completed_tasks db user_id task_ids = set task_ids"
proof -
  have sub: "completed_tasks db user_id task_ids \<subseteq> set task_ids" by (auto simp: completed_tasks_def)
  then show "card (completed_tasks db user_id task_ids) \<le> length task_ids"
    using card_mono [OF _ sub] distinct_card [OF assms] by simp
  show "card (completed_tasks db user_id task_ids) = length task_ids \<longleftrightarrow>
      completed_tasks db user_id task_ids = set task_ids"
    using card_subset_eq [OF _ sub] distinct_card [OF assms] by auto
qed

lemma attach_completion_keeps [simp]:
  "qp_is_ready (attach_completion db slug u p) = qp_is_ready p"
  "qp_progress_percent (attach_completion db slug u p) = qp_progress_percent p"
  "qp_passed_count (attach_completion db slug u p) = qp_passed_count p"
  "qp_total_count (attach_completion db slug u p) = qp_total_count p"
  "qp_remaining_count (attach_completion db slug u p) = qp_remaining_count p"
  "qp_queue_exists (attach_completion db slug u p) = qp_queue_exists p"
  by (simp_all add: attach_completion_def split: option.split)

lemma build_progress_active:
  assumes "active_queue db slug = Some queue" and "active_tasks db queue \<noteq> []"
  shows "build_sandbox_queue_progress db user_id slug =
    attach_completion db slug user_id (user_progress db queue (map tk_id (active_tasks db queue)) user_id)"
  using assms by (simp add: build_sandbox_queue_progress_def build_sandbox_queue_progress_map_def Let_def)

end
