(* ===== verification/Check_Execution.thy ===== *)
theory Check_Execution
  imports Completions
begin

text \<open>
  Running the technical check of an attempt (\<^verbatim>\<open>sandbox/services/checks.py\<close>) inside the wrapper
  that fences duplicate deliveries and late results
  (\<^verbatim>\<open>sandbox/services/ledger_execution.py\<close>, \<^verbatim>\<open>checked\<close>). What the Docker service
  answers is a parameter. \<^verbatim>\<open>attempt\<close> arguments are Python objects whose first use is
  \<^verbatim>\<open>refresh_from_db\<close>, so the operations take the attempt's key. One call reads the clock once.
  The wrapper always passes \<^verbatim>\<open>mark_as_running=False\<close> on, so the marking branch of
  \<^verbatim>\<open>run_attempt_check\<close> itself is dead and left out. Logging and the e-mail sent after commit
  are left out.
\<close>

section \<open>Surroundings\<close>

datatype check_outcome =
    CheckRaised string "bool option" \<comment> \<open>the exception's text and its \<^verbatim>\<open>_sandbox_checker_started\<close>\<close>
  | CheckExit "int option" string \<comment> \<open>exit code and output\<close>

record docker =
  dk_check :: "string \<Rightarrow> check_outcome"
  dk_remove_terminal :: "string \<Rightarrow> unit result"
  dk_remove_task :: "string \<Rightarrow> unit result"

text \<open>\<^verbatim>\<open>SANDBOX_HTTP_OBSERVATION_*\<close>; \<open>None\<close> is a value that is not an integer.\<close>

record settings =
  se_observation_enabled :: bool
  se_observation_attempt_id :: "int option"

definition enabled_for :: "settings \<Rightarrow> TaskAttempt \<Rightarrow> bool" where
  "enabled_for se attempt =
     (if \<not> se_observation_enabled se \<or>
         (qu_slug (tk_queue (ta_task attempt)), tk_slug (ta_task attempt)) \<noteq> (''l1'', ''service-bind-localhost'')
      then False
      else let allowed = (case se_observation_attempt_id se of None \<Rightarrow> 0 | Some i \<Rightarrow> i)
           in allowed \<le> 0 \<or> int (ta_id attempt) = allowed)"

section \<open>Marking a check as running\<close>

definition mark_running_fields :: "time \<Rightarrow> TaskAttempt \<Rightarrow> TaskAttempt" where
  "mark_running_fields now a = a\<lparr>ta_attempts_count := ta_attempts_count a + 1, ta_status := ST_IN_PROGRESS,
     ta_check_status := CK_RUNNING, ta_check_started_at := Some now, ta_check_finished_at := None,
     ta_last_check_output := ''check_started''\<rparr>"

definition mark_attempt_check_running :: "services \<Rightarrow> TaskAttempt \<Rightarrow> time \<Rightarrow> (sandbox_db, unit) op" where
  "mark_attempt_check_running sv attempt now =
     atomic (andthen get_db (\<lambda>db.
       if technical_passed db attempt then ret ()
       else andthen (get_task_attempt (ta_id attempt)) (\<lambda>_.
         andthen (request_check sv attempt ''service'' None now) (\<lambda>_.
         update_attempt (ta_id attempt) (\<lambda>row. row
           \<lparr>ta_attempts_count := ta_attempts_count attempt + 1, ta_status := ST_IN_PROGRESS,
            ta_check_status := CK_RUNNING, ta_check_started_at := Some now, ta_check_finished_at := None,
            ta_last_check_output := ''check_started''\<rparr>)))))"

text \<open>\<^verbatim>\<open>True\<close> comes with the run id the request was given (\<^verbatim>\<open>attempt._ledger_check_id\<close>).\<close>

definition try_mark_attempt_check_running ::
    "services \<Rightarrow> pk \<Rightarrow> string option \<Rightarrow> time \<Rightarrow> (sandbox_db, string option) op" where
  "try_mark_attempt_check_running sv attempt_id op_id now =
     atomic (andthen (if op_id \<in> {None, Some []} then ret False
         else andthen (lift_result (operation_id sv op_id)) (\<lambda>op. andthen get_db (\<lambda>db.
           case List.find (\<lambda>e. ex_run_id e = op) (sb_executions db) of
             None \<Rightarrow> ret False
           | Some old \<Rightarrow> if ex_attempt_id old \<noteq> attempt_id then raise PermissionDenied else ret True)))
       (\<lambda>known. if known then ret None
       else andthen get_db (\<lambda>db.
         let free = list_ex (\<lambda>a. ta_id a = attempt_id \<and> \<not> technical_passed db a \<and>
               ta_check_status a \<noteq> CK_RUNNING) (sb_attempts db)
         in andthen (if free then update_attempt attempt_id (mark_running_fields now) else ret ()) (\<lambda>_.
            andthen (get_task_attempt attempt_id) (\<lambda>attempt.
            if free then andthen (request_check sv attempt ''service'' op_id now) (\<lambda>execution.
              ret (Some (ex_run_id execution)))
            else ret None)))))"

section \<open>The check\<close>

definition create_check_run :: "pk \<Rightarrow> CheckRunResult \<Rightarrow> string \<Rightarrow> int \<Rightarrow> time \<Rightarrow> (sandbox_db, CheckRun) op" where
  "create_check_run attempt_id result output exit_code now = andthen get_db (\<lambda>db.
     let row = \<lparr>cr_id = fresh_pk (map cr_id (sb_check_runs db)), cr_attempt_id = attempt_id,
           cr_result = result, cr_output = output, cr_exit_code = exit_code, cr_created_at = now\<rparr>
     in andthen (modify_db (\<lambda>db. db\<lparr>sb_check_runs := sb_check_runs db @ [row]\<rparr>)) (\<lambda>_. ret row))"

definition check_error_fields :: "string \<Rightarrow> time \<Rightarrow> TaskAttempt \<Rightarrow> TaskAttempt" where
  "check_error_fields output now row = row\<lparr>ta_status := ST_FAILED, ta_last_check_output := output,
     ta_check_status := CK_ERROR, ta_check_finished_at := Some now\<rparr>"

definition check_failed_fields :: "string \<Rightarrow> time \<Rightarrow> TaskAttempt \<Rightarrow> TaskAttempt" where
  "check_failed_fields output now row = row\<lparr>ta_status := ST_FAILED, ta_last_check_output := output,
     ta_check_status := CK_FAILED, ta_check_finished_at := Some now\<rparr>"

text \<open>The object as it is when the success is saved: with and without a mentor's review to follow.\<close>

definition check_passed_fields :: "bool \<Rightarrow> string \<Rightarrow> time \<Rightarrow> TaskAttempt \<Rightarrow> TaskAttempt" where
  "check_passed_fields review output now row =
     (let a = row\<lparr>ta_technical_passed_at := Some now, ta_check_status := CK_PASSED,
            ta_check_finished_at := Some now, ta_last_check_output := output\<rparr>
      in if review then a\<lparr>ta_status := ST_IN_PROGRESS, ta_finished_at := None\<rparr>
         else a\<lparr>ta_container_id := [], ta_container_name := [], ta_shell_command := [],
           ta_terminal_container_name := [], ta_terminal_url := [], ta_terminal_port := None,
           ta_status := ST_PASSED, ta_finished_at := Some now\<rparr>)"

text \<open>How a non-zero exit code is classified: result, failure class, reason, checker started.\<close>

definition classify_exit :: "int \<Rightarrow> string \<times> string \<times> string \<times> bool option" where
  "classify_exit exit_code =
     (let ambiguous = (exit_code \<noteq> 1);
          (failure_class, reason) =
            (if exit_code \<in> {124, 137} then (''timeout'', ''checker_timeout'')
             else if exit_code \<in> {125, 126, 127} then (''infrastructure'', ''checker_launch_error'')
             else if exit_code = 1 then (''technical'', [])
             else (''unknown'', ''checker_exit_unclassified''))
      in (if ambiguous then ''unknown'' else ''failed'', failure_class, reason,
          if exit_code = 124 \<or> \<not> ambiguous then Some True else None))"

type_synonym check_result = "bool \<times> string"

text \<open>
  The three transactions that write a result. Each starts by locking the attempt and refusing a
  result for a run that is already closed.
\<close>

definition save_check_error ::
    "pk \<Rightarrow> TechnicalCheckExecution option \<Rightarrow> string \<Rightarrow> string \<Rightarrow> string \<Rightarrow> bool option \<Rightarrow> time \<Rightarrow> (sandbox_db, unit) op" where
  "save_check_error attempt_id execution output failure_class reason started now =
     atomic (andthen (get_task_attempt attempt_id) (\<lambda>_. andthen (check_live execution) (\<lambda>_.
       andthen (update_attempt attempt_id (check_error_fields output now)) (\<lambda>_.
       finish_check execution ''unknown'' failure_class reason None None started now))))"

definition save_check_passed ::
    "services \<Rightarrow> TaskAttempt \<Rightarrow> TechnicalCheckExecution option \<Rightarrow> bool \<Rightarrow> string \<Rightarrow> time \<Rightarrow> (sandbox_db, unit) op" where
  "save_check_passed sv attempt execution review output now =
     atomic (andthen (get_task_attempt (ta_id attempt)) (\<lambda>_. andthen (check_live execution) (\<lambda>_.
       andthen (create_check_run (ta_id attempt) RUN_PASSED output 0 now) (\<lambda>check_run.
       andthen (update_attempt (ta_id attempt) (check_passed_fields review output now)) (\<lambda>_.
       andthen (finish_check execution ''passed'' ''none'' [] (Some 0) (Some (cr_id check_run)) (Some True) now) (\<lambda>_.
       andthen (record_completion_after_success sv (ta_id attempt) (cr_id check_run) now) (\<lambda>_.
       if is_credit_attempt attempt \<and> qu_slug (tk_queue (ta_task attempt)) = ''l1''
       then andthen (publish ''sandbox_technical'' (str_nat (cr_id check_run)) (ta_user_id attempt)
         program_context (JObj [(''attempt_id'', JNum (int (ta_id attempt))),
           (''check_run_id'', JNum (int (cr_id check_run)))]) None) (\<lambda>_. ret ())
       else ret ())))))))"

definition save_check_failed ::
    "pk \<Rightarrow> TechnicalCheckExecution option \<Rightarrow> int \<Rightarrow> string \<Rightarrow> time \<Rightarrow> (sandbox_db, unit) op" where
  "save_check_failed attempt_id execution exit_code output now =
     atomic (andthen (get_task_attempt attempt_id) (\<lambda>_. andthen (check_live execution) (\<lambda>_.
       andthen (create_check_run attempt_id RUN_FAILED output exit_code now) (\<lambda>check_run.
       andthen (update_attempt attempt_id (check_failed_fields output now)) (\<lambda>_.
       case classify_exit exit_code of (result, failure_class, reason, started) \<Rightarrow>
         finish_check execution result failure_class reason (Some exit_code) (Some (cr_id check_run))
           started now)))))"

text \<open>Removing the containers of a passed attempt that needs no review.\<close>

definition remove_containers :: "docker \<Rightarrow> TaskAttempt \<Rightarrow> (sandbox_db, unit) op" where
  "remove_containers dk attempt =
     andthen (if ta_terminal_container_name attempt \<noteq> []
       then lift_result (dk_remove_terminal dk (ta_terminal_container_name attempt)) else ret ()) (\<lambda>_.
     lift_result (dk_remove_task dk (ta_container_name attempt)))"

text \<open>What is done with the checker's answer.\<close>

definition handle_outcome ::
    "services \<Rightarrow> docker \<Rightarrow> TaskAttempt \<Rightarrow> TechnicalCheckExecution option \<Rightarrow> time \<Rightarrow> check_outcome
     \<Rightarrow> (sandbox_db, check_result) op" where
  "handle_outcome sv dk attempt execution now outcome =
     (case outcome of
       CheckRaised error started \<Rightarrow>
         andthen (save_check_error (ta_id attempt) execution (''docker_error '' @ error) ''infrastructure''
           ''docker_error'' started now) (\<lambda>_. ret (False, ''check_could_not_start''))
     | CheckExit None output \<Rightarrow>
         andthen (save_check_error (ta_id attempt) execution output ''unknown'' ''exit_code_missing'' None now)
           (\<lambda>_. ret (False, ''check_result_unknown''))
     | CheckExit (Some exit_code) output \<Rightarrow>
         if exit_code = 0 then
           let review = (tk_requires_manual_review (ta_task attempt) \<and> is_credit_attempt attempt)
           in andthen (if review then ret () else remove_containers dk attempt) (\<lambda>_.
              andthen (save_check_passed sv attempt execution review output now) (\<lambda>_.
              ret (True, if review then ''prepare_the_answer''
                else if is_extra_attempt attempt then ''extra_attempt_passed'' else ''task_accepted'')))
         else
           andthen (save_check_failed (ta_id attempt) execution exit_code output now)
             (\<lambda>_. ret (False, ''check_failed'')))"

definition run_attempt_check ::
    "services \<Rightarrow> docker \<Rightarrow> pk \<Rightarrow> TechnicalCheckExecution option \<Rightarrow> time \<Rightarrow> (sandbox_db, check_result) op" where
  "run_attempt_check sv dk attempt_id execution now =
     andthen (get_task_attempt attempt_id) (\<lambda>attempt. andthen get_db (\<lambda>db.
     if technical_passed db attempt then ret (True, ''already_passed'')
     else handle_outcome sv dk attempt execution now (dk_check dk (ta_container_name attempt))))"

section \<open>The wrapper\<close>

definition close_after_error :: "pk \<Rightarrow> TechnicalCheckExecution \<Rightarrow> time \<Rightarrow> py_error \<Rightarrow> (sandbox_db, 'a) op" where
  "close_after_error attempt_id execution now e =
     andthen (atomic (andthen (get_task_attempt attempt_id) (\<lambda>_.
       finish_check (Some execution) ''unknown'' ''unknown'' ''background_error'' None None None now)))
     (\<lambda>_. raise e)"

definition duplicate_after_pass :: "pk \<Rightarrow> pk \<Rightarrow> string \<Rightarrow> time \<Rightarrow> (sandbox_db, unit) op" where
  "duplicate_after_pass attempt_id user_id run_id now = atomic (andthen get_db (\<lambda>db.
     case List.find (\<lambda>e. ex_run_id e = run_id \<and> ex_attempt_id e = attempt_id \<and> ex_user_id e = user_id)
         (sb_executions db) of
       None \<Rightarrow> ret () | Some execution \<Rightarrow> check_duplicate (ex_id execution) now))"

text \<open>The run to execute: \<open>None\<close> when the check is already running.\<close>

definition registered_run ::
    "services \<Rightarrow> TaskAttempt \<Rightarrow> bool \<Rightarrow> string option \<Rightarrow> time \<Rightarrow> (sandbox_db, string option) op" where
  "registered_run sv attempt mark_as_running run_id now =
     (case run_id of
        Some r \<Rightarrow> ret (Some r)
      | None \<Rightarrow>
          if mark_as_running then try_mark_attempt_check_running sv (ta_id attempt) None now
          else andthen (request_check sv attempt ''legacy_delivery'' None now) (\<lambda>execution.
            ret (Some (ex_run_id execution))))"

definition execute_run ::
    "services \<Rightarrow> docker \<Rightarrow> TaskAttempt \<Rightarrow> string \<Rightarrow> time \<Rightarrow> (sandbox_db, check_result) op" where
  "execute_run sv dk attempt run_id now =
     andthen (begin_check attempt run_id now) (\<lambda>(execution, started).
     if \<not> started then andthen get_db (\<lambda>db.
       ret (list_ex (\<lambda>e. ce_execution_id e = ex_id execution \<and> ce_phase e = PH_FINISHED \<and>
         ce_result e = ''passed'') (sb_check_events db), ''already_handled''))
     else catch (run_attempt_check sv dk (ta_id attempt) (Some execution) now)
       (close_after_error (ta_id attempt) execution now))"

definition checked_run ::
    "settings \<Rightarrow> services \<Rightarrow> docker \<Rightarrow> pk \<Rightarrow> pk \<Rightarrow> bool \<Rightarrow> string option \<Rightarrow> time \<Rightarrow> (sandbox_db, check_result) op" where
  "checked_run se sv dk attempt_id user_id mark_as_running run_id now =
     andthen (get_task_attempt attempt_id) (\<lambda>attempt. andthen get_db (\<lambda>db.
     if ta_user_id attempt \<noteq> user_id then raise PermissionDenied
     else if enabled_for se attempt then ret (False, ''http_observation_enabled'')
     else if technical_passed db attempt then
       andthen (case run_id of None \<Rightarrow> ret () | Some r \<Rightarrow> duplicate_after_pass attempt_id user_id r now) (\<lambda>_.
       run_attempt_check sv dk attempt_id None now)
     else andthen (registered_run sv attempt mark_as_running run_id now) (\<lambda>run.
       case run of
         None \<Rightarrow> andthen (get_task_attempt attempt_id) (\<lambda>fresh. andthen get_db (\<lambda>db.
           ret (technical_passed db fresh, ''already_running_or_passed'')))
       | Some r \<Rightarrow> andthen (get_task_attempt attempt_id) (\<lambda>fresh. execute_run sv dk fresh r now))))"

section \<open>Background errors\<close>

definition mark_background_check_error ::
    "pk \<Rightarrow> pk \<Rightarrow> string \<Rightarrow> string option \<Rightarrow> time \<Rightarrow> (sandbox_db, unit) op" where
  "mark_background_check_error attempt_id user_id error run_id now =
     atomic (andthen get_db (\<lambda>db.
       case List.find (\<lambda>a. ta_id a = attempt_id \<and> ta_user_id a = user_id) (sb_attempts db) of
         None \<Rightarrow> ret ()
       | Some attempt \<Rightarrow>
           if technical_passed db attempt \<or> ta_check_status attempt \<noteq> CK_RUNNING then ret ()
           else andthen (case run_id of
               Some r \<Rightarrow>
                 (let execution = List.find (\<lambda>e. ex_run_id e = r \<and> ex_attempt_id e = attempt_id) (sb_executions db);
                      latest = last_by ex_ordinal (filter (\<lambda>e. ex_attempt_id e = attempt_id) (sb_executions db))
                  in if execution = None \<or> execution \<noteq> latest then ret False
                     else andthen (finish_check execution ''unknown'' ''unknown'' ''background_error''
                       None None None now) (\<lambda>_. ret True))
             | None \<Rightarrow> andthen (interrupt attempt_id ''background_error'' now) (\<lambda>_. ret True))
             (\<lambda>closed. if closed
               then update_attempt attempt_id (check_error_fields (''background_error '' @ error) now)
               else ret ())))"

section \<open>The ledger only grows\<close>

lemma grows_create_check_run: "keeps ledger_step (create_check_run i result output code now)"
  unfolding create_check_run_def
  by (intro grows_basic grows.keeps_modify_db) (simp add: ledger_step_def ledger_extends_def ledger_keys_def)

lemma grows_try_mark: "keeps ledger_step (try_mark_attempt_check_running sv i op_id now)"
  unfolding try_mark_attempt_check_running_def by (intro grows_basic grows_ledger)

lemma keeps_outcome:
  "(\<And>e s. keeps R (f e s)) \<Longrightarrow> (\<And>c output. keeps R (g c output)) \<Longrightarrow>
     keeps R (case x of CheckRaised e s \<Rightarrow> f e s | CheckExit c output \<Rightarrow> g c output)"
  by (simp split: check_outcome.split)

lemmas grows_check_basic = grows_basic grows_ledger grows_answers grows_record_completion
  grows_create_check_run grows_try_mark keeps_outcome

lemma grows_save_checks:
  "keeps ledger_step (save_check_error i execution output failure_class reason started now)"
  "keeps ledger_step (save_check_passed sv attempt execution review output now)"
  "keeps ledger_step (save_check_failed i execution code output now)"
  unfolding save_check_error_def save_check_passed_def save_check_failed_def
  by (intro grows_check_basic)+

lemma grows_run_attempt_check: "keeps ledger_step (run_attempt_check sv dk i execution now)"
  unfolding run_attempt_check_def handle_outcome_def remove_containers_def
  by (intro grows_check_basic grows_save_checks)

lemma grows_execute_run: "keeps ledger_step (execute_run sv dk attempt run_id now)"
  unfolding execute_run_def close_after_error_def
  by (intro grows_check_basic grows_run_attempt_check)

lemma grows_checked_run: "keeps ledger_step (checked_run se sv dk i user_id mark run_id now)"
  unfolding checked_run_def registered_run_def duplicate_after_pass_def
  by (intro grows_check_basic grows_run_attempt_check grows_execute_run)

lemma grows_background_error: "keeps ledger_step (mark_background_check_error i user_id error run_id now)"
  unfolding mark_background_check_error_def by (intro grows_check_basic)

end
