(* ===== verification/Check_Properties.thy ===== *)
theory Check_Properties
  imports Check_Execution
begin

text \<open>
  What the check wrapper guarantees: a technical pass is never lost, it is gained only by a checker
  that exits with 0, and every run that was started is closed, whatever goes wrong. The proofs rest
  on three effect orders: operations that leave attempts and check runs alone, operations that keep
  every pass, and operations that grant none.
\<close>

section \<open>Effect orders\<close>

definition same_rows :: "sandbox_db \<Rightarrow> sandbox_db \<Rightarrow> bool" where
  "same_rows db db' \<longleftrightarrow> sb_attempts db' = sb_attempts db \<and> sb_check_runs db' = sb_check_runs db"

interpretation frame: effect_order same_rows
  by unfold_locales (auto simp: same_rows_def)

definition same_attempt :: "TaskAttempt \<Rightarrow> TaskAttempt \<Rightarrow> bool" where
  "same_attempt a a' \<longleftrightarrow> ta_id a' = ta_id a \<and> ta_user_id a' = ta_user_id a \<and> ta_task a' = ta_task a \<and>
     ta_attempt_number a' = ta_attempt_number a \<and>
     (ta_technical_passed_at a \<noteq> None \<longrightarrow> ta_technical_passed_at a' \<noteq> None)"

definition pass_kept :: "sandbox_db \<Rightarrow> sandbox_db \<Rightarrow> bool" where
  "pass_kept db db' \<longleftrightarrow> runs_extend db db' \<and> list_all2 same_attempt (sb_attempts db) (sb_attempts db')"

lemma same_attempt_refl: "same_attempt a a"
  by (simp add: same_attempt_def)

interpretation passes: effect_order pass_kept
proof
  show "pass_kept db db" for db
    by (simp add: pass_kept_def runs_extend_def same_attempt_refl list.rel_refl)
  fix s t u assume "pass_kept s t" "pass_kept t u"
  moreover have "same_attempt a b \<Longrightarrow> same_attempt b c \<Longrightarrow> same_attempt a c" for a b c
    by (auto simp: same_attempt_def)
  then have "list_all2 same_attempt xs ys \<Longrightarrow> list_all2 same_attempt ys zs \<Longrightarrow> list_all2 same_attempt xs zs"
    for xs ys zs by (rule list_all2_trans)
  ultimately show "pass_kept s u"
    unfolding pass_kept_def runs_extend_def by (metis append.assoc)
qed

text \<open>The attempts that have a technical pass.\<close>

definition passed_ids :: "sandbox_db \<Rightarrow> pk set" where
  "passed_ids db = {ta_id a | a. a \<in> set (sb_attempts db) \<and> technical_passed db a}"

definition none_granted :: "sandbox_db \<Rightarrow> sandbox_db \<Rightarrow> bool" where
  "none_granted db db' \<longleftrightarrow> passed_ids db' \<subseteq> passed_ids db"

interpretation grants: effect_order none_granted
  by unfold_locales (auto simp: none_granted_def)

lemma same_rows_pass_kept: "same_rows db db' \<Longrightarrow> pass_kept db db'"
  using passes.unchanged [of db] by (simp add: same_rows_def pass_kept_def runs_extend_def)

lemma same_rows_none_granted: "same_rows db db' \<Longrightarrow> none_granted db db'"
  by (simp add: same_rows_def none_granted_def passed_ids_def technical_passed_iff)

lemma frame_pass: "keeps same_rows m \<Longrightarrow> keeps pass_kept m"
  by (simp add: keeps_def same_rows_pass_kept)

lemma frame_grant: "keeps same_rows m \<Longrightarrow> keeps none_granted m"
  by (simp add: keeps_def same_rows_none_granted)

section \<open>Operations that leave attempts and check runs alone\<close>

lemma frame_insert:
  "(\<And>db. same_rows db (ins db)) \<Longrightarrow> keeps same_rows (insert_unless clash ins x)"
  by (simp add: keeps_def insert_unless_def frame.unchanged)

lemma frame_rows:
  "keeps same_rows (create_coverage c)"
  "keeps same_rows (create_execution e)"
  "keeps same_rows (create_check_event ce)"
  "keeps same_rows (create_env_event ev)"
  "keeps same_rows (create_submission sm)"
  "keeps same_rows (gap i reason source)"
  unfolding create_coverage_def create_execution_def create_check_event_def create_env_event_def
    create_submission_def gap_def
  by (intro frame.keeps_intros frame_insert frame.keeps_modify_db; simp add: same_rows_def)+

lemma frame_get_task_attempt: "keeps same_rows (get_task_attempt i)"
  by (simp add: keeps_def get_task_attempt_def frame.unchanged split: option.split)

lemmas frame_basic = frame.keeps_intros frame_rows frame_get_task_attempt

lemma frame_observe: "keeps same_rows (observe attempt)"
  unfolding observe_def by (intro frame_basic)

lemma frame_request_check: "keeps same_rows (request_check sv attempt source run_id now)"
  unfolding request_check_def by (intro frame_basic frame_observe)

lemma frame_check_duplicate: "keeps same_rows (check_duplicate i now)"
  unfolding check_duplicate_def by (intro frame_basic)

lemma frame_begin_check: "keeps same_rows (begin_check attempt run_id now)"
  unfolding begin_check_def by (intro frame_basic frame_check_duplicate)

lemma frame_check_live: "keeps same_rows (check_live execution)"
  unfolding check_live_def by (intro frame_basic)

lemma frame_finish_check:
  "keeps same_rows (finish_check execution result failure_class reason exit_code run started now)"
  unfolding finish_check_def by (intro frame_basic)

lemma frame_environment_phase: "keeps same_rows (environment_phase request phase outcome reason now)"
  unfolding environment_phase_def by (intro frame_basic)

lemma frame_close_executions: "keeps same_rows (close_executions reason now es)"
  by (induction es) (simp_all, (intro frame_basic; assumption)+)

lemma frame_close_requests: "keeps same_rows (close_requests reason now rs)"
  by (induction rs) (simp_all, (intro frame_basic frame_environment_phase; assumption)+)

lemma frame_interrupt: "keeps same_rows (interrupt i reason now)"
  unfolding interrupt_def by (intro frame_basic frame_close_executions frame_close_requests)

lemma frame_publish: "keeps same_rows (publish provider external_id user_id context payload available_at)"
  unfolding publish_def
  by (intro frame_basic frame.keeps_modify_db) (simp add: same_rows_def)

lemma frame_store_completion: "keeps same_rows (store_completion sv cand source)"
  unfolding store_completion_def
  by (intro frame_basic frame_publish frame.keeps_modify_db) (simp add: same_rows_def)

lemma frame_record_completion: "keeps same_rows (record_completion_after_success sv i r now)"
  unfolding record_completion_after_success_def by (intro frame_basic frame_store_completion)

lemmas frame_ops = frame_rows frame_get_task_attempt frame_observe frame_request_check
  frame_check_duplicate frame_begin_check frame_check_live frame_finish_check frame_environment_phase
  frame_interrupt frame_publish frame_record_completion

lemmas pass_ops = frame_ops [THEN frame_pass]
lemmas grant_ops = frame_ops [THEN frame_grant]

section \<open>A pass is never lost\<close>

lemma pass_update: "(\<And>a. same_attempt a (f a)) \<Longrightarrow> keeps pass_kept (update_attempt i f)"
  by (simp add: keeps_def update_attempt_def op_apply pass_kept_def runs_extend_def list.rel_map
      list.rel_refl same_attempt_refl list_all2_same)

lemma pass_create_check_run: "keeps pass_kept (create_check_run i result output code now)"
proof -
  have "pass_kept db (db\<lparr>sb_check_runs := sb_check_runs db @ [r]\<rparr>)" for db r
    by (simp add: pass_kept_def runs_extend_def list.rel_refl same_attempt_refl)
  then show ?thesis
    unfolding create_check_run_def by (intro passes.keeps_intros passes.keeps_modify_db)
qed

lemma fields_same_attempt:
  "same_attempt a (mark_running_fields now a)"
  "same_attempt a (check_error_fields output now a)"
  "same_attempt a (check_failed_fields output now a)"
  "same_attempt a (check_passed_fields review output now a)"
  by (simp_all add: same_attempt_def mark_running_fields_def check_error_fields_def check_failed_fields_def
      check_passed_fields_def Let_def)

lemmas pass_basic = passes.keeps_intros pass_ops pass_create_check_run
  pass_update [OF fields_same_attempt(1)] pass_update [OF fields_same_attempt(2)]
  pass_update [OF fields_same_attempt(3)] pass_update [OF fields_same_attempt(4)] keeps_outcome

lemma pass_try_mark: "keeps pass_kept (try_mark_attempt_check_running sv i op_id now)"
  unfolding try_mark_attempt_check_running_def by (intro pass_basic)

lemma pass_run_attempt_check: "keeps pass_kept (run_attempt_check sv dk i execution now)"
  unfolding run_attempt_check_def handle_outcome_def save_check_error_def save_check_passed_def
    save_check_failed_def remove_containers_def
  by (intro pass_basic)

lemma pass_checked_run: "keeps pass_kept (checked_run se sv dk i user_id mark run_id now)"
  unfolding checked_run_def registered_run_def duplicate_after_pass_def execute_run_def close_after_error_def
  by (intro pass_basic pass_try_mark pass_run_attempt_check)

lemma pass_background_error: "keeps pass_kept (mark_background_check_error i user_id error run_id now)"
  unfolding mark_background_check_error_def by (intro pass_basic)

lemma pass_kept_passed_ids: "pass_kept db db' \<Longrightarrow> passed_ids db \<subseteq> passed_ids db'"
proof
  fix i assume k: "pass_kept db db'" and "i \<in> passed_ids db"
  then obtain a where a: "a \<in> set (sb_attempts db)" "technical_passed db a" "ta_id a = i"
    by (auto simp: passed_ids_def)
  from k a(1) obtain a' where a': "a' \<in> set (sb_attempts db')" "same_attempt a a'"
    unfolding pass_kept_def by (metis list_all2_conv_all_nth in_set_conv_nth)
  then have "technical_passed db' a'"
    using technical_passed_mono [OF a(2)] k by (simp add: same_attempt_def pass_kept_def)
  then have "ta_id a' \<in> passed_ids db'" using a'(1) unfolding passed_ids_def by blast
  with a'(2) a(3) show "i \<in> passed_ids db'" by (simp add: same_attempt_def)
qed

section \<open>Only exit code 0 grants a pass\<close>

lemma grant_update:
  "(\<And>a. ta_id (f a) = ta_id a \<and> ta_technical_passed_at (f a) = ta_technical_passed_at a) \<Longrightarrow>
     keeps none_granted (update_attempt i f)"
  by (auto simp: keeps_def update_attempt_def op_apply none_granted_def passed_ids_def technical_passed_iff
      split: if_splits)

lemma grant_failed_run: "keeps none_granted (create_check_run i RUN_FAILED output code now)"
proof -
  have "none_granted db (db\<lparr>sb_check_runs := sb_check_runs db @ [r]\<rparr>)" if "cr_result r = RUN_FAILED" for db r
    using that by (auto simp: none_granted_def passed_ids_def technical_passed_iff)
  then show ?thesis
    by (simp add: keeps_def create_check_run_def andthen_def op_apply Let_def)
qed

lemma fields_no_pass:
  "ta_id (mark_running_fields now a) = ta_id a \<and>
     ta_technical_passed_at (mark_running_fields now a) = ta_technical_passed_at a"
  "ta_id (check_error_fields output now a) = ta_id a \<and>
     ta_technical_passed_at (check_error_fields output now a) = ta_technical_passed_at a"
  "ta_id (check_failed_fields output now a) = ta_id a \<and>
     ta_technical_passed_at (check_failed_fields output now a) = ta_technical_passed_at a"
  by (simp_all add: mark_running_fields_def check_error_fields_def check_failed_fields_def)

lemmas grant_basic = grants.keeps_intros grant_ops grant_failed_run
  grant_update [OF fields_no_pass(1)] grant_update [OF fields_no_pass(2)] grant_update [OF fields_no_pass(3)]

text \<open>A checker that never exits with 0.\<close>

definition never_zero :: "docker \<Rightarrow> bool" where
  "never_zero dk \<longleftrightarrow> (\<forall>name output. dk_check dk name \<noteq> CheckExit (Some 0) output)"

lemma grant_handle_outcome:
  assumes "\<And>output. outcome \<noteq> CheckExit (Some 0) output"
  shows "keeps none_granted (handle_outcome sv dk attempt execution now outcome)"
proof (cases outcome)
  case (CheckRaised error started)
  then show ?thesis
    unfolding handle_outcome_def save_check_error_def by simp (intro grant_basic)
next
  case (CheckExit code out)
  then show ?thesis
  proof (cases code)
    case None
    with CheckExit show ?thesis
      unfolding handle_outcome_def save_check_error_def by simp (intro grant_basic)
  next
    case (Some c)
    with CheckExit assms have "c \<noteq> 0" by auto
    with CheckExit Some show ?thesis
      unfolding handle_outcome_def save_check_failed_def by simp (intro grant_basic)
  qed
qed

lemma grant_run_attempt_check:
  assumes "never_zero dk"
  shows "keeps none_granted (run_attempt_check sv dk i execution now)"
  unfolding run_attempt_check_def
  by (intro grant_basic grant_handle_outcome assms [unfolded never_zero_def, rule_format])

lemma grant_checked_run:
  assumes "never_zero dk"
  shows "keeps none_granted (checked_run se sv dk i user_id mark run_id now)"
  unfolding checked_run_def registered_run_def duplicate_after_pass_def execute_run_def close_after_error_def
    try_mark_attempt_check_running_def
  by (intro grant_basic grant_run_attempt_check [OF assms])

section \<open>Every started run is closed\<close>

lemma finish_check_closes:
  assumes "finish_check (Some e) result failure_class reason exit_code run started now db = (r, db')"
  shows "r = Inr ()" and "check_finished db' (ex_id e)"
  using assms
  by (auto simp: finish_check_def andthen_def op_apply create_check_event_def insert_unless_def
      check_finished_def list_ex_iff split: if_splits)

text \<open>A transaction that ends by finishing the run leaves it finished.\<close>

definition closes :: "pk \<Rightarrow> (sandbox_db, 'a) op \<Rightarrow> bool" where
  "closes i m \<longleftrightarrow> (\<forall>db r db'. m db = (Inr r, db') \<longrightarrow> check_finished db' i)"

lemma closes_finish: "closes (ex_id e) (finish_check (Some e) result failure_class reason exit_code run started now)"
  unfolding closes_def by (intro allI impI) (rule finish_check_closes(2))

lemma closes_atomic: "closes i m \<Longrightarrow> closes i (atomic m)"
  by (simp add: closes_def atomic_Inr_iff)

lemma closes_later: "(\<And>x. closes i (f x)) \<Longrightarrow> closes i (andthen m f)"
  unfolding closes_def andthen_Inr_iff by blast

lemma closes_first:
  assumes "closes i m" and "\<And>x. keeps ledger_step (f x)"
  shows "closes i (andthen m f)"
  unfolding closes_def andthen_Inr_iff
  using assms(1) keepsD [OF assms(2)] check_events_grow unfolding closes_def check_finished_def by blast

lemma closes_save_error:
  "closes (ex_id e) (save_check_error i (Some e) out failure_class reason started now)"
  unfolding save_check_error_def by (intro closes_atomic closes_later closes_finish)

lemma closes_save_passed: "closes (ex_id e) (save_check_passed sv attempt (Some e) review out now)"
  unfolding save_check_passed_def
  by (rule closes_atomic, rule closes_later, rule closes_later, rule closes_later, rule closes_later,
      rule closes_first [OF closes_finish]) (intro grows_check_basic)

lemma closes_save_failed: "closes (ex_id e) (save_check_failed i (Some e) code out now)"
  unfolding save_check_failed_def
  by (intro closes_atomic closes_later) (simp add: case_prod_beta closes_finish)

lemma closes_handle_outcome: "closes (ex_id e) (handle_outcome sv dk attempt (Some e) now outcome)"
proof -
  have ret: "keeps ledger_step (ret x)" for x :: check_result by (intro grows_basic)
  show ?thesis
    unfolding handle_outcome_def
    by (auto simp: Let_def split: check_outcome.split option.split
        intro!: closes_first [OF closes_save_error ret] closes_first [OF closes_save_failed ret]
          closes_later closes_first [OF closes_save_passed ret])
qed

lemma list_all2_find_id:
  "list_all2 same_attempt xs ys \<Longrightarrow> List.find (\<lambda>a. ta_id a = i) xs = Some a \<Longrightarrow>
     \<exists>a'. List.find (\<lambda>a. ta_id a = i) ys = Some a' \<and> same_attempt a a'"
  by (induction rule: list_all2_induct) (auto simp: same_attempt_def split: if_splits)

lemma pass_kept_attempt:
  assumes "pass_kept db db'" and "get_task_attempt i db = (Inr a, db)"
  shows "\<exists>a'. get_task_attempt i db' = (Inr a', db') \<and> same_attempt a a'"
  using assms list_all2_find_id [of "sb_attempts db" "sb_attempts db'"]
  by (simp add: get_task_attempt_Inr_iff pass_kept_def)

lemma execute_run_closes:
  assumes started: "begin_check attempt run_id now db = (Inr (e, True), db1)"
    and exec: "execute_run sv dk attempt run_id now db = (r, db')"
    and open_task: "\<And>a. get_task_attempt (ta_id attempt) db = (Inr a, db) \<Longrightarrow> \<not> technical_passed db a"
  shows "check_finished db' (ex_id e)"
proof -
  let ?i = "ta_id attempt"
  obtain a where a: "get_task_attempt ?i db = (Inr a, db)"
    using started by (auto simp: begin_check_def atomic_Inr_iff andthen_Inr_iff get_task_attempt_Inr_iff)
  have "same_rows db db1" using keepsD [OF frame_begin_check started] .
  then have a1: "get_task_attempt ?i db1 = (Inr a, db1)" and np: "\<not> technical_passed db1 a"
    using a open_task [OF a] by (simp_all add: same_rows_def get_task_attempt_Inr_iff technical_passed_iff)
  obtain x db2 where body: "run_attempt_check sv dk ?i (Some e) now db1 = (x, db2)" by fastforce
  then have body': "handle_outcome sv dk a (Some e) now (dk_check dk (ta_container_name a)) db1 = (x, db2)"
    using a1 np by (simp add: run_attempt_check_def andthen_def op_apply)
  show ?thesis
  proof (cases x)
    case (Inr y)
    with exec started body have "db' = db2" by (simp add: execute_run_def andthen_def catch_def)
    with body' Inr closes_handle_outcome [of e sv dk a now "dk_check dk (ta_container_name a)"]
    show ?thesis unfolding closes_def by blast
  next
    case (Inl err)
    obtain a2 where a2: "get_task_attempt ?i db2 = (Inr a2, db2)"
      using pass_kept_attempt [OF keepsD [OF pass_run_attempt_check body] a1] by blast
    obtain z db3 where fin: "finish_check (Some e) ''unknown'' ''unknown'' ''background_error'' None None None now db2 = (z, db3)"
      by fastforce
    have "db' = db3"
      using exec started body Inl a2 fin finish_check_closes(1) [OF fin]
      by (simp add: execute_run_def andthen_def catch_def close_after_error_def atomic_def op_apply)
    with finish_check_closes(2) [OF fin] show ?thesis by simp
  qed
qed

section \<open>Marking is exclusive\<close>

lemma try_mark_marks:
  assumes "try_mark_attempt_check_running sv i op_id now db = (Inr (Some run), db')"
  shows "\<exists>a \<in> set (sb_attempts db'). ta_id a = i" and
    "\<forall>a \<in> set (sb_attempts db'). ta_id a = i \<longrightarrow> ta_check_status a = CK_RUNNING"
proof -
  have "sb_attempts db' = map (\<lambda>a. if ta_id a = i then mark_running_fields now a else a) (sb_attempts db) \<and>
      (\<exists>a \<in> set (sb_attempts db). ta_id a = i)"
    using assms keepsD [OF frame_request_check]
    by (fastforce simp: try_mark_attempt_check_running_def atomic_Inr_iff andthen_Inr_iff op_apply Let_def
        get_task_attempt_Inr_iff update_attempt_def list_ex_iff same_rows_def
        split: if_splits option.splits)
  then obtain a where a: "a \<in> set (sb_attempts db)" "ta_id a = i"
    and db': "sb_attempts db' = map (\<lambda>a. if ta_id a = i then mark_running_fields now a else a) (sb_attempts db)"
    by blast
  have "mark_running_fields now a \<in> set (sb_attempts db')" unfolding db' set_map
    by (rule image_eqI [OF _ a(1)]) (simp add: a(2))
  then show "\<exists>a \<in> set (sb_attempts db'). ta_id a = i"
    by (rule bexI [rotated]) (simp add: mark_running_fields_def a(2))
  show "\<forall>a \<in> set (sb_attempts db'). ta_id a = i \<longrightarrow> ta_check_status a = CK_RUNNING"
  proof (intro ballI impI)
    fix x assume "x \<in> set (sb_attempts db')" "ta_id x = i"
    from \<open>x \<in> _\<close> obtain y where "x = (if ta_id y = i then mark_running_fields now y else y)"
      unfolding db' set_map by (elim imageE)
    with \<open>ta_id x = i\<close> show "ta_check_status x = CK_RUNNING"
      by (cases "ta_id y = i") (simp_all add: mark_running_fields_def)
  qed
qed

lemma try_mark_busy:
  assumes "\<forall>a \<in> set (sb_attempts db). ta_id a = i \<longrightarrow> ta_check_status a = CK_RUNNING"
  shows "\<exists>e. fst (try_mark_attempt_check_running sv i op_id now db) \<in> {Inl e, Inr None} \<and>
    snd (try_mark_attempt_check_running sv i op_id now db) = db"
proof -
  have free: "\<not> list_ex (\<lambda>a. ta_id a = i \<and> \<not> technical_passed db a \<and> ta_check_status a \<noteq> CK_RUNNING) (sb_attempts db)"
    using assms by (auto simp: list_ex_iff)
  show ?thesis
    using free
    by (auto simp: try_mark_attempt_check_running_def atomic_def andthen_def op_apply Let_def get_task_attempt_def
        split: option.split sum.split prod.split)
qed

section \<open>The steps of the sandbox\<close>

text \<open>The operations on checks and answers that requests and workers perform, in any order.\<close>

inductive check_step :: "sandbox_db \<Rightarrow> sandbox_db \<Rightarrow> bool" where
  step_try_mark: "try_mark_attempt_check_running sv i op_id now db = (r1, db') \<Longrightarrow> check_step db db'"
| step_request: "request_check sv attempt source run_id now db = (r2, db') \<Longrightarrow> check_step db db'"
| step_begin: "begin_check attempt run_id now db = (r3, db') \<Longrightarrow> check_step db db'"
| step_finish: "finish_check execution result failure_class reason exit_code run started now db = (r4, db')
    \<Longrightarrow> check_step db db'"
| step_run: "checked_run se sv dk i user_id mark run_id now db = (r5, db') \<Longrightarrow> check_step db db'"
| step_background_error: "mark_background_check_error i user_id error run_id now db = (r6, db') \<Longrightarrow> check_step db db'"
| step_interrupt: "interrupt i reason now db = (r7, db') \<Longrightarrow> check_step db db'"
| step_record: "record_completion_after_success sv i run now db = (r8, db') \<Longrightarrow> check_step db db'"

lemma check_step_ledger: "check_step db db' \<Longrightarrow> ledger_step db db'"
  by (induction rule: check_step.induct)
    (erule keepsD [rotated], intro grows_ledger grows_try_mark grows_checked_run grows_background_error
      grows_record_completion)+

lemma check_step_pass: "check_step db db' \<Longrightarrow> pass_kept db db'"
  by (induction rule: check_step.induct)
    (erule pass_ops [THEN keepsD] pass_try_mark [THEN keepsD] pass_checked_run [THEN keepsD]
      pass_background_error [THEN keepsD])+

lemma check_steps_ledger: "check_step\<^sup>*\<^sup>* db db' \<Longrightarrow> ledger_step\<^sup>*\<^sup>* db db'"
  by (rule mono_rtranclp [rule_format]) (rule check_step_ledger)

lemma check_steps_pass: "check_step\<^sup>*\<^sup>* db db' \<Longrightarrow> pass_kept db db'"
  by (induction rule: rtranclp_induct) (auto intro: passes.unchanged passes.chained check_step_pass)

lemma check_steps_grow: "check_step\<^sup>*\<^sup>* db db' \<Longrightarrow> ledger_step db db'"
  by (induction rule: rtranclp_induct) (auto intro: grows.unchanged grows.chained check_step_ledger)

end
