(* ===== verification/Check_Theorems.thy ===== *)
theory Check_Theorems
  imports Check_Properties
begin

text \<open>
  The guarantees of technical checks, stated over the operations themselves and instantiated on a
  small sandbox: one trainee, one task of the L1 queue, one attempt with a running container.
\<close>

section \<open>A small sandbox\<close>

definition demo_queue :: Queue where
  "demo_queue = \<lparr>qu_id = 1, qu_name = ''L1'', qu_slug = ''l1'', qu_order = 1, qu_is_active = True,
     qu_required_level = CANDIDATE\<rparr>"

definition demo_task :: Task where
  "demo_task = \<lparr>tk_id = 5, tk_queue = demo_queue, tk_slug = ''disk-full'', tk_order = 1,
     tk_requires_manual_review = False, tk_is_active = True\<rparr>"

definition demo_ta :: TaskAttempt where
  "demo_ta = \<lparr>ta_id = 3, ta_user_id = 9, ta_task = demo_task, ta_attempt_number = 1, ta_is_current = True,
     ta_status = ST_IN_PROGRESS, ta_attempts_count = 0, ta_restart_count = 0, ta_started_at = Some 1,
     ta_finished_at = None, ta_technical_passed_at = None, ta_check_status = CK_IDLE,
     ta_check_started_at = None, ta_check_finished_at = None, ta_environment_status = EN_READY,
     ta_environment_started_at = Some 1, ta_environment_finished_at = Some 1, ta_stuck_reason = STUCK_NONE,
     ta_last_check_output = [], ta_trainee_report = [], ta_client_answer = [], ta_container_id = ''id'',
     ta_container_name = ''c3'', ta_shell_command = [], ta_environment_cleanup_requested = False,
     ta_terminal_container_name = ''t3'', ta_terminal_url = ''/t'', ta_terminal_port = None,
     ta_mentor_feedback = [], ta_mentor_decision = NOT_REVIEWED, ta_mentor_reviewed_by = None,
     ta_mentor_reviewed_at = None, ta_mentor_feedback_seen_at = None\<rparr>"

definition demo_sandbox :: sandbox_db where
  "demo_sandbox = \<lparr>sb_boundary = Some (0, 0),
     sb_users = [\<lparr>us_id = 9, us_is_staff = False, us_date_joined = 0\<rparr>, \<lparr>us_id = 2, us_is_staff = True, us_date_joined = 0\<rparr>],
     sb_queues = [demo_queue], sb_tasks = [demo_task], sb_attempts = [demo_ta], sb_check_runs = [],
     sb_completions = [], sb_manifests = [], sb_coverage = [], sb_gaps = [], sb_executions = [],
     sb_check_events = [], sb_env_events = [], sb_submissions = [], sb_reviews = [], sb_source_events = []\<rparr>"

definition demo_services :: services where
  "demo_services = \<lparr>sv_uuid4 = ''u1'', sv_parse_uuid = Some, sv_digest = (\<lambda>_. ''d''), sv_file_digest = (\<lambda>_. None)\<rparr>"

definition demo_docker :: "check_outcome \<Rightarrow> docker" where
  "demo_docker outcome = \<lparr>dk_check = (\<lambda>_. outcome), dk_remove_terminal = (\<lambda>_. Inr ()), dk_remove_task = (\<lambda>_. Inr ())\<rparr>"

definition demo_settings :: settings where
  "demo_settings = \<lparr>se_observation_enabled = False, se_observation_attempt_id = None\<rparr>"

text \<open>A requested run, the same run begun, and the run finished.\<close>

definition demo_execution :: TechnicalCheckExecution where
  "demo_execution = \<lparr>ex_id = 1, ex_run_id = ''u1'', ex_attempt_id = 3, ex_user_id = 9, ex_task_id = 5,
     ex_attempt_number = 1, ex_ordinal = 1, ex_requested_at = 2, ex_checker_kind = ''task_checker'',
     ex_criteria_digest = None, ex_source = ''service''\<rparr>"

definition demo_requested :: sandbox_db where
  "demo_requested = demo_sandbox\<lparr>sb_executions := [demo_execution]\<rparr>"

definition demo_begun :: sandbox_db where
  "demo_begun = demo_requested\<lparr>sb_check_events := [check_event 1 PH_STARTED 4 []]\<rparr>"

definition demo_finished :: sandbox_db where
  "demo_finished = demo_requested\<lparr>sb_check_events :=
     [check_event 1 PH_STARTED 4 [], check_event 1 PH_FINISHED 6 ''background_error'']\<rparr>"

lemmas demo_sandbox_defs = demo_sandbox_def demo_requested_def demo_begun_def demo_finished_def demo_ta_def
  demo_task_def demo_queue_def demo_execution_def check_event_def

lemma demo_begin: "begin_check demo_ta ''u1'' 4 demo_requested = (Inr (demo_execution, True), demo_begun)"
  by (simp add: begin_check_def atomic_def andthen_def op_apply get_task_attempt_def create_check_event_def
      insert_unless_def demo_sandbox_defs)

section \<open>Properties\<close>

text \<open>
  C23. A check run is executed at most once: after a delivery has begun a run, no later delivery of
  the same run begins it again, whatever requests, results, errors and interruptions happen in
  between.
\<close>

theorem check_run_begins_once:
  assumes "begin_check attempt run_id now db = (Inr (e, True), db1)" and "check_step\<^sup>*\<^sup>* db1 db2"
    and "begin_check attempt' run_id' now' db2 = (Inr (e', started), db3)" and "ex_id e' = ex_id e"
  shows "\<not> started"
  using checks.begins_once [of "(attempt, run_id, now)" db e db1 db2 "(attempt', run_id', now')" e' started db3]
    check_steps_ledger assms
  by (simp add: begin_check_call_def)

theorem check_run_begins_once_witness:
  "\<exists>started db3. begin_check demo_ta ''u1'' 7 demo_begun = (Inr (demo_execution, started), db3) \<and> \<not> started"
proof -
  have "\<exists>db3. begin_check demo_ta ''u1'' 7 demo_begun = (Inr (demo_execution, False), db3)"
    by (simp add: begin_check_def atomic_def andthen_def op_apply get_task_attempt_def create_check_event_def
        insert_unless_def check_duplicate_def demo_sandbox_defs)
  then obtain started db3 where again: "begin_check demo_ta ''u1'' 7 demo_begun = (Inr (demo_execution, started), db3)"
    by blast
  from check_run_begins_once [OF demo_begin rtranclp.rtrancl_refl again refl] again show ?thesis by blast
qed



text \<open>
  C25. Every check that was started is closed: when a delivery begins a run of an attempt without a
  technical pass, the run has its final ledger event when the delivery is over, whether the checker
  passed, failed, gave no exit code or could not be run, and also when removing the containers or
  writing the result raised an exception.
\<close>

theorem started_check_is_closed:
  assumes "begin_check attempt run_id now db = (Inr (e, True), db1)"
    and "execute_run sv dk attempt run_id now db = (r, db')"
    and "\<forall>a. get_task_attempt (ta_id attempt) db = (Inr a, db) \<longrightarrow> \<not> technical_passed db a"
  shows "check_finished db' (ex_id e)"
  using execute_run_closes [OF assms(1,2)] assms(3) by blast

theorem started_check_is_closed_witness:
  "\<exists>r db'. execute_run demo_services (demo_docker (CheckRaised ''boom'' None)) demo_ta ''u1'' 4 demo_requested
      = (r, db') \<and> check_finished db' 1"
proof -
  obtain r db' where ex: "execute_run demo_services (demo_docker (CheckRaised ''boom'' None)) demo_ta ''u1'' 4 demo_requested = (r, db')"
    by fastforce
  have "\<forall>a. get_task_attempt (ta_id demo_ta) demo_requested = (Inr a, demo_requested) \<longrightarrow> \<not> technical_passed demo_requested a"
    by (auto simp: get_task_attempt_def technical_passed_iff demo_sandbox_defs)
  from started_check_is_closed [OF demo_begin ex this] ex show ?thesis by (auto simp: demo_execution_def)
qed

text \<open>
  C26. A technical pass is permanent: no history of check operations takes it away from an attempt.
\<close>

theorem technical_pass_is_permanent:
  assumes "check_step\<^sup>*\<^sup>* db db'"
  shows "passed_ids db \<subseteq> passed_ids db'"
  using check_steps_pass [OF assms] by (rule pass_kept_passed_ids)

theorem technical_pass_is_permanent_witness:
  "passed_ids demo_requested \<subseteq> passed_ids demo_begun"
  by (rule technical_pass_is_permanent, rule r_into_rtranclp) (rule check_step.step_begin [OF demo_begin])

text \<open>
  C27. Only a checker that exits with code 0 grants a pass: with any other answer of the Docker
  service (an exception, no exit code, any non-zero code) a check leaves the set of passed attempts
  as it was.
\<close>

theorem only_exit_zero_grants_pass:
  assumes "never_zero dk" and "checked_run se sv dk i user_id mark run_id now db = (r, db')"
  shows "passed_ids db' = passed_ids db"
proof
  show "passed_ids db' \<subseteq> passed_ids db"
    using keepsD [OF grant_checked_run [OF assms(1)] assms(2)] by (simp add: none_granted_def)
  show "passed_ids db \<subseteq> passed_ids db'"
    using keepsD [OF pass_checked_run assms(2)] by (rule pass_kept_passed_ids)
qed

theorem only_exit_zero_grants_pass_witness:
  "passed_ids (snd (checked_run demo_settings demo_services (demo_docker (CheckExit (Some 1) ''no'')) 3 9 True None 4 demo_sandbox))
     = passed_ids demo_sandbox"
proof -
  have "never_zero (demo_docker (CheckExit (Some 1) ''no''))" by (simp add: never_zero_def demo_docker_def)
  from only_exit_zero_grants_pass [OF this prod.collapse [symmetric]] show ?thesis .
qed

text \<open>
  A double click starts one check: after a request has marked an attempt as running, a second
  request is turned away without any effect on the tables.
\<close>

theorem double_click_starts_one_check:
  assumes "try_mark_attempt_check_running sv i op_id now db = (Inr (Some run), db1)"
  shows "(\<forall>run'. fst (try_mark_attempt_check_running sv' i op_id' now' db1) \<noteq> Inr (Some run')) \<and>
    snd (try_mark_attempt_check_running sv' i op_id' now' db1) = db1"
  using try_mark_busy [OF try_mark_marks(2) [OF assms], of sv' op_id' now'] by auto

theorem double_click_starts_one_check_witness:
  "\<exists>db1. try_mark_attempt_check_running demo_services 3 None 4 demo_sandbox = (Inr (Some ''u1''), db1) \<and>
     snd (try_mark_attempt_check_running demo_services 3 (Some ''u2'') 5 db1) = db1"
proof -
  obtain db1 where m: "try_mark_attempt_check_running demo_services 3 None 4 demo_sandbox = (Inr (Some ''u1''), db1)"
    by (simp add: try_mark_attempt_check_running_def request_check_def observe_def create_coverage_def
        create_execution_def operation_id_def atomic_def andthen_def op_apply get_task_attempt_def
        update_attempt_def mark_running_fields_def insert_unless_def technical_passed_iff Let_def
        checker_identity_def demo_services_def demo_sandbox_defs)
  with double_click_starts_one_check [OF m] show ?thesis by blast
qed



end
