(* ===== verification/Completion_Theorems.thy ===== *)
theory Completion_Theorems
  imports Progress Check_Theorems
begin

text \<open>
  The guarantees of program completion and of the progress page, with the demo sandbox of
  \<^verbatim>\<open>Check_Theorems\<close> after its only task has been solved.
\<close>

section \<open>The demo trainee has solved the task\<close>

definition demo_run :: CheckRun where
  "demo_run = \<lparr>cr_id = 7, cr_attempt_id = 3, cr_result = RUN_PASSED, cr_output = [], cr_exit_code = 0,
     cr_created_at = 6\<rparr>"

definition demo_solved :: sandbox_db where
  "demo_solved = demo_sandbox\<lparr>
     sb_attempts := [demo_ta\<lparr>ta_technical_passed_at := Some 6, ta_status := ST_PASSED\<rparr>],
     sb_check_runs := [demo_run]\<rparr>"

lemmas demo_solved_defs = demo_solved_def demo_run_def demo_sandbox_defs

lemma demo_active [simp]:
  "active_queue demo_solved PROGRAM_KEY = Some demo_queue" "active_tasks demo_solved demo_queue = [demo_task]"
  by (simp_all add: active_queue_def active_tasks_def PROGRAM_KEY_def demo_solved_defs)

lemma demo_attempt [simp]:
  "credit_attempt demo_solved 9 5 = Some (demo_ta\<lparr>ta_technical_passed_at := Some 6, ta_status := ST_PASSED\<rparr>)"
  by (simp add: credit_attempt_def demo_solved_defs)

section \<open>Recording a completion\<close>

lemma completion_of_prefix:
  assumes "completion_of db u = Some c" and "ledger_extends db db'"
  shows "completion_of db' u = Some c"
proof -
  obtain new where "sb_completions db' = sb_completions db @ new"
    using assms(2) by (auto simp: ledger_extends_def prefix_def)
  moreover have "List.find P xs = Some x \<Longrightarrow> List.find P (xs @ ys) = Some x" for P xs ys and x :: SandboxProgramCompletion
    by (induction xs) (auto split: if_splits)
  ultimately show ?thesis using assms(1) by (simp add: completion_of_def)
qed

lemma record_completion_stored:
  assumes "record_completion_after_success sv attempt_id run_id now db = (Inr (Some c, True), db')"
  shows "completion_of db' (pc_user_id c) = Some c"
proof -
  obtain cand where st: "store_completion sv cand TECHNICAL_CHECK db = (Inr (c, True), db')"
    using assms
    by (auto simp: record_completion_after_success_def atomic_Inr_iff andthen_Inr_iff op_apply Let_def
        split: option.splits if_splits)
  show ?thesis using store_completion_cases [OF st]
    by (auto simp: completion_of_def intro: find_snoc_new)
qed

text \<open>A confirmed success of the credit attempt that triggers a recording.\<close>

definition confirmed_success :: "sandbox_db \<Rightarrow> TaskAttempt \<Rightarrow> pk \<Rightarrow> bool" where
  "confirmed_success db a run_id \<longleftrightarrow>
     List.find (\<lambda>b. ta_id b = ta_id a \<and> ta_attempt_number b = 1) (sb_attempts db) = Some a \<and>
     qu_slug (tk_queue (ta_task a)) = PROGRAM_KEY \<and> ta_technical_passed_at a \<noteq> None \<and>
     list_ex (\<lambda>r. cr_id r = run_id \<and> cr_attempt_id r = ta_id a \<and> cr_result r = RUN_PASSED \<and> cr_exit_code r = 0)
       (sb_check_runs db)"

lemma record_completion_succeeds:
  assumes t: "confirmed_success db a run_id"
    and q: "active_queue db PROGRAM_KEY = Some queue" "ta_task a \<in> set (active_tasks db queue)"
    and p: "list_all (task_proved db (ta_user_id a) now) (active_tasks db queue)"
    and none: "completion_of db (ta_user_id a) = None"
    and db: "keys_positive db" "distinct (map tk_id (active_tasks db queue))"
    and src: "source_free db ''sandbox_completion'' (str_nat (fresh_pk (map pc_id (sb_completions db))))"
  shows "\<exists>c db'. record_completion_after_success sv (ta_id a) run_id now db = (Inr (Some c, True), db') \<and>
    pc_user_id c = ta_user_id a"
proof -
  let ?cand = "candidate sv db (ta_user_id a) now (active_tasks db queue)"
  have lc: "locked_candidate sv db (ta_user_id a) now = ?cand" using q(1) by (simp add: locked_candidate_def)
  have el: "cc_eligible ?cand" using q(2) p by (auto simp: candidate_eligible_iff)
  from candidate_eligible [OF el] obtain entries where
    e: "candidate_entries db (ta_user_id a) now (active_tasks db queue) = Inr entries"
    and c: "cc_snapshot ?cand = entries" "cc_user_id ?cand = ta_user_id a" "cc_completed_at ?cand \<noteq> None"
    by auto
  have "set (active_tasks db queue) \<subseteq> set (sb_tasks db)" by (auto simp: active_tasks_def)
  note valid = candidate_snapshot_valid [OF refl el db(1) this db(2)]
  obtain c' db' where "store_completion sv ?cand TECHNICAL_CHECK db = (Inr (c', True), db')"
    using store_completion_succeeds [of db ?cand sv TECHNICAL_CHECK] none src valid c(2,3) by auto
  moreover from this have "pc_user_id c' = ta_user_id a" using store_completion_cases c(2) by fastforce
  moreover have "tk_id (ta_task a) \<in> set (map en_task_id (cc_snapshot ?cand))"
    using candidate_entries_shape [OF e] q(2) c(1) by simp
  ultimately show ?thesis
    using t none el lc
    by (simp add: record_completion_after_success_def atomic_def andthen_def op_apply confirmed_success_def)
qed

lemma record_completion_again:
  assumes "record_completion_after_success sv attempt_id run_id now db = (Inr (Some c', created), db')"
    and "completion_of db (pc_user_id c') = Some c"
  shows "c' = c \<and> \<not> created \<and> db' = db"
proof -
  have "\<exists>u. completion_of db u = Some c' \<and> \<not> created \<and> db' = db \<or>
      completion_of db u = None \<and>
      store_completion sv (locked_candidate sv db u now) TECHNICAL_CHECK db = (Inr (c', created), db')"
    using assms(1)
    by (auto simp: record_completion_after_success_def atomic_Inr_iff andthen_Inr_iff op_apply Let_def
        split: option.splits if_splits)
  then obtain u where t: "completion_of db u = Some c' \<and> \<not> created \<and> db' = db \<or>
      completion_of db u = None \<and>
      store_completion sv (locked_candidate sv db u now) TECHNICAL_CHECK db = (Inr (c', created), db')"
    by blast
  have uid: "cc_user_id (locked_candidate sv db u now) = u"
    by (simp add: locked_candidate_def not_eligible_def candidate_def Let_def split: option.split sum.split)
  have own: "completion_of db v = Some x \<Longrightarrow> pc_user_id x = v" for v x
    by (auto simp: completion_of_def dest: find_Some_member)
  from t show ?thesis
    using own assms(2) store_completion_cases [of sv "locked_candidate sv db u now" TECHNICAL_CHECK db c' created db'] uid
    by auto
qed

section \<open>The demo records its completion\<close>

lemma demo_success:
  "confirmed_success demo_solved (demo_ta\<lparr>ta_technical_passed_at := Some 6, ta_status := ST_PASSED\<rparr>) 7"
  by (simp add: confirmed_success_def PROGRAM_KEY_def demo_solved_defs)

lemma demo_proved: "list_all (task_proved demo_solved 9 8) [demo_task]"
  using demo_attempt by (simp add: task_proved_def get_technical_evidence_def is_completed_def demo_task_def demo_ta_def)

lemma demo_record:
  "\<exists>c db'. record_completion_after_success demo_services 3 7 8 demo_solved = (Inr (Some c, True), db')"
  using record_completion_succeeds [OF demo_success, of demo_queue 8 demo_services] demo_proved demo_active
  by (fastforce simp: demo_solved_defs completion_of_def keys_positive_def source_free_def)

lemma demo_record_again:
  assumes "record_completion_after_success demo_services 3 7 8 demo_solved = (Inr (Some c, True), db1)"
  shows "record_completion_after_success demo_services 3 7 9 db1 = (Inr (Some c, False), db1)"
proof -
  have rows: "sb_attempts db1 = sb_attempts demo_solved \<and> sb_check_runs db1 = sb_check_runs demo_solved"
    using keepsD [OF frame_record_completion assms] by (simp add: same_rows_def)
  have "pc_user_id c = 9"
    using record_completion_created [OF assms] by (auto simp: demo_solved_defs)
  with record_completion_stored [OF assms] have "completion_of db1 9 = Some c" by simp
  with rows show ?thesis
    by (simp add: record_completion_after_success_def atomic_def andthen_def op_apply PROGRAM_KEY_def demo_solved_defs)
qed

section \<open>Properties\<close>

text \<open>
  C29. A recorded completion is proved: when a technical check records the completion of a program,
  the program has an active queue with at least one active task, every active task has evidence of
  technical success in the trainee's credit attempt that is not dated in the future, and the frozen
  snapshot lists exactly the active tasks in their order.
\<close>

theorem recorded_completion_is_proved:
  assumes "record_completion_after_success sv attempt_id run_id now db = (Inr (Some c, True), db')"
  shows "\<exists>queue. active_queue db PROGRAM_KEY = Some queue \<and> active_tasks db queue \<noteq> [] \<and>
    list_all (task_proved db (pc_user_id c) now) (active_tasks db queue) \<and>
    map en_task_id (pc_snapshot c) = map tk_id (active_tasks db queue)"
  using record_completion_created [OF assms] by auto

theorem recorded_completion_is_proved_witness:
  "\<exists>c db'. record_completion_after_success demo_services 3 7 8 demo_solved = (Inr (Some c, True), db') \<and>
     map en_task_id (pc_snapshot c) = [5]"
proof -
  obtain c db' where r: "record_completion_after_success demo_services 3 7 8 demo_solved = (Inr (Some c, True), db')"
    using demo_record by blast
  from recorded_completion_is_proved [OF r] have "map en_task_id (pc_snapshot c) = [5]"
    by (auto simp: demo_task_def)
  with r show ?thesis by (intro exI conjI)
qed

text \<open>
  C30. A proved completion is recorded: if a confirmed success belongs to a task of the active L1
  queue and the trainee has evidence for every active task and no completion yet, then the
  recording succeeds and returns a new completion.
\<close>

theorem proved_completion_is_recorded:
  assumes "confirmed_success db a run_id"
    and "active_queue db PROGRAM_KEY = Some queue" and "ta_task a \<in> set (active_tasks db queue)"
    and "list_all (task_proved db (ta_user_id a) now) (active_tasks db queue)"
    and "completion_of db (ta_user_id a) = None"
    and "keys_positive db" and "distinct (map tk_id (active_tasks db queue))"
    and "source_free db ''sandbox_completion'' (str_nat (fresh_pk (map pc_id (sb_completions db))))"
  shows "\<exists>c db'. record_completion_after_success sv (ta_id a) run_id now db = (Inr (Some c, True), db') \<and>
    completion_of db' (ta_user_id a) = Some c"
  using record_completion_succeeds [OF assms] record_completion_stored by fastforce

theorem proved_completion_is_recorded_witness:
  "\<exists>c db'. record_completion_after_success demo_services 3 7 8 demo_solved = (Inr (Some c, True), db') \<and>
     completion_of db' 9 = Some c"
proof -
  let ?a = "demo_ta\<lparr>ta_technical_passed_at := Some 6, ta_status := ST_PASSED\<rparr>"
  have "confirmed_success demo_solved ?a 7" "list_all (task_proved demo_solved 9 8) [demo_task]"
    using demo_success demo_proved by blast+
  then show ?thesis
    using proved_completion_is_recorded [of demo_solved ?a 7 demo_queue 8 demo_services] demo_active
    by (simp add: demo_solved_defs completion_of_def keys_positive_def source_free_def)
qed

text \<open>
  C31. A completion is recorded once and stays as it was: after the recording, no history of check
  operations changes it, and any later recording for the same trainee returns that same record.
\<close>

theorem completion_is_recorded_once:
  assumes "record_completion_after_success sv attempt_id run_id now db = (Inr (Some c, True), db1)"
    and "check_step\<^sup>*\<^sup>* db1 db2"
    and "record_completion_after_success sv' attempt_id' run_id' now' db2 = (Inr (Some c', created), db3)"
    and "pc_user_id c' = pc_user_id c"
  shows "c' = c \<and> \<not> created \<and> db3 = db2"
proof -
  have "completion_of db2 (pc_user_id c) = Some c"
    using completion_of_prefix [OF record_completion_stored [OF assms(1)]] check_steps_grow [OF assms(2)]
    by (simp add: ledger_step_def)
  with assms(3,4) show ?thesis by (intro record_completion_again) auto
qed

theorem completion_is_recorded_once_witness:
  "\<exists>c db1. record_completion_after_success demo_services 3 7 8 demo_solved = (Inr (Some c, True), db1) \<and>
     record_completion_after_success demo_services 3 7 9 db1 = (Inr (Some c, False), db1)"
proof -
  obtain c db1 where r: "record_completion_after_success demo_services 3 7 8 demo_solved = (Inr (Some c, True), db1)"
    using demo_record by blast
  obtain created db3 where again: "record_completion_after_success demo_services 3 7 9 db1 = (Inr (Some c, created), db3)"
    using demo_record_again [OF r] by blast
  from completion_is_recorded_once [OF r rtranclp.rtrancl_refl again refl] r again show ?thesis by (intro exI conjI) simp_all
qed

text \<open>
  C32. For a program of fewer than 200 active tasks the progress page is truthful: it shows 100
  percent exactly if it says that the trainee is ready, which it does exactly if the credit attempt
  of every active task has evidence of technical success; and what remains is never negative.
\<close>

theorem progress_page_is_truthful:
  assumes "attempts_unique db" and "active_queue db slug = Some queue" and "active_tasks db queue \<noteq> []"
    and "distinct (map tk_id (active_tasks db queue))" and "length (active_tasks db queue) < 200"
    and "p = build_sandbox_queue_progress db user_id slug"
  shows "(qp_progress_percent p = 100 \<longleftrightarrow> qp_is_ready p) \<and> qp_progress_percent p \<le> 100 \<and>
    (qp_is_ready p \<longleftrightarrow> (\<forall>t \<in> set (active_tasks db queue).
       \<exists>a. credit_attempt db user_id (tk_id t) = Some a \<and> technical_passed db a)) \<and>
    0 \<le> qp_remaining_count p"
proof -
  let ?ids = "map tk_id (active_tasks db queue)"
  have p: "qp_is_ready p = qp_is_ready (user_progress db queue ?ids user_id)"
    "qp_progress_percent p = qp_progress_percent (user_progress db queue ?ids user_id)"
    "qp_remaining_count p = qp_remaining_count (user_progress db queue ?ids user_id)"
    using assms(6) by (simp_all add: build_progress_active [OF assms(2,3)])
  note counts = user_progress_counts [OF assms(1) refl, of queue ?ids user_id]
  have "completed_tasks db user_id ?ids = set ?ids \<longleftrightarrow> (\<forall>t \<in> set (active_tasks db queue).
      \<exists>a. credit_attempt db user_id (tk_id t) = Some a \<and> technical_passed db a)"
    by (auto simp: completed_tasks_def)
  then show ?thesis
    using completed_tasks_card [OF assms(4), of db user_id] progress_percent_full [of "length ?ids"]
      progress_percent_less [of "card (completed_tasks db user_id ?ids)" "length ?ids"] assms(3,5)
    by (auto simp: p counts le_less)
qed

theorem progress_page_is_truthful_witness:
  "qp_is_ready (build_sandbox_queue_progress demo_solved 9 PROGRAM_KEY) \<and>
   qp_progress_percent (build_sandbox_queue_progress demo_solved 9 PROGRAM_KEY) = 100"
proof -
  have "attempts_unique demo_solved" by (simp add: attempts_unique_def demo_solved_defs)
  from progress_page_is_truthful [OF this demo_active(1) _ _ _ refl, of 9] show ?thesis
    using demo_attempt by (simp add: technical_passed_iff demo_task_def)
qed

end
