(* ===== verification/Diary_Models.thy ===== *)
theory Diary_Models
  imports Answer_Ledger
begin

text \<open>
  The tables of the trainee diary (\<^verbatim>\<open>traineediary/models.py\<close>), the catalog policy that says
  which training stages apply to a journey (\<^verbatim>\<open>traineediary/services/stages.py\<close>) and the
  reading of stage histories after a change of scheme
  (\<^verbatim>\<open>traineediary/services/scheme_transfer.py\<close>). The diary lives in the same database as the
  sandbox, so its tables extend \<open>sandbox_db\<close>. Dates are day numbers; \<open>today\<close> is
  \<^verbatim>\<open>timezone.localdate()\<close>. A journey is the Python object: it carries its current stage.
\<close>

section \<open>Choices\<close>

type_synonym date = int

datatype StageGroup = TEACHBASE | SANDBOX_L1 | WITH_REVIEW | OPTIONAL_REVIEW | NO_REVIEW | DONE

datatype EntryType = NEW_HIRE | INTERNAL_TRANSFER

datatype StageScheme = SCHEME_LEGACY | SCHEME_UNIFIED

datatype StageScope = SCOPE_LEGACY | SCOPE_UNIFIED | SCOPE_SHARED

datatype RiskLevel = RISK_LOW | RISK_MEDIUM | RISK_HIGH

text \<open>\<^verbatim>\<open>CompletionStatus\<close> is stored as text; the empty text is no result.\<close>

definition COMPLETION_SUCCESS :: string where
  "COMPLETION_SUCCESS = ''success''"

definition COMPLETION_TERMINATED :: string where
  "COMPLETION_TERMINATED = ''terminated''"

definition completion_values :: "string list" where
  "completion_values = [COMPLETION_SUCCESS, COMPLETION_TERMINATED]"

fun probation_days :: "EntryType \<Rightarrow> nat" where
  "probation_days NEW_HIRE = 90"
| "probation_days INTERNAL_TRANSFER = 30"

section \<open>Rows\<close>

record TraineeStage =
  st_id :: pk
  st_slug :: string
  st_order :: nat
  st_min_days :: nat
  st_max_days :: nat
  st_weight :: nat
  st_group :: StageGroup
  st_is_active :: bool
  st_scope :: StageScope
  st_new_hire :: bool
  st_internal_transfer :: bool

record TraineeJourney =
  jo_id :: pk
  jo_user_id :: pk
  jo_entry_type :: EntryType
  jo_scheme :: StageScheme
  jo_probation_start :: date
  jo_stage :: TraineeStage
  jo_stage_started_at :: date
  jo_comment :: string
  jo_risk_override :: "RiskLevel option"
  jo_fixed_quality :: "nat option"
  jo_quality_fixed_at :: "date option"
  jo_completion_status :: string
  jo_completed_at :: "date option"
  jo_completion_comment :: string
  jo_completed_by :: "pk option"

record StageHistory =
  sh_id :: pk
  sh_journey_id :: pk
  sh_stage :: TraineeStage
  sh_started_at :: date
  sh_ended_at :: "date option"
  sh_changed_by :: "pk option"
  sh_note :: string

text \<open>\<^verbatim>\<open>speed_hours\<close> is a decimal with one place, held in tenths.\<close>

record WeeklyMetric =
  wm_id :: pk
  wm_journey_id :: pk
  wm_week_number :: nat
  wm_week_start :: "date option"
  wm_speed :: "nat option"
  wm_quality :: "nat option"
  wm_comment :: string
  wm_goal :: string

text \<open>\<^verbatim>\<open>progress_basis\<close> freezes the weights of the scheme that the journey came from.\<close>

record ProgressBasis =
  pb_total_weight :: nat
  pb_weight_before :: nat
  pb_current_weight :: nat
  pb_max_days :: nat

record StageSchemeTransfer =
  tr_journey_id :: pk
  tr_reverted :: bool
  tr_target_stage_id :: pk
  tr_source_stage_started_at :: date
  tr_source_open_history_id :: pk
  tr_source_history_ids :: "pk list"
  tr_progress_basis :: ProgressBasis

record TrainingConfirmationEvent =
  tc_id :: pk
  tc_journey_id :: pk
  tc_action :: string
  tc_actor_id :: pk
  tc_created_at :: time
  tc_comment :: string

record diary_db = sandbox_db +
  di_stages :: "TraineeStage list"
  di_journeys :: "TraineeJourney list"
  di_visits :: "StageHistory list"
  di_metrics :: "WeeklyMetric list"
  di_transfers :: "StageSchemeTransfer list"
  di_confirmations :: "TrainingConfirmationEvent list"

text \<open>An operation on the sandbox tables, run in a database that extends them.\<close>

definition in_sandbox :: "(sandbox_db, 'a) op \<Rightarrow> ('b sandbox_db_scheme, 'a) op" where
  "in_sandbox m = (\<lambda>db. case m (sandbox_db.truncate db) of
     (r, s) \<Rightarrow> (r, sandbox_db.extend s (sandbox_db.more db)))"

section \<open>The stage catalog\<close>

definition applies_to_entry_type :: "TraineeStage \<Rightarrow> EntryType \<Rightarrow> bool" where
  "applies_to_entry_type stage entry_type =
     (if entry_type = INTERNAL_TRANSFER then st_internal_transfer stage else st_new_hire stage)"

fun scheme_scope :: "StageScheme \<Rightarrow> StageScope" where
  "scheme_scope SCHEME_LEGACY = SCOPE_LEGACY"
| "scheme_scope SCHEME_UNIFIED = SCOPE_UNIFIED"

definition stage_applies :: "TraineeStage \<Rightarrow> StageScheme \<Rightarrow> EntryType \<Rightarrow> bool" where
  "stage_applies stage scheme entry_type =
     (st_scope stage \<in> {scheme_scope scheme, SCOPE_SHARED} \<and> applies_to_entry_type stage entry_type)"

definition by_order :: "TraineeStage list \<Rightarrow> TraineeStage list" where
  "by_order = sort_key (\<lambda>s. (st_order s, st_id s))"

definition selectable_stages :: "'a diary_db_scheme \<Rightarrow> StageScheme \<Rightarrow> EntryType \<Rightarrow> TraineeStage list" where
  "selectable_stages db scheme entry_type =
     by_order (filter (\<lambda>s. st_scope s \<in> {scheme_scope scheme, SCOPE_SHARED} \<and> st_is_active s \<and>
       (if entry_type = INTERNAL_TRANSFER then st_internal_transfer s else st_new_hire s)) (di_stages db))"

text \<open>\<open>extra\<close> holds the keys of the current stage and of the stages of the history, where they are asked for.\<close>

definition journey_stages :: "'a diary_db_scheme \<Rightarrow> TraineeJourney \<Rightarrow> pk list \<Rightarrow> TraineeStage list" where
  "journey_stages db journey extra =
     by_order (filter (\<lambda>s. s \<in> set (selectable_stages db (jo_scheme journey) (jo_entry_type journey)) \<or>
       st_id s \<in> set extra) (di_stages db))"

text \<open>The columns of a board: the stages of both entry types and every actual current stage.\<close>

definition board_stages :: "'a diary_db_scheme \<Rightarrow> StageScheme \<Rightarrow> TraineeJourney list \<Rightarrow> TraineeStage list" where
  "board_stages db scheme journeys =
     by_order (filter (\<lambda>s. s \<in> set (selectable_stages db scheme NEW_HIRE) \<or>
       s \<in> set (selectable_stages db scheme INTERNAL_TRANSFER) \<or>
       st_id s \<in> set (map (\<lambda>j. st_id (jo_stage j)) journeys)) (di_stages db))"

definition next_stage :: "'a diary_db_scheme \<Rightarrow> TraineeJourney \<Rightarrow> TraineeStage option" where
  "next_stage db journey =
     List.find (\<lambda>s. st_order (jo_stage journey) < st_order s)
       (selectable_stages db (jo_scheme journey) (jo_entry_type journey))"

lemma selectable_stages_iff:
  "s \<in> set (selectable_stages db scheme entry_type) \<longleftrightarrow>
     s \<in> set (di_stages db) \<and> st_is_active s \<and> stage_applies s scheme entry_type"
  by (auto simp: selectable_stages_def by_order_def stage_applies_def applies_to_entry_type_def)

text \<open>The suggested next stage is a later one that can be selected, and none lies between.\<close>

lemma next_stage_Some:
  assumes "next_stage db j = Some s"
  shows "s \<in> set (selectable_stages db (jo_scheme j) (jo_entry_type j)) \<and> st_order (jo_stage j) < st_order s"
  using assms by (auto simp: next_stage_def dest: find_Some_member)

section \<open>Histories after a change of scheme\<close>

definition THEORY_SLUGS :: "string list" where
  "THEORY_SLUGS = [''first-day'', ''vds'', ''managed-services'', ''client-service'', ''before-tickets'']"

definition transfer_of :: "'a diary_db_scheme \<Rightarrow> TraineeJourney \<Rightarrow> StageSchemeTransfer option" where
  "transfer_of db journey = List.find (\<lambda>t. tr_journey_id t = jo_id journey) (di_transfers db)"

definition effective_history_stage ::
    "'a diary_db_scheme \<Rightarrow> TraineeJourney \<Rightarrow> StageHistory \<Rightarrow> TraineeStage result" where
  "effective_history_stage db journey entry =
     (if jo_scheme journey \<noteq> SCHEME_UNIFIED \<or> st_slug (sh_stage entry) \<notin> set THEORY_SLUGS
      then Inr (sh_stage entry)
      else case transfer_of db journey of
        None \<Rightarrow> Inr (sh_stage entry)
      | Some transfer \<Rightarrow>
          if tr_reverted transfer \<or> sh_id entry \<notin> set (tr_source_history_ids transfer) then Inr (sh_stage entry)
          else (case List.find (\<lambda>s. st_slug s = ''training-program'') (di_stages db) of
            None \<Rightarrow> Inl DoesNotExist | Some program \<Rightarrow> Inr program))"

lemma effective_stage_plain:
  "transfer_of db j = None \<Longrightarrow> effective_history_stage db j v = Inr (sh_stage v)"
  by (simp add: effective_history_stage_def)

text \<open>The visits of a journey, oldest first.\<close>

definition journey_visits :: "'a diary_db_scheme \<Rightarrow> TraineeJourney \<Rightarrow> StageHistory list" where
  "journey_visits db journey =
     sort_key (\<lambda>v. (sh_started_at v, sh_id v)) (filter (\<lambda>v. sh_journey_id v = jo_id journey) (di_visits db))"

section \<open>Terms of a journey\<close>

definition days_total :: "TraineeJourney \<Rightarrow> date \<Rightarrow> int" where
  "days_total j today =
     max ((case jo_completed_at j of None \<Rightarrow> today | Some d \<Rightarrow> d) - jo_probation_start j) 0"

definition days_left_until_probation_end :: "TraineeJourney \<Rightarrow> date \<Rightarrow> int" where
  "days_left_until_probation_end j today =
     (if jo_completed_at j \<noteq> None then 0
      else max (int (probation_days (jo_entry_type j)) - days_total j today) 0)"

definition days_on_stage :: "TraineeJourney \<Rightarrow> date \<Rightarrow> int" where
  "days_on_stage j today =
     (let end_date = (if st_group (jo_stage j) = DONE then (case jo_completed_at j of None \<Rightarrow> today | Some d \<Rightarrow> d)
        else today)
      in max (end_date - jo_stage_started_at j) 0)"

definition expected_stage_transition_date :: "TraineeJourney \<Rightarrow> date" where
  "expected_stage_transition_date j = jo_stage_started_at j + int (st_max_days (jo_stage j))"

section \<open>Metrics\<close>

definition journey_metrics :: "'a diary_db_scheme \<Rightarrow> pk \<Rightarrow> WeeklyMetric list" where
  "journey_metrics db i = filter (\<lambda>m. wm_journey_id m = i) (di_metrics db)"

text \<open>A decimal of the database with one place.\<close>

definition tenths_text :: "nat \<Rightarrow> string" where
  "tenths_text n = str_nat (n div 10) @ ''.'' @ str_nat (n mod 10)"

end
