(* ===== verification/Journey.thy ===== *)
theory Journey
  imports Diary_Models
begin

text \<open>
  The life of a journey: \<^verbatim>\<open>TraineeJourney.clean\<close>, \<^verbatim>\<open>save\<close>, \<^verbatim>\<open>move_to_stage\<close> and
  \<^verbatim>\<open>complete_probation\<close> (\<^verbatim>\<open>traineediary/models.py\<close>), the forms that start and edit a journey
  (\<^verbatim>\<open>traineediary/forms/trainee_management.py\<close>, \<^verbatim>\<open>completion.py\<close>) and the views that move and
  complete it (\<^verbatim>\<open>views/kanban.py\<close>, \<^verbatim>\<open>views/completion.py\<close>). A method that changes
  \<^verbatim>\<open>self\<close> returns the changed journey; when it raises, the code puts the old values back, so the
  error carries none. Account creation and names are left out.
\<close>

section \<open>Validation\<close>

text \<open>\<^verbatim>\<open>full_clean\<close> of a journey that is in the database: the errors \<^verbatim>\<open>clean\<close> collects.\<close>

definition has_completion_data :: "TraineeJourney \<Rightarrow> bool" where
  "has_completion_data j \<longleftrightarrow> jo_completion_status j \<noteq> [] \<or> jo_completed_at j \<noteq> None \<or>
     jo_completion_comment j \<noteq> [] \<or> jo_completed_by j \<noteq> None"

definition journey_errors :: "'a diary_db_scheme \<Rightarrow> TraineeJourney \<Rightarrow> date \<Rightarrow> string list" where
  "journey_errors db j today =
     (if \<not> applies_to_entry_type (jo_stage j) (jo_entry_type j) \<or>
         \<not> stage_applies (jo_stage j) (jo_scheme j) (jo_entry_type j) then [''current_stage''] else []) @
     (case List.find (\<lambda>row. jo_id row = jo_id j) (di_journeys db) of
        None \<Rightarrow> []
      | Some row \<Rightarrow> if jo_scheme row \<noteq> jo_scheme j then [''stage_scheme''] else []) @
     (if \<not> has_completion_data j then []
      else
        (if st_group (jo_stage j) \<noteq> DONE \<or> jo_completion_status j \<notin> set completion_values
           then [''completion_status''] else []) @
        (case jo_completed_at j of
           None \<Rightarrow> [''completed_at'']
         | Some d \<Rightarrow> if d < jo_probation_start j \<or> today < d then [''completed_at''] else []) @
        (if jo_completion_status j = COMPLETION_TERMINATED \<and> py_strip (jo_completion_comment j) = []
           then [''completion_comment''] else []))"

definition full_clean :: "'a diary_db_scheme \<Rightarrow> TraineeJourney \<Rightarrow> date \<Rightarrow> unit result" where
  "full_clean db j today =
     (if journey_errors db j today = [] then Inr () else Inl (ValidationError ''journey_invalid''))"

section \<open>Rows\<close>

definition update_journey :: "pk \<Rightarrow> (TraineeJourney \<Rightarrow> TraineeJourney) \<Rightarrow> (diary_db, unit) op" where
  "update_journey i f = modify_db (\<lambda>db. db\<lparr>di_journeys :=
     map (\<lambda>row. if jo_id row = i then f row else row) (di_journeys db)\<rparr>)"

definition create_visit ::
    "pk \<Rightarrow> TraineeStage \<Rightarrow> date \<Rightarrow> pk option \<Rightarrow> string \<Rightarrow> (diary_db, StageHistory) op" where
  "create_visit journey_id stage started_at changed_by note = andthen get_db (\<lambda>db.
     let visit = \<lparr>sh_id = fresh_pk (map sh_id (di_visits db)), sh_journey_id = journey_id, sh_stage = stage,
           sh_started_at = started_at, sh_ended_at = None, sh_changed_by = changed_by, sh_note = note\<rparr>
     in andthen (modify_db (\<lambda>db. db\<lparr>di_visits := di_visits db @ [visit]\<rparr>)) (\<lambda>_. ret visit))"

definition close_open_visits :: "pk \<Rightarrow> date \<Rightarrow> (diary_db, unit) op" where
  "close_open_visits journey_id ended_at = modify_db (\<lambda>db. db\<lparr>di_visits :=
     map (\<lambda>v. if sh_journey_id v = journey_id \<and> sh_ended_at v = None then v\<lparr>sh_ended_at := Some ended_at\<rparr> else v)
       (di_visits db)\<rparr>)"

text \<open>\<^verbatim>\<open>objects.create\<close>: the user has one journey, and a new journey opens its first visit.\<close>

definition create_journey :: "TraineeJourney \<Rightarrow> (diary_db, TraineeJourney) op" where
  "create_journey new = andthen get_db (\<lambda>db.
     if list_ex (\<lambda>j. jo_user_id j = jo_user_id new) (di_journeys db) then raise IntegrityError
     else let j = new\<lparr>jo_id := fresh_pk (map jo_id (di_journeys db))\<rparr>
       in andthen (modify_db (\<lambda>db. db\<lparr>di_journeys := di_journeys db @ [j]\<rparr>)) (\<lambda>_.
          andthen (create_visit (jo_id j) (jo_stage j) (jo_stage_started_at j) None []) (\<lambda>_. ret j)))"

section \<open>Moving to a stage\<close>

definition latest_quality_metric :: "'a diary_db_scheme \<Rightarrow> TraineeJourney \<Rightarrow> WeeklyMetric option" where
  "latest_quality_metric db j =
     last_by wm_week_number (filter (\<lambda>m. wm_journey_id m = jo_id j \<and> wm_quality m \<noteq> None) (di_metrics db))"

definition apply_quality_stage_transition ::
    "'a diary_db_scheme \<Rightarrow> TraineeStage \<Rightarrow> TraineeStage \<Rightarrow> date \<Rightarrow> TraineeJourney \<Rightarrow> TraineeJourney" where
  "apply_quality_stage_transition db previous_stage new_stage transition_date j =
     (if st_group previous_stage \<noteq> WITH_REVIEW \<and> st_group new_stage = WITH_REVIEW
        then j\<lparr>jo_fixed_quality := None, jo_quality_fixed_at := None\<rparr>
      else if \<not> (st_group previous_stage = WITH_REVIEW \<and> st_group new_stage \<noteq> WITH_REVIEW) then j
      else case latest_quality_metric db j of
        None \<Rightarrow> j\<lparr>jo_fixed_quality := None, jo_quality_fixed_at := None\<rparr>
      | Some m \<Rightarrow> j\<lparr>jo_fixed_quality := wm_quality m, jo_quality_fixed_at := Some transition_date\<rparr>)"

definition journey_context :: "TraineeJourney \<Rightarrow> json" where
  "journey_context j = JObj [(''journey_id'', JNum (int (jo_id j)))]"

text \<open>A staff transition leaves a source record for the achievements.\<close>

definition publish_transition ::
    "TraineeJourney \<Rightarrow> TraineeStage \<Rightarrow> SandboxUser option \<Rightarrow> pk \<Rightarrow> (diary_db, unit) op" where
  "publish_transition j new_stage changed_by visit_id =
     (case changed_by of
        None \<Rightarrow> ret ()
      | Some actor \<Rightarrow> if us_is_staff actor
          then andthen (in_sandbox (publish ''stage_transition'' (str_nat visit_id) (jo_user_id j)
            (journey_context j) (JObj [(''history_id'', JNum (int visit_id)),
              (''from_stage_id'', JNum (int (st_id (jo_stage j)))), (''to_stage_id'', JNum (int (st_id new_stage))),
              (''actor_id'', JNum (int (us_id actor)))]) None)) (\<lambda>_. ret ())
          else ret ())"

text \<open>The transaction of a move, after its guards.\<close>

definition enter_stage ::
    "TraineeJourney \<Rightarrow> TraineeStage \<Rightarrow> SandboxUser option \<Rightarrow> string \<Rightarrow> date \<Rightarrow> date
     \<Rightarrow> (diary_db, TraineeJourney) op" where
  "enter_stage j new_stage changed_by note transition_date today =
     atomic (andthen get_db (\<lambda>db.
       let j' = apply_quality_stage_transition db (jo_stage j) new_stage transition_date
             (j\<lparr>jo_stage := new_stage, jo_stage_started_at := transition_date\<rparr>)
       in andthen (lift_result (full_clean db j' today)) (\<lambda>_.
          andthen (close_open_visits (jo_id j) transition_date) (\<lambda>_.
          andthen (update_journey (jo_id j) (\<lambda>row. row\<lparr>jo_stage := jo_stage j',
            jo_stage_started_at := jo_stage_started_at j', jo_fixed_quality := jo_fixed_quality j',
            jo_quality_fixed_at := jo_quality_fixed_at j'\<rparr>)) (\<lambda>_.
          andthen (create_visit (jo_id j) new_stage transition_date (map_option us_id changed_by)
            (py_strip note)) (\<lambda>visit.
          andthen (publish_transition j new_stage changed_by (sh_id visit)) (\<lambda>_.
          ret j')))))))"

definition move_to_stage ::
    "TraineeJourney \<Rightarrow> TraineeStage \<Rightarrow> SandboxUser option \<Rightarrow> string \<Rightarrow> date option \<Rightarrow> date
     \<Rightarrow> (diary_db, TraineeJourney) op" where
  "move_to_stage j new_stage changed_by note transition_date today =
     (if st_id (jo_stage j) = st_id new_stage then ret j
      else andthen get_db (\<lambda>db.
        if \<not> list_ex (\<lambda>s. st_id s = st_id new_stage) (selectable_stages db (jo_scheme j) (jo_entry_type j))
          then raise (ValidationError ''transition_not_allowed'')
        else let date = (case transition_date of None \<Rightarrow> today | Some d \<Rightarrow> d)
          in if today < date then raise (ValidationError ''transition_in_future'')
             else if date < jo_stage_started_at j then raise (ValidationError ''transition_before_stage'')
             else enter_stage j new_stage changed_by note date today))"

section \<open>Completing the probation\<close>

definition completion_errors :: "TraineeJourney \<Rightarrow> string \<Rightarrow> string \<Rightarrow> date \<Rightarrow> date \<Rightarrow> string list" where
  "completion_errors j status comment completed_at today =
     (if completed_at < jo_probation_start j \<or> today < completed_at then [''completed_at''] else []) @
     (if status = COMPLETION_TERMINATED \<and> comment = [] then [''completion_comment''] else [])"

definition done_stage :: "'a diary_db_scheme \<Rightarrow> TraineeJourney \<Rightarrow> TraineeStage option" where
  "done_stage db j =
     (if st_group (jo_stage j) = DONE then Some (jo_stage j)
      else List.find (\<lambda>s. st_group s = DONE \<and> st_is_active s) (journey_stages db j [st_id (jo_stage j)]))"

text \<open>A success confirmed by staff leaves a source record; \<open>fmt\<close> is \<^verbatim>\<open>isoformat\<close>.\<close>

definition publish_completion ::
    "(date \<Rightarrow> string) \<Rightarrow> TraineeJourney \<Rightarrow> string \<Rightarrow> date \<Rightarrow> SandboxUser option \<Rightarrow> (diary_db, unit) op" where
  "publish_completion fmt j status completed_at completed_by =
     (case completed_by of
        None \<Rightarrow> ret ()
      | Some actor \<Rightarrow> if status = COMPLETION_SUCCESS \<and> us_is_staff actor
          then andthen (in_sandbox (publish ''probation_completion''
            (str_nat (jo_id j) @ '':'' @ fmt completed_at) (jo_user_id j) (journey_context j)
            (JObj [(''status'', JStr status), (''completed_at'', JStr (fmt completed_at)),
              (''actor_id'', JNum (int (us_id actor)))]) None)) (\<lambda>_. ret ())
          else ret ())"

text \<open>\<open>label\<close> is the display text of a result, the note of the history without a comment.\<close>

definition complete_probation ::
    "(string \<Rightarrow> string) \<Rightarrow> (date \<Rightarrow> string) \<Rightarrow> TraineeJourney \<Rightarrow> string \<Rightarrow> date option \<Rightarrow> SandboxUser option \<Rightarrow> string
     \<Rightarrow> date \<Rightarrow> (diary_db, TraineeJourney) op" where
  "complete_probation label fmt j status completed_at completed_by comment today =
     (let completed_at = (case completed_at of None \<Rightarrow> today | Some d \<Rightarrow> d);
          comment = py_strip comment
      in if status \<notin> set completion_values then raise (ValidationError ''unknown_completion_status'')
         else if completion_errors j status comment completed_at today \<noteq> []
           then raise (ValidationError ''invalid_completion'')
         else if st_group (jo_stage j) = DONE \<and> jo_completion_status j \<noteq> []
           then raise (ValidationError ''already_completed'')
         else andthen get_db (\<lambda>db.
           case done_stage db j of
             None \<Rightarrow> raise (ValidationError ''no_final_stage'')
           | Some final \<Rightarrow> atomic (
               andthen (move_to_stage (j\<lparr>jo_completion_status := status, jo_completed_at := Some completed_at,
                   jo_completion_comment := comment, jo_completed_by := map_option us_id completed_by\<rparr>)
                 final completed_by (if comment \<noteq> [] then comment else label status) (Some completed_at) today) (\<lambda>j'.
               andthen get_db (\<lambda>db. andthen (lift_result (full_clean db j' today)) (\<lambda>_.
               andthen (update_journey (jo_id j') (\<lambda>row. row\<lparr>jo_completion_status := jo_completion_status j',
                 jo_completed_at := jo_completed_at j', jo_completion_comment := jo_completion_comment j',
                 jo_completed_by := jo_completed_by j'\<rparr>)) (\<lambda>_.
               andthen (publish_completion fmt j' status completed_at completed_by) (\<lambda>_.
               ret j'))))))))"

section \<open>Forms\<close>

definition new_journey :: "pk \<Rightarrow> EntryType \<Rightarrow> date \<Rightarrow> TraineeStage \<Rightarrow> string \<Rightarrow> TraineeJourney" where
  "new_journey user_id entry_type start stage comment =
     \<lparr>jo_id = 0, jo_user_id = user_id, jo_entry_type = entry_type, jo_scheme = SCHEME_UNIFIED,
      jo_probation_start = start, jo_stage = stage, jo_stage_started_at = start, jo_comment = comment,
      jo_risk_override = None, jo_fixed_quality = None, jo_quality_fixed_at = None,
      jo_completion_status = [], jo_completed_at = None, jo_completion_comment = [], jo_completed_by = None\<rparr>"

text \<open>The first visit gets the author that the form was given. The start form creates a journey for a
  new hire only: the account of an internal transfer starts its journey later, by \<open>start_adaptation\<close>.\<close>

definition sign_first_visit :: "TraineeJourney \<Rightarrow> pk option \<Rightarrow> (diary_db, unit) op" where
  "sign_first_visit j changed_by = (case changed_by of
     None \<Rightarrow> ret ()
   | Some actor \<Rightarrow> modify_db (\<lambda>db. db\<lparr>di_visits :=
       map (\<lambda>v. if sh_journey_id v = jo_id j \<and> st_id (sh_stage v) = st_id (jo_stage j) \<and> sh_ended_at v = None
         then v\<lparr>sh_changed_by := Some actor\<rparr> else v) (di_visits db)\<rparr>))"

text \<open>
  \<^verbatim>\<open>NewTraineeForm\<close> for a new hire and \<^verbatim>\<open>StartAdaptationForm\<close> for an internal transfer: the
  validation of the form (a choice field accepts a selectable stage only) and its save.
\<close>

definition start_journey ::
    "EntryType \<Rightarrow> pk \<Rightarrow> bool \<Rightarrow> date \<Rightarrow> TraineeStage \<Rightarrow> string \<Rightarrow> pk option \<Rightarrow> date \<Rightarrow> (diary_db, TraineeJourney) op" where
  "start_journey entry_type user_id user_active start stage comment changed_by today = andthen get_db (\<lambda>db.
     if stage \<notin> set (selectable_stages db SCHEME_UNIFIED entry_type)
       then raise (ValidationError ''current_stage'')
     else if entry_type = INTERNAL_TRANSFER \<and> \<not> user_active then raise (ValidationError ''inactive_account'')
     else if entry_type = INTERNAL_TRANSFER \<and> list_ex (\<lambda>j. jo_user_id j = user_id) (di_journeys db)
       then raise (ValidationError ''already_started'')
     else if today < start then raise (ValidationError ''probation_start_date'')
     else atomic (andthen (create_journey (new_journey user_id entry_type start stage comment)) (\<lambda>j.
       andthen (sign_first_visit j changed_by) (\<lambda>_. ret j))))"

definition start_adaptation ::
    "pk \<Rightarrow> bool \<Rightarrow> date \<Rightarrow> TraineeStage \<Rightarrow> string \<Rightarrow> pk option \<Rightarrow> date \<Rightarrow> (diary_db, TraineeJourney) op" where
  "start_adaptation = start_journey INTERNAL_TRANSFER"

definition can_shift_initial_stage_start :: "'a diary_db_scheme \<Rightarrow> TraineeJourney \<Rightarrow> bool" where
  "can_shift_initial_stage_start db j \<longleftrightarrow> jo_stage_started_at j = jo_probation_start j \<and>
     length (journey_visits db j) = 1 \<and>
     list_ex (\<lambda>v. st_id (sh_stage v) = st_id (jo_stage j) \<and> sh_ended_at v = None) (journey_visits db j)"

definition edit_errors :: "'a diary_db_scheme \<Rightarrow> TraineeJourney \<Rightarrow> EntryType \<Rightarrow> date \<Rightarrow> date \<Rightarrow> string list" where
  "edit_errors db j entry_type start today =
     (if \<not> applies_to_entry_type (jo_stage j) entry_type then [''entry_type''] else []) @
     (if today < start then [''probation_start_date''] else []) @
     (if \<not> can_shift_initial_stage_start db j \<and> jo_stage_started_at j < start
        then [''probation_start_date''] else [])"

text \<open>\<^verbatim>\<open>EditTraineeForm\<close>: validation and save.\<close>

definition edit_journey ::
    "TraineeJourney \<Rightarrow> EntryType \<Rightarrow> date \<Rightarrow> string \<Rightarrow> date \<Rightarrow> (diary_db, TraineeJourney) op" where
  "edit_journey j entry_type start comment today = andthen get_db (\<lambda>db.
     if edit_errors db j entry_type start today \<noteq> [] then raise (ValidationError ''invalid_form'')
     else let shift = can_shift_initial_stage_start db j \<and> jo_probation_start j \<noteq> start;
          edited = j\<lparr>jo_entry_type := entry_type, jo_probation_start := start, jo_comment := comment\<rparr>;
          j' = (if shift then edited\<lparr>jo_stage_started_at := start\<rparr> else edited)
       in atomic (andthen (lift_result (full_clean db j' today)) (\<lambda>_.
          andthen (update_journey (jo_id j) (\<lambda>row. row\<lparr>jo_entry_type := entry_type,
            jo_probation_start := start, jo_comment := comment,
            jo_stage_started_at := (if shift then start else jo_stage_started_at row)\<rparr>)) (\<lambda>_.
          andthen (if shift then modify_db (\<lambda>db. db\<lparr>di_visits :=
              map (\<lambda>v. if sh_journey_id v = jo_id j \<and> st_id (sh_stage v) = st_id (jo_stage j) \<and> sh_ended_at v = None
                then v\<lparr>sh_started_at := start\<rparr> else v) (di_visits db)\<rparr>) else ret ()) (\<lambda>_.
          ret j')))))"

section \<open>Views\<close>

datatype move_reply =
    Moved TraineeJourney
  | Refused nat string \<comment> \<open>status code and what was wrong\<close>

text \<open>How Django reads a primary key and a date from a JSON value, and Python's \<^verbatim>\<open>str\<close> of one.\<close>

record web =
  wb_pk :: "json \<Rightarrow> pk result"
  wb_date :: "json \<Rightarrow> date option result"
  wb_text :: "json \<Rightarrow> string"

fun json_truthy :: "json \<Rightarrow> bool" where
  "json_truthy JNull = False"
| "json_truthy (JBool b) = b"
| "json_truthy (JNum n) = (n \<noteq> 0)"
| "json_truthy (JStr s) = (s \<noteq> [])"
| "json_truthy (JArr xs) = (xs \<noteq> [])"
| "json_truthy (JObj xs) = (xs \<noteq> [])"

definition json_get :: "string \<Rightarrow> (string \<times> json) list \<Rightarrow> json" where
  "json_get key entries = (case map_of entries key of None \<Rightarrow> JNull | Some x \<Rightarrow> x)"

definition get_journey :: "pk \<Rightarrow> (diary_db, TraineeJourney) op" where
  "get_journey i = (\<lambda>db. case List.find (\<lambda>j. jo_id j = i) (di_journeys db) of
     None \<Rightarrow> (Inl DoesNotExist, db) | Some j \<Rightarrow> (Inr j, db))"

text \<open>\<open>payload\<close> is \<open>None\<close> when the body is not JSON.\<close>

definition move_trainee_stage ::
    "web \<Rightarrow> SandboxUser \<Rightarrow> pk \<Rightarrow> json option \<Rightarrow> date \<Rightarrow> (diary_db, move_reply) op" where
  "move_trainee_stage wb user journey_id payload today =
     (if \<not> us_is_staff user then raise PermissionDenied
      else andthen (get_journey journey_id) (\<lambda>j.
        case payload of
          Some (JObj entries) \<Rightarrow>
            if \<not> json_truthy (json_get ''stage_id'' entries) then ret (Refused 400 ''stage_missing'')
            else andthen (if json_truthy (json_get ''transition_date'' entries)
                then lift_result (wb_date wb (json_get ''transition_date'' entries)) else ret (Some today)) (\<lambda>date.
              case date of
                None \<Rightarrow> ret (Refused 400 ''bad_date'')
              | Some transition_date \<Rightarrow>
                  andthen (lift_result (wb_pk wb (json_get ''stage_id'' entries))) (\<lambda>stage_id. andthen get_db (\<lambda>db.
                  case List.find (\<lambda>s. st_id s = stage_id \<and> st_is_active s) (di_stages db) of
                    None \<Rightarrow> raise DoesNotExist
                  | Some new_stage \<Rightarrow>
                      if jo_completion_status j \<noteq> [] then ret (Refused 400 ''probation_completed'')
                      else if \<not> list_ex (\<lambda>s. st_id s = st_id new_stage)
                          (selectable_stages db (jo_scheme j) (jo_entry_type j))
                        then ret (Refused 400 ''stage_not_allowed'')
                      else if st_group new_stage = DONE then ret (Refused 409 ''completion_required'')
                      else catch (andthen (move_to_stage j new_stage (Some user)
                          (py_strip (case map_of entries ''note'' of None \<Rightarrow> [] | Some x \<Rightarrow> wb_text wb x)) (Some transition_date) today)
                          (\<lambda>j'. ret (Moved j')))
                        (\<lambda>e. case e of ValidationError message \<Rightarrow> ret (Refused 400 message) | _ \<Rightarrow> raise e))))
        | _ \<Rightarrow> ret (Refused 400 ''bad_json'')))"

text \<open>\<^verbatim>\<open>complete_trainee\<close>, with the fields the form has parsed. \<open>None\<close> shows the form again.\<close>

definition complete_trainee ::
    "(string \<Rightarrow> string) \<Rightarrow> (date \<Rightarrow> string) \<Rightarrow> SandboxUser \<Rightarrow> pk \<Rightarrow> string \<Rightarrow> date \<Rightarrow> string \<Rightarrow> date
     \<Rightarrow> (diary_db, TraineeJourney option) op" where
  "complete_trainee label fmt user journey_id status completed_at comment today =
     (if \<not> us_is_staff user then raise PermissionDenied
      else andthen (get_journey journey_id) (\<lambda>j.
        if jo_completion_status j \<noteq> [] then ret None
        else if status \<notin> set completion_values \<or>
            completion_errors j status (py_strip comment) completed_at today \<noteq> [] then ret None
        else catch (andthen (complete_probation label fmt j status (Some completed_at) (Some user) (py_strip comment) today)
            (\<lambda>j'. ret (Some j')))
          (\<lambda>e. case e of ValidationError _ \<Rightarrow> ret None | _ \<Rightarrow> raise e)))"

end
