(* ===== verification/Diary_Assessment.thy ===== *)
theory Diary_Assessment
  imports Journey Progress Rounding
begin

text \<open>
  What the diary says about a trainee: the signals for the mentor
  (\<^verbatim>\<open>traineediary/services/attention.py\<close>), the readiness for the next stage and the risk
  (\<^verbatim>\<open>services/assessment.py\<close>), and the progress and risk of a journey (\<^verbatim>\<open>models.py\<close>).
  A reason is its code; labels and descriptions are left out. Speeds are tenths.
\<close>

section \<open>Attention\<close>

definition SPEED_TARGET :: nat where
  "SPEED_TARGET = 60"

definition QUALITY_TARGET :: nat where
  "QUALITY_TARGET = 80"

fun attention_days_left :: "EntryType \<Rightarrow> int" where
  "attention_days_left NEW_HIRE = 14"
| "attention_days_left INTERNAL_TRANSFER = 7"

record AttentionReason =
  at_code :: string
  at_severity :: string

definition highest_severity :: "AttentionReason list \<Rightarrow> string" where
  "highest_severity reasons =
     (if list_ex (\<lambda>r. at_severity r = ''danger'') reasons then ''danger''
      else if reasons \<noteq> [] then ''warning'' else ''none'')"

text \<open>The latest metric that has the value \<open>f\<close>.\<close>

definition get_latest_metric :: "'a diary_db_scheme \<Rightarrow> TraineeJourney \<Rightarrow> (WeeklyMetric \<Rightarrow> nat option) \<Rightarrow> WeeklyMetric option" where
  "get_latest_metric db j f =
     (case rev (sort_key (\<lambda>m. (wm_week_number m, wm_id m))
        (filter (\<lambda>m. wm_journey_id m = jo_id j \<and> f m \<noteq> None) (di_metrics db))) of
        [] \<Rightarrow> None | m # _ \<Rightarrow> Some m)"

definition metric_reasons ::
    "'a diary_db_scheme \<Rightarrow> TraineeJourney \<Rightarrow> (WeeklyMetric \<Rightarrow> nat option) \<Rightarrow> nat \<Rightarrow> string \<Rightarrow> string \<Rightarrow> string list" where
  "metric_reasons db j f target missing below =
     (case get_latest_metric db j f of
        None \<Rightarrow> [missing]
      | Some m \<Rightarrow> if the (f m) < target then [below] else [])"

definition build_attention_summary :: "'a diary_db_scheme \<Rightarrow> TraineeJourney \<Rightarrow> date \<Rightarrow> AttentionReason list" where
  "build_attention_summary db j today =
     (if st_group (jo_stage j) = DONE then []
      else
        let max_days = int (st_max_days (jo_stage j));
            g = st_group (jo_stage j);
            days_left = days_left_until_probation_end j today;
            near_end = (days_left \<le> attention_days_left (jo_entry_type j));
            danger = (\<lambda>code. \<lparr>at_code = code, at_severity = ''danger''\<rparr>);
            warning = (\<lambda>code. \<lparr>at_code = code, at_severity = ''warning''\<rparr>)
        in (if jo_risk_override j = Some RISK_HIGH then [danger ''manual_high_risk''] else []) @
           (if max (days_on_stage j today - max_days) 0 > 0 then [danger ''stage_overdue''] else []) @
           (if g = WITH_REVIEW \<and> max_days \<le> days_on_stage j today
              then map warning (metric_reasons db j wm_quality QUALITY_TARGET ''quality_missing'' ''quality_below_target'')
              else []) @
           (if near_end \<and> g \<notin> {NO_REVIEW, DONE} then [warning ''behind_probation_route''] else []) @
           (if near_end \<and> g = NO_REVIEW
              then map warning (metric_reasons db j wm_speed SPEED_TARGET ''final_speed_missing'' ''final_speed_below_target'')
              else []))"

section \<open>Readiness\<close>

definition ALMOST_READY_STAGE_DAYS :: int where
  "ALMOST_READY_STAGE_DAYS = 3"

record TraineeReadinessSummary =
  rs_state :: string
  rs_reasons :: "string list"
  rs_next_stage :: "TraineeStage option"

definition not_ready :: "string list \<Rightarrow> TraineeStage option \<Rightarrow> TraineeReadinessSummary" where
  "not_ready reasons next = \<lparr>rs_state = ''not_ready'', rs_reasons = reasons, rs_next_stage = next\<rparr>"

definition almost_ready :: "string list \<Rightarrow> TraineeStage option \<Rightarrow> TraineeReadinessSummary" where
  "almost_ready reasons next = \<lparr>rs_state = ''almost_ready'', rs_reasons = reasons, rs_next_stage = next\<rparr>"

definition ready :: "TraineeStage option \<Rightarrow> TraineeReadinessSummary" where
  "ready next = \<lparr>rs_state = ''ready'', rs_reasons = [], rs_next_stage = next\<rparr>"

definition build_sandbox_readiness :: "SandboxQueueProgress \<Rightarrow> TraineeStage option \<Rightarrow> TraineeReadinessSummary" where
  "build_sandbox_readiness progress next =
     (if \<not> qp_queue_exists progress then not_ready [''sandbox_queue_missing''] next
      else if qp_total_count progress = 0 then not_ready [''sandbox_tasks_missing''] next
      else if qp_is_ready progress then ready next
      else not_ready [''sandbox_tasks_remaining''] next)"

definition days_until_minimum :: "TraineeJourney \<Rightarrow> date \<Rightarrow> int" where
  "days_until_minimum j today = max (int (st_min_days (jo_stage j)) - days_on_stage j today) 0"

definition minimum_reasons :: "TraineeJourney \<Rightarrow> date \<Rightarrow> string list" where
  "minimum_reasons j today = (if days_until_minimum j today > 0 then [''minimum_stage_days''] else [])"

definition build_with_review_readiness ::
    "'a diary_db_scheme \<Rightarrow> TraineeJourney \<Rightarrow> TraineeStage option \<Rightarrow> date \<Rightarrow> TraineeReadinessSummary" where
  "build_with_review_readiness db j next today =
     (let reasons = minimum_reasons j today @
            metric_reasons db j wm_quality QUALITY_TARGET ''quality_missing'' ''quality_below_target''
      in if reasons = [] then ready next
         else if length reasons = 1 \<and> hd reasons = ''minimum_stage_days'' \<and>
             days_until_minimum j today \<le> ALMOST_READY_STAGE_DAYS
           then almost_ready reasons next
         else not_ready reasons next)"

definition build_time_based_readiness :: "TraineeJourney \<Rightarrow> TraineeStage option \<Rightarrow> date \<Rightarrow> TraineeReadinessSummary" where
  "build_time_based_readiness j next today =
     (if st_slug (jo_stage j) = ''training-program'' then not_ready [''manual_training_confirmation''] next
      else if days_until_minimum j today = 0 then ready next
      else if days_until_minimum j today \<le> ALMOST_READY_STAGE_DAYS then almost_ready [''minimum_stage_days''] next
      else not_ready [''minimum_stage_days''] next)"

definition build_no_review_readiness ::
    "'a diary_db_scheme \<Rightarrow> TraineeJourney \<Rightarrow> TraineeStage option \<Rightarrow> date \<Rightarrow> TraineeReadinessSummary" where
  "build_no_review_readiness db j next today =
     (let days_left = days_left_until_probation_end j today;
          reasons = minimum_reasons j today @
            (if days_left > 0 then [''probation_not_finished''] else []) @
            metric_reasons db j wm_speed SPEED_TARGET ''speed_missing'' ''speed_below_target''
      in if reasons = [] then ready next
         else if set reasons \<subseteq> {''minimum_stage_days'', ''probation_not_finished''} \<and>
             days_until_minimum j today \<le> ALMOST_READY_STAGE_DAYS \<and>
             days_left \<le> attention_days_left (jo_entry_type j)
           then almost_ready reasons next
         else not_ready reasons next)"

text \<open>\<open>progress\<close> is given by pages that have computed it already.\<close>

definition build_readiness_summary ::
    "'a diary_db_scheme \<Rightarrow> TraineeJourney \<Rightarrow> SandboxQueueProgress option \<Rightarrow> date \<Rightarrow> TraineeReadinessSummary" where
  "build_readiness_summary db j progress today =
     (if st_group (jo_stage j) = DONE then \<lparr>rs_state = ''completed'', rs_reasons = [], rs_next_stage = None\<rparr>
      else case next_stage db j of
        None \<Rightarrow> not_ready [''next_stage_missing''] None
      | Some next \<Rightarrow>
          (case st_group (jo_stage j) of
             SANDBOX_L1 \<Rightarrow> build_sandbox_readiness
               (case progress of
                  None \<Rightarrow> build_sandbox_queue_progress (sandbox_db.truncate db) (jo_user_id j) PROGRAM_KEY
                | Some p \<Rightarrow> p) (Some next)
           | WITH_REVIEW \<Rightarrow> build_with_review_readiness db j (Some next) today
           | NO_REVIEW \<Rightarrow> build_no_review_readiness db j (Some next) today
           | _ \<Rightarrow> build_time_based_readiness j (Some next) today))"

section \<open>Assessment\<close>

record TraineeAssessment =
  as_risk_level :: "RiskLevel option"
  as_attention :: "AttentionReason list"
  as_readiness :: TraineeReadinessSummary

definition build_risk_level :: "TraineeJourney \<Rightarrow> AttentionReason list \<Rightarrow> RiskLevel option" where
  "build_risk_level j attention =
     (if st_group (jo_stage j) = DONE then None
      else if jo_risk_override j \<noteq> None then jo_risk_override j
      else if highest_severity attention = ''danger'' then Some RISK_HIGH
      else if attention \<noteq> [] then Some RISK_MEDIUM
      else Some RISK_LOW)"

definition build_trainee_assessment ::
    "'a diary_db_scheme \<Rightarrow> TraineeJourney \<Rightarrow> SandboxQueueProgress option \<Rightarrow> date \<Rightarrow> TraineeAssessment" where
  "build_trainee_assessment db j progress today =
     (let attention = build_attention_summary db j today
      in \<lparr>as_risk_level = build_risk_level j attention, as_attention = attention,
          as_readiness = build_readiness_summary db j progress today\<rparr>)"

section \<open>Progress and risk on the card\<close>

text \<open>
  Floating point: a number is \<open>q / 2 ^ k\<close>. The two limits of the overstay ratio are compared with
  the exact quotient; \<open>1.3\<close> is the nearest double, \<open>5854679515581645 / 2 ^ 52\<close>.
\<close>

definition overstay_at_most :: "nat \<times> nat \<Rightarrow> TraineeJourney \<Rightarrow> date \<Rightarrow> bool" where
  "overstay_at_most limit j today \<longleftrightarrow>
     (let ratio = float_div (nat (days_on_stage j today)) (max (st_max_days (jo_stage j)) 1)
      in fst ratio * 2 ^ snd limit \<le> fst limit * 2 ^ snd ratio)"

definition risk_level :: "TraineeJourney \<Rightarrow> date \<Rightarrow> RiskLevel option" where
  "risk_level j today =
     (if jo_risk_override j \<noteq> None then jo_risk_override j
      else if st_group (jo_stage j) = DONE then None
      else if overstay_at_most (1, 0) j today then Some RISK_LOW
      else if overstay_at_most (5854679515581645, 52) j today then Some RISK_MEDIUM
      else Some RISK_HIGH)"

definition float_add_nat :: "nat \<Rightarrow> nat \<times> nat \<Rightarrow> nat \<times> nat" where
  "float_add_nat a x = round_sig 2 FLOAT_PREC (a * 2 ^ snd x + fst x) (2 ^ snd x)"

definition float_div_by :: "nat \<times> nat \<Rightarrow> nat \<Rightarrow> nat \<times> nat" where
  "float_div_by x d = round_sig 2 FLOAT_PREC (fst x) (d * 2 ^ snd x)"

text \<open>\<^verbatim>\<open>min(days / max(max_days, 1), 1)\<close>.\<close>

definition stage_fraction :: "int \<Rightarrow> nat \<Rightarrow> nat \<times> nat" where
  "stage_fraction days max_days =
     (let ratio = float_div (nat days) (max max_days 1)
      in if fst ratio \<le> 2 ^ snd ratio then ratio else (1, 0))"

text \<open>\<^verbatim>\<open>round((before + current * fraction) / total * 100)\<close>.\<close>

definition weighted_percent :: "nat \<Rightarrow> nat \<Rightarrow> nat \<times> nat \<Rightarrow> nat \<Rightarrow> nat" where
  "weighted_percent before current fraction total_weight =
     float_round (float_scale (float_div_by (float_add_nat before (float_scale fraction current)) total_weight) 100)"

definition continues_source_stage :: "'a diary_db_scheme \<Rightarrow> StageSchemeTransfer \<Rightarrow> TraineeJourney \<Rightarrow> bool" where
  "continues_source_stage db tr j \<longleftrightarrow> jo_scheme j = SCHEME_UNIFIED \<and> \<not> tr_reverted tr \<and>
     st_id (jo_stage j) = tr_target_stage_id tr \<and> jo_stage_started_at j = tr_source_stage_started_at tr \<and>
     list_ex (\<lambda>v. sh_id v = tr_source_open_history_id tr \<and> sh_ended_at v = None) (journey_visits db j)"

definition stage_progress :: "'a diary_db_scheme \<Rightarrow> TraineeJourney \<Rightarrow> date \<Rightarrow> nat" where
  "stage_progress db j today =
     (let applicable = journey_stages db j [st_id (jo_stage j)];
          total_sum = sum_list (map st_weight applicable);
          total_weight = (if total_sum = 0 then 1 else total_sum);
          weight_before = sum_list (map st_weight (filter (\<lambda>s. st_order s < st_order (jo_stage j)) applicable));
          current_weight = (if list_ex (\<lambda>s. st_id s = st_id (jo_stage j)) applicable then st_weight (jo_stage j) else 0)
      in weighted_percent weight_before current_weight
           (stage_fraction (days_on_stage j today) (st_max_days (jo_stage j))) total_weight)"

definition journey_progress_percent :: "'a diary_db_scheme \<Rightarrow> TraineeJourney \<Rightarrow> date \<Rightarrow> nat" where
  "journey_progress_percent db j today =
     (if st_group (jo_stage j) = DONE then 100
      else case transfer_of db j of
        Some tr \<Rightarrow>
          if continues_source_stage db tr j
          then let basis = tr_progress_basis tr
            in weighted_percent (pb_weight_before basis) (pb_current_weight basis)
                 (stage_fraction (days_on_stage j today) (pb_max_days basis)) (max (pb_total_weight basis) 1)
          else stage_progress db j today
      | None \<Rightarrow> stage_progress db j today)"

end
