(* ===== verification/Journey_Integrity.thy ===== *)
theory Journey_Integrity
  imports Journey
begin

text \<open>
  The integrity check of a journey (\<^verbatim>\<open>traineediary/services/integrity.py\<close>), an abstract
  specification of a journey that is well kept, and the proof that the check reports no issue
  exactly on those.
\<close>

section \<open>The check\<close>

definition issue :: "bool \<Rightarrow> string \<Rightarrow> string list" where
  "issue b code = (if b then [code] else [])"

lemma issue_Nil [simp]: "issue b code = [] \<longleftrightarrow> \<not> b"
  by (simp add: issue_def)

text \<open>The loop over neighbouring entries.\<close>

fun neighbour_issues :: "StageHistory list \<Rightarrow> string list" where
  "neighbour_issues (p # n # vs) =
     (case sh_ended_at p of
        None \<Rightarrow> [''OPEN_HISTORY_NOT_LAST'']
      | Some e \<Rightarrow> if e < sh_started_at n then [''HISTORY_GAP'']
          else if sh_started_at n < e then [''HISTORY_OVERLAP''] else []) @ neighbour_issues (n # vs)"
| "neighbour_issues _ = []"

definition date_issues :: "TraineeJourney \<Rightarrow> date \<Rightarrow> string list" where
  "date_issues j today =
     issue (today < jo_probation_start j) ''PROBATION_START_IN_FUTURE'' @
     issue (jo_stage_started_at j < jo_probation_start j) ''STAGE_BEFORE_PROBATION'' @
     issue (today < jo_stage_started_at j) ''STAGE_START_IN_FUTURE'' @
     issue (\<not> applies_to_entry_type (jo_stage j) (jo_entry_type j)) ''STAGE_NOT_APPLICABLE'' @
     issue (\<not> stage_applies (jo_stage j) (jo_scheme j) (jo_entry_type j)) ''STAGE_SCHEME_MISMATCH''"

text \<open>The effective stage is read only when there is exactly one open entry.\<close>

definition open_entry_issues :: "'a diary_db_scheme \<Rightarrow> TraineeJourney \<Rightarrow> StageHistory list \<Rightarrow> string list result" where
  "open_entry_issues db j entries =
     (case filter (\<lambda>v. sh_ended_at v = None) entries of
        [e] \<Rightarrow> bindR (effective_history_stage db j e) (\<lambda>stage. Inr
          (issue (st_id stage \<noteq> st_id (jo_stage j)) ''CURRENT_STAGE_MISMATCH'' @
           issue (sh_started_at e \<noteq> jo_stage_started_at j) ''CURRENT_STAGE_DATE_MISMATCH''))
      | _ \<Rightarrow> Inr [''OPEN_HISTORY_COUNT''])"

definition history_issues :: "'a diary_db_scheme \<Rightarrow> TraineeJourney \<Rightarrow> StageHistory list \<Rightarrow> string list result" where
  "history_issues db j entries = bindR (open_entry_issues db j entries) (\<lambda>open_issues. Inr
     (issue (entries = []) ''NO_STAGE_HISTORY'' @ open_issues @
      issue (entries \<noteq> [] \<and> sh_started_at (hd entries) \<noteq> jo_probation_start j) ''FIRST_HISTORY_DATE_MISMATCH'' @
      concat (map (\<lambda>v. issue (case sh_ended_at v of None \<Rightarrow> False | Some e \<Rightarrow> e < sh_started_at v) ''INVALID_HISTORY_INTERVAL'') entries) @
      neighbour_issues entries))"

definition outcome_issues :: "TraineeJourney \<Rightarrow> date \<Rightarrow> string list" where
  "outcome_issues j today =
     (let comment = py_strip (jo_completion_comment j);
          data = (jo_completion_status j \<noteq> [] \<or> jo_completed_at j \<noteq> None \<or> comment \<noteq> [] \<or> jo_completed_by j \<noteq> None);
          is_done = (st_group (jo_stage j) = DONE)
      in (if is_done then issue (jo_completion_status j = []) ''DONE_WITHOUT_COMPLETION_STATUS'' @
            issue (jo_completed_at j = None) ''DONE_WITHOUT_COMPLETED_AT''
          else issue data ''COMPLETION_DATA_OUTSIDE_DONE'') @
         issue (jo_completion_status j \<noteq> [] \<and> jo_completion_status j \<notin> set completion_values)
           ''UNKNOWN_COMPLETION_STATUS'' @
         issue (jo_completion_status j = COMPLETION_TERMINATED \<and> comment = []) ''TERMINATED_WITHOUT_COMMENT'' @
         (case jo_completed_at j of
            None \<Rightarrow> []
          | Some d \<Rightarrow> issue (d < jo_probation_start j) ''COMPLETION_BEFORE_PROBATION'' @
              issue (today < d) ''COMPLETION_IN_FUTURE'' @
              issue (is_done \<and> jo_stage_started_at j \<noteq> d) ''DONE_STAGE_DATE_MISMATCH''))"

definition check_journey_integrity :: "'a diary_db_scheme \<Rightarrow> TraineeJourney \<Rightarrow> date \<Rightarrow> string list result" where
  "check_journey_integrity db j today =
     bindR (history_issues db j (journey_visits db j)) (\<lambda>history. Inr
       (date_issues j today @ history @ outcome_issues j today))"

section \<open>Specification\<close>

text \<open>Closed visits that lead without a gap from one date to another.\<close>

fun chain :: "date \<Rightarrow> StageHistory list \<Rightarrow> date \<Rightarrow> bool" where
  "chain a [] b \<longleftrightarrow> a = b"
| "chain a (v # vs) b \<longleftrightarrow> sh_started_at v = a \<and>
     (case sh_ended_at v of None \<Rightarrow> False | Some e \<Rightarrow> a \<le> e \<and> chain e vs b)"

text \<open>
  A history is well kept when closed visits lead from the start of the probation to the open visit,
  which is the current stage since the date on the card.
\<close>

definition history_kept :: "'a diary_db_scheme \<Rightarrow> TraineeJourney \<Rightarrow> StageHistory list \<Rightarrow> bool" where
  "history_kept db j visits \<longleftrightarrow> (\<exists>closed current stage. visits = closed @ [current] \<and>
     chain (jo_probation_start j) closed (jo_stage_started_at j) \<and>
     sh_ended_at current = None \<and> sh_started_at current = jo_stage_started_at j \<and>
     effective_history_stage db j current = Inr stage \<and> st_id stage = st_id (jo_stage j))"

definition outcome_kept :: "TraineeJourney \<Rightarrow> date \<Rightarrow> bool" where
  "outcome_kept j today \<longleftrightarrow>
     (if st_group (jo_stage j) = DONE
      then jo_completion_status j \<in> set completion_values \<and> jo_completed_at j = Some (jo_stage_started_at j) \<and>
        (jo_completion_status j = COMPLETION_TERMINATED \<longrightarrow> py_strip (jo_completion_comment j) \<noteq> [])
      else jo_completion_status j = [] \<and> jo_completed_at j = None \<and> py_strip (jo_completion_comment j) = [] \<and>
        jo_completed_by j = None)"

definition well_kept :: "'a diary_db_scheme \<Rightarrow> TraineeJourney \<Rightarrow> date \<Rightarrow> bool" where
  "well_kept db j today \<longleftrightarrow> jo_stage_started_at j \<le> today \<and>
     stage_applies (jo_stage j) (jo_scheme j) (jo_entry_type j) \<and>
     history_kept db j (journey_visits db j) \<and> outcome_kept j today"

section \<open>The check decides the specification\<close>

lemma chain_mono: "chain a vs b \<Longrightarrow> a \<le> b"
  by (induction vs arbitrary: a) (fastforce split: option.splits)+

lemma chain_closed: "chain a vs b \<Longrightarrow> v \<in> set vs \<Longrightarrow> sh_ended_at v \<noteq> None"
  by (induction vs arbitrary: a) (auto split: option.splits)

lemma chain_started: "chain a vs b \<Longrightarrow> v \<in> set vs \<Longrightarrow> a \<le> sh_started_at v \<and> sh_started_at v \<le> b"
proof (induction vs arbitrary: a)
  case (Cons u vs)
  then obtain e where e: "sh_started_at u = a" "a \<le> e" "chain e vs b" by (auto split: option.splits)
  then show ?case using Cons chain_mono [OF e(3)] by fastforce
qed simp

lemma chain_snoc: "chain a (vs @ [v]) c \<longleftrightarrow>
  (\<exists>b. chain a vs b \<and> sh_started_at v = b \<and> sh_ended_at v = Some c \<and> b \<le> c)"
  by (induction vs arbitrary: a) (auto split: option.splits)

text \<open>A list of entries without neighbour issues whose only open entry is the last is a chain.\<close>

lemma chain_iff:
  assumes "sh_ended_at v = None"
  shows "chain (sh_started_at (hd (vs @ [v]))) vs (sh_started_at v) \<longleftrightarrow>
    neighbour_issues (vs @ [v]) = [] \<and> (\<forall>u \<in> set vs. \<exists>e. sh_ended_at u = Some e \<and> sh_started_at u \<le> e)"
proof (induction vs)
  case (Cons u vs)
  show ?case
  proof (cases vs)
    case Nil
    then show ?thesis by (auto split: option.split)
  next
    case (Cons w ws)
    with Cons.IH show ?thesis by (auto split: option.split)
  qed
qed simp

lemma neighbours_closed:
  "neighbour_issues (vs @ [v]) = [] \<Longrightarrow> u \<in> set vs \<Longrightarrow> sh_ended_at u \<noteq> None"
proof (induction vs)
  case (Cons w vs)
  then show ?case by (cases vs) (auto split: option.splits if_splits)
qed simp

lemma open_entry_Nil_iff:
  "open_entry_issues db j entries = Inr [] \<longleftrightarrow> (\<exists>e stage. filter (\<lambda>v. sh_ended_at v = None) entries = [e] \<and>
     effective_history_stage db j e = Inr stage \<and> st_id stage = st_id (jo_stage j) \<and>
     sh_started_at e = jo_stage_started_at j)"
  by (auto simp: open_entry_issues_def bindR_Inr_iff split: list.split)

lemma history_issues_iff: "history_issues db j entries = Inr [] \<longleftrightarrow> history_kept db j entries"
proof (cases entries rule: rev_cases)
  case Nil
  then show ?thesis by (auto simp: history_issues_def history_kept_def bindR_Inr_iff issue_def)
next
  case (snoc us v)
  have "history_issues db j entries = Inr [] \<longleftrightarrow> open_entry_issues db j entries = Inr [] \<and>
      sh_started_at (hd entries) = jo_probation_start j \<and>
      (\<forall>u \<in> set entries. \<forall>e. sh_ended_at u = Some e \<longrightarrow> sh_started_at u \<le> e) \<and> neighbour_issues entries = []"
    using snoc by (auto simp: history_issues_def bindR_Inr_iff not_less split: option.splits)
  also have "\<dots> \<longleftrightarrow> history_kept db j entries"
  proof
    assume a: "open_entry_issues db j entries = Inr [] \<and> sh_started_at (hd entries) = jo_probation_start j \<and>
      (\<forall>u \<in> set entries. \<forall>e. sh_ended_at u = Some e \<longrightarrow> sh_started_at u \<le> e) \<and> neighbour_issues entries = []"
    then have closed: "u \<in> set us \<Longrightarrow> sh_ended_at u \<noteq> None" for u
      using neighbours_closed snoc by blast
    then have "filter (\<lambda>v. sh_ended_at v = None) us = []" by (simp add: filter_empty_conv)
    with a obtain stage where v: "sh_ended_at v = None" "effective_history_stage db j v = Inr stage"
      "st_id stage = st_id (jo_stage j)" "sh_started_at v = jo_stage_started_at j"
      by (auto simp: open_entry_Nil_iff snoc split: if_splits)
    have "chain (jo_probation_start j) us (sh_started_at v)"
      using chain_iff [OF v(1), of us] a closed snoc by fastforce
    with v snoc show "history_kept db j entries" by (auto simp: history_kept_def)
  next
    assume "history_kept db j entries"
    then obtain stage where c: "chain (jo_probation_start j) us (jo_stage_started_at j)"
      and v: "sh_ended_at v = None" "effective_history_stage db j v = Inr stage"
        "st_id stage = st_id (jo_stage j)" "sh_started_at v = jo_stage_started_at j"
      by (auto simp: history_kept_def snoc)
    have hd: "sh_started_at (hd entries) = jo_probation_start j"
      using c v(4) snoc by (cases us) auto
    have "filter (\<lambda>v. sh_ended_at v = None) entries = [v]"
      using chain_closed [OF c] v(1) by (auto simp: snoc filter_empty_conv)
    then show "open_entry_issues db j entries = Inr [] \<and> sh_started_at (hd entries) = jo_probation_start j \<and>
      (\<forall>u \<in> set entries. \<forall>e. sh_ended_at u = Some e \<longrightarrow> sh_started_at u \<le> e) \<and> neighbour_issues entries = []"
      using chain_iff [OF v(1), of us] c v hd snoc by (auto simp: open_entry_Nil_iff)
  qed
  finally show ?thesis .
qed

lemma no_empty_value [simp]: "[] \<notin> set completion_values"
  by (auto simp: completion_values_def COMPLETION_SUCCESS_def COMPLETION_TERMINATED_def)

lemma integrity_iff: "check_journey_integrity db j today = Inr [] \<longleftrightarrow> well_kept db j today"
proof -
  have h: "check_journey_integrity db j today = Inr [] \<longleftrightarrow>
      history_kept db j (journey_visits db j) \<and> date_issues j today = [] \<and> outcome_issues j today = []"
    unfolding history_issues_iff [symmetric] by (auto simp: check_journey_integrity_def bindR_Inr_iff)
  show ?thesis
  proof (cases "history_kept db j (journey_visits db j)")
    case True
    then have "jo_probation_start j \<le> jo_stage_started_at j"
      by (auto simp: history_kept_def dest: chain_mono)
    with True h show ?thesis
      by (auto simp: well_kept_def date_issues_def outcome_issues_def outcome_kept_def stage_applies_def
          Let_def not_less COMPLETION_TERMINATED_def split: option.splits if_splits)
  qed (simp add: h well_kept_def)
qed

end
