(* ===== verification/Journey_Invariants.thy ===== *)
theory Journey_Invariants
  imports Journey_Integrity
begin

text \<open>
  The operations of the diary keep every journey well kept: an invariant of the tables, its
  preservation by each view, and the step relation of the diary over the passing days.
\<close>

section \<open>The invariant\<close>

definition journey_kept :: "'a diary_db_scheme \<Rightarrow> TraineeJourney \<Rightarrow> date \<Rightarrow> bool" where
  "journey_kept db j today \<longleftrightarrow> well_kept db j today \<and> st_group (sh_stage (hd (journey_visits db j))) \<noteq> DONE"

definition diary_keys :: "'a diary_db_scheme \<Rightarrow> bool" where
  "diary_keys db \<longleftrightarrow> distinct (map jo_id (di_journeys db)) \<and> distinct (map sh_id (di_visits db)) \<and>
     sh_journey_id ` set (di_visits db) \<subseteq> jo_id ` set (di_journeys db) \<and>
     (\<forall>t \<in> set (di_transfers db). set (tr_source_history_ids t) \<subseteq> sh_id ` set (di_visits db))"

text \<open>Journeys and visits carry rows of the stage table.\<close>

definition stage_rows :: "'a diary_db_scheme \<Rightarrow> bool" where
  "stage_rows db \<longleftrightarrow> distinct (map st_id (di_stages db)) \<and> jo_stage ` set (di_journeys db) \<subseteq> set (di_stages db) \<and>
     sh_stage ` set (di_visits db) \<subseteq> set (di_stages db)"

definition diary_inv :: "'a diary_db_scheme \<Rightarrow> date \<Rightarrow> bool" where
  "diary_inv db today \<longleftrightarrow> diary_keys db \<and> stage_rows db \<and> (\<forall>j \<in> set (di_journeys db). journey_kept db j today)"

section \<open>Frames\<close>

lemma in_sandbox_diary:
  assumes "in_sandbox m db = (r, db')"
  shows "di_stages db' = di_stages db" "di_journeys db' = di_journeys db" "di_visits db' = di_visits db"
    "di_metrics db' = di_metrics db" "di_transfers db' = di_transfers db" "di_confirmations db' = di_confirmations db"
  using assms by (cases db; auto simp: in_sandbox_def sandbox_db.defs split: prod.splits)+

lemma same_visits:
  assumes "di_stages db' = di_stages db" and "di_transfers db' = di_transfers db"
    and "journey_visits db' j = journey_visits db j"
  shows "well_kept db' j today = well_kept db j today" "journey_kept db' j today = journey_kept db j today"
proof -
  have "effective_history_stage db' j v = effective_history_stage db j v" for v
    unfolding effective_history_stage_def transfer_of_def assms(1,2) ..
  then show "well_kept db' j today = well_kept db j today"
    using assms(3) by (simp add: well_kept_def history_kept_def)
  then show "journey_kept db' j today = journey_kept db j today"
    using assms(3) by (simp add: journey_kept_def)
qed

lemma same_diary:
  assumes "di_stages db' = di_stages db" "di_transfers db' = di_transfers db"
    "di_journeys db' = di_journeys db" "di_visits db' = di_visits db"
  shows "diary_inv db' today = diary_inv db today"
proof -
  have "journey_visits db' j = journey_visits db j" for j using assms(4) by (simp add: journey_visits_def)
  with same_visits(2) [OF assms(1,2)] assms show ?thesis
    by (simp add: diary_inv_def diary_keys_def stage_rows_def)
qed

lemma diary_inv_later: "diary_inv db today \<Longrightarrow> today \<le> today' \<Longrightarrow> diary_inv db today'"
  by (auto simp: diary_inv_def journey_kept_def well_kept_def outcome_kept_def)

lemma fresh_visit:
  "diary_keys db \<Longrightarrow> sh_id v = fresh_pk (map sh_id (di_visits db)) \<Longrightarrow> di_transfers db' = di_transfers db \<Longrightarrow>
     effective_history_stage db' j v = Inr (sh_stage v)"
  using fresh_pk_notin [of "map sh_id (di_visits db)"]
  by (fastforce simp: effective_history_stage_def diary_keys_def transfer_of_def split: option.split
      dest: find_Some_member)

lemma fresh_pk_greater: "i \<in> set ids \<Longrightarrow> i < fresh_pk ids"
  using fold_max_ge [of i ids 0] by (simp add: fresh_pk_def less_Suc_eq_le)

section \<open>Entering a stage\<close>

text \<open>The tables of the diary that a source record does not touch.\<close>

definition same_tables :: "diary_db \<Rightarrow> diary_db \<Rightarrow> bool" where
  "same_tables db db' \<longleftrightarrow> di_stages db' = di_stages db \<and> di_journeys db' = di_journeys db \<and>
     di_visits db' = di_visits db \<and> di_metrics db' = di_metrics db \<and> di_transfers db' = di_transfers db \<and>
     di_confirmations db' = di_confirmations db"

interpretation diary_frame: effect_order same_tables
  by unfold_locales (auto simp: same_tables_def)

lemma frame_in_sandbox: "keeps same_tables (in_sandbox m)"
  unfolding keeps_def same_tables_def by (metis in_sandbox_diary prod.collapse)

lemmas diary_frame_intros = diary_frame.keeps_intros frame_in_sandbox

lemma frame_publish_transition: "keeps same_tables (publish_transition j s by i)"
  unfolding publish_transition_def by (intro diary_frame_intros)

lemma frame_publish_completion: "keeps same_tables (publish_completion fmt j status d by)"
  unfolding publish_completion_def by (intro diary_frame_intros)

text \<open>What a move writes.\<close>

definition closed_at :: "date \<Rightarrow> pk \<Rightarrow> StageHistory \<Rightarrow> StageHistory" where
  "closed_at d i v = (if sh_journey_id v = i \<and> sh_ended_at v = None then v\<lparr>sh_ended_at := Some d\<rparr> else v)"

lemma closed_at_simps [simp]:
  "sh_id (closed_at d i v) = sh_id v" "sh_journey_id (closed_at d i v) = sh_journey_id v"
  "sh_started_at (closed_at d i v) = sh_started_at v" "sh_stage (closed_at d i v) = sh_stage v"
  by (simp_all add: closed_at_def)

lemma close_open_visits_eq:
  "close_open_visits i d db = (Inr (), db\<lparr>di_visits := map (closed_at d i) (di_visits db)\<rparr>)"
  by (simp add: close_open_visits_def op_apply closed_at_def [abs_def])

lemma enter_stage_Inr:
  assumes "enter_stage j new_stage by note d today db = (Inr j', db')"
  shows "\<exists>v. sh_id v = fresh_pk (map sh_id (di_visits db)) \<and> sh_journey_id v = jo_id j \<and> sh_stage v = new_stage \<and>
      sh_started_at v = d \<and> sh_ended_at v = None \<and> sh_changed_by v = map_option us_id by \<and>
      di_visits db' = map (closed_at d (jo_id j)) (di_visits db) @ [v] \<and>
      di_stages db' = di_stages db \<and> di_transfers db' = di_transfers db \<and>
      j' = apply_quality_stage_transition db (jo_stage j) new_stage d
        (j\<lparr>jo_stage := new_stage, jo_stage_started_at := d\<rparr>) \<and>
      full_clean db j' today = Inr () \<and>
      di_journeys db' = map (\<lambda>row. if jo_id row = jo_id j then row\<lparr>jo_stage := jo_stage j',
        jo_stage_started_at := jo_stage_started_at j', jo_fixed_quality := jo_fixed_quality j',
        jo_quality_fixed_at := jo_quality_fixed_at j'\<rparr> else row) (di_journeys db)"
proof -
  let ?j = "apply_quality_stage_transition db (jo_stage j) new_stage d
      (j\<lparr>jo_stage := new_stage, jo_stage_started_at := d\<rparr>)"
  let ?v = "\<lparr>sh_id = fresh_pk (map sh_id (di_visits db)), sh_journey_id = jo_id j, sh_stage = new_stage,
    sh_started_at = d, sh_ended_at = None, sh_changed_by = map_option us_id by, sh_note = py_strip note\<rparr>"
  let ?db = "db\<lparr>di_journeys := map (\<lambda>row. if jo_id row = jo_id j then row\<lparr>jo_stage := jo_stage ?j,
      jo_stage_started_at := jo_stage_started_at ?j, jo_fixed_quality := jo_fixed_quality ?j,
      jo_quality_fixed_at := jo_quality_fixed_at ?j\<rparr> else row) (di_journeys db),
    di_visits := map (closed_at d (jo_id j)) (di_visits db) @ [?v]\<rparr>"
  let ?m = "publish_transition j new_stage by (sh_id ?v)"
  have run: "full_clean db ?j today = Inr () \<and> ?m ?db = (Inr (), db') \<and> j' = ?j"
    using assms
    by (auto simp: enter_stage_def atomic_Inr_iff andthen_Inr_iff op_apply Let_def close_open_visits_eq
        update_journey_def create_visit_def comp_def)
  then have "same_tables ?db db'" using keepsD [OF frame_publish_transition] by blast
  with run show ?thesis by (intro exI [of _ ?v]) (simp add: same_tables_def)
qed

lemma enter_stage_Inl: "enter_stage j s by note d today db = (Inl e, db') \<Longrightarrow> db' = db"
  unfolding enter_stage_def by (rule atomic_rollback)

lemma quality_same [simp]:
  "jo_id (apply_quality_stage_transition db p n d j) = jo_id j"
  "jo_user_id (apply_quality_stage_transition db p n d j) = jo_user_id j"
  "jo_stage (apply_quality_stage_transition db p n d j) = jo_stage j"
  "jo_stage_started_at (apply_quality_stage_transition db p n d j) = jo_stage_started_at j"
  "jo_probation_start (apply_quality_stage_transition db p n d j) = jo_probation_start j"
  "jo_scheme (apply_quality_stage_transition db p n d j) = jo_scheme j"
  "jo_entry_type (apply_quality_stage_transition db p n d j) = jo_entry_type j"
  "jo_completion_status (apply_quality_stage_transition db p n d j) = jo_completion_status j"
  "jo_completed_at (apply_quality_stage_transition db p n d j) = jo_completed_at j"
  "jo_completion_comment (apply_quality_stage_transition db p n d j) = jo_completion_comment j"
  "jo_completed_by (apply_quality_stage_transition db p n d j) = jo_completed_by j"
  by (simp_all add: apply_quality_stage_transition_def split: option.split)

lemma set_journey_visits: "set (journey_visits db j) = {v \<in> set (di_visits db). sh_journey_id v = jo_id j}"
  by (auto simp: journey_visits_def)

text \<open>The history of the journey after a move: the open visit closed and the new one appended.\<close>

lemma journey_visits_moved:
  assumes keys: "diary_keys db" and hist: "history_kept db j (journey_visits db j)"
    and v: "sh_id v = fresh_pk (map sh_id (di_visits db))" "sh_journey_id v = jo_id j"
      "sh_started_at v = d" "jo_stage_started_at j \<le> d"
    and db': "di_visits db' = map (closed_at d (jo_id j)) (di_visits db) @ [v]"
  shows "journey_visits db' j = map (closed_at d (jo_id j)) (journey_visits db j) @ [v]"
proof -
  let ?k = "\<lambda>v. (sh_started_at v, sh_id v)"
  let ?own = "filter (\<lambda>v. sh_journey_id v = jo_id j) (di_visits db)"
  obtain us l where h: "journey_visits db j = us @ [l]" "chain (jo_probation_start j) us (jo_stage_started_at j)"
    "sh_started_at l = jo_stage_started_at j"
    using hist by (auto simp: history_kept_def)
  have "?k u \<le> ?k v" if "u \<in> set ?own" for u
  proof -
    have "u \<in> set (us @ [l])" using that set_journey_visits [of db j] h(1) by auto
    then have "sh_started_at u \<le> d" using chain_started [OF h(2)] h(3) v(4) by force
    moreover have "sh_id u < sh_id v" using that v(1) fresh_pk_greater by auto
    ultimately show ?thesis using v(3) by (auto simp: less_eq_prod_def)
  qed
  then have "\<forall>u \<in> set (map (closed_at d (jo_id j)) ?own). ?k u \<le> ?k v" by simp
  from sort_key_snoc [OF this] show ?thesis
    using v(2) by (simp add: journey_visits_def db' filter_map comp_def sort_key_map_same)
qed

lemma map_closed_chain:
  "chain a us b \<Longrightarrow> map (closed_at d i) us = us"
  using chain_closed by (force simp: closed_at_def map_idI)

lemma history_moved:
  assumes keys: "diary_keys db" and hist: "history_kept db j (journey_visits db j)"
    and v: "sh_id v = fresh_pk (map sh_id (di_visits db))" "sh_journey_id v = jo_id j"
      "sh_started_at v = d" "jo_stage_started_at j \<le> d" "sh_ended_at v = None" "sh_stage v = jo_stage j'"
    and j': "jo_id j' = jo_id j" "jo_probation_start j' = jo_probation_start j" "jo_stage_started_at j' = d"
    and db': "di_visits db' = map (closed_at d (jo_id j)) (di_visits db) @ [v]" "di_transfers db' = di_transfers db"
  shows "history_kept db' j' (journey_visits db' j') \<and>
    sh_stage (hd (journey_visits db' j')) = sh_stage (hd (journey_visits db j))"
proof -
  obtain us l where h: "journey_visits db j = us @ [l]" "chain (jo_probation_start j) us (jo_stage_started_at j)"
    "sh_started_at l = jo_stage_started_at j" "sh_ended_at l = None"
    using hist by (auto simp: history_kept_def)
  have own: "sh_journey_id l = jo_id j"
    using set_journey_visits [of db j] h(1) by auto
  have "journey_visits db' j' = journey_visits db' j" using j'(1) by (simp add: journey_visits_def)
  also have "\<dots> = us @ [l\<lparr>sh_ended_at := Some d\<rparr>] @ [v]"
    using journey_visits_moved [OF keys hist v(1-4) db'(1)] map_closed_chain [OF h(2)] own h(4)
    by (simp add: h(1) closed_at_def)
  finally have visits: "journey_visits db' j' = (us @ [l\<lparr>sh_ended_at := Some d\<rparr>]) @ [v]" by simp
  have "chain (jo_probation_start j') (us @ [l\<lparr>sh_ended_at := Some d\<rparr>]) d"
    using h v(4) j' by (simp add: chain_snoc)
  moreover have "effective_history_stage db' j' v = Inr (jo_stage j')"
    using fresh_visit [OF keys v(1) db'(2), of j'] v(6) by simp
  ultimately show ?thesis
    using v j' by (cases us) (auto simp: history_kept_def visits h(1))
qed

section \<open>Moving\<close>

lemma full_clean_Inr: "full_clean db j today = Inr () \<longleftrightarrow> journey_errors db j today = []"
  by (simp add: full_clean_def)

lemma other_journey_kept:
  assumes "di_stages db' = di_stages db" "di_transfers db' = di_transfers db"
    and "\<forall>v \<in> set new. sh_journey_id v = i" and "jo_id k \<noteq> i"
    and "di_visits db' = map f (di_visits db) @ new"
    and "\<And>v. sh_journey_id v \<noteq> i \<Longrightarrow> f v = v" and "\<And>v. sh_journey_id (f v) = sh_journey_id v"
  shows "journey_kept db' k today = journey_kept db k today"
proof -
  have "filter (\<lambda>v. sh_journey_id v = jo_id k) (map f (di_visits db)) =
      filter (\<lambda>v. sh_journey_id v = jo_id k) (di_visits db)"
    using assms(4,6,7) by (induction "di_visits db") (auto simp: filter_map comp_def intro!: map_idI)
  moreover have "filter (\<lambda>v. sh_journey_id v = jo_id k) new = []"
    using assms(3,4) by (auto simp: filter_empty_conv)
  ultimately have "journey_visits db' k = journey_visits db k"
    by (simp add: journey_visits_def assms(5))
  from same_visits(2) [OF assms(1,2) this] show ?thesis .
qed

lemma keys_moved:
  assumes "diary_keys db" and "j \<in> set (di_journeys db)"
    and "sh_id v = fresh_pk (map sh_id (di_visits db))" "sh_journey_id v = jo_id j"
    and "di_visits db' = map (closed_at d (jo_id j)) (di_visits db) @ [v]" "di_transfers db' = di_transfers db"
    and "map jo_id (di_journeys db') = map jo_id (di_journeys db)"
  shows "diary_keys db'"
proof -
  have ids: "map sh_id (map (closed_at d (jo_id j)) (di_visits db)) = map sh_id (di_visits db)"
    by (simp add: comp_def)
  have "sh_id ` set (di_visits db) \<subseteq> sh_id ` set (di_visits db')" by (force simp: assms(5) image_image)
  moreover have "jo_id ` set (di_journeys db') = jo_id ` set (di_journeys db)"
    using assms(7) by (metis set_map)
  moreover have "distinct (map sh_id (di_visits db'))"
    using assms(1,3) fresh_pk_notin [of "map sh_id (di_visits db)"] ids by (simp add: assms(5) diary_keys_def comp_def)
  ultimately show ?thesis
    using assms by (auto simp: diary_keys_def image_subset_iff) blast+
qed

text \<open>
  A move of a journey of the tables, possibly with completion data that are written later: the
  other journeys are as they were and the history of this one is kept.
\<close>

lemma enter_stage_keeps:
  assumes inv: "diary_inv db today" and mem: "row \<in> set (di_journeys db)"
    and row: "jo_id j = jo_id row" "jo_probation_start j = jo_probation_start row"
      "jo_stage_started_at j = jo_stage_started_at row"
    and d: "jo_stage_started_at j \<le> d"
    and enter: "enter_stage j new_stage by note d today db = (Inr j', db')"
  shows "diary_keys db' \<and> di_stages db' = di_stages db \<and> di_transfers db' = di_transfers db \<and>
    history_kept db' j' (journey_visits db' j') \<and> st_group (sh_stage (hd (journey_visits db' j'))) \<noteq> DONE \<and>
    (\<forall>k \<in> set (di_journeys db). jo_id k \<noteq> jo_id j \<longrightarrow> journey_kept db' k today)"
proof -
  obtain v where v: "sh_id v = fresh_pk (map sh_id (di_visits db))" "sh_journey_id v = jo_id j"
      "sh_stage v = new_stage" "sh_started_at v = d" "sh_ended_at v = None"
    and db': "di_visits db' = map (closed_at d (jo_id j)) (di_visits db) @ [v]"
      "di_stages db' = di_stages db" "di_transfers db' = di_transfers db"
    and j': "j' = apply_quality_stage_transition db (jo_stage j) new_stage d
      (j\<lparr>jo_stage := new_stage, jo_stage_started_at := d\<rparr>)"
    and rows: "di_journeys db' = map (\<lambda>row. if jo_id row = jo_id j then row\<lparr>jo_stage := jo_stage j',
        jo_stage_started_at := jo_stage_started_at j', jo_fixed_quality := jo_fixed_quality j',
        jo_quality_fixed_at := jo_quality_fixed_at j'\<rparr> else row) (di_journeys db)"
    using enter_stage_Inr [OF enter] by blast
  have keys: "diary_keys db" and kept: "journey_kept db row today"
    using inv mem by (auto simp: diary_inv_def)
  have hist: "history_kept db row (journey_visits db row)" "st_group (sh_stage (hd (journey_visits db row))) \<noteq> DONE"
    using kept by (auto simp: journey_kept_def well_kept_def)
  have "map jo_id (di_journeys db') = map jo_id (di_journeys db)" by (simp add: rows)
  then have "diary_keys db'" using keys_moved [OF keys mem, of v db' d] v(1,2) db' row(1) by simp
  moreover have "history_kept db' j' (journey_visits db' j') \<and>
      sh_stage (hd (journey_visits db' j')) = sh_stage (hd (journey_visits db row))"
    by (rule history_moved [OF keys hist(1), where v = v and d = d]) (use v db' row d in \<open>simp_all add: j'\<close>)
  moreover have "journey_kept db' k today" if "k \<in> set (di_journeys db)" "jo_id k \<noteq> jo_id j" for k
    using other_journey_kept [OF db'(2,3) _ that(2) db'(1), of today] v(2) inv that
    by (simp add: diary_inv_def closed_at_def)
  ultimately show ?thesis using db' hist(2) by simp
qed

end
