(* ===== verification/Journey_Steps.thy ===== *)
theory Journey_Steps
  imports Journey_Invariants
begin

text \<open>
  The views and forms of the diary keep the invariant, and the step relation of the diary: days
  pass, journeys are started, moved, completed and edited.
\<close>

section \<open>Rows\<close>

lemma get_journey_Inr: "get_journey i db = (Inr j, db') \<longleftrightarrow>
  List.find (\<lambda>j. jo_id j = i) (di_journeys db) = Some j \<and> db' = db"
  by (auto simp: get_journey_def split: option.splits)

lemma same_row:
  "diary_keys db \<Longrightarrow> j \<in> set (di_journeys db) \<Longrightarrow> k \<in> set (di_journeys db) \<Longrightarrow> jo_id j = jo_id k \<Longrightarrow> j = k"
  by (auto simp: diary_keys_def distinct_map inj_on_def)

lemma same_stage:
  "stage_rows db \<Longrightarrow> s \<in> set (di_stages db) \<Longrightarrow> t \<in> set (di_stages db) \<Longrightarrow> st_id s = st_id t \<Longrightarrow> s = t"
  by (auto simp: stage_rows_def distinct_map inj_on_def)

lemma moved_row:
  "j' = apply_quality_stage_transition db p n d (j\<lparr>jo_stage := n, jo_stage_started_at := d\<rparr>) \<Longrightarrow>
     j\<lparr>jo_stage := jo_stage j', jo_stage_started_at := jo_stage_started_at j',
       jo_fixed_quality := jo_fixed_quality j', jo_quality_fixed_at := jo_quality_fixed_at j'\<rparr> = j'"
  by (cases j) (auto simp: apply_quality_stage_transition_def split: option.split)

lemma updated_rows:
  assumes "diary_keys db" and "j \<in> set (di_journeys db)"
    and "k \<in> set (map (\<lambda>row. if jo_id row = jo_id j then f row else row) (di_journeys db))"
  shows "k = f j \<or> k \<in> set (di_journeys db) \<and> jo_id k \<noteq> jo_id j"
proof -
  obtain row where row: "row \<in> set (di_journeys db)" "k = (if jo_id row = jo_id j then f row else row)"
    using assms(3) by auto
  then show ?thesis using same_row [OF assms(1,2) row(1)] by (cases "jo_id row = jo_id j") simp_all
qed

lemma clean_applies:
  "full_clean db j today = Inr () \<Longrightarrow> stage_applies (jo_stage j) (jo_scheme j) (jo_entry_type j)"
  by (simp add: full_clean_Inr journey_errors_def split: if_splits)

lemma no_completion_data:
  "well_kept db j today \<Longrightarrow> jo_completion_status j = [] \<Longrightarrow> st_group (jo_stage j) \<noteq> DONE \<and>
     jo_completed_at j = None \<and> py_strip (jo_completion_comment j) = [] \<and> jo_completed_by j = None"
  by (auto simp: well_kept_def outcome_kept_def split: if_splits)

lemma update_journey_eq:
  "update_journey i f db = (Inr (), db\<lparr>di_journeys := map (\<lambda>row. if jo_id row = i then f row else row) (di_journeys db)\<rparr>)"
  by (simp add: update_journey_def op_apply)

section \<open>Moving\<close>

lemma move_keeps:
  assumes inv: "diary_inv db today" and mem: "j \<in> set (di_journeys db)" and status: "jo_completion_status j = []"
    and new: "new_stage \<in> set (di_stages db)" "st_group new_stage \<noteq> DONE"
    and d: "jo_stage_started_at j \<le> d" "d \<le> today"
    and enter: "enter_stage j new_stage by note d today db = (Inr j', db')"
  shows "diary_inv db' today"
proof -
  note keeps = enter_stage_keeps [OF inv mem refl refl refl d(1) enter]
  obtain v where visits: "di_visits db' = map (closed_at d (jo_id j)) (di_visits db) @ [v]" "sh_stage v = new_stage"
    and j': "j' = apply_quality_stage_transition db (jo_stage j) new_stage d
        (j\<lparr>jo_stage := new_stage, jo_stage_started_at := d\<rparr>)"
    and clean: "full_clean db j' today = Inr ()"
    and rows: "di_journeys db' = map (\<lambda>row. if jo_id row = jo_id j then row\<lparr>jo_stage := jo_stage j',
        jo_stage_started_at := jo_stage_started_at j', jo_fixed_quality := jo_fixed_quality j',
        jo_quality_fixed_at := jo_quality_fixed_at j'\<rparr> else row) (di_journeys db)"
    using enter_stage_Inr [OF enter] by blast
  have keys: "diary_keys db" and stages: "stage_rows db" and wk: "well_kept db j today"
    using inv mem by (auto simp: diary_inv_def journey_kept_def)
  have "journey_kept db' j' today"
    using keeps no_completion_data [OF wk status] clean_applies [OF clean] d(2) new(2) status
    by (simp add: journey_kept_def well_kept_def outcome_kept_def j')
  moreover have row: "k \<in> set (di_journeys db') \<Longrightarrow> k = j' \<or> k \<in> set (di_journeys db) \<and> jo_id k \<noteq> jo_id j" for k
    using updated_rows [OF keys mem, of k "\<lambda>row. row\<lparr>jo_stage := jo_stage j',
        jo_stage_started_at := jo_stage_started_at j', jo_fixed_quality := jo_fixed_quality j',
        jo_quality_fixed_at := jo_quality_fixed_at j'\<rparr>"] moved_row [OF j'] by (simp only: rows)
  moreover have "jo_stage k \<in> set (di_stages db)" if "k \<in> set (di_journeys db')" for k
    using row [OF that] new(1) stages by (auto simp: j' stage_rows_def)
  then have "stage_rows db'"
    using stages keeps new(1) visits by (auto simp: stage_rows_def image_subset_iff)
  ultimately show ?thesis using keeps by (auto simp: diary_inv_def)
qed

lemma move_to_stage_cases:
  assumes "move_to_stage j new_stage by note date today db = (r, db')"
  shows "db' = db \<and> (\<forall>j'. r = Inr j' \<longrightarrow> j' = j \<and> st_id (jo_stage j) = st_id new_stage) \<or>
    (\<exists>d j'. r = Inr j' \<and> enter_stage j new_stage by note d today db = (Inr j', db') \<and>
       d = (case date of None \<Rightarrow> today | Some d \<Rightarrow> d) \<and> jo_stage_started_at j \<le> d \<and> d \<le> today)"
proof (cases "st_id (jo_stage j) = st_id new_stage")
  case False
  then show ?thesis
    using assms enter_stage_Inl
    by (cases r) (auto simp: move_to_stage_def andthen_def op_apply Let_def not_less split: if_splits)
qed (use assms in \<open>auto simp: move_to_stage_def op_apply\<close>)

lemma move_view_cases:
  assumes "move_trainee_stage wb user i payload today db = (r, db')" and "db' \<noteq> db"
  shows "\<exists>j s nt d m. List.find (\<lambda>j. jo_id j = i) (di_journeys db) = Some j \<and> s \<in> set (di_stages db) \<and>
    st_group s \<noteq> DONE \<and> jo_completion_status j = [] \<and>
    move_to_stage j s (Some user) nt (Some d) today db = (m, db')"
proof -
  have g: "get_journey i db = (case List.find (\<lambda>j. jo_id j = i) (di_journeys db) of
      None \<Rightarrow> (Inl DoesNotExist, db) | Some j \<Rightarrow> (Inr j, db))" by (simp add: get_journey_def)
  have c: "\<exists>m. move_to_stage j s u n d t db = (m, db')"
    if "catch (andthen (move_to_stage j s u n d t) (\<lambda>j'. ret (Moved j')))
      (\<lambda>e. case e of ValidationError message \<Rightarrow> ret (Refused 400 message) | _ \<Rightarrow> raise e) db = (r, db')" for j s u n d t
    using that by (auto simp: catch_def andthen_def op_apply split: prod.splits sum.splits py_error.splits)
  obtain j entries where j: "List.find (\<lambda>j. jo_id j = i) (di_journeys db) = Some j" and p: "payload = Some (JObj entries)"
    using assms
    by (auto simp: move_trainee_stage_def andthen_def g op_apply split: if_splits option.splits json.splits)
  show ?thesis
    using assms c
    by (auto simp: move_trainee_stage_def andthen_def [of "get_journey i"] g j p op_apply andthen_def [of "lift_result _"]
        andthen_def [of "ret _"] andthen_def [of get_db] not_less
        split: if_splits option.splits sum.splits dest!: find_Some_member) blast+
qed

lemma move_view_keeps:
  assumes inv: "diary_inv db today" and view: "move_trainee_stage wb user i payload today db = (r, db')"
  shows "diary_inv db' today"
proof (cases "db' = db")
  case False
  from move_view_cases [OF view False] obtain j s nt d m where
    j: "List.find (\<lambda>j. jo_id j = i) (di_journeys db) = Some j"
    and s: "s \<in> set (di_stages db)" "st_group s \<noteq> DONE" and status: "jo_completion_status j = []"
    and mv: "move_to_stage j s (Some user) nt (Some d) today db = (m, db')" by blast
  from move_to_stage_cases [OF mv] False obtain j' where
    "enter_stage j s (Some user) nt d today db = (Inr j', db')" "jo_stage_started_at j \<le> d" "d \<le> today"
    by auto
  with move_keeps [OF inv _ status s] find_Some_member [OF j] show ?thesis by blast
qed (use inv in simp)

section \<open>Completing\<close>

lemma done_stage_member:
  assumes "done_stage db j = Some s" and "st_group (jo_stage j) \<noteq> DONE"
  shows "s \<in> set (di_stages db) \<and> st_group s = DONE"
  using assms by (auto simp: done_stage_def journey_stages_def by_order_def dest: find_Some_member)

lemma clean_completion:
  assumes "full_clean db j today = Inr ()" and "jo_completion_status j \<noteq> []"
  shows "st_group (jo_stage j) = DONE \<and> jo_completion_status j \<in> set completion_values \<and>
    (\<exists>d. jo_completed_at j = Some d \<and> d \<le> today) \<and>
    (jo_completion_status j = COMPLETION_TERMINATED \<longrightarrow> py_strip (jo_completion_comment j) \<noteq> [])"
  using assms
  by (auto simp: full_clean_Inr journey_errors_def has_completion_data_def split: if_splits option.splits)

lemma complete_cases:
  assumes "complete_probation label fmt j status date u comment today db = (r, db')"
    and group: "st_group (jo_stage j) \<noteq> DONE"
  shows "db' = db \<or> (\<exists>s d jc nt j' db1 db2. s \<in> set (di_stages db) \<and> d \<le> today \<and> jo_stage_started_at j \<le> d \<and>
    jc = j\<lparr>jo_completion_status := status, jo_completed_at := Some d,
      jo_completion_comment := py_strip comment, jo_completed_by := map_option us_id u\<rparr> \<and>
    status \<in> set completion_values \<and>
    enter_stage jc s u nt d today db = (Inr j', db1) \<and> full_clean db1 j' today = Inr () \<and>
    update_journey (jo_id j') (\<lambda>row. row\<lparr>jo_completion_status := jo_completion_status j',
      jo_completed_at := jo_completed_at j', jo_completion_comment := jo_completion_comment j',
      jo_completed_by := jo_completed_by j'\<rparr>) db1 = (Inr (), db2) \<and> same_tables db2 db')"
proof (cases r)
  case (Inl e)
  then show ?thesis
    using assms(1)
    by (auto simp: complete_probation_def andthen_def [of get_db] op_apply Let_def
        split: if_splits option.splits dest: atomic_rollback)
next
  case (Inr jr)
  define d where "d = (case date of None \<Rightarrow> today | Some d \<Rightarrow> d)"
  define jc where "jc = j\<lparr>jo_completion_status := status, jo_completed_at := Some d,
      jo_completion_comment := py_strip comment, jo_completed_by := map_option us_id u\<rparr>"
  from assms(1) Inr obtain s nt j' db1 db2 where status: "status \<in> set completion_values"
    and s: "done_stage db j = Some s"
    and mv: "move_to_stage jc s u nt (Some d) today db = (Inr j', db1)"
    and clean: "full_clean db1 j' today = Inr ()"
    and upd: "update_journey (jo_id j') (\<lambda>row. row\<lparr>jo_completion_status := jo_completion_status j',
      jo_completed_at := jo_completed_at j', jo_completion_comment := jo_completion_comment j',
      jo_completed_by := jo_completed_by j'\<rparr>) db1 = (Inr (), db2)"
    and pub: "publish_completion fmt j' status d u db2 = (Inr (), db')"
    by (auto simp: complete_probation_def atomic_Inr_iff andthen_Inr_iff op_apply Let_def d_def [symmetric]
        jc_def split: if_splits option.splits)
  have "same_tables db2 db'" using keepsD [OF frame_publish_completion pub] .
  moreover have "s \<in> set (di_stages db)" using done_stage_member [OF s group] by simp
  moreover have "\<not> (j' = jc \<and> db1 = db)"
  proof
    assume a: "j' = jc \<and> db1 = db"
    have "status \<noteq> []" using status no_empty_value by metis
    with a clean group clean_completion [OF clean] show False by (simp add: jc_def)
  qed
  ultimately show ?thesis
    using move_to_stage_cases [OF mv] status clean upd
    by (auto simp: jc_def)
qed

lemma completed_row:
  "j' = apply_quality_stage_transition db p n d
      (j\<lparr>jo_completion_status := status, jo_completed_at := c, jo_completion_comment := comment,
         jo_completed_by := u, jo_stage := n, jo_stage_started_at := d\<rparr>) \<Longrightarrow>
   (j\<lparr>jo_stage := jo_stage j', jo_stage_started_at := jo_stage_started_at j', jo_fixed_quality := jo_fixed_quality j',
      jo_quality_fixed_at := jo_quality_fixed_at j'\<rparr>)
     \<lparr>jo_completion_status := jo_completion_status j', jo_completed_at := jo_completed_at j',
      jo_completion_comment := jo_completion_comment j', jo_completed_by := jo_completed_by j'\<rparr> = j'"
  by (cases j) (auto simp: apply_quality_stage_transition_def split: option.split)

lemma complete_keeps:
  assumes inv: "diary_inv db today" and mem: "j \<in> set (di_journeys db)" and status: "jo_completion_status j = []"
    and complete: "complete_probation label fmt j status date u comment today db = (r, db')"
  shows "diary_inv db' today"
proof (cases "db' = db")
  case False
  have keys: "diary_keys db" and stages: "stage_rows db" and wk: "well_kept db j today"
    using inv mem by (auto simp: diary_inv_def journey_kept_def)
  from no_completion_data [OF wk status] have group: "st_group (jo_stage j) \<noteq> DONE" by simp
  from complete_cases [OF complete group] False obtain s d jc nt j' db1 db2 where
    s: "s \<in> set (di_stages db)" and d: "d \<le> today" "jo_stage_started_at j \<le> d"
    and jc: "jc = j\<lparr>jo_completion_status := status, jo_completed_at := Some d,
      jo_completion_comment := py_strip comment, jo_completed_by := map_option us_id u\<rparr>"
    and v: "status \<in> set completion_values"
    and enter: "enter_stage jc s u nt d today db = (Inr j', db1)" and clean: "full_clean db1 j' today = Inr ()"
    and upd: "update_journey (jo_id j') (\<lambda>row. row\<lparr>jo_completion_status := jo_completion_status j',
      jo_completed_at := jo_completed_at j', jo_completion_comment := jo_completion_comment j',
      jo_completed_by := jo_completed_by j'\<rparr>) db1 = (Inr (), db2)" and same: "same_tables db2 db'"
    by auto
  have keeps: "diary_keys db1 \<and> di_stages db1 = di_stages db \<and> di_transfers db1 = di_transfers db \<and>
      history_kept db1 j' (journey_visits db1 j') \<and> st_group (sh_stage (hd (journey_visits db1 j'))) \<noteq> DONE \<and>
      (\<forall>k \<in> set (di_journeys db). jo_id k \<noteq> jo_id j \<longrightarrow> journey_kept db1 k today)"
    using enter_stage_keeps [OF inv mem _ _ _ _ enter] d by (simp add: jc)
  obtain w where visits: "di_visits db1 = map (closed_at d (jo_id jc)) (di_visits db) @ [w]" "sh_stage w = s"
    and j': "j' = apply_quality_stage_transition db (jo_stage jc) s d
        (jc\<lparr>jo_stage := s, jo_stage_started_at := d\<rparr>)"
    and rows: "di_journeys db1 = map (\<lambda>row. if jo_id row = jo_id jc then row\<lparr>jo_stage := jo_stage j',
        jo_stage_started_at := jo_stage_started_at j', jo_fixed_quality := jo_fixed_quality j',
        jo_quality_fixed_at := jo_quality_fixed_at j'\<rparr> else row) (di_journeys db)"
    using enter_stage_Inr [OF enter] by blast
  define f :: "TraineeJourney \<Rightarrow> TraineeJourney" where "f = (\<lambda>row. (row\<lparr>jo_stage := jo_stage j', jo_stage_started_at := jo_stage_started_at j',
      jo_fixed_quality := jo_fixed_quality j', jo_quality_fixed_at := jo_quality_fixed_at j'\<rparr>)
     \<lparr>jo_completion_status := jo_completion_status j', jo_completed_at := jo_completed_at j',
      jo_completion_comment := jo_completion_comment j', jo_completed_by := jo_completed_by j'\<rparr>)"
  have fj: "f j = j'" unfolding f_def by (rule completed_row) (simp add: j' jc)
  have ids: "jo_id jc = jo_id j" "jo_id j' = jo_id j" by (simp_all add: j' jc)
  have "di_journeys db2 = map (\<lambda>row. if jo_id row = jo_id j then f row else row) (di_journeys db)"
    using upd by (auto simp: update_journey_eq rows ids f_def)
  then have rows': "di_journeys db' = map (\<lambda>row. if jo_id row = jo_id j then f row else row) (di_journeys db)"
    and tables: "di_stages db' = di_stages db1" "di_transfers db' = di_transfers db1" "di_visits db' = di_visits db1"
    using same upd by (auto simp: same_tables_def update_journey_eq)
  have row: "k = j' \<or> k \<in> set (di_journeys db) \<and> jo_id k \<noteq> jo_id j" if "k \<in> set (di_journeys db')" for k
    using updated_rows [OF keys mem that [unfolded rows']] fj by simp
  have st: "jo_completion_status j' = status" "jo_completed_at j' = Some d" "jo_stage_started_at j' = d" "jo_stage j' = s"
    by (simp_all add: j' jc)
  have "status \<noteq> []" using v no_empty_value by metis
  with clean_completion [OF clean] st have "outcome_kept j' today" by (simp add: outcome_kept_def)
  then have "journey_kept db1 j' today"
    using keeps clean_applies [OF clean] d(1) st by (simp add: journey_kept_def well_kept_def)
  then have kept: "journey_kept db1 k today" if "k \<in> set (di_journeys db')" for k
    using row [OF that] keeps by auto
  have same_hist: "journey_visits db' k = journey_visits db1 k" for k using tables by (simp add: journey_visits_def)
  have "map jo_id (di_journeys db') = map jo_id (di_journeys db1)"
    by (simp add: rows rows' f_def ids)
  then have "diary_keys db'"
    using keeps tables unfolding diary_keys_def by (metis set_map)
  moreover have "jo_stage k \<in> set (di_stages db)" if "k \<in> set (di_journeys db')" for k
    using row [OF that] s stages st(4) by (auto simp: stage_rows_def)
  then have "stage_rows db'"
    using stages keeps s visits tables by (auto simp: stage_rows_def image_subset_iff)
  ultimately show ?thesis
    using kept same_visits(2) [OF tables(1,2) same_hist] by (simp add: diary_inv_def)
qed (use inv in simp)

lemma complete_view_keeps:
  assumes inv: "diary_inv db today"
    and view: "complete_trainee label fmt user i status d comment today db = (r, db')"
  shows "diary_inv db' today"
proof (cases "db' = db")
  case False
  from view False obtain j m where
    j: "List.find (\<lambda>j. jo_id j = i) (di_journeys db) = Some j" and status: "jo_completion_status j = []"
    and "complete_probation label fmt j status (Some d) (Some user) (py_strip comment) today db = (m, db')"
    by (auto simp: complete_trainee_def andthen_def get_journey_def op_apply catch_def
        split: if_splits option.splits prod.splits sum.splits py_error.splits)
  with complete_keeps [OF inv] find_Some_member [OF j] show ?thesis by blast
qed (use inv in simp)

section \<open>Starting\<close>

lemma start_Inr:
  assumes "start_journey et user_id active start stage comment u today db = (Inr j, db')"
  shows "\<exists>v. stage \<in> set (selectable_stages db SCHEME_UNIFIED et) \<and> start \<le> today \<and>
    j = (new_journey user_id et start stage comment)\<lparr>jo_id := fresh_pk (map jo_id (di_journeys db))\<rparr> \<and>
    sh_id v = fresh_pk (map sh_id (di_visits db)) \<and> sh_journey_id v = jo_id j \<and> sh_stage v = stage \<and>
    sh_started_at v = start \<and> sh_ended_at v = None \<and> di_stages db' = di_stages db \<and>
    di_transfers db' = di_transfers db \<and> di_journeys db' = di_journeys db @ [j] \<and>
    (\<exists>f. di_visits db' = map f (di_visits db) @ [v] \<and> (\<forall>v. sh_journey_id v \<noteq> jo_id j \<longrightarrow> f v = v) \<and>
      (\<forall>v. sh_journey_id (f v) = sh_journey_id v \<and> sh_id (f v) = sh_id v \<and> sh_stage (f v) = sh_stage v))"
proof -
  let ?j = "(new_journey user_id et start stage comment)\<lparr>jo_id := fresh_pk (map jo_id (di_journeys db))\<rparr>"
  let ?v = "\<lparr>sh_id = fresh_pk (map sh_id (di_visits db)), sh_journey_id = jo_id ?j, sh_stage = stage,
    sh_started_at = start, sh_ended_at = None, sh_changed_by = u, sh_note = []\<rparr>"
  define f :: "StageHistory \<Rightarrow> StageHistory" where "f = (\<lambda>v. case u of None \<Rightarrow> v | Some a \<Rightarrow>
    if sh_journey_id v = jo_id ?j \<and> st_id (sh_stage v) = st_id stage \<and> sh_ended_at v = None
    then v\<lparr>sh_changed_by := Some a\<rparr> else v)"
  have "j = ?j \<and> stage \<in> set (selectable_stages db SCHEME_UNIFIED et) \<and> start \<le> today \<and>
      di_stages db' = di_stages db \<and> di_transfers db' = di_transfers db \<and>
      di_journeys db' = di_journeys db @ [j] \<and> di_visits db' = map f (di_visits db) @ [?v]"
    using assms
    by (cases u) (auto simp: start_journey_def create_journey_def create_visit_def sign_first_visit_def
        atomic_Inr_iff andthen_Inr_iff op_apply Let_def f_def new_journey_def not_less split: if_splits)
  moreover have "\<forall>v. sh_journey_id v \<noteq> jo_id ?j \<longrightarrow> f v = v"
    "\<forall>v. sh_journey_id (f v) = sh_journey_id v \<and> sh_id (f v) = sh_id v \<and> sh_stage (f v) = sh_stage v"
    by (auto simp: f_def split: option.split)
  ultimately show ?thesis by (intro exI [of _ ?v]) auto
qed

lemma start_keeps:
  assumes inv: "diary_inv db today" and group: "st_group stage \<noteq> DONE"
    and start: "start_journey et user_id active start stage comment u today db = (r, db')"
  shows "diary_inv db' today"
proof (cases r)
  case (Inl e)
  with start have "db' = db"
    by (auto simp: start_journey_def andthen_def [of get_db] op_apply split: if_splits dest: atomic_rollback)
  with inv show ?thesis by simp
next
  case (Inr j)
  have keys: "diary_keys db" and stages: "stage_rows db" using inv by (auto simp: diary_inv_def)
  from start_Inr [OF start [unfolded Inr]] obtain v f where
    sel: "stage \<in> set (selectable_stages db SCHEME_UNIFIED et)" and le: "start \<le> today"
    and j: "j = (new_journey user_id et start stage comment)\<lparr>jo_id := fresh_pk (map jo_id (di_journeys db))\<rparr>"
    and v: "sh_id v = fresh_pk (map sh_id (di_visits db))" "sh_journey_id v = jo_id j" "sh_stage v = stage"
      "sh_started_at v = start" "sh_ended_at v = None"
    and tables: "di_stages db' = di_stages db" "di_transfers db' = di_transfers db"
      "di_journeys db' = di_journeys db @ [j]" "di_visits db' = map f (di_visits db) @ [v]"
    and f: "\<And>v. sh_journey_id v \<noteq> jo_id j \<Longrightarrow> f v = v" "\<And>v. sh_journey_id (f v) = sh_journey_id v"
      "\<And>v. sh_id (f v) = sh_id v" "\<And>v. sh_stage (f v) = sh_stage v" by blast
  have jid: "jo_id j = fresh_pk (map jo_id (di_journeys db))" by (simp add: j)
  have new: "jo_id j \<notin> jo_id ` set (di_journeys db)" using fresh_pk_notin [of "map jo_id (di_journeys db)"] by (simp add: jid)
  have none: "w \<in> set (di_visits db) \<Longrightarrow> sh_journey_id w \<noteq> jo_id j" for w
    using keys new unfolding diary_keys_def by (metis image_eqI subset_iff)
  then have "map f (di_visits db) = di_visits db" using f(1) by (simp add: map_idI)
  with tables have visits: "di_visits db' = di_visits db @ [v]" by simp
  have "journey_visits db' j = [v]"
    using none v(2) by (simp add: journey_visits_def visits filter_empty_conv)
  moreover have "effective_history_stage db' j v = Inr stage" using fresh_visit [OF keys v(1) tables(2)] v(3) by simp
  moreover have "stage \<in> set (di_stages db)" "stage_applies stage SCHEME_UNIFIED et"
    using sel by (simp_all add: selectable_stages_iff)
  ultimately have kept: "journey_kept db' j today"
    using le v group
    by (auto simp: journey_kept_def well_kept_def history_kept_def outcome_kept_def j new_journey_def py_strip_def)
  have "jo_id k \<noteq> jo_id j" if "k \<in> set (di_journeys db)" for k using that new by (metis image_eqI)
  then have others: "journey_kept db' k today" if "k \<in> set (di_journeys db)" for k
    using other_journey_kept [OF tables(1,2) _ _ tables(4) f(1,2), where k = k and today = today] v(2) new that inv
    by (auto simp: diary_inv_def)
  have "diary_keys db'"
    using keys new v(1,2) fresh_pk_notin [of "map sh_id (di_visits db)"]
    by (auto simp: diary_keys_def tables(2,3) visits)
  moreover have "stage_rows db'"
    using stages \<open>stage \<in> set (di_stages db)\<close> v(3) by (auto simp: stage_rows_def tables(1,3) visits j new_journey_def)
  ultimately show ?thesis using kept others by (auto simp: diary_inv_def tables(3))
qed

section \<open>Editing\<close>

text \<open>
  The start date stays, or the journey is still on its first visit, which then starts with it.
\<close>

definition careful_edit :: "'a diary_db_scheme \<Rightarrow> TraineeJourney \<Rightarrow> date \<Rightarrow> bool" where
  "careful_edit db j start \<longleftrightarrow> start = jo_probation_start j \<or> can_shift_initial_stage_start db j"

lemma can_shift_visits:
  assumes "can_shift_initial_stage_start db j"
  shows "\<exists>v. journey_visits db j = [v] \<and> st_id (sh_stage v) = st_id (jo_stage j) \<and> sh_ended_at v = None \<and>
    jo_stage_started_at j = jo_probation_start j"
  using assms by (cases "journey_visits db j") (auto simp: can_shift_initial_stage_start_def)

lemma edit_Inr:
  assumes "edit_journey j et start comment today db = (Inr j', db')" and "j \<in> set (di_journeys db)" "diary_keys db"
  shows "\<exists>shift f. shift = (can_shift_initial_stage_start db j \<and> jo_probation_start j \<noteq> start) \<and>
    j' = j\<lparr>jo_entry_type := et, jo_probation_start := start, jo_comment := comment,
      jo_stage_started_at := (if shift then start else jo_stage_started_at j)\<rparr> \<and>
    start \<le> today \<and> full_clean db j' today = Inr () \<and> di_stages db' = di_stages db \<and> di_transfers db' = di_transfers db \<and>
    di_journeys db' = map (\<lambda>row. if jo_id row = jo_id j then f row else row) (di_journeys db) \<and> f j = j' \<and>
    di_visits db' = (if shift then map (\<lambda>v. if sh_journey_id v = jo_id j \<and> st_id (sh_stage v) = st_id (jo_stage j) \<and>
      sh_ended_at v = None then v\<lparr>sh_started_at := start\<rparr> else v) (di_visits db) else di_visits db)"
proof -
  let ?shift = "can_shift_initial_stage_start db j \<and> jo_probation_start j \<noteq> start"
  let ?f = "\<lambda>row. row\<lparr>jo_entry_type := et, jo_probation_start := start, jo_comment := comment,
    jo_stage_started_at := (if ?shift then start else jo_stage_started_at row)\<rparr>"
  show ?thesis
    using assms(1)
    by (intro exI [of _ ?shift] exI [of _ ?f])
      (auto simp: edit_journey_def atomic_Inr_iff andthen_Inr_iff op_apply Let_def update_journey_eq edit_errors_def
        split: if_splits)
qed

lemma edit_keeps:
  assumes inv: "diary_inv db today" and mem: "j \<in> set (di_journeys db)" and careful: "careful_edit db j start"
    and edit: "edit_journey j et start comment today db = (r, db')"
  shows "diary_inv db' today"
proof (cases r)
  case (Inl e)
  with edit have "db' = db"
    by (auto simp: edit_journey_def andthen_def [of get_db] op_apply Let_def split: if_splits dest: atomic_rollback)
  with inv show ?thesis by simp
next
  case (Inr j')
  have keys: "diary_keys db" and stages: "stage_rows db" and kept: "journey_kept db j today"
    using inv mem by (auto simp: diary_inv_def)
  from edit_Inr [OF edit [unfolded Inr] mem keys] obtain shift f where
    shift: "shift = (can_shift_initial_stage_start db j \<and> jo_probation_start j \<noteq> start)"
    and j': "j' = j\<lparr>jo_entry_type := et, jo_probation_start := start, jo_comment := comment,
      jo_stage_started_at := (if shift then start else jo_stage_started_at j)\<rparr>"
    and le: "start \<le> today" and clean: "full_clean db j' today = Inr ()"
    and tables: "di_stages db' = di_stages db" "di_transfers db' = di_transfers db"
    and rows: "di_journeys db' = map (\<lambda>row. if jo_id row = jo_id j then f row else row) (di_journeys db)" "f j = j'"
    and visits: "di_visits db' = (if shift then map (\<lambda>v. if sh_journey_id v = jo_id j \<and>
      st_id (sh_stage v) = st_id (jo_stage j) \<and> sh_ended_at v = None then v\<lparr>sh_started_at := start\<rparr> else v)
      (di_visits db) else di_visits db)" by blast
  define g :: "StageHistory \<Rightarrow> StageHistory" where "g = (\<lambda>v. if shift \<and> sh_journey_id v = jo_id j \<and>
      st_id (sh_stage v) = st_id (jo_stage j) \<and> sh_ended_at v = None then v\<lparr>sh_started_at := start\<rparr> else v)"
  have vs: "di_visits db' = map g (di_visits db)" unfolding visits g_def by simp
  have g: "sh_journey_id (g v) = sh_journey_id v" "sh_id (g v) = sh_id v" "sh_stage (g v) = sh_stage v"
    "sh_journey_id v \<noteq> jo_id j \<Longrightarrow> g v = v" for v by (simp_all add: g_def)
  have eff: "effective_history_stage db' j' (g v) = effective_history_stage db j v" for v
    unfolding effective_history_stage_def transfer_of_def tables g j' by simp
  obtain us l stage where h: "journey_visits db j = us @ [l]" "chain (jo_probation_start j) us (jo_stage_started_at j)"
      "sh_started_at l = jo_stage_started_at j" "sh_ended_at l = None"
      "effective_history_stage db j l = Inr stage" "st_id stage = st_id (jo_stage j)"
    and first: "st_group (sh_stage (hd (journey_visits db j))) \<noteq> DONE"
    using kept by (auto simp: journey_kept_def well_kept_def history_kept_def)
  have hist: "history_kept db' j' (journey_visits db' j') \<and>
      sh_stage (hd (journey_visits db' j')) = sh_stage (hd (journey_visits db j)) \<and> outcome_kept j' today"
  proof (cases shift)
    case False
    then have "g = id" by (simp add: g_def fun_eq_iff)
    then have "journey_visits db' j' = journey_visits db j" by (simp add: journey_visits_def vs j')
    moreover have "outcome_kept j' today = outcome_kept j today"
      using False by (simp add: outcome_kept_def j')
    moreover have "start = jo_probation_start j" using careful False by (auto simp: careful_edit_def shift)
    ultimately show ?thesis
      using kept h eff [of l] False \<open>g = id\<close>
      by (auto simp: history_kept_def journey_kept_def well_kept_def j')
  next
    case True
    then obtain v where v: "journey_visits db j = [v]" "st_id (sh_stage v) = st_id (jo_stage j)" "sh_ended_at v = None"
      using can_shift_visits [of db j] by (auto simp: shift)
    have own: "filter (\<lambda>v. sh_journey_id v = jo_id j) (di_visits db) = [v]"
    proof -
      have "length (journey_visits db j) = length (filter (\<lambda>v. sh_journey_id v = jo_id j) (di_visits db))"
        by (simp add: journey_visits_def)
      with v(1) obtain w where w: "filter (\<lambda>v. sh_journey_id v = jo_id j) (di_visits db) = [w]"
        by (cases "filter (\<lambda>v. sh_journey_id v = jo_id j) (di_visits db)") auto
      with v(1) show ?thesis by (simp add: journey_visits_def)
    qed
    then have mem: "v \<in> set (di_visits db)" "sh_journey_id v = jo_id j"
      by (metis (mono_tags, lifting) filter_eq_Cons_iff in_set_conv_decomp)+
    have moved: "journey_visits db' j' = [v\<lparr>sh_started_at := start\<rparr>]"
    proof -
      have "journey_visits db' j' = sort_key (\<lambda>v. (sh_started_at v, sh_id v)) (map g [v])"
        by (simp add: journey_visits_def vs filter_map comp_def g(1) j' own)
      then show ?thesis using v True mem by (simp add: g_def)
    qed
    have "jo_stage j = sh_stage v"
      using same_stage [OF stages] v(2) mem(1) inv \<open>j \<in> set (di_journeys db)\<close>
      by (auto simp: diary_inv_def stage_rows_def image_subset_iff)
    then have "st_group (jo_stage j) \<noteq> DONE" using first v(1) by simp
    then have "outcome_kept j' today"
      using kept by (simp add: outcome_kept_def journey_kept_def well_kept_def j')
    moreover have "g v = v\<lparr>sh_started_at := start\<rparr>" using v True mem by (simp add: g_def)
    ultimately show ?thesis
      using moved v h eff [of v] True by (auto simp: history_kept_def j')
  qed
  have started: "jo_stage_started_at j' \<le> today"
    using le kept by (simp add: j' journey_kept_def well_kept_def)
  have kept': "journey_kept db' j' today"
    using hist started clean_applies [OF clean] first by (simp add: journey_kept_def well_kept_def)
  have row: "k \<in> set (di_journeys db') \<Longrightarrow> k = j' \<or> k \<in> set (di_journeys db) \<and> jo_id k \<noteq> jo_id j" for k
    using updated_rows [OF keys mem, of k f] rows by simp
  have others: "journey_kept db' k today" if "k \<in> set (di_journeys db)" "jo_id k \<noteq> jo_id j" for k
    using other_journey_kept [OF tables _ that(2), where new = "[]" and f = g and today = today] vs g inv that by (auto simp: diary_inv_def)
  have "map jo_id (di_journeys db') = map jo_id (di_journeys db)"
  proof -
    have "jo_id (f x) = jo_id x" if x: "x \<in> set (di_journeys db)" "jo_id x = jo_id j" for x
    proof -
      have "x = j" using same_row [OF keys mem x(1)] x(2) by simp
      then show ?thesis by (simp add: rows(2) j')
    qed
    then show ?thesis by (simp add: rows(1))
  qed
  then have "map jo_id (di_journeys db') = map jo_id (di_journeys db) \<and>
      jo_id ` set (di_journeys db') = jo_id ` set (di_journeys db)"
    by (metis set_map)
  moreover have "map sh_id (di_visits db') = map sh_id (di_visits db)" by (simp add: vs g(2))
  moreover have "sh_id ` set (di_visits db') = sh_id ` set (di_visits db)"
    "sh_journey_id ` set (di_visits db') = sh_journey_id ` set (di_visits db)"
    by (simp_all add: vs g(1,2) image_image)
  ultimately have "diary_keys db'" using keys by (simp add: diary_keys_def tables(2))
  moreover have "jo_stage k \<in> set (di_stages db)" if "k \<in> set (di_journeys db')" for k
    using row [OF that] stages mem by (auto simp: j' stage_rows_def)
  then have "stage_rows db'" using stages tables g(3) by (auto simp: stage_rows_def vs image_subset_iff)
  ultimately show ?thesis using kept' others row by (auto simp: diary_inv_def)
qed

end
