(* ===== verification/Weekly_Metrics.thy ===== *)
theory Weekly_Metrics
  imports Journey_Steps Diary_Assessment
begin

text \<open>
  Weekly metrics (\<^verbatim>\<open>traineediary/views/weekly_metrics.py\<close>, \<^verbatim>\<open>forms/weekly_metrics.py\<close>, and
  \<^verbatim>\<open>save_metric_with_event\<close> of \<^verbatim>\<open>achievements/services/events.py\<close>): the table of weeks that a
  mentor sees and the request that saves one of them. Speeds are tenths of tickets per hour.
\<close>

section \<open>Weeks and stages\<close>

definition TICKET_METRIC_GROUPS :: "StageGroup list" where
  "TICKET_METRIC_GROUPS = [WITH_REVIEW, OPTIONAL_REVIEW, NO_REVIEW]"

definition weekly_metric_value_state :: "nat option \<Rightarrow> nat \<Rightarrow> string" where
  "weekly_metric_value_state value target =
     (case value of None \<Rightarrow> ''empty'' | Some v \<Rightarrow> if target \<le> v then ''success'' else ''warning'')"

definition covers :: "StageHistory \<Rightarrow> date \<Rightarrow> bool" where
  "covers entry target_date \<longleftrightarrow> sh_started_at entry \<le> target_date \<and>
     (case sh_ended_at entry of None \<Rightarrow> True | Some e \<Rightarrow> target_date < e)"

text \<open>The entries are ordered by start and key, so the greatest is the last.\<close>

definition get_stage_for_date :: "TraineeJourney \<Rightarrow> StageHistory list \<Rightarrow> date \<Rightarrow> TraineeStage option" where
  "get_stage_for_date j history target_date =
     (case rev (filter (\<lambda>entry. covers entry target_date) history) of
        entry # _ \<Rightarrow> Some (sh_stage entry)
      | [] \<Rightarrow> if st_group (jo_stage j) \<in> set TICKET_METRIC_GROUPS \<and> jo_stage_started_at j \<le> target_date
          then Some (jo_stage j) else None)"

definition get_ticket_metrics_start_date :: "TraineeJourney \<Rightarrow> StageHistory list \<Rightarrow> date option" where
  "get_ticket_metrics_start_date j history =
     (case map sh_started_at (filter (\<lambda>entry. st_group (sh_stage entry) \<in> set TICKET_METRIC_GROUPS) history) of
        d # ds \<Rightarrow> Some (fold min ds d)
      | [] \<Rightarrow> if st_group (jo_stage j) \<in> set TICKET_METRIC_GROUPS then Some (jo_stage_started_at j) else None)"

definition metric_of_week :: "'a diary_db_scheme \<Rightarrow> pk \<Rightarrow> nat \<Rightarrow> WeeklyMetric option" where
  "metric_of_week db i week = List.find (\<lambda>m. wm_week_number m = week) (journey_metrics db i)"

definition next_week_number :: "'a diary_db_scheme \<Rightarrow> pk \<Rightarrow> nat" where
  "next_week_number db i = fold max (map wm_week_number (journey_metrics db i)) 0 + 1"

definition week_start_of :: "WeeklyMetric option \<Rightarrow> date \<Rightarrow> nat \<Rightarrow> date" where
  "week_start_of metric ticket_start week =
     (case metric of
        Some m \<Rightarrow> (case wm_week_start m of Some d \<Rightarrow> d | None \<Rightarrow> ticket_start + 7 * (int week - 1))
      | None \<Rightarrow> ticket_start + 7 * (int week - 1))"

definition quality_is_fixed :: "TraineeJourney \<Rightarrow> bool" where
  "quality_is_fixed j \<longleftrightarrow> jo_fixed_quality j \<noteq> None"

definition quality_editable :: "TraineeJourney \<Rightarrow> TraineeStage option \<Rightarrow> bool" where
  "quality_editable j stage_for_week \<longleftrightarrow>
     (\<exists>s. stage_for_week = Some s \<and> st_group s = WITH_REVIEW) \<and> st_group (jo_stage j) = WITH_REVIEW \<and>
     \<not> quality_is_fixed j"

section \<open>The table\<close>

record metric_cell =
  mc_week_number :: nat
  mc_metric :: "WeeklyMetric option"
  mc_is_editable :: bool
  mc_is_next_week :: bool
  mc_week_start_date :: date
  mc_stage_for_week :: "TraineeStage option"
  mc_quality_editable :: bool
  mc_speed_state :: string
  mc_quality_state :: string

definition metric_cell_of :: "'a diary_db_scheme \<Rightarrow> TraineeJourney \<Rightarrow> date \<Rightarrow> nat \<Rightarrow> metric_cell" where
  "metric_cell_of db j ticket_start week =
     (let metric = metric_of_week db (jo_id j) week;
          is_next = (metric = None \<and> week = next_week_number db (jo_id j));
          start = week_start_of metric ticket_start week;
          stage = get_stage_for_date j (journey_visits db j) start
      in \<lparr>mc_week_number = week, mc_metric = metric, mc_is_editable = (metric \<noteq> None \<or> is_next),
          mc_is_next_week = is_next, mc_week_start_date = start, mc_stage_for_week = stage,
          mc_quality_editable = quality_editable j stage,
          mc_speed_state = (case metric of None \<Rightarrow> ''empty'' | Some m \<Rightarrow> weekly_metric_value_state (wm_speed m) SPEED_TARGET),
          mc_quality_state = (case metric of None \<Rightarrow> ''empty'' | Some m \<Rightarrow>
            weekly_metric_value_state (wm_quality m) QUALITY_TARGET)\<rparr>)"

text \<open>The rows of the page; \<open>rank\<close> is the place of a user in the order of the names.\<close>

definition metric_journeys :: "(pk \<Rightarrow> nat) \<Rightarrow> 'a diary_db_scheme \<Rightarrow> (TraineeJourney \<times> date) list" where
  "metric_journeys rank db =
     List.map_filter (\<lambda>j. map_option (Pair j) (get_ticket_metrics_start_date j (journey_visits db j)))
       (sort_key (\<lambda>j. rank (jo_user_id j))
         (filter (\<lambda>j. st_group (jo_stage j) \<in> set TICKET_METRIC_GROUPS) (di_journeys db)))"

definition weekly_metrics :: "(pk \<Rightarrow> nat) \<Rightarrow> 'a diary_db_scheme \<Rightarrow> SandboxUser \<Rightarrow> (TraineeJourney \<times> metric_cell list) list result" where
  "weekly_metrics rank db user =
     (if \<not> us_is_staff user then Inl PermissionDenied
      else let journeys = metric_journeys rank db;
          max_week_number = fold max (map (\<lambda>(j, _). next_week_number db (jo_id j)) journeys) 1
      in Inr (map (\<lambda>(j, ticket_start). (j, map (metric_cell_of db j ticket_start) [1..<max_week_number + 1])) journeys))"

section \<open>Saving a week\<close>

text \<open>
  The fields of the request as the form has parsed them: the speed with Python's \<^verbatim>\<open>str\<close> of the
  decimal, and the quality. Values outside the limits of the columns are refused by the form.
\<close>

record metric_form =
  mf_speed :: "(nat \<times> string) option"
  mf_quality :: "nat option"
  mf_comment :: string
  mf_goal :: string

definition metric_form_valid :: "bool \<Rightarrow> metric_form \<Rightarrow> bool" where
  "metric_form_valid quality_required form \<longleftrightarrow>
     (case mf_speed form of None \<Rightarrow> False | Some (v, _) \<Rightarrow> v \<le> 99999) \<and>
     (quality_required \<longrightarrow> (case mf_quality form of None \<Rightarrow> False | Some q \<Rightarrow> q \<le> 100))"

text \<open>\<open>fmt\<close> is \<^verbatim>\<open>isoformat\<close>.\<close>

definition metric_values :: "(date \<Rightarrow> string) \<Rightarrow> WeeklyMetric \<Rightarrow> string option \<Rightarrow> json" where
  "metric_values fmt m speed_text = JObj
     [(''metric_id'', JNum (int (wm_id m))), (''journey_id'', JNum (int (wm_journey_id m))),
      (''week_number'', JNum (int (wm_week_number m))),
      (''week_start_date'', case wm_week_start m of None \<Rightarrow> JNull | Some d \<Rightarrow> JStr (fmt d)),
      (''quality_percent'', case wm_quality m of None \<Rightarrow> JNull | Some q \<Rightarrow> JNum (int q)),
      (''speed_hours'', case speed_text of None \<Rightarrow> JNull | Some s \<Rightarrow> JStr s)]"

text \<open>The outside: the date format, the start of a day, and the identifiers of \<^verbatim>\<open>uuid4\<close>.\<close>

record metric_env =
  me_fmt :: "date \<Rightarrow> string"
  me_at_date :: "date \<Rightarrow> time"
  me_uuid4 :: string

definition store_metric :: "WeeklyMetric \<Rightarrow> WeeklyMetric list \<Rightarrow> WeeklyMetric list" where
  "store_metric m metrics =
     (if list_ex (\<lambda>x. wm_id x = wm_id m) metrics then map (\<lambda>x. if wm_id x = wm_id m then m else x) metrics
      else metrics @ [m])"

text \<open>\<open>previous\<close> is the row of the database, \<open>speed_text\<close> the text of the new speed.\<close>

definition save_metric_with_event ::
    "metric_env \<Rightarrow> WeeklyMetric \<Rightarrow> string \<Rightarrow> SandboxUser \<Rightarrow> (diary_db, unit) op" where
  "save_metric_with_event env metric speed_text actor = atomic (andthen get_db (\<lambda>db.
     if \<not> us_is_staff actor then raise PermissionDenied
     else andthen (get_journey (wm_journey_id metric)) (\<lambda>j.
       let previous = List.find (\<lambda>m. wm_id m = wm_id metric) (di_metrics db);
           before = map_option (\<lambda>m. metric_values (me_fmt env) m (map_option tenths_text (wm_speed m))) previous;
           after = metric_values (me_fmt env) metric (Some speed_text);
           ready_at = (if previous \<noteq> None then None else map_option (\<lambda>d. me_at_date env (d + 7)) (wm_week_start metric))
       in andthen (modify_db (\<lambda>db. db\<lparr>di_metrics := store_metric metric (di_metrics db)\<rparr>)) (\<lambda>_.
          if before = Some after then ret ()
          else andthen (in_sandbox (publish ''weekly_metric'' (str_nat (wm_id metric) @ '':'' @ me_uuid4 env)
              (jo_user_id j) (journey_context j)
              (JObj [(''values'', after), (''previous_values'', case before of None \<Rightarrow> JNull | Some b \<Rightarrow> b),
                (''actor_id'', JNum (int (us_id actor)))]) ready_at)) (\<lambda>_. ret ())))))"

datatype metric_reply = MetricSaved WeeklyMetric | MetricRefused string

definition save_weekly_metric ::
    "metric_env \<Rightarrow> SandboxUser \<Rightarrow> pk \<Rightarrow> nat \<Rightarrow> metric_form \<Rightarrow> (diary_db, metric_reply) op" where
  "save_weekly_metric env user journey_id week form =
     (if \<not> us_is_staff user then raise PermissionDenied
      else andthen (get_journey journey_id) (\<lambda>j. andthen get_db (\<lambda>db.
        if st_group (jo_stage j) \<notin> set TICKET_METRIC_GROUPS then ret (MetricRefused ''not_in_tickets'')
        else if week < 1 then ret (MetricRefused ''week_number'')
        else let existing = metric_of_week db journey_id week
        in if existing = None \<and> week \<noteq> next_week_number db journey_id then ret (MetricRefused ''week_order'')
        else case get_ticket_metrics_start_date j (journey_visits db j) of
          None \<Rightarrow> ret (MetricRefused ''no_ticket_start'')
        | Some ticket_start \<Rightarrow>
            let start = week_start_of existing ticket_start week;
                editable = quality_editable j (get_stage_for_date j (journey_visits db j) start)
            in if \<not> metric_form_valid editable form then ret (MetricRefused ''form'')
            else
              let metric = \<lparr>wm_id = (case existing of None \<Rightarrow> fresh_pk (map wm_id (di_metrics db)) | Some m \<Rightarrow> wm_id m),
                    wm_journey_id = journey_id, wm_week_number = week, wm_week_start = Some start,
                    wm_speed = map_option fst (mf_speed form),
                    wm_quality = (if editable then mf_quality form else Option.bind existing wm_quality),
                    wm_comment = mf_comment form, wm_goal = mf_goal form\<rparr>
              in andthen (save_metric_with_event env metric (case mf_speed form of None \<Rightarrow> [] | Some (_, s) \<Rightarrow> s) user)
                   (\<lambda>_. ret (MetricSaved metric)))))"

section \<open>Frames and cases\<close>

lemma save_metric_cases:
  assumes "save_weekly_metric env user i week form db = (r, db')"
  shows "db' = db \<or> (\<exists>m. r = Inr (MetricSaved m) \<and> di_metrics db' = store_metric m (di_metrics db) \<and>
    di_stages db' = di_stages db \<and> di_journeys db' = di_journeys db \<and> di_visits db' = di_visits db \<and>
    di_transfers db' = di_transfers db \<and> wm_journey_id m = i \<and> wm_week_number m = week \<and>
    (case metric_of_week db i week of
       None \<Rightarrow> week = next_week_number db i \<and> wm_id m = fresh_pk (map wm_id (di_metrics db))
     | Some x \<Rightarrow> wm_id m = wm_id x) \<and>
    (\<exists>j start. List.find (\<lambda>j. jo_id j = i) (di_journeys db) = Some j \<and>
      (\<not> quality_editable j (get_stage_for_date j (journey_visits db j) start) \<longrightarrow>
         wm_quality m = Option.bind (metric_of_week db i week) wm_quality)))"
proof -
  have save: "db2 = db \<or> (v = Inr () \<and> di_metrics db2 = store_metric m (di_metrics db) \<and>
      di_stages db2 = di_stages db \<and> di_journeys db2 = di_journeys db \<and> di_visits db2 = di_visits db \<and>
      di_transfers db2 = di_transfers db)" if "save_metric_with_event env m t u db = (v, db2)" for m t u v db2
  proof (cases v)
    case (Inl e)
    with that show ?thesis using atomic_rollback by (auto simp: save_metric_with_event_def)
  next
    case (Inr x)
    let ?db = "db\<lparr>di_metrics := store_metric m (di_metrics db)\<rparr>"
    have "db2 = ?db \<or> (\<exists>(p :: (sandbox_db, AchievementSourceEvent) op) w. in_sandbox p ?db = (w, db2))"
      using that Inr
      by (auto simp: save_metric_with_event_def atomic_Inr_iff andthen_Inr_iff op_apply get_journey_Inr Let_def
          split: if_splits)
    then have "same_tables ?db db2"
      using keepsD [OF frame_in_sandbox] diary_frame.unchanged by blast
    then show ?thesis by (simp add: Inr same_tables_def)
  qed
  show ?thesis
  proof (cases "db' = db")
    case False
    then obtain j where j: "List.find (\<lambda>j. jo_id j = i) (di_journeys db) = Some j"
      using assms by (auto simp: save_weekly_metric_def andthen_def get_journey_def op_apply split: if_splits option.splits)
    then have g: "get_journey i db = (Inr j, db)" by (simp add: get_journey_def)
    let ?x = "metric_of_week db i week"
    obtain start where t: "get_ticket_metrics_start_date j (journey_visits db j) = Some start"
      and order: "?x = None \<Longrightarrow> week = next_week_number db i"
      using assms False
      by (auto simp: save_weekly_metric_def andthen_def g op_apply Let_def split: if_splits option.splits)
    define d where "d = week_start_of ?x start week"
    define e where "e = quality_editable j (get_stage_for_date j (journey_visits db j) d)"
    define m where "m = \<lparr>wm_id = (case ?x of None \<Rightarrow> fresh_pk (map wm_id (di_metrics db)) | Some m \<Rightarrow> wm_id m),
        wm_journey_id = i, wm_week_number = week, wm_week_start = Some d,
        wm_speed = map_option fst (mf_speed form),
        wm_quality = (if e then mf_quality form else Option.bind ?x wm_quality),
        wm_comment = mf_comment form, wm_goal = mf_goal form\<rparr>"
    have run: "\<exists>tx. andthen (save_metric_with_event env m tx user) (\<lambda>_. ret (MetricSaved m)) db = (r, db')"
      using assms False
      by (auto simp: save_weekly_metric_def andthen_def [of "get_journey i"] g op_apply Let_def andthen_def [of get_db] t
          d_def [symmetric] e_def [symmetric] m_def [symmetric] split: if_splits)
    then obtain tx where run: "andthen (save_metric_with_event env m tx user) (\<lambda>_. ret (MetricSaved m)) db = (r, db')"
      by blast
    obtain v db2 where v: "save_metric_with_event env m tx user db = (v, db2)" by fastforce
    have r: "r = (case v of Inl e \<Rightarrow> Inl e | Inr _ \<Rightarrow> Inr (MetricSaved m))" "db' = db2"
      using run v by (auto simp: andthen_def op_apply split: sum.splits)
    from save [OF v] False r order j show ?thesis
      by (intro disjI2 exI [of _ m] conjI exI [of _ j] exI [of _ d])
        (auto simp: m_def e_def split: option.split)
  qed simp
qed

lemma save_metric_keeps:
  assumes "diary_inv db today" and "save_weekly_metric env user i week form db = (r, db')"
  shows "diary_inv db' today"
  using save_metric_cases [OF assms(2)] assms(1) same_diary by metis

end
