(* ===== verification/Journey_Theorems.thy ===== *)
theory Journey_Theorems
  imports Weekly_Metrics
begin

text \<open>
  The histories of the diary and their guarantees: the integrity check stays silent, a recorded
  result is final, a move takes effect exactly when it is allowed; and the two ways in which the
  forms accept a change that the integrity check objects to.
\<close>

section \<open>Histories of the diary\<close>

text \<open>
  What can happen to the diary, with the day in the state. Journeys are started outside
  the final stage and their start date is edited only while the first visit is open; the last two
  properties of this theory show what happens otherwise.
\<close>

inductive diary_step :: "date \<times> diary_db \<Rightarrow> date \<times> diary_db \<Rightarrow> bool" where
  step_day: "today \<le> today' \<Longrightarrow> diary_step (today, db) (today', db)"
| step_start: "st_group stage \<noteq> DONE \<Longrightarrow>
    start_journey et user_id active start stage comment author today db = (r, db') \<Longrightarrow>
    diary_step (today, db) (today, db')"
| step_move: "move_trainee_stage wb user i payload today db = (m, db') \<Longrightarrow> diary_step (today, db) (today, db')"
| step_complete: "complete_trainee label fmt user i status d comment today db = (c, db') \<Longrightarrow>
    diary_step (today, db) (today, db')"
| step_edit: "j \<in> set (di_journeys db) \<Longrightarrow> careful_edit db j start \<Longrightarrow>
    edit_journey j et start comment today db = (r, db') \<Longrightarrow> diary_step (today, db) (today, db')"
| step_metric: "save_weekly_metric env user i week form db = (w, db') \<Longrightarrow> diary_step (today, db) (today, db')"

inductive_cases diary_stepE: "diary_step (today, db) (today', db')"

lemma diary_step_keeps:
  "diary_step x y \<Longrightarrow> diary_inv (snd x) (fst x) \<Longrightarrow> diary_inv (snd y) (fst y)"
  by (induction rule: diary_step.induct)
    (auto intro: diary_inv_later start_keeps move_view_keeps complete_view_keeps edit_keeps save_metric_keeps)

lemma diary_steps_keep:
  "diary_step\<^sup>*\<^sup>* x y \<Longrightarrow> diary_inv (snd x) (fst x) \<Longrightarrow> diary_inv (snd y) (fst y)"
  by (induction rule: rtranclp_induct) (auto dest: diary_step_keeps)

definition empty_diary :: "diary_db \<Rightarrow> bool" where
  "empty_diary db \<longleftrightarrow> di_journeys db = [] \<and> di_visits db = [] \<and> di_transfers db = [] \<and>
     distinct (map st_id (di_stages db))"

lemma empty_diary_inv: "empty_diary db \<Longrightarrow> diary_inv db today"
  by (simp add: empty_diary_def diary_inv_def diary_keys_def stage_rows_def)

section \<open>Recorded results\<close>

text \<open>What a recorded result consists of.\<close>

definition outcome_of :: "TraineeJourney \<Rightarrow> pk \<times> TraineeStage \<times> string \<times> date option \<times> string \<times> pk option" where
  "outcome_of j = (jo_id j, jo_stage j, jo_completion_status j, jo_completed_at j,
     jo_completion_comment j, jo_completed_by j)"

definition outcomes :: "'a diary_db_scheme \<Rightarrow> (pk \<times> TraineeStage \<times> string \<times> date option \<times> string \<times> pk option) set" where
  "outcomes db = outcome_of ` {j \<in> set (di_journeys db). jo_completion_status j \<noteq> []}"

lemma outcomes_updated:
  assumes keys: "diary_keys db" and mem: "j \<in> set (di_journeys db)"
    and rows: "di_journeys db' = map (\<lambda>row. if jo_id row = jo_id j then f row else row) (di_journeys db)"
    and same: "jo_completion_status j = [] \<or> outcome_of (f j) = outcome_of j"
  shows "outcomes db \<subseteq> outcomes db'"
proof
  fix x assume "x \<in> outcomes db"
  then obtain k where k: "k \<in> set (di_journeys db)" "jo_completion_status k \<noteq> []" and x: "x = outcome_of k"
    by (auto simp: outcomes_def)
  have "outcome_of k \<in> outcome_of ` {j \<in> set (di_journeys db'). jo_completion_status j \<noteq> []}"
  proof (cases "jo_id k = jo_id j")
    case True
    then have kj: "k = j" using same_row [OF keys mem k(1)] by simp
    with same k(2) have "outcome_of (f k) = outcome_of k" by auto
    moreover have "f k \<in> set (di_journeys db')" using k(1) True by (force simp: rows)
    ultimately show ?thesis using k(2) by (intro image_eqI [of _ _ "f k"]) (auto simp: outcome_of_def)
  next
    case False
    then have "k \<in> set (di_journeys db')" using k(1) by (force simp: rows)
    with k(2) show ?thesis by blast
  qed
  then show "x \<in> outcomes db'" by (simp add: x outcomes_def)
qed

lemma outcomes_moved:
  assumes keys: "diary_keys db" and mem: "j \<in> set (di_journeys db)" and status: "jo_completion_status j = []"
    and mv: "move_to_stage j s u nt d today db = (m, db')"
  shows "outcomes db \<subseteq> outcomes db'"
proof (cases "db' = db")
  case False
  with move_to_stage_cases [OF mv] obtain d' j' where e: "enter_stage j s u nt d' today db = (Inr j', db')" by blast
  from enter_stage_Inr [OF e] have "di_journeys db' = map (\<lambda>row. if jo_id row = jo_id j then
      row\<lparr>jo_stage := jo_stage j', jo_stage_started_at := jo_stage_started_at j',
        jo_fixed_quality := jo_fixed_quality j', jo_quality_fixed_at := jo_quality_fixed_at j'\<rparr> else row) (di_journeys db)"
    by blast
  with outcomes_updated [OF keys mem, where f = "\<lambda>row. row\<lparr>jo_stage := jo_stage j',
    jo_stage_started_at := jo_stage_started_at j', jo_fixed_quality := jo_fixed_quality j',
    jo_quality_fixed_at := jo_quality_fixed_at j'\<rparr>"] status show ?thesis by simp
qed simp

lemma outcomes_completed:
  assumes keys: "diary_keys db" and mem: "j \<in> set (di_journeys db)" and status: "jo_completion_status j = []"
    and group: "st_group (jo_stage j) \<noteq> DONE"
    and complete: "complete_probation label fmt j status d u comment today db = (r, db')"
  shows "outcomes db \<subseteq> outcomes db'"
proof (cases "db' = db")
  case False
  with complete_cases [OF complete group] obtain s d jc nt j' db1 db2 where
    jc: "jc = j\<lparr>jo_completion_status := status, jo_completed_at := Some d,
      jo_completion_comment := py_strip comment, jo_completed_by := map_option us_id u\<rparr>"
    and enter: "enter_stage jc s u nt d today db = (Inr j', db1)"
    and upd: "update_journey (jo_id j') (\<lambda>row. row\<lparr>jo_completion_status := jo_completion_status j',
      jo_completed_at := jo_completed_at j', jo_completion_comment := jo_completion_comment j',
      jo_completed_by := jo_completed_by j'\<rparr>) db1 = (Inr (), db2)" and same: "same_tables db2 db'"
    by blast
  from enter_stage_Inr [OF enter] have rows: "jo_id j' = jo_id j \<and>
      di_journeys db1 = map (\<lambda>row. if jo_id row = jo_id j then
      row\<lparr>jo_stage := jo_stage j', jo_stage_started_at := jo_stage_started_at j',
        jo_fixed_quality := jo_fixed_quality j', jo_quality_fixed_at := jo_quality_fixed_at j'\<rparr> else row) (di_journeys db)"
    by (auto simp: jc)
  then have "di_journeys db' = map (\<lambda>row. if jo_id row = jo_id j then
      (row\<lparr>jo_stage := jo_stage j', jo_stage_started_at := jo_stage_started_at j',
        jo_fixed_quality := jo_fixed_quality j', jo_quality_fixed_at := jo_quality_fixed_at j'\<rparr>)
      \<lparr>jo_completion_status := jo_completion_status j',
      jo_completed_at := jo_completed_at j', jo_completion_comment := jo_completion_comment j',
      jo_completed_by := jo_completed_by j'\<rparr> else row) (di_journeys db)"
    using upd same by (auto simp: update_journey_eq same_tables_def)
  with outcomes_updated [OF keys mem, where f = "\<lambda>row. (row\<lparr>jo_stage := jo_stage j',
      jo_stage_started_at := jo_stage_started_at j', jo_fixed_quality := jo_fixed_quality j',
      jo_quality_fixed_at := jo_quality_fixed_at j'\<rparr>)\<lparr>jo_completion_status := jo_completion_status j',
      jo_completed_at := jo_completed_at j', jo_completion_comment := jo_completion_comment j',
      jo_completed_by := jo_completed_by j'\<rparr>"] status show ?thesis by simp
qed simp

lemma complete_view_cases:
  assumes "complete_trainee label fmt user i status d comment today db = (r, db')" and "db' \<noteq> db"
  shows "\<exists>j m. List.find (\<lambda>j. jo_id j = i) (di_journeys db) = Some j \<and> jo_completion_status j = [] \<and>
    complete_probation label fmt j status (Some d) (Some user) (py_strip comment) today db = (m, db')"
  using assms
  by (auto simp: complete_trainee_def andthen_def get_journey_def op_apply catch_def
      split: if_splits option.splits prod.splits sum.splits py_error.splits)

lemma start_journey_cases:
  assumes "start_journey et user_id active start stage comment author today db = (r, db')"
  shows "db' = db \<or> (\<exists>j. di_journeys db' = di_journeys db @ [j])"
proof (cases r)
  case (Inl e)
  with assms show ?thesis
    by (auto simp: start_journey_def andthen_def [of get_db] op_apply split: if_splits dest: atomic_rollback)
next
  case (Inr j)
  with start_Inr [OF assms [unfolded Inr]] show ?thesis by blast
qed

lemma edit_outcomes:
  assumes keys: "diary_keys db" and mem: "j \<in> set (di_journeys db)"
    and edit: "edit_journey j et start comment today db = (r, db')"
  shows "outcomes db \<subseteq> outcomes db'"
proof (cases r)
  case (Inl e)
  with edit have "db' = db"
    by (auto simp: edit_journey_def andthen_def [of get_db] op_apply Let_def split: if_splits dest: atomic_rollback)
  then show ?thesis by simp
next
  case (Inr j')
  from edit_Inr [OF edit [unfolded Inr] mem keys] obtain f where
    f: "di_journeys db' = map (\<lambda>row. if jo_id row = jo_id j then f row else row) (di_journeys db)" "f j = j'"
    and j': "outcome_of j' = outcome_of j" unfolding outcome_of_def by force
  show ?thesis using outcomes_updated [OF keys mem f(1)] f(2) j' by simp
qed

lemma diary_step_outcomes:
  "diary_step x y \<Longrightarrow> diary_inv (snd x) (fst x) \<Longrightarrow> outcomes (snd x) \<subseteq> outcomes (snd y)"
proof (induction rule: diary_step.induct)
  case (step_day today today' db)
  show ?case by simp
next
  case (step_start stage et user_id active start comment author today db r db')
  with start_journey_cases [OF step_start(2)] show ?case by (auto simp: outcomes_def)
next
  case (step_move wb user i payload today db m db')
  then have keys: "diary_keys db" by (simp add: diary_inv_def)
  show ?case
  proof (cases "db' = db")
    case False
    from move_view_cases [OF step_move(1) this] obtain j s nt d m' where
      j: "List.find (\<lambda>j. jo_id j = i) (di_journeys db) = Some j" and "jo_completion_status j = []"
      and "move_to_stage j s (Some user) nt (Some d) today db = (m', db')" by blast
    with outcomes_moved [OF keys] find_Some_member [OF j] show ?thesis unfolding snd_conv by blast
  qed simp
next
  case (step_complete label fmt user i status d comment today db c db')
  then have keys: "diary_keys db" by (simp add: diary_inv_def)
  show ?case
  proof (cases "db' = db")
    case False
    from complete_view_cases [OF step_complete(1) this] obtain j m where
      j: "List.find (\<lambda>j. jo_id j = i) (di_journeys db) = Some j" and s: "jo_completion_status j = []"
      and c: "complete_probation label fmt j status (Some d) (Some user) (py_strip comment) today db = (m, db')" by blast
    have mem: "j \<in> set (di_journeys db)" using find_Some_member [OF j] by simp
    with step_complete(2) have "well_kept db j today" by (simp add: diary_inv_def journey_kept_def)
    with no_completion_data s have "st_group (jo_stage j) \<noteq> DONE" by blast
    with outcomes_completed [OF keys mem s _ c] show ?thesis by simp
  qed simp
next
  case (step_edit j db start et comment today r db')
  then show ?case using edit_outcomes by (simp add: diary_inv_def)
next
  case (step_metric env user i week form db w db' today)
  then have "di_journeys db' = di_journeys db" using save_metric_cases by metis
  then show ?case by (simp add: outcomes_def)
qed

lemma diary_steps_outcomes:
  "diary_step\<^sup>*\<^sup>* x y \<Longrightarrow> diary_inv (snd x) (fst x) \<Longrightarrow> outcomes (snd x) \<subseteq> outcomes (snd y)"
  by (induction rule: rtranclp_induct) (auto dest: diary_step_outcomes diary_steps_keep)

section \<open>When a move is accepted\<close>

lemma in_sandbox_publish:
  assumes "provider \<in> set PROVIDERS" and "source_free (sandbox_db.truncate db) provider external_id"
  shows "\<exists>e db'. in_sandbox (publish provider external_id user_id ctx payload available_at) db = (Inr e, db')"
  using publish_new [OF assms, of user_id ctx payload available_at] by (auto simp: in_sandbox_def)

lemma publish_transition_succeeds:
  assumes "source_free (sandbox_db.truncate db) ''stage_transition'' (str_nat i)"
  shows "\<exists>db'. publish_transition j s u i db = (Inr (), db')"
proof -
  have "''stage_transition'' \<in> set PROVIDERS" by (simp add: PROVIDERS_def)
  note pub = in_sandbox_publish [where db = db, OF this assms]
  show ?thesis
  proof (cases u)
    case (Some actor)
    with pub [of "jo_user_id j" "journey_context j" "JObj [(''history_id'', JNum (int i)),
        (''from_stage_id'', JNum (int (st_id (jo_stage j)))), (''to_stage_id'', JNum (int (st_id s))),
        (''actor_id'', JNum (int (us_id actor)))]" None]
    show ?thesis by (auto simp: publish_transition_def andthen_def op_apply)
  qed (simp add: publish_transition_def op_apply)
qed

lemma move_clean:
  assumes inv: "diary_inv db today" and mem: "j \<in> set (di_journeys db)"
    and status: "jo_completion_status j = []" "jo_completion_comment j = []"
    and s: "s \<in> set (selectable_stages db (jo_scheme j) (jo_entry_type j))"
  shows "full_clean db (apply_quality_stage_transition db p n d (j\<lparr>jo_stage := s, jo_stage_started_at := d\<rparr>)) today = Inr ()"
proof -
  have wk: "well_kept db j today" and keys: "diary_keys db"
    using inv mem by (auto simp: diary_inv_def journey_kept_def)
  note none = no_completion_data [OF wk status(1)]
  have "jo_scheme row = jo_scheme j" if "List.find (\<lambda>row. jo_id row = jo_id j) (di_journeys db) = Some row" for row
    using same_row [OF keys mem] find_Some_member [OF that] by metis
  moreover have "jo_completion_comment (apply_quality_stage_transition db p n d x) = jo_completion_comment x" for x
    by simp
  ultimately show ?thesis
    using none status s
    by (auto simp: full_clean_Inr journey_errors_def has_completion_data_def selectable_stages_iff stage_applies_def
        split: option.split)
qed

lemma enter_stage_succeeds:
  assumes "diary_inv db today" and "j \<in> set (di_journeys db)"
    and "jo_completion_status j = []" "jo_completion_comment j = []"
    and "s \<in> set (selectable_stages db (jo_scheme j) (jo_entry_type j))"
    and free: "source_free (sandbox_db.truncate db) ''stage_transition'' (str_nat (fresh_pk (map sh_id (di_visits db))))"
  shows "\<exists>j' db'. enter_stage j s u nt d today db = (Inr j', db')"
proof -
  have clean: "full_clean db (apply_quality_stage_transition db (jo_stage j) s d
      (j\<lparr>jo_stage := s, jo_stage_started_at := d\<rparr>)) today = Inr ()"
    using move_clean [OF assms(1-5)] .
  let ?j = "apply_quality_stage_transition db (jo_stage j) s d (j\<lparr>jo_stage := s, jo_stage_started_at := d\<rparr>)"
  let ?v = "\<lparr>sh_id = fresh_pk (map sh_id (di_visits db)), sh_journey_id = jo_id j, sh_stage = s,
    sh_started_at = d, sh_ended_at = None, sh_changed_by = map_option us_id u, sh_note = py_strip nt\<rparr>"
  let ?db = "db\<lparr>di_journeys := map (\<lambda>row. if jo_id row = jo_id j then row\<lparr>jo_stage := jo_stage ?j,
      jo_stage_started_at := jo_stage_started_at ?j, jo_fixed_quality := jo_fixed_quality ?j,
      jo_quality_fixed_at := jo_quality_fixed_at ?j\<rparr> else row) (di_journeys db),
    di_visits := map (closed_at d (jo_id j)) (di_visits db) @ [?v]\<rparr>"
  obtain db'' where "publish_transition j s u (sh_id ?v) ?db = (Inr (), db'')"
    using publish_transition_succeeds [of ?db "sh_id ?v" j s u] free by (auto simp: sandbox_db.defs)
  then have "enter_stage j s u nt d today db = (Inr ?j, db'')"
    using clean by (simp add: enter_stage_def atomic_def andthen_def op_apply Let_def close_open_visits_eq
        update_journey_eq create_visit_def comp_def)
  then show ?thesis by blast
qed

lemma move_accepted_iff:
  assumes inv: "diary_inv db today" and mem: "j \<in> set (di_journeys db)"
    and status: "jo_completion_status j = []" "jo_completion_comment j = []"
    and s: "s \<in> set (di_stages db)" "st_id s \<noteq> st_id (jo_stage j)"
    and free: "source_free (sandbox_db.truncate db) ''stage_transition'' (str_nat (fresh_pk (map sh_id (di_visits db))))"
  shows "(\<exists>j' db'. move_to_stage j s u nt (Some d) today db = (Inr j', db')) \<longleftrightarrow>
    st_is_active s \<and> stage_applies s (jo_scheme j) (jo_entry_type j) \<and> jo_stage_started_at j \<le> d \<and> d \<le> today"
proof -
  let ?sel = "selectable_stages db (jo_scheme j) (jo_entry_type j)"
  have stages: "stage_rows db" using inv by (simp add: diary_inv_def)
  have "list_ex (\<lambda>t. st_id t = st_id s) ?sel \<longleftrightarrow> s \<in> set ?sel"
    using same_stage [OF stages s(1)] s(1) by (auto simp: list_ex_iff selectable_stages_iff) metis+
  moreover have "s \<in> set ?sel \<longleftrightarrow> st_is_active s \<and> stage_applies s (jo_scheme j) (jo_entry_type j)"
    using s(1) by (simp add: selectable_stages_iff)
  moreover have "s \<in> set ?sel \<Longrightarrow> \<exists>j' db'. enter_stage j s u nt d today db = (Inr j', db')"
    using enter_stage_succeeds [OF inv mem status _ free] .
  ultimately show ?thesis
    using s(2) by (auto simp: move_to_stage_def andthen_def op_apply Let_def not_less)
qed

lemma move_effect:
  assumes inv: "diary_inv db today" and mem: "j \<in> set (di_journeys db)"
    and other: "st_id s \<noteq> st_id (jo_stage j)"
    and mv: "move_to_stage j s u nt (Some d) today db = (Inr j', db')"
  shows "j' \<in> set (di_journeys db') \<and> jo_stage j' = s \<and> jo_stage_started_at j' = d \<and>
    (\<exists>closed current new. journey_visits db j = closed @ [current] \<and>
       journey_visits db' j = closed @ [current\<lparr>sh_ended_at := Some d\<rparr>, new] \<and>
       sh_stage new = s \<and> sh_started_at new = d \<and> sh_ended_at new = None \<and> sh_changed_by new = map_option us_id u)"
proof -
  have keys: "diary_keys db" and wk: "well_kept db j today"
    using inv mem by (auto simp: diary_inv_def journey_kept_def)
  have hist: "history_kept db j (journey_visits db j)" using wk by (simp add: well_kept_def)
  from move_to_stage_cases [OF mv] other have e: "enter_stage j s u nt d today db = (Inr j', db')"
    and d: "jo_stage_started_at j \<le> d" by auto
  obtain v where v: "sh_id v = fresh_pk (map sh_id (di_visits db))" "sh_journey_id v = jo_id j"
      "sh_started_at v = d" "sh_stage v = s" "sh_ended_at v = None" "sh_changed_by v = map_option us_id u"
    and db': "di_visits db' = map (closed_at d (jo_id j)) (di_visits db) @ [v]"
    and j': "j' = apply_quality_stage_transition db (jo_stage j) s d (j\<lparr>jo_stage := s, jo_stage_started_at := d\<rparr>)"
    and rows: "di_journeys db' = map (\<lambda>row. if jo_id row = jo_id j then row\<lparr>jo_stage := jo_stage j',
        jo_stage_started_at := jo_stage_started_at j', jo_fixed_quality := jo_fixed_quality j',
        jo_quality_fixed_at := jo_quality_fixed_at j'\<rparr> else row) (di_journeys db)"
    using enter_stage_Inr [OF e] by blast
  obtain us l where h: "journey_visits db j = us @ [l]" "chain (jo_probation_start j) us (jo_stage_started_at j)"
    "sh_ended_at l = None"
    using hist by (auto simp: history_kept_def)
  have own: "sh_journey_id l = jo_id j" using set_journey_visits [of db j] h(1) by auto
  have "journey_visits db' j = us @ [l\<lparr>sh_ended_at := Some d\<rparr>, v]"
    using journey_visits_moved [OF keys hist v(1-3) d db'] map_closed_chain [OF h(2)] own h(3)
    by (simp add: h(1) closed_at_def)
  moreover have "j' \<in> set (di_journeys db')"
    using mem moved_row [OF j'] unfolding rows set_map by (intro image_eqI [OF _ mem]) simp
  ultimately show ?thesis using h(1) v by (auto simp: j')
qed

section \<open>A demo diary\<close>

definition demo_stage :: "pk \<Rightarrow> string \<Rightarrow> StageGroup \<Rightarrow> TraineeStage" where
  "demo_stage i slug g = \<lparr>st_id = i, st_slug = slug, st_order = i, st_min_days = 2, st_max_days = 5, st_weight = 10,
     st_group = g, st_is_active = True, st_scope = SCOPE_UNIFIED, st_new_hire = True, st_internal_transfer = False\<rparr>"

definition demo_stages :: "TraineeStage list" where
  "demo_stages = [demo_stage 1 ''sandbox'' SANDBOX_L1, demo_stage 2 ''review'' WITH_REVIEW, demo_stage 3 ''done'' DONE]"

definition demo_diary :: diary_db where
  "demo_diary = \<lparr>sb_boundary = None, sb_users = [], sb_queues = [], sb_tasks = [], sb_attempts = [], sb_check_runs = [],
     sb_completions = [], sb_manifests = [], sb_coverage = [], sb_gaps = [], sb_executions = [],
     sb_check_events = [], sb_env_events = [], sb_submissions = [], sb_reviews = [], sb_source_events = [],
     di_stages = demo_stages, di_journeys = [], di_visits = [], di_metrics = [], di_transfers = [], di_confirmations = []\<rparr>"

definition demo_staff :: SandboxUser where
  "demo_staff = \<lparr>us_id = 2, us_is_staff = True, us_date_joined = 0\<rparr>"

definition demo_journey :: TraineeJourney where
  "demo_journey = (new_journey 9 NEW_HIRE 100 (demo_stage 1 ''sandbox'' SANDBOX_L1) [])\<lparr>jo_id := 1\<rparr>"

definition demo_visit :: StageHistory where
  "demo_visit = \<lparr>sh_id = 1, sh_journey_id = 1, sh_stage = demo_stage 1 ''sandbox'' SANDBOX_L1, sh_started_at = 100,
     sh_ended_at = None, sh_changed_by = Some 2, sh_note = []\<rparr>"

definition demo_started :: diary_db where
  "demo_started = demo_diary\<lparr>di_journeys := [demo_journey], di_visits := [demo_visit]\<rparr>"

lemmas demo_diary_defs = demo_diary_def demo_started_def demo_stages_def demo_stage_def demo_journey_def demo_visit_def
  demo_staff_def new_journey_def

lemma demo_stage_simps [simp]:
  "di_stages demo_diary = demo_stages" "di_journeys demo_diary = []" "di_visits demo_diary = []" "di_transfers demo_diary = []"
  by (simp_all add: demo_diary_def)

lemma demo_stage_group [simp]: "st_group (demo_stage i slug g) = g" "st_id (demo_stage i slug g) = i"
  by (simp_all add: demo_stage_def)

lemma demo_selectable:
  "selectable_stages (db :: diary_db) SCHEME_UNIFIED NEW_HIRE = demo_stages" if "di_stages db = demo_stages"
  by (simp add: selectable_stages_def that by_order_def demo_stages_def demo_stage_def)

lemma demo_start:
  "start_journey NEW_HIRE 9 True 100 (demo_stage 1 ''sandbox'' SANDBOX_L1) [] (Some 2) 110 demo_diary =
     (Inr demo_journey, demo_started)"
  by (simp add: start_journey_def andthen_def op_apply demo_selectable atomic_def create_journey_def create_visit_def
      sign_first_visit_def fresh_pk_def demo_started_def demo_journey_def demo_visit_def Let_def new_journey_def)
    (simp add: demo_stages_def)

lemma demo_empty: "empty_diary demo_diary"
  by (simp add: empty_diary_def demo_stages_def demo_stage_def)

lemma demo_history: "diary_step\<^sup>*\<^sup>* (110, demo_diary) (110, demo_started)"
  using step_start [OF _ demo_start] by (intro r_into_rtranclp) (simp add: demo_stage_def)

lemma demo_started_inv: "diary_inv demo_started 110"
  using diary_steps_keep [OF demo_history] empty_diary_inv [OF demo_empty] by simp

text \<open>The trainee moves to the review on day 105, and completes the probation on day 108.\<close>

definition demo_moved_journey :: TraineeJourney where
  "demo_moved_journey = demo_journey\<lparr>jo_stage := demo_stage 2 ''review'' WITH_REVIEW, jo_stage_started_at := 105\<rparr>"

definition demo_moved :: diary_db where
  "demo_moved = demo_diary\<lparr>di_journeys := [demo_moved_journey],
     di_visits := [demo_visit\<lparr>sh_ended_at := Some 105\<rparr>,
       \<lparr>sh_id = 2, sh_journey_id = 1, sh_stage = demo_stage 2 ''review'' WITH_REVIEW, sh_started_at = 105,
        sh_ended_at = None, sh_changed_by = None, sh_note = []\<rparr>]\<rparr>"

lemma demo_clean [simp]: "full_clean demo_started demo_moved_journey 110 = Inr ()"
  by (simp add: full_clean_def journey_errors_def has_completion_data_def applies_to_entry_type_def stage_applies_def
      demo_moved_journey_def demo_started_def demo_journey_def new_journey_def demo_stage_def)

lemma demo_move:
  "move_to_stage demo_journey (demo_stage 2 ''review'' WITH_REVIEW) None [] (Some 105) 110 demo_started =
     (Inr demo_moved_journey, demo_moved)"
proof -
  have q: "apply_quality_stage_transition demo_started (jo_stage demo_journey) (demo_stage 2 ''review'' WITH_REVIEW) 105
      (demo_journey\<lparr>jo_stage := demo_stage 2 ''review'' WITH_REVIEW, jo_stage_started_at := 105\<rparr>) = demo_moved_journey"
    by (simp add: apply_quality_stage_transition_def demo_moved_journey_def demo_journey_def new_journey_def demo_stage_def)
  have sel: "selectable_stages demo_started (jo_scheme demo_journey) (jo_entry_type demo_journey) = demo_stages"
    using demo_selectable [of demo_started] by (simp add: demo_started_def demo_journey_def new_journey_def)
  have "enter_stage demo_journey (demo_stage 2 ''review'' WITH_REVIEW) None [] 105 110 demo_started =
      (Inr demo_moved_journey, demo_moved)"
    by (simp add: enter_stage_def q atomic_def andthen_def op_apply Let_def close_open_visits_eq update_journey_eq
        create_visit_def publish_transition_def)
      (simp add: demo_started_def demo_moved_def demo_moved_journey_def demo_journey_def new_journey_def demo_visit_def
        closed_at_def fresh_pk_def py_strip_def apply_quality_stage_transition_def numeral_2_eq_2)
  then show ?thesis
    using sel by (simp add: move_to_stage_def andthen_def op_apply Let_def)
      (simp add: demo_journey_def new_journey_def demo_stages_def demo_stage_def)
qed

lemma demo_moved_inv: "diary_inv demo_moved 110"
proof -
  have "enter_stage demo_journey (demo_stage 2 ''review'' WITH_REVIEW) None [] 105 110 demo_started =
      (Inr demo_moved_journey, demo_moved)"
    using move_to_stage_cases [OF demo_move] by (auto simp: demo_moved_journey_def demo_journey_def new_journey_def demo_stage_def)
  from move_keeps [OF demo_started_inv _ _ _ _ _ _ this] show ?thesis
    by (simp add: demo_started_def demo_journey_def new_journey_def demo_stages_def demo_stage_def)
qed

definition demo_completed_journey :: TraineeJourney where
  "demo_completed_journey = demo_moved_journey\<lparr>jo_stage := demo_stage 3 ''done'' DONE, jo_stage_started_at := 108,
     jo_completion_status := COMPLETION_SUCCESS, jo_completed_at := Some 108, jo_completed_by := Some 2\<rparr>"

definition demo_completed :: diary_db where
  "demo_completed = demo_diary\<lparr>di_journeys := [demo_completed_journey],
     di_visits := [demo_visit\<lparr>sh_ended_at := Some 105\<rparr>,
       \<lparr>sh_id = 2, sh_journey_id = 1, sh_stage = demo_stage 2 ''review'' WITH_REVIEW, sh_started_at = 105,
        sh_ended_at = Some 108, sh_changed_by = None, sh_note = []\<rparr>,
       \<lparr>sh_id = 3, sh_journey_id = 1, sh_stage = demo_stage 3 ''done'' DONE, sh_started_at = 108,
        sh_ended_at = None, sh_changed_by = Some 2, sh_note = []\<rparr>]\<rparr>"

lemma demo_completed_inv: "diary_inv demo_completed 110"
proof -
  have visits: "journey_visits demo_completed demo_completed_journey = di_visits demo_completed"
    by (simp add: journey_visits_def demo_completed_def demo_completed_journey_def demo_moved_journey_def demo_journey_def
        new_journey_def demo_visit_def)
  have "transfer_of demo_completed demo_completed_journey = None" by (simp add: transfer_of_def demo_completed_def)
  then have "history_kept demo_completed demo_completed_journey (di_visits demo_completed)"
    unfolding history_kept_def
    by (intro exI [of _ "butlast (di_visits demo_completed)"] exI [of _ "last (di_visits demo_completed)"])
      (simp add: effective_stage_plain demo_completed_def demo_completed_journey_def demo_moved_journey_def
        demo_journey_def new_journey_def demo_visit_def)
  moreover have "outcome_kept demo_completed_journey 110" "jo_stage_started_at demo_completed_journey \<le> 110"
    "stage_applies (jo_stage demo_completed_journey) (jo_scheme demo_completed_journey) (jo_entry_type demo_completed_journey)"
    by (simp_all add: outcome_kept_def stage_applies_def applies_to_entry_type_def demo_completed_journey_def
        demo_moved_journey_def demo_journey_def new_journey_def demo_stage_def completion_values_def
        COMPLETION_SUCCESS_def COMPLETION_TERMINATED_def)
  moreover have "st_group (sh_stage (hd (di_visits demo_completed))) \<noteq> DONE"
    by (simp add: demo_completed_def demo_visit_def)
  ultimately have "journey_kept demo_completed demo_completed_journey 110"
    by (simp add: journey_kept_def well_kept_def visits)
  moreover have "diary_keys demo_completed \<and> stage_rows demo_completed"
    by (simp add: diary_keys_def stage_rows_def demo_completed_def demo_completed_journey_def demo_moved_journey_def
        demo_journey_def new_journey_def demo_visit_def demo_stages_def)
  ultimately show ?thesis by (simp add: diary_inv_def demo_completed_def)
qed

section \<open>Properties\<close>

text \<open>
  C34. The integrity check decides its specification: \<^verbatim>\<open>check_journey_integrity\<close> reports nothing
  exactly on journeys that are well kept: closed visits lead without a gap from the start of the
  probation to the one open visit, which is the current stage since the date on the card, and a
  result stands exactly on the journeys in the final stage, dated with its start.
\<close>

theorem integrity_check_decides_specification:
  "check_journey_integrity db j today = Inr [] \<longleftrightarrow> well_kept db j today"
  by (rule integrity_iff)





text \<open>
  C35. A move is accepted exactly when it is allowed: for a journey without a result, a move to another
  stage of the catalog is carried out if and only if the stage is active, applies to the scheme and
  entry type of the journey, and the date is neither before the current stage nor in the future.
\<close>

theorem stage_move_accepted_iff:
  assumes "diary_inv db today" and "j \<in> set (di_journeys db)"
    and "jo_completion_status j = []" and "jo_completion_comment j = []"
    and "s \<in> set (di_stages db)" and "st_id s \<noteq> st_id (jo_stage j)"
    and "source_free (sandbox_db.truncate db) ''stage_transition'' (str_nat (fresh_pk (map sh_id (di_visits db))))"
  shows "(\<exists>j' db'. move_to_stage j s u nt (Some d) today db = (Inr j', db')) \<longleftrightarrow>
    st_is_active s \<and> stage_applies s (jo_scheme j) (jo_entry_type j) \<and> jo_stage_started_at j \<le> d \<and> d \<le> today"
  by (rule move_accepted_iff [OF assms])

theorem stage_move_accepted_iff_witness:
  "\<exists>j' db'. move_to_stage demo_journey (demo_stage 2 ''review'' WITH_REVIEW) (Some demo_staff) [] (Some 105) 110 demo_started =
     (Inr j', db')"
  using stage_move_accepted_iff [OF demo_started_inv, of demo_journey "demo_stage 2 ''review'' WITH_REVIEW"
      "Some demo_staff" "[]" 105]
  by (simp add: demo_started_def demo_journey_def new_journey_def demo_stages_def source_free_def sandbox_db.defs demo_diary_def)
    (simp add: demo_stage_def stage_applies_def applies_to_entry_type_def)

text \<open>
  An accepted move takes effect: the card shows the new stage since the date of the move, the
  open visit is closed on that day and the new one follows it; no other visit of the history changes.
\<close>

theorem stage_move_takes_effect:
  assumes "diary_inv db today" and "j \<in> set (di_journeys db)" and "st_id s \<noteq> st_id (jo_stage j)"
    and "move_to_stage j s u nt (Some d) today db = (Inr j', db')"
  shows "j' \<in> set (di_journeys db') \<and> jo_stage j' = s \<and> jo_stage_started_at j' = d \<and>
    (\<exists>closed current new. journey_visits db j = closed @ [current] \<and>
       journey_visits db' j = closed @ [current\<lparr>sh_ended_at := Some d\<rparr>, new] \<and>
       sh_stage new = s \<and> sh_started_at new = d \<and> sh_ended_at new = None \<and> sh_changed_by new = map_option us_id u)"
  by (rule move_effect [OF assms])

theorem stage_move_takes_effect_witness:
  "\<exists>closed current new. journey_visits demo_started demo_journey = closed @ [current] \<and>
     journey_visits demo_moved demo_journey = closed @ [current\<lparr>sh_ended_at := Some 105\<rparr>, new] \<and>
     sh_started_at new = 105"
  using stage_move_takes_effect [OF demo_started_inv _ _ demo_move]
  by (auto simp: demo_started_def demo_journey_def new_journey_def)

text \<open>
  C37. Editing the start date after a transition breaks the history: \<^verbatim>\<open>EditTraineeForm\<close> accepts
  an earlier start of the probation for a journey that has left its first visit, and the integrity
  check then reports that the first visit does not start with the probation.
\<close>

theorem edit_start_date_breaks_history:
  assumes "diary_inv db today" and "j \<in> set (di_journeys db)" and "\<not> careful_edit db j start"
    and "edit_journey j et start comment today db = (Inr j', db')"
  shows "\<exists>issues. check_journey_integrity db' j' today = Inr issues \<and> ''FIRST_HISTORY_DATE_MISMATCH'' \<in> set issues"
proof -
  have keys: "diary_keys db" and wk: "well_kept db j today"
    using assms(1,2) by (auto simp: diary_inv_def journey_kept_def)
  have start: "start \<noteq> jo_probation_start j" "\<not> can_shift_initial_stage_start db j"
    using assms(3) by (auto simp: careful_edit_def)
  have j': "jo_id j' = jo_id j" "jo_probation_start j' = start" "jo_scheme j' = jo_scheme j" "jo_stage j' = jo_stage j"
    and tables: "di_stages db' = di_stages db" "di_transfers db' = di_transfers db" "di_visits db' = di_visits db"
    using edit_Inr [OF assms(4,2) keys] start by auto
  have visits: "journey_visits db' j' = journey_visits db j" by (simp add: journey_visits_def j' tables)
  obtain us l stage where h: "journey_visits db j = us @ [l]" "chain (jo_probation_start j) us (jo_stage_started_at j)"
      "sh_started_at l = jo_stage_started_at j" "sh_ended_at l = None" "effective_history_stage db j l = Inr stage"
    using wk by (auto simp: well_kept_def history_kept_def)
  have "filter (\<lambda>v. sh_ended_at v = None) us = []" using chain_closed [OF h(2)] by (simp add: filter_empty_conv)
  moreover have "effective_history_stage db' j' l = Inr stage"
    using h(5) unfolding effective_history_stage_def transfer_of_def tables j' .
  moreover have "sh_started_at (hd (us @ [l])) = jo_probation_start j" using h(2,3) by (cases us) auto
  ultimately show ?thesis
    using start(1) h(4)
    by (simp add: check_journey_integrity_def history_issues_def open_entry_issues_def visits h(1) j'(2))
      (simp add: issue_def)
qed

theorem edit_start_date_breaks_history_witness:
  "\<exists>j' db' issues. edit_journey demo_moved_journey NEW_HIRE 90 [] 110 demo_moved = (Inr j', db') \<and>
     check_journey_integrity db' j' 110 = Inr issues \<and> ''FIRST_HISTORY_DATE_MISMATCH'' \<in> set issues"
proof -
  have shift: "\<not> can_shift_initial_stage_start demo_moved demo_moved_journey"
    by (simp add: can_shift_initial_stage_start_def demo_moved_journey_def demo_journey_def new_journey_def)
  have clean: "full_clean demo_moved (demo_moved_journey\<lparr>jo_entry_type := NEW_HIRE, jo_probation_start := 90, jo_comment := []\<rparr>)
      110 = Inr ()"
    by (simp add: full_clean_def journey_errors_def has_completion_data_def applies_to_entry_type_def stage_applies_def
        demo_moved_journey_def demo_moved_def demo_journey_def new_journey_def demo_stage_def)
  have "\<exists>j' db'. edit_journey demo_moved_journey NEW_HIRE 90 [] 110 demo_moved = (Inr j', db')"
    using clean shift
    by (simp add: edit_journey_def edit_errors_def andthen_def op_apply Let_def atomic_def update_journey_eq)
      (simp add: demo_moved_journey_def demo_journey_def new_journey_def demo_stage_def applies_to_entry_type_def)
  then obtain j' db' where edit: "edit_journey demo_moved_journey NEW_HIRE 90 [] 110 demo_moved = (Inr j', db')" by blast
  have "\<not> careful_edit demo_moved demo_moved_journey 90"
    using shift by (simp add: careful_edit_def demo_moved_journey_def demo_journey_def new_journey_def)
  from edit_start_date_breaks_history [OF demo_moved_inv _ this edit] edit show ?thesis
    by (simp add: demo_moved_def)
qed

text \<open>
  A journey can be started in the final stage, and the integrity check objects to it from the
  first day on: the choices of the start form include the final stage, which has no result there.
\<close>

theorem start_in_final_stage_is_not_kept:
  assumes "start_journey et user_id active start stage comment author today db = (Inr j, db')" and "st_group stage = DONE"
  shows "check_journey_integrity db' j today' \<noteq> Inr []"
proof -
  have "jo_stage j = stage" "jo_completion_status j = []"
    using start_Inr [OF assms(1)] by (auto simp: new_journey_def)
  then show ?thesis using assms(2) by (auto simp: integrity_iff well_kept_def outcome_kept_def)
qed

theorem start_in_final_stage_is_not_kept_witness:
  "\<exists>j db'. start_journey NEW_HIRE 9 True 100 (demo_stage 3 ''done'' DONE) [] (Some 2) 110 demo_diary = (Inr j, db') \<and>
     check_journey_integrity db' j 110 \<noteq> Inr []"
proof -
  have "\<exists>j db'. start_journey NEW_HIRE 9 True 100 (demo_stage 3 ''done'' DONE) [] (Some 2) 110 demo_diary = (Inr j, db')"
    by (simp add: start_journey_def andthen_def op_apply demo_selectable atomic_def create_journey_def create_visit_def
        sign_first_visit_def Let_def demo_stages_def)
  then obtain j db' where start:
    "start_journey NEW_HIRE 9 True 100 (demo_stage 3 ''done'' DONE) [] (Some 2) 110 demo_diary = (Inr j, db')" by blast
  from start_in_final_stage_is_not_kept [OF this] start show ?thesis by auto
qed

end
