(* ===== verification/Assessment_Theorems.thy ===== *)
theory Assessment_Theorems
  imports Diary_Assessment Journey_Theorems
begin

text \<open>
  What the diary says about a trainee is right: readiness for the next stage against a
  specification over the tables, and the progress of a journey as a percentage.
\<close>

section \<open>Progress\<close>

text \<open>Rounding to significant digits keeps an integer upper bound.\<close>

lemma round_sig_le:
  assumes "round_sig b p n d = (q, k)" and "0 < d" and "n \<le> c * d"
  shows "q \<le> c * b ^ k"
proof -
  have "q = round_half_even (n * b ^ k) d" using assms(1) by (auto simp: round_sig_def Let_def)
  moreover have "n * b ^ k \<le> c * b ^ k * d" using mult_le_mono1 [OF assms(3), of "b ^ k"] by (simp add: ac_simps)
  ultimately show ?thesis using round_half_even_le [OF assms(2)] by simp
qed

lemma stage_fraction_le: "fst (stage_fraction days max_days) \<le> 2 ^ snd (stage_fraction days max_days)"
  by (simp add: stage_fraction_def Let_def)

lemma weighted_percent_le:
  assumes "before + current \<le> total_weight" and "0 < total_weight" and "fst fraction \<le> 2 ^ snd fraction"
  shows "weighted_percent before current fraction total_weight \<le> 100"
proof -
  obtain q1 k1 where s1: "float_scale fraction current = (q1, k1)" by fastforce
  obtain q2 k2 where s2: "float_add_nat before (q1, k1) = (q2, k2)" by fastforce
  obtain q3 k3 where s3: "float_div_by (q2, k2) total_weight = (q3, k3)" by fastforce
  obtain q4 k4 where s4: "float_scale (q3, k3) 100 = (q4, k4)" by fastforce
  have "fst fraction * current \<le> current * 2 ^ snd fraction" using assms(3) by simp
  then have q1: "q1 \<le> current * 2 ^ k1" using round_sig_le s1 by (fastforce simp: float_scale_def)
  then have "before * 2 ^ k1 + q1 \<le> (before + current) * 2 ^ k1" by (simp add: algebra_simps)
  then have q2: "q2 \<le> (before + current) * 2 ^ k2" using round_sig_le s2 by (fastforce simp: float_add_nat_def)
  also have "\<dots> \<le> total_weight * 2 ^ k2" using assms(1) by simp
  finally have "q2 \<le> 1 * (total_weight * 2 ^ k2)" by simp
  then have q3: "q3 \<le> 1 * 2 ^ k3"
    using s3 assms(2) by (intro round_sig_le [where n = q2 and p = FLOAT_PREC]) (auto simp: float_div_by_def)
  then have "q3 * 100 \<le> 100 * 2 ^ k3" by simp
  then have "q4 \<le> 100 * 2 ^ k4" using round_sig_le s4 by (fastforce simp: float_scale_def)
  then have "round_half_even q4 (2 ^ k4) \<le> 100" by (intro round_half_even_le) simp_all
  then show ?thesis by (simp add: weighted_percent_def s1 s2 s3 s4 float_round_def)
qed

lemma sum_filter_and_one:
  fixes f :: "'b \<Rightarrow> nat"
  assumes "x \<in> set xs" and "\<not> P x"
  shows "sum_list (map f (filter P xs)) + f x \<le> sum_list (map f xs)"
  using assms
proof (induction xs)
  case (Cons y xs)
  then show ?case
    using sum_list_filter_le_nat [of f P xs] by (cases "x = y") auto
qed simp

lemma journey_stages_own:
  assumes "jo_stage j \<in> set (di_stages db)"
  shows "jo_stage j \<in> set (journey_stages db j [st_id (jo_stage j)])"
  using assms by (simp add: journey_stages_def by_order_def)

lemma stage_progress_le:
  assumes "jo_stage j \<in> set (di_stages db)"
  shows "stage_progress db j today \<le> 100"
proof -
  let ?xs = "journey_stages db j [st_id (jo_stage j)]"
  note own = journey_stages_own [OF assms]
  have sum: "sum_list (map st_weight (filter (\<lambda>s. st_order s < st_order (jo_stage j)) ?xs)) + st_weight (jo_stage j)
      \<le> sum_list (map st_weight ?xs)"
    using own by (intro sum_filter_and_one) simp_all
  have "list_ex (\<lambda>s. st_id s = st_id (jo_stage j)) ?xs" using own by (auto simp: list_ex_iff)
  moreover obtain total where total: "total = sum_list (map st_weight ?xs)" by blast
  moreover obtain before where before: "before = sum_list (map st_weight (filter (\<lambda>s. st_order s < st_order (jo_stage j)) ?xs))"
    by blast
  moreover have "before + st_weight (jo_stage j) \<le> total" using sum unfolding total before .
  ultimately show ?thesis
    unfolding stage_progress_def Let_def total [symmetric] before [symmetric]
    by (intro weighted_percent_le) (use stage_fraction_le in auto)
qed

section \<open>Readiness\<close>

definition latest_at_least :: "'a diary_db_scheme \<Rightarrow> TraineeJourney \<Rightarrow> (WeeklyMetric \<Rightarrow> nat option) \<Rightarrow> nat \<Rightarrow> bool" where
  "latest_at_least db j f target \<longleftrightarrow> (\<exists>m v. get_latest_metric db j f = Some m \<and> f m = Some v \<and> target \<le> v)"

text \<open>When a trainee may go on, over the tables.\<close>

definition may_advance :: "'a diary_db_scheme \<Rightarrow> TraineeJourney \<Rightarrow> date \<Rightarrow> bool" where
  "may_advance db j today \<longleftrightarrow> st_group (jo_stage j) \<noteq> DONE \<and> next_stage db j \<noteq> None \<and>
     (case st_group (jo_stage j) of
        SANDBOX_L1 \<Rightarrow> (\<exists>queue. active_queue (sandbox_db.truncate db) PROGRAM_KEY = Some queue \<and>
          active_tasks (sandbox_db.truncate db) queue \<noteq> [] \<and>
          (\<forall>t \<in> set (active_tasks (sandbox_db.truncate db) queue).
             \<exists>a. credit_attempt (sandbox_db.truncate db) (jo_user_id j) (tk_id t) = Some a \<and>
               technical_passed (sandbox_db.truncate db) a))
      | WITH_REVIEW \<Rightarrow> int (st_min_days (jo_stage j)) \<le> days_on_stage j today \<and> latest_at_least db j wm_quality QUALITY_TARGET
      | NO_REVIEW \<Rightarrow> int (st_min_days (jo_stage j)) \<le> days_on_stage j today \<and>
          days_left_until_probation_end j today \<le> 0 \<and> latest_at_least db j wm_speed SPEED_TARGET
      | _ \<Rightarrow> st_slug (jo_stage j) \<noteq> ''training-program'' \<and> int (st_min_days (jo_stage j)) \<le> days_on_stage j today)"

lemma get_latest_metric_value:
  assumes "get_latest_metric db j f = Some m"
  shows "f m \<noteq> None"
proof -
  let ?xs = "filter (\<lambda>m. wm_journey_id m = jo_id j \<and> f m \<noteq> None) (di_metrics db)"
  obtain ms where ms: "rev (sort_key (\<lambda>m. (wm_week_number m, wm_id m)) ?xs) = m # ms"
    using assms unfolding get_latest_metric_def
    by (cases "rev (sort_key (\<lambda>m. (wm_week_number m, wm_id m)) ?xs)") simp_all
  have "m \<in> set (rev (sort_key (\<lambda>m. (wm_week_number m, wm_id m)) ?xs))" unfolding ms by simp
  then have "m \<in> set ?xs" by (simp only: set_rev set_sort)
  then show ?thesis by simp
qed

lemma metric_reasons_Nil: "metric_reasons db j f target missing below = [] \<longleftrightarrow> latest_at_least db j f target"
proof (cases "get_latest_metric db j f")
  case (Some m)
  with get_latest_metric_value [OF Some] show ?thesis
    by (auto simp: metric_reasons_def latest_at_least_def not_less)
qed (simp add: metric_reasons_def latest_at_least_def)

lemma minimum_reasons_Nil: "minimum_reasons j today = [] \<longleftrightarrow> int (st_min_days (jo_stage j)) \<le> days_on_stage j today"
  by (auto simp: minimum_reasons_def days_until_minimum_def)

lemma readiness_states [simp]:
  "rs_state (ready n) = ''ready''" "rs_state (almost_ready r n) = ''almost_ready''" "rs_state (not_ready r n) = ''not_ready''"
  by (simp_all add: ready_def almost_ready_def not_ready_def)

lemma sandbox_ready_iff:
  assumes "attempts_unique db"
    and tasks: "\<And>queue. active_queue db PROGRAM_KEY = Some queue \<Longrightarrow> distinct (map tk_id (active_tasks db queue))"
  shows "rs_state (build_sandbox_readiness (build_sandbox_queue_progress db u PROGRAM_KEY) n) = ''ready'' \<longleftrightarrow>
    (\<exists>queue. active_queue db PROGRAM_KEY = Some queue \<and> active_tasks db queue \<noteq> [] \<and>
       (\<forall>t \<in> set (active_tasks db queue). \<exists>a. credit_attempt db u (tk_id t) = Some a \<and> technical_passed db a))"
proof (cases "active_queue db PROGRAM_KEY")
  case None
  then show ?thesis
    by (simp add: build_sandbox_readiness_def build_sandbox_queue_progress_def build_sandbox_queue_progress_map_def
        empty_progress_def)
next
  case (Some queue)
  show ?thesis
  proof (cases "active_tasks db queue = []")
    case True
    with Some show ?thesis
      by (simp add: build_sandbox_readiness_def build_sandbox_queue_progress_def build_sandbox_queue_progress_map_def
          empty_progress_def)
  next
    case False
    let ?ids = "map tk_id (active_tasks db queue)"
    note p = build_progress_active [OF Some False, of u]
    note counts = user_progress_counts [OF assms(1) refl, of queue ?ids u]
    have "qp_queue_exists (user_progress db queue ?ids u)" by (simp add: user_progress_def Let_def)
    moreover have "completed_tasks db u ?ids = set ?ids \<longleftrightarrow>
        (\<forall>t \<in> set (active_tasks db queue). \<exists>a. credit_attempt db u (tk_id t) = Some a \<and> technical_passed db a)"
      by (auto simp: completed_tasks_def)
    ultimately show ?thesis
      using False Some completed_tasks_card(2) [OF tasks [OF Some], of db u]
      by (simp add: build_sandbox_readiness_def p counts)
  qed
qed

lemma ready_iff:
  assumes "attempts_unique (sandbox_db.truncate db)"
    and "\<And>queue. active_queue (sandbox_db.truncate db) PROGRAM_KEY = Some queue \<Longrightarrow>
      distinct (map tk_id (active_tasks (sandbox_db.truncate db) queue))"
  shows "rs_state (build_readiness_summary db j None today) = ''ready'' \<longleftrightarrow> may_advance db j today"
proof (cases "next_stage db j")
  case None
  then show ?thesis by (simp add: build_readiness_summary_def may_advance_def)
next
  case (Some s)
  have days: "days_until_minimum j today = 0 \<longleftrightarrow> int (st_min_days (jo_stage j)) \<le> days_on_stage j today"
    by (auto simp: days_until_minimum_def)
  show ?thesis
    using Some sandbox_ready_iff [OF assms]
    by (cases "st_group (jo_stage j)")
      (auto simp: build_readiness_summary_def may_advance_def build_time_based_readiness_def build_with_review_readiness_def
        build_no_review_readiness_def Let_def days metric_reasons_Nil minimum_reasons_Nil not_less)
qed

section \<open>Properties\<close>



text \<open>
  C39. The progress of a journey is a percentage, whatever weights the catalog has and whatever the
  floating-point arithmetic rounds: in a diary whose frozen bases are sums of weights, it is at most
  100, and 100 in the final stage.
\<close>

theorem journey_progress_bounds:
  assumes "stage_rows db" and "j \<in> set (di_journeys db)"
    and "\<forall>tr \<in> set (di_transfers db). pb_weight_before (tr_progress_basis tr) + pb_current_weight (tr_progress_basis tr)
      \<le> max (pb_total_weight (tr_progress_basis tr)) 1"
  shows "journey_progress_percent db j today \<le> 100 \<and>
    (st_group (jo_stage j) = DONE \<longrightarrow> journey_progress_percent db j today = 100)"
proof -
  have own: "jo_stage j \<in> set (di_stages db)" using assms(1,2) by (auto simp: stage_rows_def)
  have basis: "weighted_percent (pb_weight_before b) (pb_current_weight b) (stage_fraction d (pb_max_days b))
      (max (pb_total_weight b) 1) \<le> 100" if "transfer_of db j = Some tr" "b = tr_progress_basis tr" for tr b d
    using that assms(3) stage_fraction_le
    by (intro weighted_percent_le) (auto simp: transfer_of_def dest!: find_Some_member)
  show ?thesis
    using stage_progress_le [OF own, of today] basis
    by (auto simp: journey_progress_percent_def Let_def split: option.split)
qed

theorem journey_progress_bounds_witness:
  "journey_progress_percent demo_completed demo_completed_journey 110 = 100 \<and>
   journey_progress_percent demo_moved demo_moved_journey 110 \<le> 100"
  using journey_progress_bounds [of demo_completed demo_completed_journey 110]
    journey_progress_bounds [of demo_moved demo_moved_journey 110] demo_completed_inv demo_moved_inv
  by (simp add: diary_inv_def) (simp add: demo_completed_def demo_completed_journey_def demo_moved_def)

end
