(* ===== verification/Metric_Theorems.thy ===== *)
theory Metric_Theorems
  imports Journey_Theorems
begin

text \<open>
  The guarantees of the weekly metrics: the weeks of a journey are numbered without gaps, a week that
  is not under review keeps its quality, and the table offers exactly what a request may save.
\<close>

section \<open>Numbering\<close>

definition weeks :: "'a diary_db_scheme \<Rightarrow> pk \<Rightarrow> nat list" where
  "weeks db i = map wm_week_number (journey_metrics db i)"

definition metrics_kept :: "'a diary_db_scheme \<Rightarrow> bool" where
  "metrics_kept db \<longleftrightarrow> distinct (map wm_id (di_metrics db)) \<and>
     (\<forall>i. distinct (weeks db i) \<and> set (weeks db i) = {1..<next_week_number db i})"

lemma next_week_weeks: "next_week_number db i = Suc (fold max (weeks db i) 0)"
  by (simp add: next_week_number_def weeks_def)

lemma fold_max_snoc: "fold max (xs @ [x]) a = max (x :: nat) (fold max xs a)"
  by simp

lemma store_new:
  assumes "wm_id m = fresh_pk (map wm_id ms)"
  shows "store_metric m ms = ms @ [m]"
  using assms fresh_pk_notin [of "map wm_id ms"] by (force simp: store_metric_def list_ex_iff)

lemma metric_of_week_Some:
  "metric_of_week db i week = Some x \<Longrightarrow> x \<in> set (di_metrics db) \<and> wm_journey_id x = i \<and> wm_week_number x = week"
  by (auto simp: metric_of_week_def journey_metrics_def dest!: find_Some_member)

lemma store_known:
  assumes keys: "distinct (map wm_id ms)" and x: "x \<in> set ms" and id: "wm_id m = wm_id x"
    and same: "wm_journey_id m = wm_journey_id x" "wm_week_number m = wm_week_number x"
  shows "map wm_id (store_metric m ms) = map wm_id ms"
    and "map wm_week_number (filter (\<lambda>m. wm_journey_id m = i) (store_metric m ms)) =
      map wm_week_number (filter (\<lambda>m. wm_journey_id m = i) ms)"
proof -
  have store: "store_metric m ms = map (\<lambda>y. if wm_id y = wm_id m then m else y) ms"
    using x id by (auto simp: store_metric_def list_ex_iff)
  have own: "y \<in> set ms \<Longrightarrow> wm_id y = wm_id m \<Longrightarrow> y = x" for y
    using keys x id by (auto simp: distinct_map inj_on_def)
  show "map wm_id (store_metric m ms) = map wm_id ms" by (simp add: store)
  have "map wm_week_number (filter (\<lambda>m. wm_journey_id m = i) (map (\<lambda>y. if wm_id y = wm_id m then m else y) zs)) =
      map wm_week_number (filter (\<lambda>m. wm_journey_id m = i) zs)" if "set zs \<subseteq> set ms" for zs
    using that own same by (induction zs) auto
  then show "map wm_week_number (filter (\<lambda>m. wm_journey_id m = i) (store_metric m ms)) =
      map wm_week_number (filter (\<lambda>m. wm_journey_id m = i) ms)"
    unfolding store by simp
qed

lemma save_metric_numbering:
  assumes kept: "metrics_kept db" and save: "save_weekly_metric env user i week form db = (r, db')"
  shows "metrics_kept db'"
proof (cases "db' = db")
  case False
  then obtain m where m: "di_metrics db' = store_metric m (di_metrics db)" "wm_journey_id m = i" "wm_week_number m = week"
    and c: "case metric_of_week db i week of
       None \<Rightarrow> week = next_week_number db i \<and> wm_id m = fresh_pk (map wm_id (di_metrics db))
     | Some x \<Rightarrow> wm_id m = wm_id x"
    using save_metric_cases [OF save] by blast
  have keys: "distinct (map wm_id (di_metrics db))" using kept by (simp add: metrics_kept_def)
  show ?thesis
  proof (cases "metric_of_week db i week")
    case None
    with c have new: "di_metrics db' = di_metrics db @ [m]" and week: "week = Suc (fold max (weeks db i) 0)"
      and id: "wm_id m = fresh_pk (map wm_id (di_metrics db))"
      using m(1) store_new next_week_weeks by auto
    have w: "weeks db' k = (if k = i then weeks db k @ [week] else weeks db k)" for k
      by (simp add: weeks_def journey_metrics_def new m)
    have "distinct (map wm_id (di_metrics db'))"
      using keys fresh_pk_notin [of "map wm_id (di_metrics db)"] by (simp add: new id)
    moreover have "distinct (weeks db' k) \<and> set (weeks db' k) = {1..<next_week_number db' k}" for k
      using kept week by (auto simp: metrics_kept_def next_week_weeks w)
    ultimately show ?thesis by (simp add: metrics_kept_def)
  next
    case (Some x)
    note x = metric_of_week_Some [OF Some]
    have "map wm_id (di_metrics db') = map wm_id (di_metrics db)" "weeks db' k = weeks db k" for k
      using store_known [OF keys, of x m] x c Some m by (auto simp: weeks_def journey_metrics_def)
    then show ?thesis using kept by (simp add: metrics_kept_def next_week_weeks)
  qed
qed (use kept in simp)

section \<open>The other operations leave the metrics alone\<close>

definition same_metrics :: "diary_db \<Rightarrow> diary_db \<Rightarrow> bool" where
  "same_metrics db db' \<longleftrightarrow> di_metrics db' = di_metrics db"

interpretation metrics_frame: effect_order same_metrics
  by unfold_locales (auto simp: same_metrics_def)

lemma frame_metrics_basic:
  "keeps same_metrics (in_sandbox m)" "keeps same_metrics (update_journey i f)"
  "keeps same_metrics (create_visit i s d u n)" "keeps same_metrics (close_open_visits i d)"
  "keeps same_metrics (get_journey i)" "keeps same_metrics (sign_first_visit j u)"
proof -
  show "keeps same_metrics (in_sandbox m)"
    unfolding keeps_def same_metrics_def by (metis in_sandbox_diary(4) prod.collapse)
qed (auto simp: keeps_def same_metrics_def update_journey_def create_visit_def close_open_visits_def get_journey_def
    sign_first_visit_def op_apply andthen_def Let_def split: option.split)

lemma frame_metrics_modify: "(\<And>db. di_metrics (f db) = di_metrics db) \<Longrightarrow> keeps same_metrics (modify_db f)"
  by (simp add: keeps_def same_metrics_def op_apply)

lemmas metrics_intros = metrics_frame.keeps_intros frame_metrics_basic

lemma frame_metrics_enter: "keeps same_metrics (enter_stage j s u n d today)"
  unfolding enter_stage_def publish_transition_def by (intro metrics_intros)

lemma frame_metrics_move: "keeps same_metrics (move_to_stage j s u n d today)"
  unfolding move_to_stage_def by (intro metrics_intros frame_metrics_enter)

lemma frame_metrics_catch_validation:
  "keeps same_metrics m \<Longrightarrow> (\<And>x. keeps same_metrics (h x)) \<Longrightarrow>
    keeps same_metrics (catch m (\<lambda>e. case e of ValidationError x \<Rightarrow> h x | _ \<Rightarrow> raise e))"
  by (intro metrics_frame.keeps_catch) (auto intro: metrics_intros split: py_error.split)

lemma frame_metrics_json:
  "keeps same_metrics a \<Longrightarrow> (\<And>x. keeps same_metrics (b x)) \<Longrightarrow> (\<And>x. keeps same_metrics (c x)) \<Longrightarrow>
    (\<And>x. keeps same_metrics (d x)) \<Longrightarrow> (\<And>x. keeps same_metrics (e x)) \<Longrightarrow> (\<And>x. keeps same_metrics (f x)) \<Longrightarrow>
    keeps same_metrics (case y of JNull \<Rightarrow> a | JBool x \<Rightarrow> b x | JNum x \<Rightarrow> c x | JStr x \<Rightarrow> d x | JArr x \<Rightarrow> e x | JObj x \<Rightarrow> f x)"
  by (simp split: json.split)

lemma frame_metrics_move_view: "keeps same_metrics (move_trainee_stage wb user i payload today)"
  unfolding move_trainee_stage_def
  by (intro metrics_intros frame_metrics_catch_validation frame_metrics_move frame_metrics_json)

lemma frame_metrics_complete_view: "keeps same_metrics (complete_trainee label fmt user i status d comment today)"
  unfolding complete_trainee_def complete_probation_def publish_completion_def
  by (intro metrics_intros frame_metrics_catch_validation frame_metrics_move)

lemma frame_metrics_start: "keeps same_metrics (start_journey et u active start stage comment author today)"
  unfolding start_journey_def create_journey_def
  by (intro metrics_intros frame_metrics_modify) simp

lemma frame_metrics_edit: "keeps same_metrics (edit_journey j et start comment today)"
  unfolding edit_journey_def by (intro metrics_intros frame_metrics_modify) simp

lemma same_numbering: "same_metrics db db' \<Longrightarrow> metrics_kept db \<Longrightarrow> metrics_kept db'"
  by (simp add: same_metrics_def metrics_kept_def weeks_def next_week_number_def journey_metrics_def)

lemma diary_step_numbering: "diary_step x y \<Longrightarrow> metrics_kept (snd x) \<Longrightarrow> metrics_kept (snd y)"
  by (induction rule: diary_step.induct)
    (auto intro: same_numbering save_metric_numbering dest: keepsD [OF frame_metrics_start] keepsD [OF frame_metrics_move_view]
      keepsD [OF frame_metrics_complete_view] keepsD [OF frame_metrics_edit])

lemma diary_steps_numbering: "diary_step\<^sup>*\<^sup>* x y \<Longrightarrow> metrics_kept (snd x) \<Longrightarrow> metrics_kept (snd y)"
  by (induction rule: rtranclp_induct) (auto dest: diary_step_numbering)

section \<open>What a save changes\<close>

lemma metric_of_week_iff:
  assumes "metrics_kept db"
  shows "metric_of_week db i k = Some y \<longleftrightarrow> y \<in> set (di_metrics db) \<and> wm_journey_id y = i \<and> wm_week_number y = k"
proof
  assume y: "y \<in> set (di_metrics db) \<and> wm_journey_id y = i \<and> wm_week_number y = k"
  then obtain z where z: "metric_of_week db i k = Some z"
    by (cases "metric_of_week db i k") (auto simp: metric_of_week_def journey_metrics_def find_None_all)
  have "distinct (map wm_week_number (journey_metrics db i))" using assms by (simp add: metrics_kept_def weeks_def)
  then show "metric_of_week db i k = Some y"
    using z y metric_of_week_Some [OF z] by (auto simp: distinct_map inj_on_def journey_metrics_def)
qed (rule metric_of_week_Some)

lemma option_eqI: "(\<And>y. a = Some y \<longleftrightarrow> b = Some y) \<Longrightarrow> a = b"
  by (metis not_None_eq)

lemma metric_of_week_store:
  assumes kept: "metrics_kept db" "metrics_kept db'" and db': "di_metrics db' = store_metric m (di_metrics db)"
    and m: "wm_journey_id m = i" "wm_week_number m = week"
    and c: "case metric_of_week db i week of None \<Rightarrow> wm_id m = fresh_pk (map wm_id (di_metrics db)) | Some x \<Rightarrow> wm_id m = wm_id x"
  shows "metric_of_week db' i k = (if k = week then Some m else metric_of_week db i k)"
proof -
  have ids: "distinct (map wm_id (di_metrics db))" using kept(1) by (simp add: metrics_kept_def)
  have rows: "\<exists>old. set (di_metrics db') = insert m (set (di_metrics db) - old) \<and>
      (\<forall>x \<in> old. wm_journey_id x = i \<longrightarrow> wm_week_number x = week)"
  proof (cases "metric_of_week db i week")
    case None
    then show ?thesis using c db' store_new by (intro exI [of _ "{}"]) simp
  next
    case (Some x)
    note x = metric_of_week_Some [OF Some]
    have "set (di_metrics db') = insert m (set (di_metrics db) - {x})"
      using ids x c Some by (auto simp: db' store_metric_def list_ex_iff distinct_map inj_on_def)
    then show ?thesis using x by blast
  qed
  show ?thesis
  proof (cases "k = week")
    case True
    then show ?thesis using rows m by (auto simp: metric_of_week_iff [OF kept(2)])
  next
    case False
    have "metric_of_week db' i k = Some y \<longleftrightarrow> metric_of_week db i k = Some y" for y
      using rows m False by (auto simp: metric_of_week_iff [OF kept(1)] metric_of_week_iff [OF kept(2)])
    then show ?thesis using False option_eqI [of "metric_of_week db' i k" "metric_of_week db i k"] by simp
  qed
qed

lemma save_keeps_quality:
  assumes kept: "metrics_kept db" and save: "save_weekly_metric env user i week form db = (r, db')"
    and j: "List.find (\<lambda>j. jo_id j = i) (di_journeys db) = Some j"
    and closed: "st_group (jo_stage j) \<noteq> WITH_REVIEW \<or> quality_is_fixed j"
  shows "Option.bind (metric_of_week db' i k) wm_quality = Option.bind (metric_of_week db i k) wm_quality"
proof (cases "db' = db")
  case False
  then obtain m where m: "di_metrics db' = store_metric m (di_metrics db)" "wm_journey_id m = i" "wm_week_number m = week"
    and c: "case metric_of_week db i week of
       None \<Rightarrow> week = next_week_number db i \<and> wm_id m = fresh_pk (map wm_id (di_metrics db))
     | Some x \<Rightarrow> wm_id m = wm_id x"
    and q: "wm_quality m = Option.bind (metric_of_week db i week) wm_quality"
    using save_metric_cases [OF save] j closed by (fastforce simp: quality_editable_def)
  have "metric_of_week db' i k = (if k = week then Some m else metric_of_week db i k)"
    by (rule metric_of_week_store [OF kept save_metric_numbering [OF kept save] m])
      (use c in \<open>auto split: option.splits\<close>)
  then show ?thesis using q by simp
qed simp

section \<open>The table and the request\<close>

lemma save_metric_succeeds:
  assumes "us_is_staff user" and "List.find (\<lambda>j. jo_id j = wm_journey_id m) (di_journeys db) = Some j"
    and "source_free (sandbox_db.truncate db) ''weekly_metric'' (str_nat (wm_id m) @ '':'' @ me_uuid4 env)"
  shows "\<exists>db'. save_metric_with_event env m tx user db = (Inr (), db')"
proof -
  have p: "''weekly_metric'' \<in> set PROVIDERS" by (simp add: PROVIDERS_def)
  have free: "source_free (sandbox_db.truncate (db\<lparr>di_metrics := ms\<rparr>)) ''weekly_metric'' (str_nat (wm_id m) @ '':'' @ me_uuid4 env)" for ms
    using assms(3) by (simp add: sandbox_db.defs)
  have pub: "\<exists>e db'. in_sandbox (publish ''weekly_metric'' (str_nat (wm_id m) @ '':'' @ me_uuid4 env) u c pl av)
      (db\<lparr>di_metrics := ms\<rparr>) = (Inr e, db')" for u c pl av ms
    using in_sandbox_publish [where db = "db\<lparr>di_metrics := ms\<rparr>", OF p free] .
  let ?db = "db\<lparr>di_metrics := store_metric m (di_metrics db)\<rparr>"
  let ?previous = "List.find (\<lambda>x. wm_id x = wm_id m) (di_metrics db)"
  let ?before = "map_option (\<lambda>m. metric_values (me_fmt env) m (map_option tenths_text (wm_speed m))) ?previous"
  let ?after = "metric_values (me_fmt env) m (Some tx)"
  obtain e db2 where run: "in_sandbox (publish ''weekly_metric'' (str_nat (wm_id m) @ '':'' @ me_uuid4 env) (jo_user_id j)
      (journey_context j) (JObj [(''values'', ?after), (''previous_values'', case ?before of None \<Rightarrow> JNull | Some b \<Rightarrow> b),
        (''actor_id'', JNum (int (us_id user)))])
      (if ?previous \<noteq> None then None else map_option (\<lambda>d. me_at_date env (d + 7)) (wm_week_start m))) ?db = (Inr e, db2)"
    using pub by blast
  have g: "get_journey (wm_journey_id m) db = (Inr j, db)" using assms(2) by (simp add: get_journey_def)
  have "save_metric_with_event env m tx user db = (Inr (), if ?before = Some ?after then ?db else db2)"
    using assms(1) run
    by (cases ?previous) (auto simp: save_metric_with_event_def atomic_def andthen_def op_apply g Let_def)
  then show ?thesis by blast
qed

lemma save_weekly_metric_iff:
  assumes j: "List.find (\<lambda>j. jo_id j = i) (di_journeys db) = Some j" and staff: "us_is_staff user" and week: "1 \<le> week"
    and free: "\<And>k. source_free (sandbox_db.truncate db) ''weekly_metric'' (str_nat k @ '':'' @ me_uuid4 env)"
  shows "(\<exists>m db'. save_weekly_metric env user i week form db = (Inr (MetricSaved m), db')) \<longleftrightarrow>
    st_group (jo_stage j) \<in> set TICKET_METRIC_GROUPS \<and>
    (\<exists>start. get_ticket_metrics_start_date j (journey_visits db j) = Some start \<and>
       mc_is_editable (metric_cell_of db j start week) \<and>
       metric_form_valid (mc_quality_editable (metric_cell_of db j start week)) form)"
proof -
  have g: "get_journey i db = (Inr j, db)" using j by (simp add: get_journey_def)
  have i: "jo_id j = i" using j by (auto dest: find_Some_member)
  have saved: "\<exists>db'. save_metric_with_event env m tx user db = (Inr (), db')" if "wm_journey_id m = i" for m tx
    using save_metric_succeeds [OF staff _ free] j that by simp
  have run: "(\<exists>x db'. andthen (save_metric_with_event env m tx user) (\<lambda>_. ret (MetricSaved m)) db = (Inr (MetricSaved x), db'))"
    if "wm_journey_id m = i" for m tx
    using saved [OF that, of tx] by (auto simp: andthen_def op_apply)
  have not_one: "week \<noteq> 0" using week by simp
  show ?thesis
    using staff not_one run
    by (auto simp: save_weekly_metric_def andthen_def [of "get_journey i"] g op_apply andthen_def [of get_db] Let_def
        metric_cell_of_def i split: option.split if_splits)
qed

lemma map_filter_iff:
  "y \<in> set (List.map_filter f xs) \<longleftrightarrow> (\<exists>x \<in> set xs. f x = Some y)"
  by (induction xs) (auto simp: List.map_filter_def)

lemma metric_journeys_iff:
  "(j, start) \<in> set (metric_journeys rank db) \<longleftrightarrow> j \<in> set (di_journeys db) \<and>
     st_group (jo_stage j) \<in> set TICKET_METRIC_GROUPS \<and> get_ticket_metrics_start_date j (journey_visits db j) = Some start"
  by (auto simp: metric_journeys_def map_filter_iff)

lemma editable_week_in_table:
  assumes "(j, start) \<in> set js" and "mc_is_editable (metric_cell_of db j start week)"
  shows "week \<le> fold max (map (\<lambda>(j, _). next_week_number db (jo_id j)) js) 1"
proof -
  have "week \<le> next_week_number db (jo_id j)"
    using assms(2) fold_max_ge [of week "map wm_week_number (journey_metrics db (jo_id j))" 0]
    by (auto simp: metric_cell_of_def Let_def next_week_number_def metric_of_week_def
        dest!: find_Some_member)
  moreover have "next_week_number db (jo_id j) \<le> fold max (map (\<lambda>(j, _). next_week_number db (jo_id j)) js) 1"
    using assms(1) by (intro fold_max_ge) force
  ultimately show ?thesis by linarith
qed

lemma cells_of_week:
  assumes "\<And>s w. num (f s w) = w"
  shows "(\<exists>cells. (\<exists>s. A s \<and> cells = map (f s) ws) \<and> (\<exists>cell \<in> set cells. num cell = week \<and> Q cell)) \<longleftrightarrow>
    (\<exists>s. A s \<and> week \<in> set ws \<and> Q (f s week))"
proof -
  have "(\<exists>cell \<in> set (map (f s) ws). num cell = week \<and> Q cell) \<longleftrightarrow> week \<in> set ws \<and> Q (f s week)" for s
    using assms by auto
  then show ?thesis by blast
qed

section \<open>A demo week\<close>

definition demo_env :: metric_env where
  "demo_env = \<lparr>me_fmt = (\<lambda>_. ''d''), me_at_date = (\<lambda>d. d), me_uuid4 = ''u''\<rparr>"

definition demo_form :: metric_form where
  "demo_form = \<lparr>mf_speed = Some (55, ''5.5''), mf_quality = Some 85, mf_comment = [], mf_goal = []\<rparr>"

lemma demo_moved_tables:
  "di_metrics demo_moved = []" "List.find (\<lambda>j. jo_id j = 1) (di_journeys demo_moved) = Some demo_moved_journey"
  "source_free (sandbox_db.truncate demo_moved) p x" "metrics_kept demo_moved"
  by (simp_all add: demo_moved_def demo_diary_def demo_moved_journey_def demo_journey_def new_journey_def source_free_def
      sandbox_db.defs metrics_kept_def weeks_def journey_metrics_def next_week_number_def)

lemma demo_moved_visits:
  "journey_visits demo_moved demo_moved_journey = di_visits demo_moved"
  by (simp add: journey_visits_def demo_moved_def demo_moved_journey_def demo_journey_def new_journey_def demo_visit_def)

lemma demo_cell:
  "get_ticket_metrics_start_date demo_moved_journey (di_visits demo_moved) = Some 105"
  "mc_is_editable (metric_cell_of demo_moved demo_moved_journey 105 1)"
  "mc_quality_editable (metric_cell_of demo_moved demo_moved_journey 105 1)"
proof -
  show "get_ticket_metrics_start_date demo_moved_journey (di_visits demo_moved) = Some 105"
    by (simp add: get_ticket_metrics_start_date_def demo_moved_def demo_visit_def TICKET_METRIC_GROUPS_def)
  show "mc_is_editable (metric_cell_of demo_moved demo_moved_journey 105 1)"
    by (simp add: metric_cell_of_def Let_def metric_of_week_def journey_metrics_def next_week_number_def demo_moved_tables)
  have "get_stage_for_date demo_moved_journey (di_visits demo_moved) 105 = Some (demo_stage 2 ''review'' WITH_REVIEW)"
    by (simp add: get_stage_for_date_def covers_def demo_moved_def demo_visit_def)
  moreover have "week_start_of (metric_of_week demo_moved (jo_id demo_moved_journey) 1) 105 1 = 105"
    by (simp add: week_start_of_def metric_of_week_def journey_metrics_def demo_moved_tables)
  moreover have "\<not> quality_is_fixed demo_moved_journey" "jo_stage demo_moved_journey = demo_stage 2 ''review'' WITH_REVIEW"
    by (simp_all add: quality_is_fixed_def demo_moved_journey_def demo_journey_def new_journey_def)
  ultimately show "mc_quality_editable (metric_cell_of demo_moved demo_moved_journey 105 1)"
    by (simp add: metric_cell_of_def Let_def quality_editable_def demo_moved_visits)
qed

section \<open>Properties\<close>

text \<open>
  C40. The weeks of a journey are numbered without gaps: over any history of a diary that starts
  without metrics, the metrics of a journey carry the numbers from 1 to some \<open>n\<close>, each once.
\<close>

theorem metric_weeks_stay_consecutive:
  assumes "di_metrics db = []" and "diary_step\<^sup>*\<^sup>* (today, db) (today', db')"
  shows "\<exists>n. distinct (weeks db' i) \<and> set (weeks db' i) = {1..n}"
proof -
  have "metrics_kept db" using assms(1) by (simp add: metrics_kept_def weeks_def journey_metrics_def next_week_number_def)
  with diary_steps_numbering [OF assms(2)] have "metrics_kept db'" by simp
  then have "distinct (weeks db' i)" "set (weeks db' i) = {1..fold max (weeks db' i) 0}"
    by (auto simp: metrics_kept_def next_week_weeks)
  then show ?thesis by blast
qed

theorem metric_weeks_stay_consecutive_witness:
  "\<exists>m db'. save_weekly_metric demo_env demo_staff 1 1 demo_form demo_moved = (Inr (MetricSaved m), db') \<and>
     (\<exists>n. set (weeks db' 1) = {1..n})"
proof -
  have "metric_form_valid e demo_form" for e by (simp add: metric_form_valid_def demo_form_def)
  with save_weekly_metric_iff [OF demo_moved_tables(2), of demo_staff 1 demo_env demo_form] demo_moved_tables(3)
  obtain m db' where s: "save_weekly_metric demo_env demo_staff 1 1 demo_form demo_moved = (Inr (MetricSaved m), db')"
    using demo_cell demo_moved_visits
    by (auto simp: demo_staff_def demo_moved_journey_def TICKET_METRIC_GROUPS_def)
  have "diary_step\<^sup>*\<^sup>* (110, demo_moved) (110, db')" using step_metric [OF s] by blast
  from metric_weeks_stay_consecutive [OF demo_moved_tables(1) this] s show ?thesis by blast
qed

text \<open>
  A quality that is not under review is final: once the trainee has left the stage with reviews
  or the quality is fixed, no request to save a week changes the quality of any week.
\<close>

theorem closed_quality_is_kept:
  assumes "metrics_kept db" and "List.find (\<lambda>j. jo_id j = i) (di_journeys db) = Some j"
    and "st_group (jo_stage j) \<noteq> WITH_REVIEW \<or> quality_is_fixed j"
    and "save_weekly_metric env user i week form db = (r, db')"
  shows "Option.bind (metric_of_week db' i k) wm_quality = Option.bind (metric_of_week db i k) wm_quality"
  by (rule save_keeps_quality [OF assms(1,4,2,3)])

theorem closed_quality_is_kept_witness:
  "\<exists>r db'. save_weekly_metric demo_env demo_staff 1 1 demo_form demo_completed = (r, db') \<and>
     Option.bind (metric_of_week db' 1 1) wm_quality = None"
proof -
  obtain r db' where s: "save_weekly_metric demo_env demo_staff 1 1 demo_form demo_completed = (r, db')" by fastforce
  have none: "di_metrics demo_completed = []" by (simp add: demo_completed_def demo_diary_def)
  then have "metrics_kept demo_completed"
    by (simp add: metrics_kept_def weeks_def journey_metrics_def next_week_number_def)
  moreover have "List.find (\<lambda>j. jo_id j = 1) (di_journeys demo_completed) = Some demo_completed_journey"
    by (simp add: demo_completed_def demo_completed_journey_def demo_moved_journey_def demo_journey_def)
  moreover have "st_group (jo_stage demo_completed_journey) \<noteq> WITH_REVIEW" by (simp add: demo_completed_journey_def)
  ultimately show ?thesis
    using closed_quality_is_kept [OF _ _ _ s, of demo_completed_journey 1] s none
    by (auto simp: metric_of_week_def journey_metrics_def)
qed

text \<open>
  The table of metrics and the request agree: a mentor may save a week of a journey exactly if
  the page shows an editable cell for it, and the form needs the quality exactly where the cell asks
  for it.
\<close>

theorem metric_table_matches_request:
  assumes "weekly_metrics rank db user = Inr rows" and "diary_keys db" and "j \<in> set (di_journeys db)" and "1 \<le> week"
    and "\<And>k. source_free (sandbox_db.truncate db) ''weekly_metric'' (str_nat k @ '':'' @ me_uuid4 env)"
  shows "(\<exists>m db'. save_weekly_metric env user (jo_id j) week form db = (Inr (MetricSaved m), db')) \<longleftrightarrow>
    (\<exists>cells. (j, cells) \<in> set rows \<and> (\<exists>cell \<in> set cells. mc_week_number cell = week \<and> mc_is_editable cell \<and>
       metric_form_valid (mc_quality_editable cell) form))"
proof -
  have staff: "us_is_staff user" using assms(1) by (auto simp: weekly_metrics_def split: if_splits)
  let ?max = "fold max (map (\<lambda>(j, _). next_week_number db (jo_id j)) (metric_journeys rank db)) 1"
  have rows: "rows = map (\<lambda>(j, start). (j, map (metric_cell_of db j start) [1..<?max + 1])) (metric_journeys rank db)"
    using assms(1) by (simp add: weekly_metrics_def Let_def split: if_splits)
  obtain k where k: "List.find (\<lambda>k. jo_id k = jo_id j) (di_journeys db) = Some k"
    using assms(3) by (cases "List.find (\<lambda>k. jo_id k = jo_id j) (di_journeys db)") (auto simp: find_None_all)
  then have "j = k" using same_row [OF assms(2,3)] find_Some_member [OF k] by simp
  then have found: "List.find (\<lambda>k. jo_id k = jo_id j) (di_journeys db) = Some j" using k by simp
  have number: "mc_week_number (metric_cell_of db j start w) = w" for start w
    by (simp add: metric_cell_of_def Let_def)
  have in_table: "week \<in> {1..<?max + 1}"
    if "(j, start) \<in> set (metric_journeys rank db)" "mc_is_editable (metric_cell_of db j start week)" for start
    using editable_week_in_table [OF that] assms(4) by simp
  have shape: "(j, cells) \<in> set rows \<longleftrightarrow> (\<exists>start. (j, start) \<in> set (metric_journeys rank db) \<and>
      cells = map (metric_cell_of db j start) [1..<?max + 1])" for cells
    unfolding rows by force
  have "(\<exists>cells. (j, cells) \<in> set rows \<and> (\<exists>cell \<in> set cells. mc_week_number cell = week \<and> mc_is_editable cell \<and>
       metric_form_valid (mc_quality_editable cell) form)) \<longleftrightarrow>
    (\<exists>start. (j, start) \<in> set (metric_journeys rank db) \<and> week \<in> {1..<?max + 1} \<and>
       mc_is_editable (metric_cell_of db j start week) \<and>
       metric_form_valid (mc_quality_editable (metric_cell_of db j start week)) form)"
    unfolding shape using cells_of_week [of mc_week_number "metric_cell_of db j", OF number, of "\<lambda>start. (j, start) \<in> set (metric_journeys rank db)"
        "[1..<?max + 1]" week "\<lambda>cell. mc_is_editable cell \<and> metric_form_valid (mc_quality_editable cell) form"]
    by (simp only: set_upt)
  also have "\<dots> \<longleftrightarrow> (\<exists>start. (j, start) \<in> set (metric_journeys rank db) \<and>
       mc_is_editable (metric_cell_of db j start week) \<and>
       metric_form_valid (mc_quality_editable (metric_cell_of db j start week)) form)"
    using in_table by blast
  finally show ?thesis
    using save_weekly_metric_iff [OF found staff assms(4,5)] assms(3) by (auto simp: metric_journeys_iff)
qed

theorem metric_table_matches_request_witness:
  "\<exists>m db'. save_weekly_metric demo_env demo_staff 1 1 demo_form demo_moved = (Inr (MetricSaved m), db')"
proof -
  let ?id = "\<lambda>u :: pk. u"
  obtain rows where rows: "weekly_metrics ?id demo_moved demo_staff = Inr rows"
    by (simp add: weekly_metrics_def demo_staff_def Let_def)
  have js: "metric_journeys ?id demo_moved = [(demo_moved_journey, 105)]"
    using demo_cell(1) demo_moved_visits
    by (simp add: metric_journeys_def demo_moved_def List.map_filter_def)
      (simp add: demo_moved_journey_def TICKET_METRIC_GROUPS_def)
  have "\<exists>cells. (demo_moved_journey, cells) \<in> set rows \<and> metric_cell_of demo_moved demo_moved_journey 105 1 \<in> set cells"
    using rows js
    by (auto simp: weekly_metrics_def Let_def demo_staff_def next_week_number_def journey_metrics_def demo_moved_tables)
  moreover have "metric_form_valid e demo_form" for e by (simp add: metric_form_valid_def demo_form_def)
  moreover have "mc_week_number (metric_cell_of demo_moved demo_moved_journey 105 1) = 1"
    by (simp add: metric_cell_of_def Let_def)
  moreover have "jo_id demo_moved_journey = 1" "demo_moved_journey \<in> set (di_journeys demo_moved)" "diary_keys demo_moved"
    using demo_moved_inv by (simp_all add: demo_moved_journey_def demo_journey_def demo_moved_def diary_inv_def)
  ultimately show ?thesis
    using metric_table_matches_request [OF rows, of demo_moved_journey 1 demo_env demo_form] demo_moved_tables(3) demo_cell(2)
    by auto
qed

end
