(* ===== verification/Award_Models.thy ===== *)
theory Award_Models
  imports Journey
begin

text \<open>
  The tables of the achievements (\<^verbatim>\<open>achievements/models.py\<close>) and the server-owned catalog with
  its validation (\<^verbatim>\<open>achievements/services/catalog.py\<close>). The tables extend those of the diary. An
  award, the row \<^verbatim>\<open>UserAchievement\<close>, carries its active tier.
\<close>

section \<open>Rows\<close>

record AchievementDefinition =
  ad_id :: pk
  ad_code :: string
  ad_secret :: bool
  ad_kind :: string
  ad_active :: bool
  ad_applicability :: string
  ad_evaluator_key :: string
  ad_rule_version :: nat
  ad_art_key :: string

record AchievementTier =
  ti_id :: pk
  ti_definition_id :: pk
  ti_code :: string
  ti_rank :: nat
  ti_rarity :: string
  ti_parameters :: "(string \<times> json) list"
  ti_rule_version :: nat

record UserAchievement =
  ua_id :: pk
  ua_user_id :: pk
  ua_definition_id :: pk
  ua_active_tier :: "AchievementTier option"
  ua_first_granted_at :: "time option"
  ua_last_upgraded_at :: "time option"
  ua_last_changed_at :: "time option"
  ua_revision :: nat
  ua_auto_grant_blocked :: bool
  ua_evidence_disputed :: bool

datatype AwardAction = GRANT | UPGRADE | REVOKE | EVIDENCE_DISPUTED

record AchievementEvent =
  ae_id :: pk
  ae_entitlement_id :: pk
  ae_action :: AwardAction
  ae_from_tier :: "AchievementTier option"
  ae_to_tier :: "AchievementTier option"
  ae_actor :: "SandboxUser option"
  ae_occurred_at :: time
  ae_recorded_at :: time
  ae_source_type :: string
  ae_source_ref :: string
  ae_rule_version :: nat
  ae_evidence :: "(string \<times> json) list"
  ae_evidence_digest :: string
  ae_reason :: string
  ae_idempotency_key :: string
  ae_revoked_event :: "pk option"

record AchievementOperation =
  ao_key :: string
  ao_request_digest :: string
  ao_entitlement_id :: pk
  ao_event_id :: "pk option"
  ao_outcome :: string

record AchievementNotification =
  nt_id :: pk
  nt_event_id :: pk
  nt_user_id :: pk
  nt_read_at :: "time option"
  nt_claim_token :: "string option"
  nt_claim_expires_at :: "time option"

text \<open>\<open>aw_boundary\<close> is the start of the delivery of notifications, when one is recorded.\<close>

record award_db = diary_db +
  aw_definitions :: "AchievementDefinition list"
  aw_tiers :: "AchievementTier list"
  aw_entitlements :: "UserAchievement list"
  aw_events :: "AchievementEvent list"
  aw_operations :: "AchievementOperation list"
  aw_boundary :: "time option"
  aw_notifications :: "AchievementNotification list"

section \<open>Catalog\<close>

definition ART_KEYS :: "string list" where
  "ART_KEYS = [''generic'', ''training'', ''sandbox'', ''quality'', ''speed'', ''probation'', ''milestone'', ''independent'']"

definition RARITIES :: "string list" where
  "RARITIES = [''bronze'', ''silver'', ''gold'', ''platinum'']"

text \<open>A row of the catalog, with its tiers as codes and parameters. Titles are left out.\<close>

record family =
  fa_code :: string
  fa_category :: string
  fa_tiers :: "(string \<times> (string \<times> json) list) list"
  fa_kind :: string
  fa_applicability :: string
  fa_secret :: bool
  fa_rule_version :: nat
  fa_art_key :: string

definition family_row ::
    "string \<Rightarrow> string \<Rightarrow> (string \<times> (string \<times> json) list) list \<Rightarrow> string \<Rightarrow> string \<Rightarrow> bool \<Rightarrow> family" where
  "family_row code category tiers kind applicability secret =
     \<lparr>fa_code = code, fa_category = category, fa_tiers = tiers, fa_kind = kind, fa_applicability = applicability,
      fa_secret = secret, fa_rule_version = 1,
      fa_art_key = (if category \<in> set ART_KEYS then category else ''generic'')\<rparr>"

definition automatic :: "bool \<Rightarrow> (string \<times> json) list \<Rightarrow> (string \<times> json) list" where
  "automatic b rest = (''automatic'', JBool b) # rest"

definition CATALOG :: "family list" where
  "CATALOG =
     [family_row ''training_program'' ''training''
        [(''bronze'', automatic True []),
         (''silver'', automatic False [(''max_study_days'', JNum 11), (''score_gt'', JNum 90)]),
         (''gold'', automatic False [(''max_study_days'', JNum 6), (''score_gt'', JNum 95)]),
         (''platinum'', automatic False [(''max_study_days'', JNum 6), (''score_eq'', JNum 100)])] ''tiered'' ''new_hire'' False,
      family_row ''sandbox_program'' ''sandbox''
        [(''bronze'', automatic True []),
         (''silver'', automatic True [(''max_resets'', JNum 2)]),
         (''gold'', automatic True [(''max_resets'', JNum 2), (''max_revisions'', JNum 2), (''answers_approved'', JBool True)]),
         (''platinum'', automatic False [(''max_resets'', JNum 0), (''first_check'', JBool True), (''first_submission'', JBool True)])]
        ''tiered'' ''new_hire'' False,
      family_row ''review_quality'' ''quality''
        [(''bronze'', automatic True [(''minimum'', JStr ''80''), (''strict'', JBool False)]),
         (''silver'', automatic True [(''minimum'', JStr ''90''), (''strict'', JBool False)]),
         (''gold'', automatic True [(''minimum'', JStr ''95''), (''strict'', JBool True)])] ''tiered'' ''both'' False,
      family_row ''independent_speed'' ''speed''
        [(''bronze'', automatic True [(''minimum'', JStr ''5''), (''strict'', JBool False)]),
         (''silver'', automatic True [(''minimum'', JStr ''7''), (''strict'', JBool False)]),
         (''gold'', automatic True [(''minimum'', JStr ''9''), (''strict'', JBool False)]),
         (''platinum'', automatic True [(''minimum'', JStr ''10''), (''strict'', JBool True)])] ''tiered'' ''both'' False,
      family_row ''probation_new_hire'' ''probation''
        [(''bronze'', automatic True [(''min_day'', JNum 61)]),
         (''silver'', automatic True [(''min_day'', JNum 46), (''max_day'', JNum 60)]),
         (''gold'', automatic True [(''min_day'', JNum 31), (''max_day'', JNum 45)]),
         (''platinum'', automatic True [(''min_day'', JNum 1), (''max_day'', JNum 30)])] ''tiered'' ''new_hire'' False,
      family_row ''sandbox_first_success'' ''sandbox'' [(''bronze'', automatic True [(''task_count'', JNum 1)])] ''fixed'' ''new_hire'' False,
      family_row ''sandbox_five_successes'' ''sandbox'' [(''silver'', automatic True [(''task_count'', JNum 5)])] ''fixed'' ''new_hire'' False,
      family_row ''sandbox_first_five_clean_answers'' ''sandbox'' [(''gold'', automatic True [])] ''fixed'' ''new_hire'' False,
      family_row ''review_quality_streak'' ''quality'' [(''gold'', automatic False [])] ''fixed'' ''both'' False,
      family_row ''independent_engineer'' ''independent'' [(''silver'', automatic True [])] ''fixed'' ''both'' False,
      family_row ''clean_week'' ''quality'' [(''platinum'', automatic False [])] ''fixed'' ''both'' True]"

definition schema_of :: "string \<Rightarrow> family option" where
  "schema_of evaluator_key = List.find (\<lambda>row. fa_code row = evaluator_key) CATALOG"

definition validate_definition :: "AchievementDefinition \<Rightarrow> unit result" where
  "validate_definition definition =
     (case schema_of (ad_evaluator_key definition) of
        None \<Rightarrow> Inl (ValidationError ''unknown_evaluator'')
      | Some schema \<Rightarrow>
          if ad_rule_version definition \<noteq> fa_rule_version schema then Inl (ValidationError ''unknown_evaluator'')
          else if ad_kind definition \<noteq> fa_kind schema \<or> ad_applicability definition \<noteq> fa_applicability schema
            then Inl (ValidationError ''kind_or_applicability'')
          else if ad_art_key definition \<notin> set ART_KEYS then Inl (ValidationError ''art_key'')
          else Inr ())"

text \<open>The place of a rarity, counted from 1. \<open>same_dict\<close> is the equality of dictionaries.\<close>

definition rarity_rank :: "string \<Rightarrow> nat" where
  "rarity_rank rarity = length (takeWhile (\<lambda>r. r \<noteq> rarity) RARITIES) + 1"

definition same_dict :: "(string \<times> json) list \<Rightarrow> (string \<times> json) list \<Rightarrow> bool" where
  "same_dict p q \<longleftrightarrow> set p = set q"

text \<open>\<open>definition\<close> is the definition the tier belongs to.\<close>

definition validate_tier :: "AchievementDefinition \<Rightarrow> AchievementTier \<Rightarrow> unit result" where
  "validate_tier definition tier = bindR (validate_definition definition) (\<lambda>_.
     let tiers = (case schema_of (ad_evaluator_key definition) of None \<Rightarrow> [] | Some schema \<Rightarrow> fa_tiers schema)
     in case map_of tiers (ti_code tier) of
          None \<Rightarrow> Inl (ValidationError ''tier_schema'')
        | Some parameters \<Rightarrow>
            if \<not> same_dict (ti_parameters tier) parameters \<or> ti_rarity tier \<noteq> ti_code tier \<or>
                ti_rank tier \<noteq> rarity_rank (ti_code tier) \<or> ti_rule_version tier \<noteq> ad_rule_version definition
            then Inl (ValidationError ''tier_schema'') else Inr ())"

text \<open>\<^verbatim>\<open>parameters.get(...)\<close>, as a truth value, a number, or a decimal written as digits.\<close>

definition param :: "AchievementTier \<Rightarrow> string \<Rightarrow> json" where
  "param tier key = json_get key (ti_parameters tier)"

definition param_nat :: "AchievementTier \<Rightarrow> string \<Rightarrow> nat option" where
  "param_nat tier key = (case param tier key of JNum n \<Rightarrow> Some (nat n) | _ \<Rightarrow> None)"

definition digits :: "string \<Rightarrow> nat" where
  "digits s = foldl (\<lambda>n c. 10 * n + (of_char c - 48)) 0 s"

definition param_digits :: "AchievementTier \<Rightarrow> string \<Rightarrow> nat" where
  "param_digits tier key = (case param tier key of JStr s \<Rightarrow> digits s | _ \<Rightarrow> 0)"

definition tier_automatic :: "AchievementTier \<Rightarrow> bool" where
  "tier_automatic tier \<longleftrightarrow> json_truthy (param tier ''automatic'')"

definition definition_tiers :: "'a award_db_scheme \<Rightarrow> pk \<Rightarrow> AchievementTier list" where
  "definition_tiers db i = sort_key ti_rank (filter (\<lambda>t. ti_definition_id t = i) (aw_tiers db))"

section \<open>Seeding\<close>

definition seed_tiers :: "family \<Rightarrow> pk \<Rightarrow> (award_db, unit) op" where
  "seed_tiers row definition_id = modify_db (\<lambda>db. db\<lparr>aw_tiers := fold (\<lambda>(code, parameters) tiers.
     if list_ex (\<lambda>t. ti_definition_id t = definition_id \<and> ti_code t = code) tiers then tiers
     else tiers @ [\<lparr>ti_id = fresh_pk (map ti_id tiers), ti_definition_id = definition_id, ti_code = code,
       ti_rank = rarity_rank code, ti_rarity = code, ti_parameters = parameters,
       ti_rule_version = fa_rule_version row\<rparr>]) (fa_tiers row) (aw_tiers db)\<rparr>)"

definition seed_family :: "family \<Rightarrow> (award_db, unit) op" where
  "seed_family row = andthen get_db (\<lambda>db.
     case List.find (\<lambda>d. ad_code d = fa_code row) (aw_definitions db) of
       Some definition \<Rightarrow> seed_tiers row (ad_id definition)
     | None \<Rightarrow>
         let definition = \<lparr>ad_id = fresh_pk (map ad_id (aw_definitions db)), ad_code = fa_code row,
               ad_secret = fa_secret row, ad_kind = fa_kind row, ad_active = True,
               ad_applicability = fa_applicability row, ad_evaluator_key = fa_code row,
               ad_rule_version = fa_rule_version row, ad_art_key = fa_art_key row\<rparr>
         in andthen (modify_db (\<lambda>db. db\<lparr>aw_definitions := aw_definitions db @ [definition]\<rparr>))
              (\<lambda>_. seed_tiers row (ad_id definition)))"

definition seed_catalog :: "(award_db, unit) op" where
  "seed_catalog = atomic (foldr (\<lambda>row m. andthen (seed_family row) (\<lambda>_. m)) CATALOG (ret ()))"

end
