(* ===== verification/Grants.thy ===== *)
theory Grants
  imports Award_Models
begin

text \<open>
  Granting, revoking and disputing awards (\<^verbatim>\<open>achievements/services/grants.py\<close>), with the
  receipts that make a request idempotent, and the deliveries of notifications
  (\<^verbatim>\<open>achievements/services/notifications.py\<close>, \<^verbatim>\<open>enqueue\<close>). \<open>digest\<close> is SHA-256 of the
  canonical JSON text.
\<close>

section \<open>Requests and receipts\<close>

definition staff_reason :: "SandboxUser option \<Rightarrow> string \<Rightarrow> unit result" where
  "staff_reason actor reason =
     (case actor of
        None \<Rightarrow> Inl PermissionDenied
      | Some a \<Rightarrow> if \<not> us_is_staff a then Inl PermissionDenied
          else if py_strip reason = [] then Inl (ValidationError ''reason_required'') else Inr ())"

definition lock_user :: "pk \<Rightarrow> (award_db, unit) op" where
  "lock_user user_id = andthen get_db (\<lambda>db.
     if list_ex (\<lambda>u. us_id u = user_id) (sb_users db) then ret () else raise DoesNotExist)"

definition operation_key :: "(json \<Rightarrow> string) \<Rightarrow> pk \<Rightarrow> pk \<Rightarrow> string \<Rightarrow> string \<Rightarrow> string result" where
  "operation_key digest user_id definition_id action op_id =
     (if py_strip op_id = [] \<or> 150 < length op_id then Inl (ValidationError ''operation_id'')
      else Inr (digest (JArr [JNum (int user_id), JNum (int definition_id), JStr action, JStr op_id])))"

definition receipt_of :: "'a award_db_scheme \<Rightarrow> string \<Rightarrow> AchievementOperation option" where
  "receipt_of db key = List.find (\<lambda>r. ao_key r = key) (aw_operations db)"

definition award_row :: "'a award_db_scheme \<Rightarrow> pk \<Rightarrow> UserAchievement option" where
  "award_row db i = List.find (\<lambda>a. ua_id a = i) (aw_entitlements db)"

definition event_row :: "'a award_db_scheme \<Rightarrow> pk option \<Rightarrow> AchievementEvent option" where
  "event_row db i = (case i of None \<Rightarrow> None | Some i \<Rightarrow> List.find (\<lambda>e. ae_id e = i) (aw_events db))"

type_synonym grant_reply = "UserAchievement \<times> string \<times> AchievementEvent option"

text \<open>The reply for a request whose key has a receipt already; \<open>None\<close> for a new one.\<close>

definition repeated :: "string \<Rightarrow> string \<Rightarrow> (award_db, grant_reply option) op" where
  "repeated key request_digest = andthen get_db (\<lambda>db.
     case receipt_of db key of
       None \<Rightarrow> ret None
     | Some receipt \<Rightarrow>
         if ao_request_digest receipt \<noteq> request_digest then raise (Conflict ''operation_id_reused'')
         else (case award_row db (ao_entitlement_id receipt) of
             None \<Rightarrow> raise DoesNotExist
           | Some entitlement \<Rightarrow> ret (Some (entitlement, ''duplicate'', event_row db (ao_event_id receipt)))))"

definition remember ::
    "string \<Rightarrow> string \<Rightarrow> UserAchievement \<Rightarrow> string \<Rightarrow> AchievementEvent option \<Rightarrow> (award_db, grant_reply) op" where
  "remember key request_digest entitlement outcome event = andthen get_db (\<lambda>db.
     if receipt_of db key \<noteq> None then raise IntegrityError
     else andthen (modify_db (\<lambda>db. db\<lparr>aw_operations := aw_operations db @
         [\<lparr>ao_key = key, ao_request_digest = request_digest, ao_entitlement_id = ua_id entitlement,
           ao_event_id = map_option ae_id event, ao_outcome = outcome\<rparr>]\<rparr>))
       (\<lambda>_. ret (entitlement, outcome, event)))"

section \<open>The journal\<close>

text \<open>
  \<^verbatim>\<open>AchievementEvent.clean\<close> and the constraints of the table; the tiers of an event belong to the
  definition of its award.
\<close>

definition event_errors :: "UserAchievement \<Rightarrow> AchievementEvent \<Rightarrow> string list" where
  "event_errors entitlement e =
     (if \<not> list_all (\<lambda>t. ti_definition_id t = ua_definition_id entitlement)
        (List.map_filter id [ae_from_tier e, ae_to_tier e]) then [''foreign_tier''] else []) @
     (if ae_action e = UPGRADE \<and> \<not> (case (ae_from_tier e, ae_to_tier e) of (Some f, Some t) \<Rightarrow> ti_rank f < ti_rank t | _ \<Rightarrow> False)
        then [''not_an_upgrade''] else []) @
     (if ae_action e = REVOKE \<and> ae_source_type e \<noteq> ''manual'' then [''revoke_not_manual''] else []) @
     (if ae_source_type e = ''manual'' \<and>
         ((case ae_actor e of None \<Rightarrow> True | Some a \<Rightarrow> \<not> us_is_staff a) \<or> py_strip (ae_reason e) = [])
        then [''manual_without_staff''] else [])"

definition event_shape :: "AchievementEvent \<Rightarrow> bool" where
  "event_shape e \<longleftrightarrow>
     (case ae_action e of
        GRANT \<Rightarrow> ae_from_tier e = None \<and> ae_to_tier e \<noteq> None
      | UPGRADE \<Rightarrow> ae_from_tier e \<noteq> None \<and> ae_to_tier e \<noteq> None
      | REVOKE \<Rightarrow> ae_from_tier e \<noteq> None \<and> ae_to_tier e = None
      | EVIDENCE_DISPUTED \<Rightarrow> True)"

definition create_award_event :: "UserAchievement \<Rightarrow> AchievementEvent \<Rightarrow> (award_db, AchievementEvent) op" where
  "create_award_event entitlement new = andthen get_db (\<lambda>db.
     if event_errors entitlement new \<noteq> [] then raise (ValidationError (hd (event_errors entitlement new)))
     else if \<not> event_shape new \<or> list_ex (\<lambda>e. ae_idempotency_key e = ae_idempotency_key new) (aw_events db)
       then raise IntegrityError
     else let e = new\<lparr>ae_id := fresh_pk (map ae_id (aw_events db))\<rparr>
       in andthen (modify_db (\<lambda>db. db\<lparr>aw_events := aw_events db @ [e]\<rparr>)) (\<lambda>_. ret e))"

definition save_award :: "UserAchievement \<Rightarrow> (award_db, unit) op" where
  "save_award a = modify_db (\<lambda>db. db\<lparr>aw_entitlements :=
     map (\<lambda>row. if ua_id row = ua_id a then a else row) (aw_entitlements db)\<rparr>)"

text \<open>The event of a change is written first, then the changed row.\<close>

definition record_change :: "UserAchievement \<Rightarrow> AchievementEvent \<Rightarrow> UserAchievement \<Rightarrow> (award_db, AchievementEvent) op" where
  "record_change a new changed = andthen (create_award_event a new) (\<lambda>event.
     andthen (save_award changed) (\<lambda>_. ret event))"

text \<open>
  The latest grant or upgrade of an award: the proof it rests on. Events are read in the order of
  the table, by time and then by key.
\<close>

definition award_events :: "'a award_db_scheme \<Rightarrow> pk \<Rightarrow> AchievementEvent list" where
  "award_events db i = sort_key ae_recorded_at (filter (\<lambda>e. ae_entitlement_id e = i) (aw_events db))"

definition last_proof :: "'a award_db_scheme \<Rightarrow> UserAchievement \<Rightarrow> AchievementEvent option" where
  "last_proof db a =
     (case rev (filter (\<lambda>e. ae_action e \<in> {GRANT, UPGRADE}) (award_events db (ua_id a))) of
        [] \<Rightarrow> None | e # _ \<Rightarrow> Some e)"

section \<open>Deliveries\<close>

definition enqueue :: "AchievementEvent \<Rightarrow> pk \<Rightarrow> (award_db, bool) op" where
  "enqueue e user_id = andthen get_db (\<lambda>db.
     case aw_boundary db of
       None \<Rightarrow> ret False
     | Some started_at \<Rightarrow>
         if ae_action e \<notin> {GRANT, UPGRADE} \<or> ae_recorded_at e < started_at then ret False
         else if list_ex (\<lambda>n. nt_event_id n = ae_id e) (aw_notifications db) then ret False
         else andthen (modify_db (\<lambda>db. db\<lparr>aw_notifications := aw_notifications db @
             [\<lparr>nt_id = fresh_pk (map nt_id (aw_notifications db)), nt_event_id = ae_id e, nt_user_id = user_id,
               nt_read_at = None, nt_claim_token = None, nt_claim_expires_at = None\<rparr>]\<rparr>)) (\<lambda>_. ret True))"

section \<open>Granting\<close>

record grant_request =
  gr_user_id :: pk
  gr_definition_id :: pk
  gr_tier_code :: string
  gr_evidence :: "(string \<times> json) list"
  gr_occurred_at :: "time option"
  gr_source_type :: string
  gr_source_ref :: string
  gr_operation_id :: string
  gr_actor :: "SandboxUser option"
  gr_reason :: string
  gr_expected_revision :: "nat option"
  gr_rule_version :: nat

definition manual :: "grant_request \<Rightarrow> bool" where
  "manual g \<longleftrightarrow> gr_source_type g = ''manual''"

definition request_json :: "grant_request \<Rightarrow> AchievementTier \<Rightarrow> json" where
  "request_json g tier = JArr [JNum (int (ti_id tier)), JObj (gr_evidence g), JStr (gr_source_type g), JStr (gr_source_ref g),
     JStr (py_strip (gr_reason g)), (case gr_actor g of None \<Rightarrow> JNull | Some a \<Rightarrow> JNum (int (us_id a))),
     JNum (int (gr_rule_version g))]"

text \<open>The checks before anything is read for update.\<close>

definition grant_guards :: "grant_request \<Rightarrow> time \<Rightarrow> unit result" where
  "grant_guards g now = bindR
     (if manual g then staff_reason (gr_actor g) (gr_reason g)
      else if gr_actor g \<noteq> None then Inl (ValidationError ''automatic_with_actor'') else Inr ())
     (\<lambda>_. case gr_occurred_at g of
        None \<Rightarrow> Inl (ValidationError ''occurred_at'')
      | Some t \<Rightarrow> if now < t then Inl (ValidationError ''occurred_at'') else Inr ())"

text \<open>The definition and the tier of a request, validated.\<close>

definition grant_tier :: "grant_request \<Rightarrow> (award_db, AchievementDefinition \<times> AchievementTier) op" where
  "grant_tier g = andthen get_db (\<lambda>db.
     case List.find (\<lambda>d. ad_id d = gr_definition_id g) (aw_definitions db) of
       None \<Rightarrow> raise DoesNotExist
     | Some d \<Rightarrow> andthen (lift_result (validate_definition d)) (\<lambda>_.
         if \<not> ad_active d \<or> ad_rule_version d \<noteq> gr_rule_version g then raise (Conflict ''definition_changed'')
         else (case List.find (\<lambda>t. ti_definition_id t = ad_id d \<and> ti_code t = gr_tier_code g) (aw_tiers db) of
             None \<Rightarrow> raise DoesNotExist
           | Some tier \<Rightarrow> andthen (lift_result (validate_tier d tier)) (\<lambda>_.
               if \<not> manual g \<and> \<not> tier_automatic tier then raise (ValidationError ''not_automatic'')
               else ret (d, tier)))))"

definition get_or_create_award :: "pk \<Rightarrow> pk \<Rightarrow> (award_db, UserAchievement) op" where
  "get_or_create_award user_id definition_id = andthen get_db (\<lambda>db.
     case List.find (\<lambda>a. ua_user_id a = user_id \<and> ua_definition_id a = definition_id) (aw_entitlements db) of
       Some a \<Rightarrow> ret a
     | None \<Rightarrow>
         let a = \<lparr>ua_id = fresh_pk (map ua_id (aw_entitlements db)), ua_user_id = user_id,
               ua_definition_id = definition_id, ua_active_tier = None, ua_first_granted_at = None,
               ua_last_upgraded_at = None, ua_last_changed_at = None, ua_revision = 0,
               ua_auto_grant_blocked = False, ua_evidence_disputed = False\<rparr>
         in andthen (modify_db (\<lambda>db. db\<lparr>aw_entitlements := aw_entitlements db @ [a]\<rparr>)) (\<lambda>_. ret a))"

text \<open>The grant of a tier above the active one.\<close>

definition grant_event :: "(json \<Rightarrow> string) \<Rightarrow> grant_request \<Rightarrow> UserAchievement \<Rightarrow> AchievementTier \<Rightarrow> string \<Rightarrow> time \<Rightarrow> AchievementEvent" where
  "grant_event digest g a tier key now =
     \<lparr>ae_id = 0, ae_entitlement_id = ua_id a,
      ae_action = (if ua_active_tier a = None then GRANT else UPGRADE),
      ae_from_tier = ua_active_tier a, ae_to_tier = Some tier, ae_actor = gr_actor g,
      ae_occurred_at = (case gr_occurred_at g of None \<Rightarrow> now | Some t \<Rightarrow> t), ae_recorded_at = now,
      ae_source_type = gr_source_type g, ae_source_ref = gr_source_ref g, ae_rule_version = gr_rule_version g,
      ae_evidence = gr_evidence g, ae_evidence_digest = digest (JObj (gr_evidence g)),
      ae_reason = py_strip (gr_reason g), ae_idempotency_key = key, ae_revoked_event = None\<rparr>"

definition granted_award :: "UserAchievement \<Rightarrow> AchievementTier \<Rightarrow> time \<Rightarrow> UserAchievement" where
  "granted_award a tier now =
     a\<lparr>ua_active_tier := Some tier,
       ua_first_granted_at := (case ua_first_granted_at a of None \<Rightarrow> Some now | Some t \<Rightarrow> Some t),
       ua_last_upgraded_at := (if ua_active_tier a = None then ua_last_upgraded_at a else Some now),
       ua_last_changed_at := Some now, ua_revision := ua_revision a + 1\<rparr>"

definition issue_tier ::
    "(json \<Rightarrow> string) \<Rightarrow> grant_request \<Rightarrow> UserAchievement \<Rightarrow> AchievementTier \<Rightarrow> string \<Rightarrow> string \<Rightarrow> time
     \<Rightarrow> (award_db, grant_reply) op" where
  "issue_tier digest g a tier key request_digest now =
     (let granted = granted_award a tier now
      in andthen (record_change a (grant_event digest g a tier key now) granted) (\<lambda>event.
         andthen (enqueue event (ua_user_id a)) (\<lambda>_.
         remember key request_digest granted (if ua_active_tier a = None then ''grant'' else ''upgrade'') (Some event))))"

text \<open>A request without a receipt.\<close>

definition new_grant ::
    "(json \<Rightarrow> string) \<Rightarrow> grant_request \<Rightarrow> AchievementDefinition \<Rightarrow> AchievementTier \<Rightarrow> string \<Rightarrow> string \<Rightarrow> time
     \<Rightarrow> (award_db, grant_reply) op" where
  "new_grant digest g d tier key request_digest now =
     andthen (get_or_create_award (gr_user_id g) (ad_id d)) (\<lambda>a.
       if (case gr_expected_revision g of None \<Rightarrow> False | Some r \<Rightarrow> ua_revision a \<noteq> r)
         then raise (Conflict ''revision_changed'')
       else if \<not> manual g \<and> ua_auto_grant_blocked a then remember key request_digest a ''suppressed'' None
       else if (case ua_active_tier a of None \<Rightarrow> False | Some active \<Rightarrow> ti_rank tier \<le> ti_rank active)
         then remember key request_digest a ''no_op'' None
       else issue_tier digest g a tier key request_digest now)"

definition grant :: "(json \<Rightarrow> string) \<Rightarrow> grant_request \<Rightarrow> time \<Rightarrow> (award_db, grant_reply) op" where
  "grant digest g now = atomic (
     andthen (lift_result (grant_guards g now)) (\<lambda>_.
     andthen (lock_user (gr_user_id g)) (\<lambda>_.
     andthen (grant_tier g) (\<lambda>(d, tier).
     andthen (lift_result (operation_key digest (gr_user_id g) (ad_id d) ''grant'' (gr_operation_id g))) (\<lambda>key.
     let request_digest = digest (request_json g tier)
     in andthen (repeated key request_digest) (\<lambda>repeat.
        case repeat of
          Some (a, outcome, event) \<Rightarrow>
            if \<not> manual g \<and> ua_auto_grant_blocked a then ret (a, ''suppressed'', None)
            else ret (a, outcome, event)
        | None \<Rightarrow> new_grant digest g d tier key request_digest now))))))"

section \<open>Revoking\<close>

definition revoke_event ::
    "(json \<Rightarrow> string) \<Rightarrow> AchievementDefinition \<Rightarrow> UserAchievement \<Rightarrow> AchievementEvent \<Rightarrow> SandboxUser option
     \<Rightarrow> string \<Rightarrow> string \<Rightarrow> string \<Rightarrow> time \<Rightarrow> AchievementEvent" where
  "revoke_event digest d a proof actor reason op_id key now =
     (let evidence = [(''revoked_event_id'', JNum (int (ae_id proof)))]
      in \<lparr>ae_id = 0, ae_entitlement_id = ua_id a, ae_action = REVOKE,
          ae_from_tier = ua_active_tier a, ae_to_tier = None, ae_actor = actor,
          ae_occurred_at = now, ae_recorded_at = now, ae_source_type = ''manual'',
          ae_source_ref = op_id, ae_rule_version = ad_rule_version d, ae_evidence = evidence,
          ae_evidence_digest = digest (JObj evidence), ae_reason = py_strip reason,
          ae_idempotency_key = key, ae_revoked_event = Some (ae_id proof)\<rparr>)"

definition revoked_award :: "UserAchievement \<Rightarrow> time \<Rightarrow> UserAchievement" where
  "revoked_award a now = a\<lparr>ua_active_tier := None, ua_auto_grant_blocked := True,
     ua_last_changed_at := Some now, ua_revision := ua_revision a + 1\<rparr>"

definition new_revoke ::
    "(json \<Rightarrow> string) \<Rightarrow> pk \<Rightarrow> AchievementDefinition \<Rightarrow> SandboxUser option \<Rightarrow> string \<Rightarrow> string \<Rightarrow> nat option
     \<Rightarrow> string \<Rightarrow> string \<Rightarrow> time \<Rightarrow> (award_db, grant_reply) op" where
  "new_revoke digest user_id d actor reason op_id expected_revision key request_digest now = andthen get_db (\<lambda>db.
     case List.find (\<lambda>a. ua_user_id a = user_id \<and> ua_definition_id a = ad_id d) (aw_entitlements db) of
       None \<Rightarrow> raise DoesNotExist
     | Some a \<Rightarrow>
         if (case expected_revision of None \<Rightarrow> False | Some r \<Rightarrow> r \<noteq> ua_revision a)
           then raise (Conflict ''revision_changed'')
         else if ua_active_tier a = None then remember key request_digest a ''no_op'' None
         else (case last_proof db a of
             None \<Rightarrow> raise AttributeError
           | Some proof \<Rightarrow>
               let revoked = revoked_award a now
               in andthen (record_change a (revoke_event digest d a proof actor reason op_id key now) revoked)
                    (\<lambda>event. remember key request_digest revoked ''revoke'' (Some event))))"

definition revoke ::
    "(json \<Rightarrow> string) \<Rightarrow> pk \<Rightarrow> pk \<Rightarrow> SandboxUser option \<Rightarrow> string \<Rightarrow> string \<Rightarrow> nat option \<Rightarrow> time
     \<Rightarrow> (award_db, grant_reply) op" where
  "revoke digest user_id definition_id actor reason op_id expected_revision now = atomic (
     andthen (lift_result (staff_reason actor reason)) (\<lambda>_.
     andthen (lock_user user_id) (\<lambda>_. andthen get_db (\<lambda>db.
     case List.find (\<lambda>d. ad_id d = definition_id) (aw_definitions db) of
       None \<Rightarrow> raise DoesNotExist
     | Some d \<Rightarrow>
         andthen (lift_result (operation_key digest user_id definition_id ''revoke'' op_id)) (\<lambda>key.
         let request_digest = digest (JArr [case actor of None \<Rightarrow> JNull | Some u \<Rightarrow> JNum (int (us_id u)), JStr (py_strip reason)])
         in andthen (repeated key request_digest) (\<lambda>repeat.
            case repeat of
              Some reply \<Rightarrow> ret reply
            | None \<Rightarrow> new_revoke digest user_id d actor reason op_id expected_revision key request_digest now))))))"

section \<open>Disputes\<close>

text \<open>What a correction of a source touches; the arguments of \<^verbatim>\<open>flag_disputed\<close>.\<close>

record dispute =
  ds_user_id :: pk
  ds_metric_id :: "nat option"
  ds_confirmation_revoked :: bool
  ds_source_id :: json
  ds_source_text :: string
  ds_definition_id :: "pk option"
  ds_sandbox_invalid :: bool

definition evaluator_of :: "'a award_db_scheme \<Rightarrow> pk \<Rightarrow> string" where
  "evaluator_of db definition_id =
     (case List.find (\<lambda>d. ad_id d = definition_id) (aw_definitions db) of None \<Rightarrow> [] | Some d \<Rightarrow> ad_evaluator_key d)"

definition affected :: "'a award_db_scheme \<Rightarrow> dispute \<Rightarrow> UserAchievement \<Rightarrow> AchievementEvent \<Rightarrow> bool" where
  "affected db ds a proof \<longleftrightarrow>
     (case ds_metric_id ds of None \<Rightarrow> False | Some i \<Rightarrow> json_get ''metric_id'' (ae_evidence proof) = JNum (int i)) \<or>
     (ds_confirmation_revoked ds \<and> evaluator_of db (ua_definition_id a) = ''training_program'') \<or>
     (ds_sandbox_invalid ds \<and>
        evaluator_of db (ua_definition_id a) \<in> {''sandbox_program'', ''sandbox_first_five_clean_answers''})"

definition dispute_key :: "(json \<Rightarrow> string) \<Rightarrow> dispute \<Rightarrow> UserAchievement \<Rightarrow> string" where
  "dispute_key digest ds a = digest (JArr [JStr ''dispute'', ds_source_id ds, JNum (int (ua_id a))])"

definition dispute_event :: "(json \<Rightarrow> string) \<Rightarrow> dispute \<Rightarrow> UserAchievement \<Rightarrow> AchievementEvent \<Rightarrow> time \<Rightarrow> AchievementEvent" where
  "dispute_event digest ds a proof now =
     (let evidence = [(''disputed_event_id'', JNum (int (ae_id proof)))]
      in \<lparr>ae_id = 0, ae_entitlement_id = ua_id a, ae_action = EVIDENCE_DISPUTED,
          ae_from_tier = ua_active_tier a, ae_to_tier = ua_active_tier a, ae_actor = None,
          ae_occurred_at = now, ae_recorded_at = now, ae_source_type = ''source_correction'',
          ae_source_ref = ds_source_text ds, ae_rule_version = ae_rule_version proof,
          ae_evidence = evidence, ae_evidence_digest = digest (JObj evidence),
          ae_reason = ''source_changed'', ae_idempotency_key = dispute_key digest ds a, ae_revoked_event = None\<rparr>)"

definition disputed_award :: "UserAchievement \<Rightarrow> time \<Rightarrow> UserAchievement" where
  "disputed_award a now = a\<lparr>ua_evidence_disputed := True, ua_revision := ua_revision a + 1,
     ua_last_changed_at := Some now\<rparr>"

definition flag_award :: "(json \<Rightarrow> string) \<Rightarrow> dispute \<Rightarrow> time \<Rightarrow> UserAchievement \<Rightarrow> (award_db, unit) op" where
  "flag_award digest ds now a = andthen get_db (\<lambda>db.
     if (case ds_definition_id ds of None \<Rightarrow> False | Some i \<Rightarrow> ua_definition_id a \<noteq> i) then ret ()
     else case last_proof db a of
       None \<Rightarrow> ret ()
     | Some proof \<Rightarrow>
         if ae_source_type proof = ''manual'' \<or> \<not> affected db ds a proof then ret ()
         else if list_ex (\<lambda>e. ae_idempotency_key e = dispute_key digest ds a) (aw_events db) then ret ()
         else andthen (record_change a (dispute_event digest ds a proof now) (disputed_award a now)) (\<lambda>_. ret ()))"

primrec flag_awards :: "(json \<Rightarrow> string) \<Rightarrow> dispute \<Rightarrow> time \<Rightarrow> UserAchievement list \<Rightarrow> (award_db, unit) op" where
  "flag_awards digest ds now [] = ret ()"
| "flag_awards digest ds now (a # as) = andthen (flag_award digest ds now a) (\<lambda>_. flag_awards digest ds now as)"

definition flag_disputed :: "(json \<Rightarrow> string) \<Rightarrow> dispute \<Rightarrow> time \<Rightarrow> (award_db, unit) op" where
  "flag_disputed digest ds now = atomic (andthen (lock_user (ds_user_id ds)) (\<lambda>_. andthen get_db (\<lambda>db.
     flag_awards digest ds now
       (filter (\<lambda>a. ua_user_id a = ds_user_id ds \<and> ua_active_tier a \<noteq> None) (aw_entitlements db)))))"

end
