(* ===== verification/Notifications.thy ===== *)
theory Notifications
  imports Grants Effects
begin

text \<open>
  The delivery of award notifications (\<^verbatim>\<open>achievements/services/notifications.py\<close>) and the
  requests that claim and acknowledge one (\<^verbatim>\<open>achievements/notification_views.py\<close>). A browser
  tab claims a notification for \<open>LEASE_SECONDS\<close> under a token of its own, shows it, and
  acknowledges it. Tokens are the parsed UUIDs, as text.
\<close>

definition LEASE_SECONDS :: int where
  "LEASE_SECONDS = 90"

definition PAGE_SIZE :: nat where
  "PAGE_SIZE = 10"

text \<open>\<^verbatim>\<open>timedelta(seconds=LEASE_SECONDS)\<close>, in microseconds.\<close>

definition lease :: time where
  "lease = LEASE_SECONDS * 1000000"

section \<open>Queries\<close>

definition award_of_event :: "'a award_db_scheme \<Rightarrow> pk \<Rightarrow> (AchievementEvent \<times> UserAchievement) option" where
  "award_of_event db i =
     (case event_row db (Some i) of
        None \<Rightarrow> None
      | Some e \<Rightarrow> map_option (\<lambda>a. (e, a)) (award_row db (ae_entitlement_id e)))"

definition definition_row :: "'a award_db_scheme \<Rightarrow> pk \<Rightarrow> AchievementDefinition option" where
  "definition_row db i = List.find (\<lambda>d. ad_id d = i) (aw_definitions db)"

definition is_owned :: "'a award_db_scheme \<Rightarrow> pk \<Rightarrow> AchievementNotification \<Rightarrow> bool" where
  "is_owned db user_id n \<longleftrightarrow> nt_user_id n = user_id \<and>
     (case award_of_event db (nt_event_id n) of
        None \<Rightarrow> False
      | Some (e, a) \<Rightarrow> ua_user_id a = user_id \<and> ae_action e \<in> {GRANT, UPGRADE})"

definition owned :: "'a award_db_scheme \<Rightarrow> pk \<Rightarrow> AchievementNotification list" where
  "owned db user_id = filter (is_owned db user_id) (aw_notifications db)"

definition is_visible :: "'a award_db_scheme \<Rightarrow> AchievementNotification \<Rightarrow> bool" where
  "is_visible db n \<longleftrightarrow>
     (case award_of_event db (nt_event_id n) of
        None \<Rightarrow> False
      | Some (e, a) \<Rightarrow>
          (case definition_row db (ua_definition_id a) of
             None \<Rightarrow> False
           | Some d \<Rightarrow> ad_active d \<and> (\<not> ad_secret d \<or> ua_active_tier a \<noteq> None)))"

definition visible :: "'a award_db_scheme \<Rightarrow> AchievementNotification list \<Rightarrow> AchievementNotification list" where
  "visible db rows = filter (is_visible db) rows"

text \<open>What the browser is told of a notification. Titles are left out.\<close>

record notification_item =
  it_event_id :: pk
  it_action :: AwardAction
  it_secret :: bool
  it_from_tier :: "(string \<times> nat \<times> string) option"
  it_to_tier :: "(string \<times> nat \<times> string) option"
  it_recorded_at :: time
  it_art_key :: string
  it_read :: bool
  it_read_at :: "time option"

definition item_tier :: "AchievementTier \<Rightarrow> string \<times> nat \<times> string" where
  "item_tier t = (ti_code t, ti_rank t, ti_rarity t)"

definition item :: "'a award_db_scheme \<Rightarrow> AchievementNotification \<Rightarrow> notification_item result" where
  "item db n =
     (case award_of_event db (nt_event_id n) of
        None \<Rightarrow> Inl DoesNotExist
      | Some (e, a) \<Rightarrow>
          (case definition_row db (ua_definition_id a) of
             None \<Rightarrow> Inl DoesNotExist
           | Some d \<Rightarrow> Inr \<lparr>it_event_id = ae_id e, it_action = ae_action e, it_secret = ad_secret d,
               it_from_tier = map_option item_tier (ae_from_tier e), it_to_tier = map_option item_tier (ae_to_tier e),
               it_recorded_at = ae_recorded_at e,
               it_art_key = (if ad_art_key d \<in> set ART_KEYS then ad_art_key d else ''generic''),
               it_read = (nt_read_at n \<noteq> None), it_read_at = nt_read_at n\<rparr>))"

record notification_feed =
  fe_items :: "notification_item list"
  fe_unread_count :: nat
  fe_has_more :: bool

definition unread :: "'a award_db_scheme \<Rightarrow> pk \<Rightarrow> AchievementNotification list" where
  "unread db user_id = visible db (filter (\<lambda>n. nt_read_at n = None) (owned db user_id))"

definition available :: "'a award_db_scheme \<Rightarrow> pk \<Rightarrow> time \<Rightarrow> AchievementNotification list" where
  "available db user_id now =
     filter (\<lambda>n. case nt_claim_expires_at n of None \<Rightarrow> True | Some t \<Rightarrow> t \<le> now) (unread db user_id)"

definition feed :: "'a award_db_scheme \<Rightarrow> pk \<Rightarrow> time \<Rightarrow> notification_feed result" where
  "feed db user_id now =
     (let rows = take PAGE_SIZE (sort_key nt_event_id (available db user_id now))
      in bindR (mapR (item db) rows) (\<lambda>items. Inr
           \<lparr>fe_items = items, fe_unread_count = length (unread db user_id),
            fe_has_more = (length rows < length (available db user_id now))\<rparr>))"

section \<open>Deliveries\<close>

text \<open>The events since the boundary that have no delivery, oldest first, at most \<open>limit\<close> of them.\<close>

primrec enqueue_all :: "'a award_db_scheme \<Rightarrow> AchievementEvent list \<Rightarrow> (award_db, nat) op" where
  "enqueue_all start [] = ret 0"
| "enqueue_all start (e # es) =
     (case award_row start (ae_entitlement_id e) of
        None \<Rightarrow> raise DoesNotExist
      | Some a \<Rightarrow> andthen (enqueue e (ua_user_id a)) (\<lambda>created.
          andthen (enqueue_all start es) (\<lambda>n. ret (n + of_bool created))))"

definition repair_delivery :: "int \<Rightarrow> (award_db, nat) op" where
  "repair_delivery limit = andthen get_db (\<lambda>db.
     case aw_boundary db of
       None \<Rightarrow> ret 0
     | Some started_at \<Rightarrow> enqueue_all db (take (nat (max 0 limit)) (sort_key ae_id
         (filter (\<lambda>e. ae_action e \<in> {GRANT, UPGRADE} \<and> started_at \<le> ae_recorded_at e \<and>
            \<not> list_ex (\<lambda>n. nt_event_id n = ae_id e) (aw_notifications db)) (aw_events db)))))"

definition save_notification :: "AchievementNotification \<Rightarrow> (award_db, unit) op" where
  "save_notification n = modify_db (\<lambda>db. db\<lparr>aw_notifications :=
     map (\<lambda>row. if nt_id row = nt_id n then n else row) (aw_notifications db)\<rparr>)"

datatype claim_reply = AlreadyRead pk | Claimed notification_item string

definition held_by_other :: "AchievementNotification \<Rightarrow> string \<Rightarrow> time \<Rightarrow> bool" where
  "held_by_other n claim_token now \<longleftrightarrow> nt_claim_token n \<noteq> Some claim_token \<and>
     (case nt_claim_expires_at n of None \<Rightarrow> False | Some t \<Rightarrow> now < t)"

definition claim :: "pk \<Rightarrow> pk \<Rightarrow> string \<Rightarrow> time \<Rightarrow> (award_db, claim_reply) op" where
  "claim user_id event_id claim_token now = atomic (
     andthen (lock_user user_id) (\<lambda>_. andthen get_db (\<lambda>db.
     case List.find (\<lambda>n. nt_event_id n = event_id) (owned db user_id) of
       None \<Rightarrow> raise DoesNotExist
     | Some n \<Rightarrow>
         if nt_read_at n \<noteq> None then ret (AlreadyRead event_id)
         else if \<not> is_visible db n then raise DoesNotExist
         else if held_by_other n claim_token now then raise (Conflict ''claimed'')
         else let m = n\<lparr>nt_claim_token := Some claim_token, nt_claim_expires_at := Some (now + lease)\<rparr>
           in andthen (save_notification m) (\<lambda>_. andthen get_db (\<lambda>db.
                andthen (lift_result (item db m)) (\<lambda>i. ret (Claimed i claim_token)))))))"

definition acknowledge :: "pk \<Rightarrow> pk \<Rightarrow> string \<Rightarrow> time \<Rightarrow> (award_db, time) op" where
  "acknowledge user_id event_id claim_token now = atomic (andthen get_db (\<lambda>db.
     case List.find (\<lambda>n. nt_event_id n = event_id) (owned db user_id) of
       None \<Rightarrow> raise DoesNotExist
     | Some n \<Rightarrow>
         (case nt_read_at n of
            Some t \<Rightarrow> ret t
          | None \<Rightarrow>
              if nt_claim_token n \<noteq> Some claim_token then raise (Conflict ''claim_required'')
              else andthen (save_notification (n\<lparr>nt_read_at := Some now, nt_claim_expires_at := None\<rparr>)) (\<lambda>_. ret now))))"

section \<open>Requests\<close>

text \<open>
  \<open>body\<close> is the parsed body, if the request carries JSON; \<open>uuid\<close> parses a UUID.
  Services that fail otherwise fail the request.
\<close>

datatype 'a change_reply = Done 'a | InvalidRequest | NotificationNotFound | NotificationConflict string

definition change ::
    "(json \<Rightarrow> string option) \<Rightarrow> json option \<Rightarrow> (string \<Rightarrow> (award_db, 'a) op) \<Rightarrow> (award_db, 'a change_reply) op" where
  "change uuid body handler =
     (case body of
        Some (JObj [(key, value)]) \<Rightarrow>
          (if key \<noteq> ''claim_token'' then ret InvalidRequest
           else (case uuid value of
               None \<Rightarrow> ret InvalidRequest
             | Some claim_token \<Rightarrow> catch (andthen (handler claim_token) (\<lambda>r. ret (Done r))) (\<lambda>e.
                 case e of
                   DoesNotExist \<Rightarrow> ret NotificationNotFound
                 | Conflict s \<Rightarrow> ret (NotificationConflict s)
                 | ValueError \<Rightarrow> ret InvalidRequest
                 | _ \<Rightarrow> raise e)))
      | _ \<Rightarrow> ret InvalidRequest)"

definition claim_notification :: "(json \<Rightarrow> string option) \<Rightarrow> pk \<Rightarrow> pk \<Rightarrow> json option \<Rightarrow> time \<Rightarrow> (award_db, claim_reply change_reply) op" where
  "claim_notification uuid user_id event_id body now =
     change uuid body (\<lambda>claim_token. claim user_id event_id claim_token now)"

definition ack_notification :: "(json \<Rightarrow> string option) \<Rightarrow> pk \<Rightarrow> pk \<Rightarrow> json option \<Rightarrow> time \<Rightarrow> (award_db, time change_reply) op" where
  "ack_notification uuid user_id event_id body now =
     change uuid body (\<lambda>claim_token. acknowledge user_id event_id claim_token now)"

end
