(* ===== verification/Award_Journal.thy ===== *)
theory Award_Journal
  imports Grants Effects
begin

text \<open>
  What the journal of an award promises: the abstract machine of an award, whose steps are the
  events of its journal, and the proof that the services \<^verbatim>\<open>grant\<close>, \<^verbatim>\<open>revoke\<close> and
  \<^verbatim>\<open>flag_disputed\<close> only take its steps, so that every row of \<^verbatim>\<open>UserAchievement\<close> is the
  replay of its journal.
\<close>

section \<open>The abstract award\<close>

record award_view =
  av_tier :: "AchievementTier option"
  av_blocked :: bool
  av_disputed :: bool
  av_revision :: nat

definition no_award :: award_view where
  "no_award = \<lparr>av_tier = None, av_blocked = False, av_disputed = False, av_revision = 0\<rparr>"

definition view_of :: "UserAchievement \<Rightarrow> award_view" where
  "view_of a = \<lparr>av_tier = ua_active_tier a, av_blocked = ua_auto_grant_blocked a,
     av_disputed = ua_evidence_disputed a, av_revision = ua_revision a\<rparr>"

text \<open>A manual event is signed by a member of the staff, who gives a reason.\<close>

definition signed_by_staff :: "AchievementEvent \<Rightarrow> bool" where
  "signed_by_staff e \<longleftrightarrow> ae_source_type e = ''manual'' \<and>
     (case ae_actor e of None \<Rightarrow> False | Some u \<Rightarrow> us_is_staff u) \<and> py_strip (ae_reason e) \<noteq> []"

definition allowed :: "award_view \<Rightarrow> AchievementEvent \<Rightarrow> bool" where
  "allowed v e \<longleftrightarrow> ae_from_tier e = av_tier v \<and> (ae_source_type e = ''manual'' \<longrightarrow> signed_by_staff e) \<and>
     (case ae_action e of
        GRANT \<Rightarrow> av_tier v = None \<and> ae_to_tier e \<noteq> None \<and> (av_blocked v \<longrightarrow> signed_by_staff e)
      | UPGRADE \<Rightarrow> (case (av_tier v, ae_to_tier e) of (Some f, Some t) \<Rightarrow> ti_rank f < ti_rank t | _ \<Rightarrow> False) \<and>
          (av_blocked v \<longrightarrow> signed_by_staff e)
      | REVOKE \<Rightarrow> av_tier v \<noteq> None \<and> ae_to_tier e = None \<and> signed_by_staff e
      | EVIDENCE_DISPUTED \<Rightarrow> av_tier v \<noteq> None \<and> ae_to_tier e = av_tier v)"

definition apply_event :: "award_view \<Rightarrow> AchievementEvent \<Rightarrow> award_view" where
  "apply_event v e = v\<lparr>av_tier := ae_to_tier e, av_blocked := (av_blocked v \<or> ae_action e = REVOKE),
     av_disputed := (av_disputed v \<or> ae_action e = EVIDENCE_DISPUTED), av_revision := av_revision v + 1\<rparr>"

text \<open>A journal replayed from a state: every event is allowed where it stands.\<close>

fun replay :: "award_view \<Rightarrow> AchievementEvent list \<Rightarrow> award_view option" where
  "replay v [] = Some v"
| "replay v (e # es) = (if allowed v e then replay (apply_event v e) es else None)"

lemma replay_append: "replay v (es @ fs) = (case replay v es of None \<Rightarrow> None | Some w \<Rightarrow> replay w fs)"
  by (induction es arbitrary: v) auto

lemma replay_snoc: "replay v es = Some w \<Longrightarrow> allowed w e \<Longrightarrow> replay v (es @ [e]) = Some (apply_event w e)"
  by (simp add: replay_append)

lemma replay_blocked: "replay v es = Some w \<Longrightarrow> av_blocked v \<Longrightarrow> av_blocked w"
  by (induction es arbitrary: v) (auto simp: apply_event_def split: if_splits)

text \<open>Once automatic grants are blocked, every later grant is signed by the staff.\<close>

lemma replay_blocked_signed:
  "replay v es = Some w \<Longrightarrow> av_blocked v \<Longrightarrow> e \<in> set es \<Longrightarrow> ae_action e \<in> {GRANT, UPGRADE} \<Longrightarrow> signed_by_staff e"
proof (induction es arbitrary: v)
  case Nil
  then show ?case by simp
next
  case (Cons f es)
  from Cons.prems(1) have f: "allowed v f" "replay (apply_event v f) es = Some w"
    by (auto split: if_splits)
  have "av_blocked (apply_event v f)" using Cons.prems(2) by (simp add: apply_event_def)
  with Cons f show ?case by (cases "e = f") (auto simp: allowed_def)
qed

lemma replay_revision: "replay v es = Some w \<Longrightarrow> av_revision w = av_revision v + length es"
  by (induction es arbitrary: v) (auto simp: apply_event_def split: if_splits)

section \<open>The journal of the tables\<close>

text \<open>The events of an award in the order they were written.\<close>

definition journal :: "'a award_db_scheme \<Rightarrow> pk \<Rightarrow> AchievementEvent list" where
  "journal db i = filter (\<lambda>e. ae_entitlement_id e = i) (aw_events db)"

definition awards_kept :: "'a award_db_scheme \<Rightarrow> bool" where
  "awards_kept db \<longleftrightarrow>
     distinct (map ua_id (aw_entitlements db)) \<and>
     distinct (map ae_idempotency_key (aw_events db)) \<and>
     (\<forall>e \<in> set (aw_events db). ae_entitlement_id e \<in> ua_id ` set (aw_entitlements db)) \<and>
     (\<forall>a \<in> set (aw_entitlements db). replay no_award (journal db (ua_id a)) = Some (view_of a))"

text \<open>
  What the services do to the awards: a new row without a journal, or one event that the machine
  allows together with the change of the row that it stands for.
\<close>

inductive journal_step :: "'a award_db_scheme \<Rightarrow> 'a award_db_scheme \<Rightarrow> bool" where
  unchanged: "aw_entitlements t = aw_entitlements s \<Longrightarrow> aw_events t = aw_events s \<Longrightarrow>
    (\<exists>rs. aw_operations t = aw_operations s @ rs) \<Longrightarrow> journal_step s t"
| opened: "aw_entitlements t = aw_entitlements s @ [a] \<Longrightarrow> aw_events t = aw_events s \<Longrightarrow>
    aw_operations t = aw_operations s \<Longrightarrow>
    ua_id a \<notin> ua_id ` set (aw_entitlements s) \<Longrightarrow> view_of a = no_award \<Longrightarrow> journal_step s t"
| recorded: "a \<in> set (aw_entitlements s) \<Longrightarrow> aw_events t = aw_events s @ [e] \<Longrightarrow>
    aw_operations t = aw_operations s \<Longrightarrow>
    ae_entitlement_id e = ua_id a \<Longrightarrow> ae_idempotency_key e \<notin> ae_idempotency_key ` set (aw_events s) \<Longrightarrow>
    aw_entitlements t = map (\<lambda>row. if ua_id row = ua_id a then b else row) (aw_entitlements s) \<Longrightarrow>
    ua_id b = ua_id a \<Longrightarrow> allowed (view_of a) e \<Longrightarrow> view_of b = apply_event (view_of a) e \<Longrightarrow> journal_step s t"

inductive_cases journal_step_cases: "journal_step s t"

definition journal_order :: "'a award_db_scheme \<Rightarrow> 'a award_db_scheme \<Rightarrow> bool" where
  "journal_order = journal_step\<^sup>*\<^sup>*"

interpretation journal: effect_order journal_order
  by unfold_locales (auto simp: journal_order_def)

lemma journal_orderI: "journal_step s t \<Longrightarrow> journal_order s t"
  by (simp add: journal_order_def)

lemma journal_frame:
  "aw_entitlements t = aw_entitlements s \<Longrightarrow> aw_events t = aw_events s \<Longrightarrow>
    (\<exists>rs. aw_operations t = aw_operations s @ rs) \<Longrightarrow> journal_order s t"
  by (intro journal_orderI journal_step.unchanged)

text \<open>The steps keep the tables consistent.\<close>

lemma journal_append: "aw_events t = aw_events s @ [e] \<Longrightarrow>
    journal t i = journal s i @ (if ae_entitlement_id e = i then [e] else [])"
  by (simp add: journal_def)

lemma journal_same: "aw_events t = aw_events s \<Longrightarrow> journal t i = journal s i"
  by (simp add: journal_def)

lemma journal_Nil: "i \<notin> ae_entitlement_id ` set (aw_events s) \<Longrightarrow> journal s i = []"
  by (auto simp: journal_def filter_empty_conv)

lemma journal_step_keeps:
  assumes "journal_step s t" and "awards_kept s"
  shows "awards_kept t"
  using assms(1)
proof cases
  case unchanged
  then show ?thesis using assms(2) by (simp add: awards_kept_def journal_def)
next
  case (opened a)
  have "\<forall>e \<in> set (aw_events s). ae_entitlement_id e \<in> ua_id ` set (aw_entitlements s)"
    using assms(2) unfolding awards_kept_def by blast
  with \<open>ua_id a \<notin> ua_id ` set (aw_entitlements s)\<close>
  have "ua_id a \<notin> ae_entitlement_id ` set (aw_events s)" by (metis imageE)
  then have "journal s (ua_id a) = []" by (rule journal_Nil)
  moreover have "journal t i = journal s i" for i by (rule journal_same [OF opened(2)])
  ultimately show ?thesis using opened assms(2) unfolding awards_kept_def by simp
next
  case (recorded a e b)
  have ids: "map ua_id (aw_entitlements t) = map ua_id (aw_entitlements s)"
    using recorded by auto
  have row: "replay no_award (journal t (ua_id x)) = Some (view_of x)" if x: "x \<in> set (aw_entitlements t)" for x
  proof (cases "ua_id x = ua_id a")
    case True
    with x recorded have "x = b" by auto
    moreover have "replay no_award (journal s (ua_id a)) = Some (view_of a)"
      using assms(2) recorded by (simp add: awards_kept_def)
    ultimately show ?thesis using True recorded by (simp add: journal_append [OF recorded(2)] replay_snoc)
  next
    case False
    with x recorded have "x \<in> set (aw_entitlements s)" by auto
    with False assms(2) recorded show ?thesis by (simp add: journal_append [OF recorded(2)] awards_kept_def)
  qed
  have "ua_id ` set (aw_entitlements t) = ua_id ` set (aw_entitlements s)"
    using ids by (metis list.set_map)
  moreover have "distinct (map ua_id (aw_entitlements t))"
    using ids assms(2) by (simp add: awards_kept_def)
  moreover have "distinct (map ae_idempotency_key (aw_events t))"
    using recorded assms(2) by (simp add: awards_kept_def)
  moreover have "\<forall>e \<in> set (aw_events t). ae_entitlement_id e \<in> ua_id ` set (aw_entitlements s)"
    using recorded(1,2,4) assms(2) by (simp add: awards_kept_def)
  ultimately show ?thesis using row by (simp add: awards_kept_def)
qed

lemma journal_order_keeps: "journal_order s t \<Longrightarrow> awards_kept s \<Longrightarrow> awards_kept t"
  unfolding journal_order_def by (induction rule: rtranclp_induct) (auto intro: journal_step_keeps)

text \<open>Journals and receipts only grow.\<close>

lemma journal_step_grows:
  "journal_step s t \<Longrightarrow> (\<exists>es. aw_events t = aw_events s @ es) \<and> (\<exists>rs. aw_operations t = aw_operations s @ rs)"
  by (erule journal_step.cases) auto

lemma journal_order_grows:
  "journal_order s t \<Longrightarrow> (\<exists>es. aw_events t = aw_events s @ es) \<and> (\<exists>rs. aw_operations t = aw_operations s @ rs)"
  unfolding journal_order_def
  by (induction rule: rtranclp_induct) (auto dest: journal_step_grows)

lemma journal_step_rows:
  "journal_step s t \<Longrightarrow> ua_id ` set (aw_entitlements s) \<subseteq> ua_id ` set (aw_entitlements t)"
proof (erule journal_step_cases)
  fix a e b
  assume b: "ua_id b = ua_id a"
    and "aw_entitlements t = map (\<lambda>row. if ua_id row = ua_id a then b else row) (aw_entitlements s)"
  then have "map ua_id (aw_entitlements t) = map ua_id (aw_entitlements s)" by simp
  then show ?thesis by (metis list.set_map order_refl)
qed auto

lemma journal_order_rows:
  "journal_order s t \<Longrightarrow> ua_id ` set (aw_entitlements s) \<subseteq> ua_id ` set (aw_entitlements t)"
  unfolding journal_order_def
proof (induction rule: rtranclp_induct)
  case base
  show ?case by simp
next
  case (step t u)
  from journal_step_rows [OF step.hyps(2)] step.IH show ?case by (rule order_trans [rotated])
qed

section \<open>The services take the steps of the machine\<close>

lemma keeps_frame:
  assumes "\<And>s. aw_entitlements (snd (m s)) = aw_entitlements s"
    and "\<And>s. aw_events (snd (m s)) = aw_events s"
    and "\<And>s. \<exists>rs. aw_operations (snd (m s)) = aw_operations s @ rs"
  shows "keeps journal_order m"
  unfolding keeps_def using journal_frame assms by blast

lemma keeps_lock_user [intro!]: "keeps journal_order (lock_user i)"
  unfolding lock_user_def by (intro journal.keeps_intros)

lemma keeps_repeated [intro!]: "keeps journal_order (repeated key request)"
  unfolding repeated_def by (intro journal.keeps_intros)

lemma keeps_remember [intro!]: "keeps journal_order (remember key request a outcome e)"
  unfolding remember_def
  by (intro journal.keeps_intros) (auto intro!: keeps_frame simp: op_apply)

lemma keeps_enqueue [intro!]: "keeps journal_order (enqueue e i)"
  unfolding enqueue_def
  by (intro journal.keeps_intros) (auto intro!: keeps_frame simp: op_apply)

lemma keeps_grant_tier [intro!]: "keeps journal_order (grant_tier g)"
  unfolding grant_tier_def by (intro journal.keeps_intros)

lemma allowed_ae_id [simp]: "allowed v (e\<lparr>ae_id := i\<rparr>) = allowed v e"
  by (simp add: allowed_def signed_by_staff_def cong: AwardAction.case_cong)

lemma run_record_change:
  assumes "a \<in> set (aw_entitlements db)" and "ae_entitlement_id new = ua_id a" and "allowed (view_of a) new"
    and "ua_id b = ua_id a" and "view_of b = apply_event (view_of a) new"
  shows "journal_order db (snd (record_change a new b db))"
proof -
  let ?e = "new\<lparr>ae_id := fresh_pk (map ae_id (aw_events db))\<rparr>"
  have "allowed (view_of a) ?e" and "view_of b = apply_event (view_of a) ?e"
    using assms(3,5) by (simp_all add: allowed_ae_id apply_event_def)
  with assms show ?thesis
    unfolding record_change_def create_award_event_def save_award_def andthen_def
    by (auto simp: op_apply Let_def journal.unchanged list_ex_iff
        intro!: journal_orderI [OF journal_step.recorded [where e = ?e and b = b and a = a]])
qed

lemma get_or_create_award_row:
  assumes "get_or_create_award i j db = (Inr a, db')"
  shows "a \<in> set (aw_entitlements db')" and "ua_user_id a = i" and "ua_definition_id a = j"
  using assms unfolding get_or_create_award_def andthen_def
  by (auto simp: op_apply Let_def split: option.splits dest!: find_Some_member)

lemma keeps_get_or_create_award [intro!]: "keeps journal_order (get_or_create_award i j)"
proof (unfold keeps_def, intro allI)
  fix s :: award_db
  show "journal_order s (snd (get_or_create_award i j s))"
    unfolding get_or_create_award_def andthen_def
    using fresh_pk_notin [of "map ua_id (aw_entitlements s)"]
    by (auto simp: op_apply Let_def journal.unchanged view_of_def no_award_def
        intro!: journal_orderI [OF journal_step.opened] split: option.split)
qed

text \<open>Granting.\<close>

lemma grant_guards_manual:
  "grant_guards g now = Inr u \<Longrightarrow> manual g \<Longrightarrow>
    (\<exists>actor. gr_actor g = Some actor \<and> us_is_staff actor) \<and> py_strip (gr_reason g) \<noteq> []"
  by (auto simp: grant_guards_def staff_reason_def bindR_Inr_iff split: option.splits if_splits)

lemma run_issue_tier:
  assumes guards: "grant_guards g now = Inr u" and row: "a \<in> set (aw_entitlements db)"
    and free: "manual g \<or> \<not> ua_auto_grant_blocked a"
    and above: "\<forall>active. ua_active_tier a = Some active \<longrightarrow> ti_rank active < ti_rank tier"
  shows "journal_order db (snd (issue_tier digest g a tier key request now db))"
proof -
  let ?e = "grant_event digest g a tier key now"
  have signed: "manual g \<Longrightarrow> signed_by_staff ?e"
    using grant_guards_manual [OF guards] by (auto simp: signed_by_staff_def grant_event_def manual_def)
  have "allowed (view_of a) ?e"
  proof (cases "ua_active_tier a")
    case None
    with signed free show ?thesis by (auto simp: allowed_def view_of_def grant_event_def manual_def)
  next
    case (Some active)
    with signed free above show ?thesis by (auto simp: allowed_def view_of_def grant_event_def manual_def)
  qed
  moreover have "view_of (granted_award a tier now) = apply_event (view_of a) ?e"
    by (simp add: view_of_def granted_award_def apply_event_def grant_event_def)
  ultimately have "journal_order db (snd (record_change a ?e (granted_award a tier now) db))"
    using row by (intro run_record_change) (simp_all add: grant_event_def granted_award_def)
  then show ?thesis
    unfolding issue_tier_def Let_def
    by (rule journal.run_andthen) (rule journal.run_keeps, intro journal.keeps_andthen keeps_enqueue keeps_remember)
qed

lemma run_new_grant:
  assumes "grant_guards g now = Inr u"
  shows "journal_order s (snd (new_grant digest g d tier key request now s))"
  unfolding new_grant_def
proof (rule journal.run_andthen)
  show "journal_order s (snd (get_or_create_award (gr_user_id g) (ad_id d) s))"
    by (rule journal.run_keeps) (rule keeps_get_or_create_award)
qed (use assms in \<open>auto intro!: journal.run_keeps [OF keeps_remember] run_issue_tier simp: op_apply journal.unchanged
    dest: get_or_create_award_row(1) split: option.splits\<close>)

lemma run_grant: "journal_order db (snd (grant digest g now db))"
  unfolding grant_def Let_def
  by (rule journal.run_atomic, rule journal.run_andthen)
    (auto intro!: journal.run_andthen journal.run_keeps [OF keeps_lock_user] journal.run_keeps [OF keeps_grant_tier]
      journal.run_keeps [OF journal.keeps_lift_result] journal.run_keeps [OF keeps_repeated] run_new_grant
      simp: op_apply journal.unchanged split: option.split)

text \<open>Revoking.\<close>

lemma run_record_revoke:
  assumes "a \<in> set (aw_entitlements db)" and "ua_active_tier a \<noteq> None" and "staff_reason actor reason = Inr u"
  shows "journal_order db (snd (record_change a (revoke_event digest d a proof actor reason op_id key now)
    (revoked_award a now) db))"
  using assms
  by (intro run_record_change) (auto simp: revoke_event_def Let_def revoked_award_def allowed_def view_of_def apply_event_def
      signed_by_staff_def staff_reason_def split: option.splits if_splits)

lemma run_new_revoke:
  assumes "staff_reason actor reason = Inr u"
  shows "journal_order s (snd (new_revoke digest user_id d actor reason op_id expected key request now s))"
  using assms unfolding new_revoke_def
  by (auto intro!: journal.run_keeps [OF keeps_remember] journal.run_andthen run_record_revoke
      simp: op_apply journal.unchanged Let_def andthen_def [of get_db] dest!: find_Some_member split: option.split)

lemma run_revoke: "journal_order db (snd (revoke digest user_id definition_id actor reason op_id expected now db))"
  unfolding revoke_def Let_def
  by (rule journal.run_atomic, rule journal.run_andthen)
    (auto intro!: journal.run_andthen journal.run_keeps [OF keeps_lock_user] journal.run_keeps [OF journal.keeps_get_db]
      journal.run_keeps [OF journal.keeps_lift_result] journal.run_keeps [OF keeps_repeated] run_new_revoke
      simp: op_apply journal.unchanged split: option.split)

text \<open>Disputes. The awards are read at the start; each is changed at most once.\<close>

lemma run_flag_award:
  assumes "a \<in> set (aw_entitlements db)" and "ua_active_tier a \<noteq> None"
  shows "journal_order db (snd (flag_award digest ds now a db))"
proof -
  have "journal_order db (snd (record_change a (dispute_event digest ds a p now) (disputed_award a now) db))"
    if "ae_source_type p \<noteq> ''manual''" for p
    using assms
    by (intro run_record_change) (auto simp: dispute_event_def Let_def disputed_award_def allowed_def view_of_def apply_event_def
        signed_by_staff_def)
  then show ?thesis
    unfolding flag_award_def
    by (auto intro!: journal.run_andthen simp: op_apply journal.unchanged andthen_def [of get_db] split: option.split)
qed

lemma flag_award_rows:
  assumes "b \<in> set (aw_entitlements db)" and "ua_id b \<noteq> ua_id a"
  shows "b \<in> set (aw_entitlements (snd (flag_award digest ds now a db)))"
  using assms
  by (auto simp: flag_award_def record_change_def create_award_event_def save_award_def disputed_award_def
      andthen_def op_apply Let_def split: option.split)

lemma run_flag_awards:
  "set xs \<subseteq> set (aw_entitlements db) \<Longrightarrow> distinct (map ua_id xs) \<Longrightarrow> \<forall>a \<in> set xs. ua_active_tier a \<noteq> None \<Longrightarrow>
    journal_order db (snd (flag_awards digest ds now xs db))"
proof (induction xs arbitrary: db)
  case Nil
  then show ?case by (simp add: op_apply journal.unchanged)
next
  case (Cons a xs)
  show ?case
    unfolding flag_awards.simps
  proof (rule journal.run_andthen)
    show "journal_order db (snd (flag_award digest ds now a db))"
      using Cons.prems by (intro run_flag_award) auto
    show "journal_order u (snd (flag_awards digest ds now xs u))" if "flag_award digest ds now a db = (Inr x, u)" for x u
    proof (rule Cons.IH)
      show "set xs \<subseteq> set (aw_entitlements u)"
      proof
        fix b assume "b \<in> set xs"
        with Cons.prems have "b \<in> set (aw_entitlements db)" and "ua_id a \<noteq> ua_id b" by auto
        from flag_award_rows [OF this(1) this(2) [symmetric], of digest ds now] that show "b \<in> set (aw_entitlements u)" by simp
      qed
    qed (use Cons.prems in auto)
  qed
qed

lemma run_flag_disputed:
  assumes "distinct (map ua_id (aw_entitlements db))"
  shows "journal_order db (snd (flag_disputed digest ds now db))"
  unfolding flag_disputed_def
proof (rule journal.run_atomic, rule journal.run_andthen)
  show "journal_order db (snd (lock_user (ds_user_id ds) db))" by (rule journal.run_keeps [OF keeps_lock_user])
  show "journal_order u (snd (andthen get_db (\<lambda>db. flag_awards digest ds now (filter (\<lambda>a. ua_user_id a = ds_user_id ds \<and>
      ua_active_tier a \<noteq> None) (aw_entitlements db))) u))" if "lock_user (ds_user_id ds) db = (Inr x, u)" for x u
  proof -
    have "u = db" using that by (auto simp: lock_user_def andthen_def op_apply split: if_splits)
    then show ?thesis using assms
      by (auto simp: andthen_def op_apply distinct_map_filter intro!: run_flag_awards)
  qed
qed

section \<open>The order of histories\<close>

text \<open>From consistent tables on, an operation only takes steps of the machine.\<close>

definition award_order :: "'a award_db_scheme \<Rightarrow> 'a award_db_scheme \<Rightarrow> bool" where
  "award_order s t \<longleftrightarrow> (awards_kept s \<longrightarrow> journal_order s t)"

interpretation awards: effect_order award_order
proof
  show "award_order s t \<Longrightarrow> award_order t u \<Longrightarrow> award_order s u" for s t u :: "'a award_db_scheme"
    unfolding award_order_def using journal.chained journal_order_keeps by blast
qed (simp add: award_order_def journal.unchanged)

lemma awards_modify:
  assumes "\<And>s. aw_entitlements (f s) = aw_entitlements s" and "\<And>s. aw_events (f s) = aw_events s"
    and "\<And>s. aw_operations (f s) = aw_operations s"
  shows "keeps award_order (modify_db f)"
  using assms by (intro awards.keeps_modify_db) (simp add: award_order_def journal_frame)

lemma awards_run: "(\<And>s. journal_order s (snd (m s))) \<Longrightarrow> keeps award_order m"
  by (simp add: keeps_def award_order_def)

lemma awards_grant: "keeps award_order (grant digest g now)"
  by (rule awards_run) (rule run_grant)

lemma awards_revoke: "keeps award_order (revoke digest user_id definition_id actor reason op_id expected now)"
  by (rule awards_run) (rule run_revoke)

lemma awards_flag_disputed: "keeps award_order (flag_disputed digest ds now)"
  by (simp add: keeps_def award_order_def awards_kept_def run_flag_disputed)

lemma awards_lock_user: "keeps award_order (lock_user i)"
  by (rule awards_run) (rule journal.run_keeps [OF keeps_lock_user])

lemmas award_services = awards_grant awards_revoke awards_flag_disputed awards_lock_user

end
