(* ===== verification/Evaluators.thy ===== *)
theory Evaluators
  imports Award_Models
begin

text \<open>
  The evaluators of the awards that rest on a journey (\<^verbatim>\<open>achievements/services/evaluators/\<close>:
  \<^verbatim>\<open>base.py\<close>, \<^verbatim>\<open>training.py\<close>, \<^verbatim>\<open>probation.py\<close>, \<^verbatim>\<open>weekly.py\<close>,
  \<^verbatim>\<open>independent.py\<close>). They only read. A metric is compared in tenths.
\<close>

section \<open>Results of an evaluation\<close>

record Evaluation =
  el_status :: string
  el_tier_code :: "string option"
  el_reason :: string
  el_required :: "string list"
  el_evidence :: "(string \<times> json) list"
  el_context :: "(string \<times> json) list"
  el_occurred_at :: "time option"
  el_rule_version :: nat

text \<open>What Python's library says of dates: \<^verbatim>\<open>isoformat\<close> and the start of a local day; and SHA-256.\<close>

record award_env =
  aw_digest :: "json \<Rightarrow> string"
  aw_fmt :: "date \<Rightarrow> string"
  aw_stamp :: "time \<Rightarrow> string"
  aw_at_date :: "date \<Rightarrow> time"

definition json_option :: "('a \<Rightarrow> json) \<Rightarrow> 'a option \<Rightarrow> json" where
  "json_option f x = (case x of None \<Rightarrow> JNull | Some y \<Rightarrow> f y)"

definition evaluation_report :: "award_env \<Rightarrow> Evaluation \<Rightarrow> json" where
  "evaluation_report env e = JObj
     [(''status'', JStr (el_status e)), (''tier'', json_option JStr (el_tier_code e)), (''reason'', JStr (el_reason e)),
      (''required'', JArr (map JStr (el_required e))), (''evidence'', JObj (el_evidence e)),
      (''context'', JObj (el_context e)), (''occurred_at'', json_option (\<lambda>t. JStr (aw_stamp env t)) (el_occurred_at e)),
      (''rule_version'', JNum (int (el_rule_version e)))]"

definition verdict :: "string \<Rightarrow> string \<Rightarrow> string list \<Rightarrow> Evaluation" where
  "verdict status reason required =
     \<lparr>el_status = status, el_tier_code = None, el_reason = reason, el_required = required, el_evidence = [],
      el_context = [], el_occurred_at = None, el_rule_version = 1\<rparr>"

definition unknown :: "string \<Rightarrow> string list \<Rightarrow> Evaluation" where
  "unknown reason required = verdict ''unknown'' reason required"

definition eligible_tier ::
    "AchievementTier \<Rightarrow> (string \<times> json) list \<Rightarrow> (string \<times> json) list \<Rightarrow> time \<Rightarrow> Evaluation" where
  "eligible_tier tier evidence ctx occurred_at =
     \<lparr>el_status = ''eligible'', el_tier_code = Some (ti_code tier), el_reason = [], el_required = [],
      el_evidence = evidence, el_context = ctx, el_occurred_at = Some occurred_at,
      el_rule_version = ti_rule_version tier\<rparr>"

definition is_eligible :: "Evaluation \<Rightarrow> bool" where
  "is_eligible e \<longleftrightarrow> el_status e = ''eligible''"

definition staff_user :: "'a sandbox_db_scheme \<Rightarrow> pk option \<Rightarrow> bool" where
  "staff_user db i = (case i of None \<Rightarrow> False
     | Some i \<Rightarrow> list_ex (\<lambda>u. us_id u = i \<and> us_is_staff u) (sb_users db))"

text \<open>\<^verbatim>\<open>max(tiers, key=rank)\<close>: the first of the highest.\<close>

fun max_tier :: "AchievementTier list \<Rightarrow> AchievementTier result" where
  "max_tier [] = Inl ValueError"
| "max_tier (t # ts) = Inr (foldl (\<lambda>b t. if ti_rank b < ti_rank t then t else b) t ts)"

section \<open>The history of a journey\<close>

text \<open>The visits of the loop are within their dates, applicable, adjacent, and end in the open visit of the card.\<close>

definition visit_in_order :: "'a diary_db_scheme \<Rightarrow> TraineeJourney \<Rightarrow> date \<Rightarrow> StageHistory \<Rightarrow> bool result" where
  "visit_in_order db j today v =
     (if sh_started_at v < jo_probation_start j \<or> today < sh_started_at v then Inr False
      else bindR (effective_history_stage db j v) (\<lambda>stage. Inr
        (stage_applies stage (jo_scheme j) (jo_entry_type j) \<and>
         (case sh_ended_at v of None \<Rightarrow> True | Some e \<Rightarrow> sh_started_at v \<le> e \<and> e \<le> today))))"

definition last_visit_matches :: "'a diary_db_scheme \<Rightarrow> TraineeJourney \<Rightarrow> StageHistory \<Rightarrow> bool result" where
  "last_visit_matches db j v =
     (if sh_ended_at v \<noteq> None then Inr False
      else bindR (effective_history_stage db j v) (\<lambda>stage. Inr
        (st_id stage = st_id (jo_stage j) \<and> sh_started_at v = jo_stage_started_at j)))"

fun history_in_order :: "'a diary_db_scheme \<Rightarrow> TraineeJourney \<Rightarrow> date \<Rightarrow> StageHistory list \<Rightarrow> bool result" where
  "history_in_order db j today [] = Inr True"
| "history_in_order db j today (v # vs) =
     (case visit_in_order db j today v of
        Inl e \<Rightarrow> Inl e
      | Inr False \<Rightarrow> Inr False
      | Inr True \<Rightarrow>
          if vs = [] then last_visit_matches db j v
          else if sh_ended_at v \<noteq> Some (sh_started_at (hd vs)) then Inr False
          else history_in_order db j today vs)"

definition history_for :: "'a diary_db_scheme \<Rightarrow> TraineeJourney \<Rightarrow> date \<Rightarrow> StageHistory list option result" where
  "history_for db j today =
     (let visits = journey_visits db j
      in if visits = [] \<or> today < jo_probation_start j then Inr None
         else bindR (history_in_order db j today visits) (\<lambda>ok. Inr (if ok then Some visits else None)))"

section \<open>Training\<close>

definition latest_confirmation :: "'a diary_db_scheme \<Rightarrow> TraineeJourney \<Rightarrow> TrainingConfirmationEvent option" where
  "latest_confirmation db j =
     (case rev (sort_key tc_id (filter (\<lambda>e. tc_journey_id e = jo_id j) (di_confirmations db))) of
        [] \<Rightarrow> None | e # _ \<Rightarrow> Some e)"

definition journey_json :: "TraineeJourney \<Rightarrow> (string \<times> json) list" where
  "journey_json j = [(''journey_id'', JNum (int (jo_id j)))]"

definition training :: "'a diary_db_scheme \<Rightarrow> TraineeJourney \<Rightarrow> AchievementTier list \<Rightarrow> time \<Rightarrow> Evaluation" where
  "training db j tiers now =
     (case latest_confirmation db j of
        None \<Rightarrow> verdict ''not_met'' ''no_active_confirmation'' []
      | Some event \<Rightarrow>
          if tc_action event \<noteq> ''confirmed'' then verdict ''not_met'' ''no_active_confirmation'' []
          else if \<not> staff_user db (Some (tc_actor_id event)) \<or> now < tc_created_at event
            then unknown ''untrusted_confirmation'' [''trusted confirmation actor/time'']
          else eligible_tier (hd tiers) [(''confirmation_id'', JNum (int (tc_id event))), (''source'', JStr ''manual''),
              (''completion'', JBool True)] (journey_json j) (tc_created_at event))"

section \<open>Probation\<close>

text \<open>\<^verbatim>\<open>min_day <= day <= parameters.get("max_day", day)\<close>.\<close>

definition covers_day :: "nat \<Rightarrow> AchievementTier \<Rightarrow> bool" where
  "covers_day day t \<longleftrightarrow>
     (case param_nat t ''min_day'' of None \<Rightarrow> False | Some m \<Rightarrow> m \<le> day) \<and>
     (case param_nat t ''max_day'' of None \<Rightarrow> True | Some m \<Rightarrow> day \<le> m)"

definition probation ::
    "award_env \<Rightarrow> 'a diary_db_scheme \<Rightarrow> TraineeJourney \<Rightarrow> AchievementTier list \<Rightarrow> date \<Rightarrow> Evaluation result" where
  "probation env db j tiers today =
     (let inconsistent = Inr (unknown ''unconfirmed_or_inconsistent_completion''
            [''valid actual dates'', ''staff-confirmed SUCCESS'', ''consistent DONE visit''])
      in if jo_completion_status j = COMPLETION_TERMINATED then Inr (verdict ''not_met'' ''probation_terminated'' [])
         else if jo_completion_status j \<noteq> COMPLETION_SUCCESS
           then Inr (verdict ''not_met'' ''no_successful_completion'' [])
         else case jo_completed_at j of
           None \<Rightarrow> inconsistent
         | Some completed \<Rightarrow>
             if completed < jo_probation_start j \<or> today < completed \<or> st_group (jo_stage j) \<noteq> DONE \<or>
                 jo_stage_started_at j \<noteq> completed \<or> \<not> staff_user db (jo_completed_by j) then inconsistent
             else bindR (history_for db j today) (\<lambda>visits.
               if visits = None then inconsistent
               else let day = nat (completed - jo_probation_start j) + 1
                 in bindR (max_tier (filter (covers_day day) tiers)) (\<lambda>tier. Inr
                   (eligible_tier tier ([(''journey_id'', JNum (int (jo_id j))),
                       (''start_date'', JStr (aw_fmt env (jo_probation_start j))),
                       (''completion_date'', JStr (aw_fmt env completed)), (''day_number'', JNum (int day)),
                       (''confirmed_by_id'', json_option (\<lambda>i. JNum (int i)) (jo_completed_by j)),
                       (''status'', JStr ''success'')]) (journey_json j) (aw_at_date env completed)))))"

section \<open>Weekly metrics\<close>

text \<open>A candidate for the best week: its tier, the value in tenths, the metric and its visit.\<close>

type_synonym weekly_best = "AchievementTier \<times> nat \<times> WeeklyMetric \<times> StageHistory"

definition weekly_value :: "bool \<Rightarrow> WeeklyMetric \<Rightarrow> nat option" where
  "weekly_value quality m = (if quality then map_option (\<lambda>q. 10 * q) (wm_quality m) else wm_speed m)"

definition weekly_text :: "bool \<Rightarrow> WeeklyMetric \<Rightarrow> string" where
  "weekly_text quality m =
     (if quality then (case wm_quality m of None \<Rightarrow> [] | Some q \<Rightarrow> str_nat q)
      else (case wm_speed m of None \<Rightarrow> [] | Some s \<Rightarrow> tenths_text s))"

definition reaches :: "nat \<Rightarrow> AchievementTier \<Rightarrow> bool" where
  "reaches number t \<longleftrightarrow> tier_automatic t \<and>
     (if json_truthy (param t ''strict'') then 10 * param_digits t ''minimum'' < number
      else 10 * param_digits t ''minimum'' \<le> number)"

definition covering :: "StageHistory list \<Rightarrow> date \<Rightarrow> StageHistory list" where
  "covering visits start = filter (\<lambda>v. sh_started_at v \<le> start \<and>
     (case sh_ended_at v of None \<Rightarrow> True | Some e \<Rightarrow> start + 7 \<le> e)) visits"

definition better :: "AchievementTier \<Rightarrow> nat \<Rightarrow> weekly_best option \<Rightarrow> bool" where
  "better tier number best \<longleftrightarrow>
     (case best of
        None \<Rightarrow> True
      | Some (t, n, _, _) \<Rightarrow> ti_rank t < ti_rank tier \<or> ti_rank tier = ti_rank t \<and> n < number)"

text \<open>One turn of the loop over the weeks, on the best week so far and the flag \<^verbatim>\<open>ambiguous\<close>.\<close>

definition weigh_week ::
    "bool \<Rightarrow> AchievementTier list \<Rightarrow> StageHistory list \<Rightarrow> date \<Rightarrow> weekly_best option \<times> bool \<Rightarrow> WeeklyMetric
     \<Rightarrow> weekly_best option \<times> bool" where
  "weigh_week quality tiers visits today = (\<lambda>(best, ambiguous) m.
     case wm_week_start m of
       None \<Rightarrow> (best, True)
     | Some start \<Rightarrow>
         if today < start + 7 then (best, True)
         else (case covering visits start of
             [visit] \<Rightarrow>
               (if st_group (sh_stage visit) \<noteq> (if quality then WITH_REVIEW else NO_REVIEW) then (best, ambiguous)
                else case weekly_value quality m of
                  None \<Rightarrow> (best, True)
                | Some number \<Rightarrow>
                    if quality \<and> 1000 < number then (best, True)
                    else (case max_tier (filter (reaches number) tiers) of
                        Inl _ \<Rightarrow> (best, ambiguous)
                      | Inr tier \<Rightarrow>
                          if better tier number best then (Some (tier, number, m, visit), ambiguous)
                          else (best, ambiguous)))
           | _ \<Rightarrow> (best, True)))"

definition group_text :: "bool \<Rightarrow> string" where
  "group_text quality = (if quality then ''with_review'' else ''no_review'')"

definition weekly ::
    "award_env \<Rightarrow> 'a diary_db_scheme \<Rightarrow> TraineeJourney \<Rightarrow> AchievementTier list \<Rightarrow> AchievementDefinition \<Rightarrow> date
     \<Rightarrow> Evaluation result" where
  "weekly env db j tiers d today = bindR (history_for db j today) (\<lambda>found.
     case found of
       None \<Rightarrow> Inr (unknown ''ambiguous_stage_history'' [''continuous stage visits consistent with journey''])
     | Some visits \<Rightarrow>
         let quality = (ad_evaluator_key d = ''review_quality'');
             field_name = (if quality then ''quality_percent'' else ''speed_hours'');
             metrics = sort_key (\<lambda>m. (wm_week_number m, wm_id m)) (journey_metrics db (jo_id j));
             (best, ambiguous) = foldl (weigh_week quality tiers visits today) (None, False) metrics
         in Inr (case best of
             Some (tier, number, m, visit) \<Rightarrow>
               let start = (case wm_week_start m of None \<Rightarrow> 0 | Some d \<Rightarrow> d)
               in eligible_tier tier [(''metric_id'', JNum (int (wm_id m))), (''week_number'', JNum (int (wm_week_number m))),
                   (field_name, JStr (weekly_text quality m)), (''period_start'', JStr (aw_fmt env start)),
                   (''period_end'', JStr (aw_fmt env (start + 7))), (''stage_history_id'', JNum (int (sh_id visit))),
                   (''stage_id'', JNum (int (st_id (sh_stage visit)))), (''stage_group'', JStr (group_text quality))]
                 [(''journey_id'', JNum (int (jo_id j))), (''visit_id'', JNum (int (sh_id visit)))]
                 (aw_at_date env (start + 7))
           | None \<Rightarrow>
               if ambiguous then unknown ''missing_or_ambiguous_week''
                 [''dated finished seven-day period'', ''single applicable stage visit'', field_name]
               else verdict ''not_met'' ''no_qualifying_week_in_required_stage'' []))"

section \<open>Independence\<close>

fun first_independent :: "'a diary_db_scheme \<Rightarrow> award_env \<Rightarrow> TraineeJourney \<Rightarrow> AchievementTier list \<Rightarrow> StageHistory list \<Rightarrow> Evaluation" where
  "first_independent db env j tiers (p # c # vs) =
     (if st_group (sh_stage p) = OPTIONAL_REVIEW \<and> st_group (sh_stage c) = NO_REVIEW then
        if staff_user db (sh_changed_by c)
        then eligible_tier (hd tiers) [(''from_visit_id'', JNum (int (sh_id p))), (''to_visit_id'', JNum (int (sh_id c))),
            (''confirmed_by_id'', json_option (\<lambda>i. JNum (int i)) (sh_changed_by c))] (journey_json j)
            (aw_at_date env (sh_started_at c))
        else unknown ''transition_actor_missing'' [''staff-confirmed transition'']
      else first_independent db env j tiers (c # vs))"
| "first_independent db env j tiers _ = verdict ''not_met'' ''no_normal_confirmed_transition'' []"

definition independent ::
    "award_env \<Rightarrow> 'a diary_db_scheme \<Rightarrow> TraineeJourney \<Rightarrow> AchievementTier list \<Rightarrow> date \<Rightarrow> Evaluation result" where
  "independent env db j tiers today = bindR (history_for db j today) (\<lambda>found. Inr
     (case found of
        None \<Rightarrow> unknown ''ambiguous_stage_history'' [''continuous confirmed OPTIONAL_REVIEW to NO_REVIEW'']
      | Some visits \<Rightarrow> first_independent db env j tiers visits))"

end
