(* ===== verification/Ledger_Evidence.thy ===== *)
theory Ledger_Evidence
  imports Answer_Ledger "HOL-Library.List_Lexorder" "HOL-Library.Char_ord"
begin

text \<open>
  The read-only account the evidence ledger gives of an attempt and of the whole program
  (\<^verbatim>\<open>sandbox/services/ledger_evidence.py\<close>): what is known, with the reasons for which checks,
  resets or answers are not fully covered. Times are compared as times: the ISO texts of the
  document, all in UTC, have the same order.
\<close>

section \<open>Reasons\<close>

definition starts_with :: "string \<Rightarrow> string \<Rightarrow> bool" where
  "starts_with p r \<longleftrightarrow> take (length p) r = p"

definition starts_with_any :: "string list \<Rightarrow> string \<Rightarrow> bool" where
  "starts_with_any ps r \<longleftrightarrow> list_ex (\<lambda>p. starts_with p r) ps"

text \<open>\<^verbatim>\<open>sorted(set(reasons))\<close>.\<close>

definition sorted_set :: "string list \<Rightarrow> string list" where
  "sorted_set reasons = sort (remdups reasons)"

datatype axis = Checks | Resets | Answers

fun axis_prefixes :: "axis \<Rightarrow> string list" where
  "axis_prefixes Checks = [''check_'', ''execution_'', ''technical_'', ''unregistered_check'', ''unregistered_execution'']"
| "axis_prefixes Resets = [''reset_'', ''environment_'', ''legacy_environment_'', ''unregistered_environment_'']"
| "axis_prefixes Answers = [''review_'', ''submission_'', ''submitted_'']"

definition all_prefixes :: "string list" where
  "all_prefixes = axis_prefixes Checks @ axis_prefixes Resets @ axis_prefixes Answers"

text \<open>The reasons against one axis; it is complete when there are none.\<close>

definition source_axes :: "string list \<Rightarrow> string list \<Rightarrow> axis \<Rightarrow> string list" where
  "source_axes reasons gaps name =
     (let common = filter (\<lambda>r. r \<noteq> ''ledger_gap'' \<and> \<not> starts_with_any all_prefixes r) reasons @
            filter (\<lambda>r. \<not> starts_with_any all_prefixes r) gaps
      in sorted_set (common @ filter (starts_with_any (axis_prefixes name)) (reasons @ gaps)))"

definition because :: "bool \<Rightarrow> string \<Rightarrow> string list" where
  "because b reason = (if b then [reason] else [])"

section \<open>An attempt\<close>

record check_fact =
  kf_run_id :: string
  kf_ordinal :: nat
  kf_requested_at :: time
  kf_finished_at :: "time option"
  kf_result :: string
  kf_failure_class :: string
  kf_checker_started :: "bool option"
  kf_check_run_id :: "pk option"
  kf_reason :: string

record answer_fact =
  sf_submission_id :: pk
  sf_ordinal :: nat
  sf_submitted_at :: time
  sf_digest :: string
  sf_decision :: string
  sf_review_ids :: "pk list"
  sf_reviewed_at :: "time option"
  sf_valid_return :: bool

record attempt_evidence =
  at_attempt_id :: pk
  at_credit :: "bool option"
  at_reasons :: "string list"
  at_axes :: "axis \<Rightarrow> string list"
  at_successful_resets :: "nat option"
  at_observed_resets :: nat
  at_checks :: "check_fact list"
  at_first_check :: "check_fact option"
  at_observed_first_check :: "check_fact option"
  at_submissions :: "answer_fact list"
  at_valid_returns :: "nat option"
  at_first_answer_approved :: "bool option"
  at_technical_completed :: "bool option"

definition execution_events :: "sandbox_db \<Rightarrow> TechnicalCheckExecution \<Rightarrow> TechnicalCheckExecutionEvent list" where
  "execution_events db x = filter (\<lambda>e. ce_execution_id e = ex_id x) (sb_check_events db)"

definition finish_of :: "sandbox_db \<Rightarrow> TechnicalCheckExecution \<Rightarrow> TechnicalCheckExecutionEvent option" where
  "finish_of db x = List.find (\<lambda>e. ce_phase e = PH_FINISHED) (execution_events db x)"

definition check_fact_of :: "sandbox_db \<Rightarrow> TechnicalCheckExecution \<Rightarrow> check_fact" where
  "check_fact_of db x =
     (case finish_of db x of
        None \<Rightarrow> \<lparr>kf_run_id = ex_run_id x, kf_ordinal = ex_ordinal x, kf_requested_at = ex_requested_at x,
          kf_finished_at = None, kf_result = ''unknown'', kf_failure_class = ''unknown'', kf_checker_started = None,
          kf_check_run_id = None, kf_reason = ''execution_pending''\<rparr>
      | Some f \<Rightarrow> \<lparr>kf_run_id = ex_run_id x, kf_ordinal = ex_ordinal x, kf_requested_at = ex_requested_at x,
          kf_finished_at = Some (ce_occurred_at f), kf_result = ce_result f, kf_failure_class = ce_failure_class f,
          kf_checker_started = ce_checker_started f, kf_check_run_id = ce_check_run_id f, kf_reason = ce_reason f\<rparr>)"

text \<open>Who a row of the ledger says it belongs to, against the coverage record.\<close>

definition other_identity :: "SandboxAttemptCoverage option \<Rightarrow> pk \<Rightarrow> pk \<Rightarrow> nat \<Rightarrow> bool" where
  "other_identity coverage user_id task_id number =
     (case coverage of
        None \<Rightarrow> False
      | Some c \<Rightarrow> (user_id, task_id, number) \<noteq> (cv_user_id c, cv_task_id c, cv_attempt_number c))"

definition execution_reasons :: "sandbox_db \<Rightarrow> SandboxAttemptCoverage option \<Rightarrow> TechnicalCheckExecution \<Rightarrow> string list" where
  "execution_reasons db coverage x =
     (case finish_of db x of
        None \<Rightarrow> []
      | Some f \<Rightarrow> because (ce_checker_started f = Some True \<and>
          \<not> list_ex (\<lambda>e. ce_phase e = PH_STARTED) (execution_events db x)) ''check_start_missing'') @
     because (other_identity coverage (ex_user_id x) (ex_task_id x) (ex_attempt_number x)) ''identity_mismatch'' @
     (case finish_of db x of
        None \<Rightarrow> [''execution_pending'']
      | Some f \<Rightarrow> because (ce_result f = ''unknown'' \<and>
          \<not> (ce_failure_class f = ''infrastructure'' \<and> ce_checker_started f = Some False)) ''check_outcome_unknown'') @
     because (ex_source x \<noteq> ''service'') ''unregistered_execution''"

text \<open>The check runs that finished executions name, by key; a later execution wins.\<close>

definition named_runs :: "sandbox_db \<Rightarrow> TechnicalCheckExecution list \<Rightarrow> (pk \<times> TechnicalCheckExecutionEvent) list" where
  "named_runs db checks = rev (List.map_filter (\<lambda>x.
     case finish_of db x of
       None \<Rightarrow> None
     | Some f \<Rightarrow> (case ce_check_run_id f of None \<Rightarrow> None | Some i \<Rightarrow> if i = 0 then None else Some (i, f))) checks)"

definition operation_end :: "SandboxEnvironmentEvent list \<Rightarrow> SandboxEnvironmentEvent \<Rightarrow> SandboxEnvironmentEvent option" where
  "operation_end environment request =
     List.find (\<lambda>e. ev_phase e = EP_FINISHED \<and> ev_operation_id e = ev_operation_id request) (rev environment)"

definition request_reasons :: "SandboxAttemptCoverage option \<Rightarrow> SandboxEnvironmentEvent list \<Rightarrow> SandboxEnvironmentEvent \<Rightarrow> string list" where
  "request_reasons coverage environment r =
     because (other_identity coverage (ev_user_id r) (ev_task_id r) (ev_attempt_number r)) ''identity_mismatch'' @
     because (ev_origin r = ''unknown'') ''environment_origin_unknown'' @
     because (ev_origin r = ''trainee'' \<and> ev_actor_id r \<noteq> Some (ev_user_id r)) ''reset_actor_mismatch'' @
     (case operation_end environment r of
        None \<Rightarrow> [''environment_pending'']
      | Some e \<Rightarrow> because (ev_outcome e = ''unknown'') ''environment_outcome_unknown'') @
     because (ev_kind r = KIND_RESET \<and> ev_origin r = ''unknown'') ''reset_origin_unknown''"

definition successful_reset :: "SandboxEnvironmentEvent list \<Rightarrow> SandboxEnvironmentEvent \<Rightarrow> bool" where
  "successful_reset environment r \<longleftrightarrow> ev_kind r = KIND_RESET \<and>
     (case operation_end environment r of None \<Rightarrow> False | Some e \<Rightarrow> ev_outcome e = ''success'')"

definition trainee_reset :: "SandboxEnvironmentEvent list \<Rightarrow> SandboxEnvironmentEvent \<Rightarrow> bool" where
  "trainee_reset environment r \<longleftrightarrow> successful_reset environment r \<and> ev_origin r = ''trainee'' \<and> ev_attempt_number r = 1"

definition reviews_of :: "sandbox_db \<Rightarrow> SandboxAnswerSubmission \<Rightarrow> SandboxAnswerReviewEvent list" where
  "reviews_of db s = sort_key rv_id (filter (\<lambda>r. rv_submission_id r = sm_id s) (sb_reviews db))"

text \<open>Every review supersedes the one before; the first is the decision, the others are corrections.\<close>

fun review_chain :: "pk option \<Rightarrow> SandboxAnswerReviewEvent list \<Rightarrow> string list" where
  "review_chain previous [] = []"
| "review_chain previous (r # rs) =
     because (rv_supersedes r \<noteq> previous \<or> rv_kind r \<noteq> (if previous = None then ''decision'' else ''correction''))
       ''review_chain_invalid'' @ review_chain (Some (rv_id r)) rs"

definition last_option :: "'a list \<Rightarrow> 'a option" where
  "last_option xs = (if xs = [] then None else Some (last xs))"

definition last_decision :: "sandbox_db \<Rightarrow> SandboxAnswerSubmission \<Rightarrow> string" where
  "last_decision db s = (case last_option (reviews_of db s) of None \<Rightarrow> ''not_reviewed'' | Some r \<Rightarrow> rv_decision r)"

definition answer_fact_of :: "sandbox_db \<Rightarrow> SandboxAnswerSubmission \<Rightarrow> answer_fact" where
  "answer_fact_of db s =
     \<lparr>sf_submission_id = sm_id s, sf_ordinal = sm_ordinal s, sf_submitted_at = sm_submitted_at s, sf_digest = sm_digest s,
      sf_decision = last_decision db s, sf_review_ids = map rv_id (reviews_of db s),
      sf_reviewed_at = map_option rv_reviewed_at (last_option (reviews_of db s)),
      sf_valid_return = (last_decision db s = ''needs_revision'')\<rparr>"

definition submission_reasons :: "sandbox_db \<Rightarrow> SandboxAttemptCoverage option \<Rightarrow> SandboxAnswerSubmission \<Rightarrow> string list" where
  "submission_reasons db coverage s =
     because (other_identity coverage (sm_user_id s) (sm_task_id s) (sm_attempt_number s)) ''identity_mismatch'' @
     review_chain None (reviews_of db s)"

fun decision_text :: "MentorDecision \<Rightarrow> string" where
  "decision_text NOT_REVIEWED = ''not_reviewed''"
| "decision_text APPROVED = ''approved''"
| "decision_text NEEDS_REVISION = ''needs_revision''"

text \<open>The rows of the sandbox against the ledger.\<close>

definition run_reasons :: "sandbox_db \<Rightarrow> pk \<Rightarrow> (pk \<times> TechnicalCheckExecutionEvent) list \<Rightarrow> string list" where
  "run_reasons db attempt_id named =
     (let actual = filter (\<lambda>r. cr_attempt_id r = attempt_id) (sb_check_runs db)
      in because (set (map cr_id actual) \<noteq> set (map fst named)) ''check_run_details_mismatch'' @
         concat (map (\<lambda>i. case (map_of named i, List.find (\<lambda>r. cr_id r = i) actual) of
             (Some known, Some raw) \<Rightarrow> because (Some (cr_exit_code raw) \<noteq> ce_exit_code known \<or>
               (cr_result raw = RUN_PASSED) \<noteq> (ce_result known = ''passed'')) ''check_run_mutated''
           | _ \<Rightarrow> []) (remdups (map fst named))))"

definition answer_reasons :: "sandbox_db \<Rightarrow> TaskAttempt \<Rightarrow> SandboxAnswerSubmission list \<Rightarrow> string list" where
  "answer_reasons db a submissions =
     (if submissions \<noteq> [] \<and> ta_status a \<in> {ST_ON_REVIEW, ST_PASSED} then
        let latest = last submissions
        in because ((py_strip (sm_client_answer latest), py_strip (sm_trainee_report latest)) \<noteq>
              (ta_client_answer a, ta_trainee_report a)) ''submitted_text_mismatch'' @
           because (decision_text (ta_mentor_decision a) \<noteq> last_decision db latest) ''review_projection_mismatch''
      else [])"

definition projection_reasons ::
    "sandbox_db \<Rightarrow> TaskAttempt \<Rightarrow> SandboxAttemptCoverage option \<Rightarrow> TechnicalCheckExecution list \<Rightarrow> nat
     \<Rightarrow> SandboxAnswerSubmission list \<Rightarrow> string list" where
  "projection_reasons db a coverage checks all_resets submissions =
     (let initial_checks = (case coverage of None \<Rightarrow> 0 | Some c \<Rightarrow> cv_initial_checks c);
          initial_resets = (case coverage of None \<Rightarrow> 0 | Some c \<Rightarrow> cv_initial_resets c)
      in because (is_completed (get_technical_evidence db a) \<and>
           \<not> list_ex (\<lambda>x. kf_result (check_fact_of db x) = ''passed'') checks) ''technical_evidence_outside_ledger'' @
         because (ta_attempts_count a \<noteq> length checks + initial_checks) ''check_count_mismatch'' @
         because (ta_restart_count a \<noteq> all_resets + initial_resets) ''reset_count_mismatch'' @
         run_reasons db (ta_id a) (named_runs db checks) @ answer_reasons db a submissions)"

definition coverage_reasons :: "TaskAttempt option \<Rightarrow> SandboxAttemptCoverage option \<Rightarrow> string list" where
  "coverage_reasons a coverage =
     because (a = None) ''attempt_details_missing'' @
     because (case coverage of None \<Rightarrow> True | Some c \<Rightarrow> cv_origin c \<noteq> ''creation'') ''history_not_recorded_from_creation'' @
     (case a of
        None \<Rightarrow> []
      | Some a \<Rightarrow> because (other_identity coverage (ta_user_id a) (tk_id (ta_task a)) (ta_attempt_number a)) ''identity_mismatch'')"

definition attempt_checks :: "sandbox_db \<Rightarrow> pk \<Rightarrow> TechnicalCheckExecution list" where
  "attempt_checks db i = sort_key ex_ordinal (filter (\<lambda>x. ex_attempt_id x = i) (sb_executions db))"

definition attempt_environment :: "sandbox_db \<Rightarrow> pk \<Rightarrow> SandboxEnvironmentEvent list" where
  "attempt_environment db i = sort_key ev_id (filter (\<lambda>e. ev_attempt_id e = i) (sb_env_events db))"

definition attempt_submissions :: "sandbox_db \<Rightarrow> pk \<Rightarrow> SandboxAnswerSubmission list" where
  "attempt_submissions db i = sort_key sm_ordinal (filter (\<lambda>s. sm_attempt_id s = i) (sb_submissions db))"

text \<open>\<open>attempt\<close> is the row that the caller has loaded, if it exists.\<close>

definition attempt_evidence_of :: "sandbox_db \<Rightarrow> pk \<Rightarrow> TaskAttempt option \<Rightarrow> attempt_evidence" where
  "attempt_evidence_of db i attempt =
     (let coverage = List.find (\<lambda>c. cv_attempt_id c = i) (sb_coverage db);
          gaps = map eg_reason (filter (\<lambda>g. eg_attempt_id g = i) (sb_gaps db));
          checks = attempt_checks db i;
          environment = attempt_environment db i;
          requests = filter (\<lambda>e. ev_phase e = EP_REQUESTED) environment;
          resets = length (filter (trainee_reset environment) requests);
          submissions = attempt_submissions db i;
          answers = map (answer_fact_of db) submissions;
          reasons = coverage_reasons attempt coverage @ because (gaps \<noteq> []) ''ledger_gap'' @
            concat (map (execution_reasons db coverage) checks) @
            because (map ex_ordinal checks \<noteq> [1 ..< length checks + 1]) ''check_ordinals_missing'' @
            concat (map (request_reasons coverage environment) requests) @
            concat (map (submission_reasons db coverage) submissions) @
            because (map sm_ordinal submissions \<noteq> [1 ..< length submissions + 1]) ''submission_ordinals_missing'' @
            (case attempt of
               None \<Rightarrow> []
             | Some a \<Rightarrow> projection_reasons db a coverage checks
                 (length (filter (successful_reset environment) requests)) submissions);
          axes = source_axes reasons gaps;
          first = List.find (\<lambda>c. kf_checker_started c = Some True) (map (check_fact_of db) checks)
      in \<lparr>at_attempt_id = i,
          at_credit = (case coverage of
             Some c \<Rightarrow> Some (cv_attempt_number c = 1)
           | None \<Rightarrow> map_option (\<lambda>a. ta_attempt_number a = 1) attempt),
          at_reasons = sorted_set reasons, at_axes = axes,
          at_successful_resets = (if axes Resets = [] then Some resets else None),
          at_observed_resets = resets,
          at_checks = map (check_fact_of db) checks,
          at_first_check = (if axes Checks = [] then first else None),
          at_observed_first_check = first,
          at_submissions = answers,
          at_valid_returns = (if axes Answers = [] then Some (length (filter sf_valid_return answers)) else None),
          at_first_answer_approved = (if axes Answers = [] then Some (map sf_decision answers = [''approved'']) else None),
          at_technical_completed = map_option (\<lambda>a. is_completed (get_technical_evidence db a)) attempt\<rparr>)"

definition attempt_evidence :: "sandbox_db \<Rightarrow> pk \<Rightarrow> attempt_evidence" where
  "attempt_evidence db i = attempt_evidence_of db i (List.find (\<lambda>a. ta_id a = i) (sb_attempts db))"

section \<open>The program\<close>

record program_attempt =
  pa_task_id :: pk
  pa_requires_review :: "bool option"
  pa_evidence :: attempt_evidence

record program_evidence =
  pr_manifest :: "SandboxProgramManifest option"
  pr_completion_id :: "pk option"
  pr_reasons :: "string list"
  pr_axes :: "axis \<Rightarrow> string list"
  pr_attempts :: "program_attempt list"
  pr_successful_resets :: "nat option"
  pr_valid_returns :: "nat option"
  pr_observed_first_answers :: "(pk \<times> answer_fact) list"
  pr_first_five_answers :: "(pk \<times> answer_fact) list option"
  pr_all_required_answers_approved :: "bool option"

text \<open>The entries of a manifest whose digest is right, and what is wrong with it.\<close>

definition manifest_entries :: "services \<Rightarrow> SandboxProgramManifest option \<Rightarrow> ManifestEntry list" where
  "manifest_entries sv manifest =
     (case manifest of
        None \<Rightarrow> []
      | Some m \<Rightarrow> if sv_digest sv (manifest_json (mf_snapshot m)) \<noteq> mf_digest m then [] else mf_snapshot m)"

definition manifest_reasons :: "services \<Rightarrow> SandboxProgramManifest option \<Rightarrow> string list" where
  "manifest_reasons sv manifest =
     (case manifest of
        None \<Rightarrow> [''manifest_missing'']
      | Some m \<Rightarrow> because (mf_source m \<noteq> ''from_start'') ''requirements_not_frozen_from_start'' @
          because (sv_digest sv (manifest_json (mf_snapshot m)) \<noteq> mf_digest m) ''manifest_invalid_or_unknown_version'' @
          because (manifest_entries sv manifest = []) ''manifest_empty'')"

definition completion_entries :: "SandboxProgramCompletion option \<Rightarrow> CompletionEntry list" where
  "completion_entries completion = (case completion of None \<Rightarrow> [] | Some c \<Rightarrow> pc_snapshot c)"

definition credit_row :: "sandbox_db \<Rightarrow> pk \<Rightarrow> pk \<Rightarrow> TaskAttempt option" where
  "credit_row db user_id task_id =
     List.find (\<lambda>a. ta_user_id a = user_id \<and> tk_id (ta_task a) = task_id \<and> ta_attempt_number a = 1) (rev (sb_attempts db))"

text \<open>One turn of the loop over the entries: the attempt, if there is one, and the reasons it adds.\<close>

definition entry_evidence ::
    "sandbox_db \<Rightarrow> pk \<Rightarrow> CompletionEntry list \<Rightarrow> ManifestEntry \<Rightarrow> program_attempt option \<times> string list" where
  "entry_evidence db user_id completed entry =
     (case credit_row db user_id (me_task_id entry) of
        None \<Rightarrow> (None, [''credit_attempt_missing''])
      | Some a \<Rightarrow>
          let evidence = attempt_evidence_of db (ta_id a) (Some a)
          in (Some \<lparr>pa_task_id = me_task_id entry, pa_requires_review = me_requires_review entry, pa_evidence = evidence\<rparr>,
              because (list_ex (\<lambda>e. en_task_id e = me_task_id entry \<and> en_attempt_id e \<noteq> ta_id a) completed)
                ''completion_attempt_identity_mismatch'' @
              at_reasons evidence @
              because (me_requires_review entry = None) ''answer_requirement_unknown'' @
              because (me_criteria_digest entry = None) ''criteria_version_unknown'' @
              because (list_ex (\<lambda>x. ex_criteria_digest x \<noteq> me_criteria_digest entry) (attempt_checks db (ta_id a)))
                ''criteria_version_changed''))"

definition program_axes :: "string list \<Rightarrow> program_attempt list \<Rightarrow> axis \<Rightarrow> string list" where
  "program_axes reasons attempts name =
     (let common = filter (starts_with_any [''manifest_'', ''requirements_'', ''completion_'', ''credit_'']) reasons;
          own = (case name of
              Checks \<Rightarrow> filter (starts_with ''criteria_'') reasons
            | Resets \<Rightarrow> []
            | Answers \<Rightarrow> filter (starts_with ''answer_requirement_'') reasons)
      in sorted_set (common @ own @ concat (map (\<lambda>a.
           if name = Answers \<and> pa_requires_review a = Some False then [] else at_axes (pa_evidence a) name) attempts)))"

definition requires_review :: "program_attempt \<Rightarrow> bool" where
  "requires_review a \<longleftrightarrow> pa_requires_review a = Some True"

definition answers_approved :: "program_attempt \<Rightarrow> bool" where
  "answers_approved a \<longleftrightarrow> at_submissions (pa_evidence a) \<noteq> [] \<and>
     sf_decision (last (at_submissions (pa_evidence a))) = ''approved''"

definition first_answers :: "program_attempt list \<Rightarrow> (pk \<times> answer_fact) list" where
  "first_answers attempts = take 5 (sort_key (\<lambda>(_, s). (sf_submitted_at s, sf_submission_id s))
     (map (\<lambda>a. (pa_task_id a, hd (at_submissions (pa_evidence a))))
       (filter (\<lambda>a. requires_review a \<and> at_submissions (pa_evidence a) \<noteq> []) attempts)))"

definition program_evidence :: "services \<Rightarrow> sandbox_db \<Rightarrow> pk \<Rightarrow> program_evidence" where
  "program_evidence sv db user_id =
     (let manifest = List.find (\<lambda>m. mf_user_id m = user_id \<and> mf_program_key m = ''l1'') (sb_manifests db);
          completion = List.find (\<lambda>c. pc_user_id c = user_id \<and> pc_program_key c = ''l1'') (sb_completions db);
          entries = manifest_entries sv manifest;
          rows = map (entry_evidence db user_id (completion_entries completion)) entries;
          attempts = List.map_filter fst rows;
          reasons = manifest_reasons sv manifest @
            because (completion \<noteq> None \<and> set (map me_task_id entries) \<noteq> set (map en_task_id (completion_entries completion)))
              ''completion_manifest_composition_mismatch'' @
            concat (map snd rows);
          axes = program_axes reasons attempts
      in \<lparr>pr_manifest = manifest, pr_completion_id = map_option pc_id completion,
          pr_reasons = sorted_set reasons, pr_axes = axes, pr_attempts = attempts,
          pr_successful_resets = (if axes Resets = []
             then Some (sum_list (map (\<lambda>a. at_observed_resets (pa_evidence a)) attempts)) else None),
          pr_valid_returns = (if axes Answers = []
             then Some (sum_list (map (\<lambda>a. case at_valid_returns (pa_evidence a) of None \<Rightarrow> 0 | Some n \<Rightarrow> n)
               (filter requires_review attempts))) else None),
          pr_observed_first_answers = first_answers attempts,
          pr_first_five_answers = (if axes Answers = [] then Some (first_answers attempts) else None),
          pr_all_required_answers_approved = (if entries \<noteq> [] \<and> reasons = []
             then Some (list_all answers_approved (filter requires_review attempts)) else None)\<rparr>)"

end
