(* ===== verification/Sandbox_Evaluators.thy ===== *)
theory Sandbox_Evaluators
  imports Evaluators Ledger_Evidence Completions
begin

text \<open>
  The evaluators of the sandbox awards (\<^verbatim>\<open>achievements/services/evaluators/sandbox.py\<close>,
  \<^verbatim>\<open>sandbox_advanced.py\<close>) and the registry that picks the evaluator of a definition
  (\<^verbatim>\<open>evaluators/__init__.py\<close>). The cache of evidence between definitions saves queries only.
\<close>

section \<open>Levels\<close>

text \<open>The status of a level with its reasons.\<close>

record level_state =
  lv_status :: string
  lv_reasons :: "string list"

definition level_of :: "string \<Rightarrow> string list \<Rightarrow> level_state" where
  "level_of status reasons = \<lparr>lv_status = status, lv_reasons = sorted_set reasons\<rparr>"

record levels =
  le_silver :: level_state
  le_gold :: level_state
  le_platinum :: level_state
  le_clean_answers :: level_state

definition all_levels :: "level_state \<Rightarrow> levels" where
  "all_levels s = \<lparr>le_silver = s, le_gold = s, le_platinum = s, le_clean_answers = s\<rparr>"

definition proof_submissions :: "program_evidence \<Rightarrow> answer_fact list" where
  "proof_submissions p = concat (map (\<lambda>a. at_submissions (pa_evidence a)) (pr_attempts p))"

definition proof_checks :: "program_evidence \<Rightarrow> check_fact list" where
  "proof_checks p = concat (map (\<lambda>a. at_checks (pa_evidence a)) (pr_attempts p))"

text \<open>Every time that the evidence mentions.\<close>

definition proof_times :: "SandboxProgramManifest \<Rightarrow> program_evidence \<Rightarrow> time list" where
  "proof_times m p = [mf_recorded_at m] @ map sf_submitted_at (proof_submissions p) @
     List.map_filter sf_reviewed_at (proof_submissions p) @
     map (\<lambda>c. case kf_finished_at c of None \<Rightarrow> kf_requested_at c | Some t \<Rightarrow> t) (proof_checks p)"

definition coverage_of :: "program_evidence \<Rightarrow> axis list \<Rightarrow> level_state option" where
  "coverage_of p names =
     (let reasons = concat (map (pr_axes p) names) in if reasons = [] then None else Some (level_of ''unknown'' reasons))"

definition registered_success :: "program_attempt \<Rightarrow> bool" where
  "registered_success a \<longleftrightarrow> list_ex (\<lambda>c. kf_result c = ''passed'' \<and> kf_checker_started c = Some True \<and>
     (case kf_check_run_id c of None \<Rightarrow> False | Some i \<Rightarrow> i \<noteq> 0)) (at_checks (pa_evidence a))"

definition technical_conflicts :: "program_attempt \<Rightarrow> string list" where
  "technical_conflicts a = filter (\<lambda>r. r \<in> {''check_run_mutated'', ''check_run_details_mismatch'',
     ''technical_evidence_outside_ledger''}) (at_reasons (pa_evidence a))"

fun technical_success :: "program_attempt list \<Rightarrow> level_state option" where
  "technical_success [] = None"
| "technical_success (a # as) =
     (if \<not> registered_success a then Some (level_of ''unknown'' [''technical_success_not_registered''])
      else if technical_conflicts a \<noteq> [] then Some (level_of ''unknown'' (technical_conflicts a))
      else technical_success as)"

definition technical_level :: "SandboxProgramManifest \<Rightarrow> program_evidence \<Rightarrow> level_state option" where
  "technical_level m p =
     (let attempts = pr_attempts p
      in if attempts = [] \<or> length attempts \<noteq> length (mf_snapshot m)
           then Some (level_of ''unknown'' [''credit_attempt_missing''])
         else if list_ex (\<lambda>a. at_technical_completed (pa_evidence a) = None) attempts
           then Some (level_of ''unknown'' [''technical_evidence_missing''])
         else if \<not> list_all (\<lambda>a. at_credit (pa_evidence a) = Some True \<and> at_technical_completed (pa_evidence a) = Some True) attempts
           then Some (level_of ''not_met'' [''technical_program_incomplete''])
         else technical_success attempts)"

text \<open>\<^verbatim>\<open>x or y or ...\<close>: the first obstacle, else the level by itself.\<close>

definition first_obstacle :: "level_state option \<Rightarrow> level_state option \<Rightarrow> level_state \<Rightarrow> level_state" where
  "first_obstacle x y s = (case x of Some l \<Rightarrow> l | None \<Rightarrow> (case y of Some l \<Rightarrow> l | None \<Rightarrow> s))"

definition silver_level :: "SandboxProgramManifest \<Rightarrow> program_evidence \<Rightarrow> level_state" where
  "silver_level m p = first_obstacle (coverage_of p [Resets]) (technical_level m p)
     (case pr_successful_resets p of
        None \<Rightarrow> level_of ''unknown'' [''reset_count_unknown'']
      | Some resets \<Rightarrow> if resets \<le> 2 then level_of ''eligible'' [] else level_of ''not_met'' [''too_many_resets''])"

definition gold_level :: "SandboxProgramManifest \<Rightarrow> program_evidence \<Rightarrow> level_state" where
  "gold_level m p = first_obstacle (coverage_of p [Resets, Answers]) (technical_level m p)
     (case (pr_successful_resets p, pr_valid_returns p) of
        (Some resets, Some returns) \<Rightarrow>
          if 2 < resets \<or> 2 < returns then level_of ''not_met'' [''reset_or_revision_limit_exceeded'']
          else if \<not> list_all answers_approved (filter requires_review (pr_attempts p))
            then level_of ''not_met'' [''required_answers_not_approved'']
          else level_of ''eligible'' []
      | _ \<Rightarrow> level_of ''unknown'' [''answer_or_reset_count_unknown''])"

definition platinum_level :: "SandboxProgramManifest \<Rightarrow> program_evidence \<Rightarrow> level_state" where
  "platinum_level m p = first_obstacle (coverage_of p [Checks, Resets, Answers]) (technical_level m p)
     (if pr_successful_resets p \<noteq> Some 0 then level_of ''not_met'' [''trainee_reset'']
      else if \<not> list_all (\<lambda>a. at_first_answer_approved (pa_evidence a) = Some True) (filter requires_review (pr_attempts p))
        then level_of ''not_met'' [''first_submission_not_approved'']
      else if list_ex (\<lambda>a. at_first_check (pa_evidence a) = None) (pr_attempts p)
        then level_of ''unknown'' [''first_real_check_unknown'']
      else if list_ex (\<lambda>a. case at_first_check (pa_evidence a) of None \<Rightarrow> False | Some c \<Rightarrow> kf_result c \<noteq> ''passed'') (pr_attempts p)
        then level_of ''not_met'' [''first_real_check_failed'']
      else level_of ''unknown'' [''runtime_checker_integrity_unproven''])"

definition clean_answers_level :: "program_evidence \<Rightarrow> level_state" where
  "clean_answers_level p = first_obstacle (coverage_of p [Answers]) None
     (if length (filter requires_review (pr_attempts p)) < 5
        then level_of ''not_met'' [''fewer_than_five_required_answers'']
      else case pr_first_five_answers p of
        None \<Rightarrow> level_of ''unknown'' [''first_answers_order_unknown'']
      | Some first \<Rightarrow>
          if length first < 5 then level_of ''not_met'' [''fewer_than_five_submitted_answers'']
          else if list_ex (\<lambda>(_, s). sf_decision s \<noteq> ''approved'' \<or> sf_ordinal s \<noteq> 1) first
            then level_of ''not_met'' [''first_five_not_clean'']
          else level_of ''eligible'' [])"

definition assess :: "program_evidence \<Rightarrow> time \<Rightarrow> levels" where
  "assess p now =
     (case pr_manifest p of
        None \<Rightarrow> all_levels (level_of ''unknown'' [''requirements_not_frozen_from_start''])
      | Some m \<Rightarrow>
          if mf_source m \<noteq> ''from_start'' then all_levels (level_of ''unknown'' [''requirements_not_frozen_from_start''])
          else if list_ex (\<lambda>t. now < t) (proof_times m p) then all_levels (level_of ''unknown'' [''future_or_naive_evidence_time''])
          else \<lparr>le_silver = silver_level m p, le_gold = gold_level m p, le_platinum = platinum_level m p,
                le_clean_answers = clean_answers_level p\<rparr>)"

section \<open>The evidence of an award\<close>

definition check_json :: "award_env \<Rightarrow> check_fact \<Rightarrow> json" where
  "check_json env c = JObj
     [(''run_id'', JStr (kf_run_id c)), (''ordinal'', JNum (int (kf_ordinal c))),
      (''requested_at'', JStr (aw_stamp env (kf_requested_at c))),
      (''finished_at'', json_option (\<lambda>t. JStr (aw_stamp env t)) (kf_finished_at c)), (''result'', JStr (kf_result c)),
      (''failure_class'', JStr (kf_failure_class c)), (''checker_started'', json_option JBool (kf_checker_started c)),
      (''check_run_id'', json_option (\<lambda>i. JNum (int i)) (kf_check_run_id c)), (''reason'', JStr (kf_reason c))]"

definition answer_json :: "award_env \<Rightarrow> answer_fact \<Rightarrow> json" where
  "answer_json env s = JObj
     [(''submission_id'', JNum (int (sf_submission_id s))), (''ordinal'', JNum (int (sf_ordinal s))),
      (''submitted_at'', JStr (aw_stamp env (sf_submitted_at s))), (''digest'', JStr (sf_digest s)),
      (''decision'', JStr (sf_decision s)), (''review_ids'', JArr (map (\<lambda>i. JNum (int i)) (sf_review_ids s))),
      (''reviewed_at'', json_option (\<lambda>t. JStr (aw_stamp env t)) (sf_reviewed_at s)), (''valid_return'', JBool (sf_valid_return s))]"

definition POLICY :: string where
  "POLICY = ''sandbox-ledger-v1''"

definition proof_snapshot :: "award_env \<Rightarrow> SandboxProgramManifest \<Rightarrow> program_evidence \<Rightarrow> (string \<times> json) list" where
  "proof_snapshot env m p =
     [(''policy'', JStr POLICY), (''manifest_id'', JNum (int (mf_id m))), (''manifest_digest'', JStr (mf_digest m)),
      (''completion_id'', json_option (\<lambda>i. JNum (int i)) (pr_completion_id p)),
      (''successful_resets'', json_option (\<lambda>n. JNum (int n)) (pr_successful_resets p)),
      (''valid_returns'', json_option (\<lambda>n. JNum (int n)) (pr_valid_returns p)),
      (''attempts'', JArr (map (\<lambda>a. JObj
        [(''task_id'', JNum (int (pa_task_id a))), (''attempt_id'', JNum (int (at_attempt_id (pa_evidence a)))),
         (''requires_review'', json_option JBool (pa_requires_review a)),
         (''technical_completed'', json_option JBool (at_technical_completed (pa_evidence a))),
         (''first_check'', json_option (check_json env) (at_first_check (pa_evidence a))),
         (''submissions'', JArr (map (answer_json env) (at_submissions (pa_evidence a))))]) (pr_attempts p)))]"

definition proof_time :: "SandboxProgramManifest \<Rightarrow> program_evidence \<Rightarrow> time" where
  "proof_time m p = foldl max (mf_recorded_at m) (proof_times m p)"

definition level_json :: "level_state \<Rightarrow> json" where
  "level_json l = JObj [(''status'', JStr (lv_status l)), (''reasons'', JArr (map JStr (lv_reasons l)))]"

definition levels_json :: "levels \<Rightarrow> json" where
  "levels_json l = JObj [(''silver'', level_json (le_silver l)), (''gold'', level_json (le_gold l)),
     (''platinum'', level_json (le_platinum l)), (''clean_answers'', level_json (le_clean_answers l))]"

section \<open>The evaluator\<close>

definition program_json :: "(string \<times> json) list" where
  "program_json = [(''program_key'', JStr ''l1'')]"

definition join_reasons :: "string list \<Rightarrow> string" where
  "join_reasons rs = concat (case rs of [] \<Rightarrow> [] | r # rs \<Rightarrow> r # map (\<lambda>s. '';'' @ s) rs)"

text \<open>The saved completion, checked against the attempts it names.\<close>

definition completion_problem :: "services \<Rightarrow> sandbox_db \<Rightarrow> pk \<Rightarrow> SandboxProgramCompletion \<Rightarrow> time \<Rightarrow> Evaluation option" where
  "completion_problem sv db user_id c now =
     (case validate_completion_snapshot sv c of
        Inl _ \<Rightarrow> Some (unknown ''invalid_completion_snapshot'' [''valid frozen program evidence''])
      | Inr _ \<Rightarrow>
          if now < pc_completed_at c then Some (unknown ''future_completion'' [''valid completed_at''])
          else if list_ex (\<lambda>e. case List.find (\<lambda>a. ta_id a = en_attempt_id e) (sb_attempts db) of
              None \<Rightarrow> False
            | Some a \<Rightarrow> ta_user_id a \<noteq> user_id \<or> tk_id (ta_task a) \<noteq> en_task_id e \<or> ta_attempt_number a \<noteq> 1) (pc_snapshot c)
            then Some (unknown ''completion_identity_mismatch'' [''frozen credit evidence for the correct owner/task''])
          else None)"

definition with_context :: "(string \<times> json) list \<Rightarrow> Evaluation \<Rightarrow> Evaluation" where
  "with_context ctx e = e\<lparr>el_context := ctx\<rparr>"

definition sandbox_program ::
    "award_env \<Rightarrow> program_evidence \<Rightarrow> SandboxProgramCompletion option \<Rightarrow> AchievementTier list \<Rightarrow> AchievementDefinition
     \<Rightarrow> time \<Rightarrow> Evaluation result" where
  "sandbox_program env p completion tiers d now =
     (let levels = assess p now;
          ctx = program_json @ [(''levels'', levels_json levels)];
          proved = (\<lambda>tier. case pr_manifest p of
              None \<Rightarrow> Inl TypeError
            | Some m \<Rightarrow> Inr (eligible_tier tier (proof_snapshot env m p) ctx (proof_time m p)));
          tier_of = (\<lambda>code. List.find (\<lambda>t. ti_code t = code) tiers);
          level = le_clean_answers levels
      in if ad_evaluator_key d = ''sandbox_first_five_clean_answers'' then
           if lv_status level = ''eligible'' then proved (hd tiers)
           else Inr (with_context ctx (verdict (lv_status level) (join_reasons (lv_reasons level)) (lv_reasons level)))
         else if lv_status (le_gold levels) = ''eligible'' then
           (case tier_of ''gold'' of None \<Rightarrow> Inl ValueError | Some t \<Rightarrow> proved t)
         else if lv_status (le_silver levels) = ''eligible'' then
           (case tier_of ''silver'' of None \<Rightarrow> Inl ValueError | Some t \<Rightarrow> proved t)
         else (case completion of
             None \<Rightarrow> Inr (with_context ctx (verdict ''not_met'' ''no_saved_completion'' []))
           | Some c \<Rightarrow> Inr (eligible_tier (hd tiers)
               [(''completion_id'', JNum (int (pc_id c))),
                (''source'', JStr (case pc_source c of TECHNICAL_CHECK \<Rightarrow> ''technical_check'' | LEGACY_RESTORE \<Rightarrow> ''legacy_restore'')),
                (''fingerprint'', JStr (pc_composition_fingerprint c)),
                (''task_ids'', JArr (map (\<lambda>e. JNum (int (en_task_id e))) (pc_snapshot c)))] ctx (pc_completed_at c))))"

text \<open>A success: the completion that froze it, or the check run, if one is known.\<close>

record credit_success =
  cs_task_id :: pk
  cs_attempt_id :: pk
  cs_passed_at :: time
  cs_source :: "pk + pk option"

definition success_json :: "award_env \<Rightarrow> credit_success \<Rightarrow> json" where
  "success_json env s = JObj ([(''task_id'', JNum (int (cs_task_id s))), (''attempt_id'', JNum (int (cs_attempt_id s)))] @
     (case cs_source s of
        Inl completion_id \<Rightarrow> [(''passed_at'', JStr (aw_stamp env (cs_passed_at s))), (''completion_id'', JNum (int completion_id))]
      | Inr run \<Rightarrow> [(''check_run_id'', json_option (\<lambda>i. JNum (int i)) run), (''passed_at'', JStr (aw_stamp env (cs_passed_at s)))]))"

definition put_success :: "credit_success list \<Rightarrow> credit_success \<Rightarrow> credit_success list" where
  "put_success ss s = filter (\<lambda>x. cs_task_id x \<noteq> cs_task_id s) ss @ [s]"

definition frozen_successes :: "SandboxProgramCompletion option \<Rightarrow> credit_success list" where
  "frozen_successes completion =
     (case completion of
        None \<Rightarrow> []
      | Some c \<Rightarrow> foldl put_success [] (map (\<lambda>e. \<lparr>cs_task_id = en_task_id e, cs_attempt_id = en_attempt_id e,
          cs_passed_at = en_passed_at e, cs_source = Inl (pc_id c)\<rparr>) (pc_snapshot c)))"

text \<open>A live success counts when the task has none, or a later one.\<close>

definition add_success :: "sandbox_db \<Rightarrow> time \<Rightarrow> credit_success list \<Rightarrow> TaskAttempt \<Rightarrow> credit_success list" where
  "add_success db now ss a =
     (let evidence = get_technical_evidence db a
      in case te_passed_at evidence of
           None \<Rightarrow> ss
         | Some passed_at \<Rightarrow>
             if \<not> is_completed evidence \<or> now < passed_at then ss
             else (case List.find (\<lambda>s. cs_task_id s = tk_id (ta_task a)) ss of
                 Some previous \<Rightarrow> if passed_at < cs_passed_at previous
                   then put_success ss \<lparr>cs_task_id = tk_id (ta_task a), cs_attempt_id = ta_id a, cs_passed_at = passed_at,
                     cs_source = Inr (te_check_run_id evidence)\<rparr> else ss
               | None \<Rightarrow> put_success ss \<lparr>cs_task_id = tk_id (ta_task a), cs_attempt_id = ta_id a, cs_passed_at = passed_at,
                     cs_source = Inr (te_check_run_id evidence)\<rparr>))"

definition credit_successes :: "sandbox_db \<Rightarrow> pk \<Rightarrow> SandboxProgramCompletion option \<Rightarrow> time \<Rightarrow> credit_success list" where
  "credit_successes db user_id completion now =
     sort_key (\<lambda>s. (cs_passed_at s, cs_task_id s)) (foldl (add_success db now) (frozen_successes completion)
       (filter (\<lambda>a. ta_user_id a = user_id \<and> ta_attempt_number a = 1 \<and> qu_slug (tk_queue (ta_task a)) = ''l1'') (sb_attempts db)))"

definition count_successes :: "award_env \<Rightarrow> credit_success list \<Rightarrow> AchievementTier list \<Rightarrow> Evaluation result" where
  "count_successes env ordered tiers =
     (case param_nat (hd tiers) ''task_count'' of
        None \<Rightarrow> Inl KeyError
      | Some required \<Rightarrow>
          if length ordered < required then Inr (verdict ''not_met'' ''insufficient_credit_successes'' [])
          else let proofs = take required ordered
            in if proofs = [] then Inl IndexError
               else Inr (eligible_tier (hd tiers) [(''distinct_task_count'', JNum (int (length proofs))),
                   (''tasks'', JArr (map (success_json env) proofs))] program_json (cs_passed_at (last proofs))))"

definition sandbox ::
    "award_env \<Rightarrow> services \<Rightarrow> sandbox_db \<Rightarrow> pk \<Rightarrow> AchievementTier list \<Rightarrow> AchievementDefinition \<Rightarrow> time \<Rightarrow> Evaluation result" where
  "sandbox env sv db user_id tiers d now =
     (let completion = completion_of db user_id
      in case (case completion of None \<Rightarrow> None | Some c \<Rightarrow> completion_problem sv db user_id c now) of
           Some e \<Rightarrow> Inr e
         | None \<Rightarrow>
             if ad_evaluator_key d \<in> {''sandbox_program'', ''sandbox_first_five_clean_answers''}
             then sandbox_program env (program_evidence sv db user_id) completion tiers d now
             else count_successes env (credit_successes db user_id completion now) tiers)"

section \<open>The registry\<close>

definition REGISTRY :: "string list" where
  "REGISTRY = [''training_program'', ''sandbox_program'', ''sandbox_first_five_clean_answers'', ''sandbox_first_success'',
     ''sandbox_five_successes'', ''review_quality'', ''independent_speed'', ''probation_new_hire'', ''independent_engineer'']"

definition PENDING_EVIDENCE :: "string \<Rightarrow> string list" where
  "PENDING_EVIDENCE key =
     (if key = ''sandbox_first_five_clean_answers'' then [''immutable ordered submissions'', ''version-linked review events'',
        ''coverage from first submission'']
      else if key = ''review_quality_streak'' then [''three consecutive finalized complete weeks'', ''single WITH_REVIEW visit'',
        ''measurement coverage'']
      else if key = ''clean_week'' then [''finalized complete work week WITH_REVIEW'', ''100% quality'',
        ''verified coverage of workdays and assessments'']
      else [''complete source history''])"

definition catalog_problem :: "AchievementDefinition \<Rightarrow> AchievementTier list \<Rightarrow> Evaluation option" where
  "catalog_problem d tiers =
     (case bindR (validate_definition d) (\<lambda>_. mapR (validate_tier d) tiers) of
        Inl _ \<Rightarrow> Some (unknown ''invalid_catalog'' [''validated rule schema/version''])
      | Inr _ \<Rightarrow>
          if set (map ti_code tiers) \<noteq> (case schema_of (ad_evaluator_key d) of None \<Rightarrow> {} | Some s \<Rightarrow> set (map fst (fa_tiers s)))
          then Some (unknown ''invalid_catalog'' [''complete validated tier schema'']) else None)"

text \<open>\<open>now\<close> and \<open>today\<close> are the time and the local date of the evaluation.\<close>

record award_clock =
  cl_now :: time
  cl_today :: date

definition evaluate ::
    "award_env \<Rightarrow> services \<Rightarrow> award_db \<Rightarrow> pk \<Rightarrow> AchievementDefinition \<Rightarrow> award_clock \<Rightarrow> Evaluation result" where
  "evaluate env sv db user_id d clock =
     (let tiers = definition_tiers db (ad_id d);
          journey = List.find (\<lambda>j. jo_user_id j = user_id) (di_journeys db);
          key = ad_evaluator_key d
      in case catalog_problem d tiers of
           Some e \<Rightarrow> Inr e
         | None \<Rightarrow>
           if \<not> ad_active d then Inr (verdict ''not_applicable'' ''inactive_definition'' [])
           else if ad_applicability d = ''new_hire'' \<and> journey = None
             then Inr (unknown ''adaptation_context_missing'' [''NEW_HIRE adaptation''])
           else if ad_applicability d = ''new_hire'' \<and> map_option jo_entry_type journey \<noteq> Some NEW_HIRE
             then Inr (verdict ''not_applicable'' ''new_hire_only'' [])
           else if key \<notin> set REGISTRY then Inr (unknown ''source_not_ready'' (PENDING_EVIDENCE key))
           else if key \<in> {''sandbox_program'', ''sandbox_first_five_clean_answers'', ''sandbox_first_success'', ''sandbox_five_successes''}
             then sandbox env sv (sandbox_db.truncate db) user_id tiers d (cl_now clock)
           else (case journey of
               None \<Rightarrow> Inr (unknown ''adaptation_context_missing'' [''adaptation and stage history''])
             | Some j \<Rightarrow>
                 if key \<in> {''review_quality'', ''independent_speed''} then weekly env db j tiers d (cl_today clock)
                 else if key = ''training_program'' then Inr (training db j tiers (cl_now clock))
                 else if key = ''probation_new_hire'' then probation env db j tiers (cl_today clock)
                 else independent env db j tiers (cl_today clock)))"

end
