(* ===== verification/Source_Events.thy ===== *)
theory Source_Events
  imports Sandbox_Evaluators Notifications
begin

text \<open>
  The worker that turns durable source records into awards (\<^verbatim>\<open>achievements/services/events.py\<close>,
  \<^verbatim>\<open>_process\<close>, \<^verbatim>\<open>process_source_event\<close>) and the explicit reconciliation of one definition
  (\<^verbatim>\<open>achievements/services/reconciliation.py\<close>). Both evaluate, dispute what no longer holds, and
  grant what is eligible, in one transaction.
\<close>

section \<open>Drift of an award from its source\<close>

definition user_metric :: "'a diary_db_scheme \<Rightarrow> pk \<Rightarrow> nat \<Rightarrow> WeeklyMetric option" where
  "user_metric db user_id i = List.find (\<lambda>m. wm_id m = i \<and>
     list_ex (\<lambda>j. jo_id j = wm_journey_id m \<and> jo_user_id j = user_id) (di_journeys db)) (di_metrics db)"

text \<open>The metric that the proof of an award names, when its value or its week is no longer the same.\<close>

definition current_metric_problem :: "award_env \<Rightarrow> 'a award_db_scheme \<Rightarrow> UserAchievement \<Rightarrow> (nat \<times> json) option" where
  "current_metric_problem env db a =
     (if ua_active_tier a = None then None
      else case last_proof db a of
        None \<Rightarrow> None
      | Some p \<Rightarrow>
          if ae_source_type p = ''manual'' then None
          else (case json_get ''metric_id'' (ae_evidence p) of
              JNum n \<Rightarrow>
                if n \<le> 0 then None
                else let quality = (evaluator_of db (ua_definition_id a) = ''review_quality'');
                         field_name = (if quality then ''quality_percent'' else ''speed_hours'')
                  in (case user_metric db (ua_user_id a) (nat n) of
                      None \<Rightarrow> Some (nat n, JObj [(''metric_id'', JNum n), (''missing'', JBool True)])
                    | Some m \<Rightarrow>
                        let value = (if (if quality then wm_quality m else wm_speed m) = None then JNull
                              else JStr (weekly_text quality m));
                            start = json_option (\<lambda>d. JStr (aw_fmt env d)) (wm_week_start m)
                        in if value = json_get field_name (ae_evidence p) \<and> start = json_get ''period_start'' (ae_evidence p)
                           then None
                           else Some (nat n, JObj [(''metric_id'', JNum n), (''missing'', JBool False), (''value'', value),
                             (''period_start'', start)]))
            | _ \<Rightarrow> None))"

definition level_status :: "(string \<times> json) list \<Rightarrow> string \<Rightarrow> json" where
  "level_status ctx code =
     (case json_get ''levels'' ctx of
        JObj ls \<Rightarrow> (case json_get code ls of JObj l \<Rightarrow> json_get ''status'' l | _ \<Rightarrow> JNull)
      | _ \<Rightarrow> JNull)"

definition user_award :: "'a award_db_scheme \<Rightarrow> pk \<Rightarrow> pk \<Rightarrow> UserAchievement option" where
  "user_award db user_id definition_id =
     List.find (\<lambda>a. ua_user_id a = user_id \<and> ua_definition_id a = definition_id) (aw_entitlements db)"

text \<open>An automatic sandbox award whose level the ledger no longer proves.\<close>

definition sandbox_problem :: "'a award_db_scheme \<Rightarrow> pk \<Rightarrow> AchievementDefinition \<Rightarrow> Evaluation \<Rightarrow> bool" where
  "sandbox_problem db user_id d evaluation \<longleftrightarrow>
     ad_evaluator_key d \<in> {''sandbox_program'', ''sandbox_first_five_clean_answers''} \<and>
     (case user_award db user_id (ad_id d) of
        None \<Rightarrow> False
      | Some a \<Rightarrow>
          (case (ua_active_tier a, last_proof db a) of
             (Some tier, Some p) \<Rightarrow>
               ae_source_type p \<noteq> ''manual'' \<and> json_get ''policy'' (ae_evidence p) = JStr POLICY \<and>
               level_status (el_context evaluation)
                 (if ad_evaluator_key d = ''sandbox_first_five_clean_answers'' then ''clean_answers'' else ti_code tier) \<noteq>
                 JStr ''eligible''
           | _ \<Rightarrow> False))"

section \<open>Processing a source record\<close>

text \<open>Which definitions a provider speaks for.\<close>

definition provider_evaluators :: "(string \<times> string list) list" where
  "provider_evaluators =
     [(''roadmap_confirmation'', [''training_program'']),
      (''sandbox_completion'', [''sandbox_program'', ''sandbox_first_success'', ''sandbox_five_successes'',
        ''sandbox_first_five_clean_answers'']),
      (''sandbox_technical'', [''sandbox_program'', ''sandbox_first_success'', ''sandbox_five_successes'',
        ''sandbox_first_five_clean_answers'']),
      (''sandbox_review'', [''sandbox_program'', ''sandbox_first_five_clean_answers'']),
      (''weekly_metric'', [''review_quality'', ''independent_speed'']),
      (''stage_transition'', [''independent_engineer'', ''review_quality'', ''independent_speed'']),
      (''probation_completion'', [''probation_new_hire''])]"

definition json_field :: "string \<Rightarrow> json \<Rightarrow> json" where
  "json_field key j = (case j of JObj fs \<Rightarrow> json_get key fs | _ \<Rightarrow> JNull)"

definition payload_metric_id :: "AchievementSourceEvent \<Rightarrow> nat option" where
  "payload_metric_id e =
     (case json_field ''metric_id'' (json_field ''values'' (so_payload e)) of JNum n \<Rightarrow> Some (nat n) | _ \<Rightarrow> None)"

definition source_dispute :: "AchievementSourceEvent \<Rightarrow> nat option \<Rightarrow> bool \<Rightarrow> pk option \<Rightarrow> bool \<Rightarrow> dispute" where
  "source_dispute e metric_id revoked definition_id sandbox_invalid =
     \<lparr>ds_user_id = so_user_id e, ds_metric_id = metric_id, ds_confirmation_revoked = revoked,
      ds_source_id = JNum (int (so_id e)), ds_source_text = str_nat (so_id e), ds_definition_id = definition_id,
      ds_sandbox_invalid = sandbox_invalid\<rparr>"

text \<open>The awards that rest on the metric, one dispute each.\<close>

primrec dispute_metric_awards ::
    "award_env \<Rightarrow> AchievementSourceEvent \<Rightarrow> nat \<Rightarrow> time \<Rightarrow> UserAchievement list \<Rightarrow> (award_db, unit) op" where
  "dispute_metric_awards env e metric_id now [] = ret ()"
| "dispute_metric_awards env e metric_id now (a # as) = andthen get_db (\<lambda>db.
     andthen (if (case last_proof db a of None \<Rightarrow> False
           | Some p \<Rightarrow> json_get ''metric_id'' (ae_evidence p) = JNum (int metric_id)) \<and> current_metric_problem env db a \<noteq> None
         then flag_disputed (aw_digest env) (source_dispute e (Some metric_id) False (Some (ua_definition_id a)) False) now
         else ret ())
       (\<lambda>_. dispute_metric_awards env e metric_id now as))"

definition dispute_metric :: "award_env \<Rightarrow> AchievementSourceEvent \<Rightarrow> time \<Rightarrow> (award_db, unit) op" where
  "dispute_metric env e now =
     (case payload_metric_id e of
        None \<Rightarrow> raise KeyError
      | Some i \<Rightarrow> andthen get_db (\<lambda>db.
          if user_metric db (so_user_id e) i = None
          then flag_disputed (aw_digest env) (source_dispute e (Some i) False None False) now
          else dispute_metric_awards env e i now
            (filter (\<lambda>a. ua_user_id a = so_user_id e \<and> ua_active_tier a \<noteq> None) (aw_entitlements db))))"

definition automatic_grant ::
    "award_env \<Rightarrow> pk \<Rightarrow> AchievementDefinition \<Rightarrow> Evaluation \<Rightarrow> string \<Rightarrow> string \<Rightarrow> string \<Rightarrow> nat \<Rightarrow> grant_request" where
  "automatic_grant env user_id d evaluation source_type source_ref op_id rule_version =
     \<lparr>gr_user_id = user_id, gr_definition_id = ad_id d,
      gr_tier_code = (case el_tier_code evaluation of None \<Rightarrow> [] | Some c \<Rightarrow> c), gr_evidence = el_evidence evaluation,
      gr_occurred_at = el_occurred_at evaluation, gr_source_type = source_type, gr_source_ref = source_ref,
      gr_operation_id = op_id, gr_actor = None, gr_reason = [], gr_expected_revision = None, gr_rule_version = rule_version\<rparr>"

definition report_json :: "award_env \<Rightarrow> AchievementDefinition \<Rightarrow> Evaluation \<Rightarrow> (string \<times> json) list \<Rightarrow> json" where
  "report_json env d evaluation extra =
     (case evaluation_report env evaluation of JObj fs \<Rightarrow> JObj ((''definition'', JStr (ad_code d)) # fs @ extra) | j \<Rightarrow> j)"

definition process_definition ::
    "award_env \<Rightarrow> services \<Rightarrow> AchievementSourceEvent \<Rightarrow> award_clock \<Rightarrow> AchievementDefinition \<Rightarrow> (award_db, json) op" where
  "process_definition env sv e clock d = andthen get_db (\<lambda>db.
     andthen (lift_result (evaluate env sv db (so_user_id e) d clock)) (\<lambda>result.
     andthen (if so_provider e = ''sandbox_review'' \<and> sandbox_problem db (so_user_id e) d result
         then flag_disputed (aw_digest env) (source_dispute e None False (Some (ad_id d)) True) (cl_now clock) else ret ()) (\<lambda>_.
     if is_eligible result then
       andthen (grant (aw_digest env) (automatic_grant env (so_user_id e) d result (so_provider e) (str_nat (so_id e))
           (''source:'' @ str_nat (so_id e) @ '':'' @ aw_digest env (evaluation_report env result)) (el_rule_version result)) (cl_now clock))
         (\<lambda>(a, action, event). ret (report_json env d result [(''action'', JStr action),
            (''event_id'', json_option (\<lambda>e. JNum (int (ae_id e))) event)]))
     else ret (report_json env d result []))))"

primrec process_definitions ::
    "award_env \<Rightarrow> services \<Rightarrow> AchievementSourceEvent \<Rightarrow> award_clock \<Rightarrow> AchievementDefinition list \<Rightarrow> (award_db, json list) op" where
  "process_definitions env sv e clock [] = ret []"
| "process_definitions env sv e clock (d # ds) = andthen (process_definition env sv e clock d) (\<lambda>r.
     andthen (process_definitions env sv e clock ds) (\<lambda>rs. ret (r # rs)))"

text \<open>The week of a metric that is not over yet keeps its record pending until it is.\<close>

definition still_open :: "award_env \<Rightarrow> award_db \<Rightarrow> AchievementSourceEvent \<Rightarrow> time \<Rightarrow> time option" where
  "still_open env db e now =
     (if so_provider e \<noteq> ''weekly_metric'' then None
      else case Option.bind (payload_metric_id e) (user_metric db (so_user_id e)) of
        None \<Rightarrow> None
      | Some m \<Rightarrow> (case wm_week_start m of
          None \<Rightarrow> None
        | Some start \<Rightarrow> if now < aw_at_date env (start + 7) then Some (aw_at_date env (start + 7)) else None))"

definition finish_source :: "award_env \<Rightarrow> AchievementSourceEvent \<Rightarrow> json list \<Rightarrow> time \<Rightarrow> (award_db, unit) op" where
  "finish_source env e results now = modify_db (\<lambda>db.
     let ready = still_open env db e now
     in db\<lparr>sb_source_events := map (\<lambda>row. if so_id row = so_id e
       then row\<lparr>so_status := (if ready = None then ''processed'' else ''pending''),
         so_available_at := (if ready = None then so_available_at row else ready),
         so_attempts := so_attempts row + 1, so_error := [], so_result := JArr results,
         so_processed_at := (if ready = None then Some now else None)\<rparr> else row) (sb_source_events db)\<rparr>)"

definition journey_gone :: "'a diary_db_scheme \<Rightarrow> AchievementSourceEvent \<Rightarrow> bool" where
  "journey_gone db e =
     (case json_field ''journey_id'' (so_context e) of
        JNull \<Rightarrow> False
      | JNum i \<Rightarrow> \<not> list_ex (\<lambda>j. int (jo_id j) = i \<and> jo_user_id j = so_user_id e) (di_journeys db)
      | _ \<Rightarrow> True)"

definition process_now :: "award_env \<Rightarrow> services \<Rightarrow> AchievementSourceEvent \<Rightarrow> award_clock \<Rightarrow> (award_db, json list) op" where
  "process_now env sv e clock = andthen get_db (\<lambda>db.
     if journey_gone db e then
       ret [JObj [(''status'', JStr ''unknown''), (''reason'', JStr ''source_adaptation_no_longer_available'')]]
     else andthen (if so_provider e = ''weekly_metric'' then dispute_metric env e (cl_now clock) else ret ()) (\<lambda>_.
       andthen (if so_provider e = ''roadmap_confirmation'' \<and> json_field ''action'' (so_payload e) = JStr ''revoked''
         then flag_disputed (aw_digest env) (source_dispute e None True None False) (cl_now clock) else ret ()) (\<lambda>_.
       andthen get_db (\<lambda>db.
       let ds = sort_key ad_id (filter (\<lambda>d. ad_evaluator_key d \<in> (case map_of provider_evaluators (so_provider e) of
              None \<Rightarrow> {} | Some keys \<Rightarrow> set keys)) (aw_definitions db))
       in if ds = [] then raise (ValidationError ''no_evaluator'') else process_definitions env sv e clock ds))))"

definition source_row :: "'a sandbox_db_scheme \<Rightarrow> pk \<Rightarrow> AchievementSourceEvent option" where
  "source_row db i = List.find (\<lambda>e. so_id e = i) (sb_source_events db)"

definition process_locked :: "award_env \<Rightarrow> services \<Rightarrow> pk \<Rightarrow> award_clock \<Rightarrow> (award_db, json list) op" where
  "process_locked env sv event_id clock = atomic (andthen get_db (\<lambda>db.
     case source_row db event_id of
       None \<Rightarrow> raise DoesNotExist
     | Some e \<Rightarrow> andthen (lock_user (so_user_id e)) (\<lambda>_.
         if so_status e = ''processed'' then ret (case so_result e of JArr rs \<Rightarrow> rs | j \<Rightarrow> [j])
         else if (case so_available_at e of None \<Rightarrow> False | Some t \<Rightarrow> cl_now clock < t)
           then ret [JObj [(''status'', JStr ''pending''), (''reason'', JStr ''period_not_finished'')]]
         else if so_provider e \<notin> set PROVIDERS \<or> so_schema_version e \<noteq> 1 then raise (ValidationError ''unknown_provider'')
         else andthen (process_now env sv e clock) (\<lambda>results.
           andthen (finish_source env e results (cl_now clock)) (\<lambda>_. ret results)))))"

text \<open>A failure is recorded outside the transaction that it rolled back. \<open>describe\<close> is its text.\<close>

definition record_failure :: "(py_error \<Rightarrow> string) \<Rightarrow> pk \<Rightarrow> py_error \<Rightarrow> (award_db, unit) op" where
  "record_failure describe event_id err = modify_db (\<lambda>db. db\<lparr>sb_source_events := map (\<lambda>row.
     if so_id row = event_id \<and> so_status row \<noteq> ''processed''
     then row\<lparr>so_status := ''error'', so_attempts := so_attempts row + 1, so_error := take 2000 (describe err)\<rparr>
     else row) (sb_source_events db)\<rparr>)"

definition process_source_event ::
    "award_env \<Rightarrow> services \<Rightarrow> (py_error \<Rightarrow> string) \<Rightarrow> pk \<Rightarrow> award_clock \<Rightarrow> (award_db, json list) op" where
  "process_source_event env sv describe event_id clock =
     catch (process_locked env sv event_id clock) (\<lambda>err.
       andthen (record_failure describe event_id err) (\<lambda>_. raise err))"

section \<open>Reconciliation\<close>

record reconciliation =
  rc_evaluation :: Evaluation
  rc_current_tier :: "string option"
  rc_suppressed :: bool
  rc_missing_evidence :: "string list"
  rc_evidence_disputed :: bool
  rc_action :: "string option"
  rc_event_id :: "pk option"
  rc_applied :: bool

definition unknown_reasons :: "(string \<times> json) list \<Rightarrow> string list" where
  "unknown_reasons ctx =
     (case json_get ''levels'' ctx of
        JObj ls \<Rightarrow> concat (map (\<lambda>(_, l). if json_field ''status'' l = JStr ''unknown'' then
            (case json_field ''reasons'' l of JArr rs \<Rightarrow> List.map_filter (\<lambda>r. case r of JStr s \<Rightarrow> Some s | _ \<Rightarrow> None) rs | _ \<Rightarrow> [])
          else []) ls)
      | _ \<Rightarrow> [])"

definition reconcile_dispute :: "pk \<Rightarrow> AchievementDefinition \<Rightarrow> nat option \<Rightarrow> bool \<Rightarrow> string \<Rightarrow> dispute" where
  "reconcile_dispute user_id d metric_id sandbox_invalid source =
     \<lparr>ds_user_id = user_id, ds_metric_id = metric_id, ds_confirmation_revoked = False, ds_source_id = JStr source,
      ds_source_text = source, ds_definition_id = Some (ad_id d), ds_sandbox_invalid = sandbox_invalid\<rparr>"

definition planned_action :: "UserAchievement option \<Rightarrow> AchievementTier \<Rightarrow> string" where
  "planned_action a tier =
     (case a of
        None \<Rightarrow> ''grant''
      | Some a \<Rightarrow>
          if ua_auto_grant_blocked a then ''suppressed''
          else (case ua_active_tier a of
              None \<Rightarrow> ''grant''
            | Some active \<Rightarrow> if ti_rank tier \<le> ti_rank active then ''no_op'' else ''upgrade''))"

definition reconcile_run ::
    "award_env \<Rightarrow> services \<Rightarrow> pk \<Rightarrow> AchievementDefinition \<Rightarrow> bool \<Rightarrow> nat \<Rightarrow> award_clock \<Rightarrow> (award_db, reconciliation) op" where
  "reconcile_run env sv user_id d apply version clock =
     (if ad_rule_version d \<noteq> version then raise (ValidationError ''rule_version_changed'')
      else andthen get_db (\<lambda>db.
      andthen (lift_result (evaluate env sv db user_id d clock)) (\<lambda>evaluation.
      let a = user_award db user_id (ad_id d);
          invalid = sandbox_problem db user_id d evaluation;
          problem = Option.bind a (current_metric_problem env db);
          reply = (\<lambda>action event. \<lparr>rc_evaluation = evaluation,
            rc_current_tier = Option.bind a (\<lambda>a. map_option ti_code (ua_active_tier a)),
            rc_suppressed = (case a of None \<Rightarrow> False | Some a \<Rightarrow> ua_auto_grant_blocked a),
            rc_missing_evidence = sorted_set (el_required evaluation @ unknown_reasons (el_context evaluation)),
            rc_evidence_disputed = (invalid \<or> problem \<noteq> None \<or> (case a of None \<Rightarrow> False | Some a \<Rightarrow> ua_evidence_disputed a)),
            rc_action = action, rc_event_id = event, rc_applied = apply\<rparr>)
      in andthen (if apply \<and> invalid then flag_disputed (aw_digest env) (reconcile_dispute user_id d None True
             (''sandbox-reconciliation:'' @ aw_digest env (evaluation_report env evaluation))) (cl_now clock) else ret ()) (\<lambda>_.
         andthen (case problem of
             None \<Rightarrow> ret ()
           | Some (i, drift) \<Rightarrow> if apply then flag_disputed (aw_digest env) (reconcile_dispute user_id d (Some i) False
               (''reconciliation:'' @ aw_digest env drift)) (cl_now clock) else ret ()) (\<lambda>_.
         if \<not> is_eligible evaluation then ret (reply None None)
         else case List.find (\<lambda>t. Some (ti_code t) = el_tier_code evaluation) (definition_tiers db (ad_id d)) of
             None \<Rightarrow> raise DoesNotExist
           | Some tier \<Rightarrow>
               if \<not> apply then ret (reply (Some (planned_action a tier)) None)
               else andthen (grant (aw_digest env) (automatic_grant env user_id d evaluation ''reconciliation''
                   (aw_digest env (evaluation_report env evaluation)) (''reconcile:'' @ aw_digest env (evaluation_report env evaluation)) version)
                   (cl_now clock))
                 (\<lambda>(_, action, event). ret (reply (Some action) (map_option ae_id event))))))))"

definition reconcile ::
    "award_env \<Rightarrow> services \<Rightarrow> pk \<Rightarrow> AchievementDefinition \<Rightarrow> bool \<Rightarrow> nat \<Rightarrow> award_clock \<Rightarrow> (award_db, reconciliation) op" where
  "reconcile env sv user_id d apply expected_rule_version clock =
     (if ad_rule_version d \<noteq> expected_rule_version then raise (ValidationError ''rule_version_changed'')
      else if \<not> apply then reconcile_run env sv user_id d False expected_rule_version clock
      else atomic (andthen (lock_user user_id) (\<lambda>_. andthen get_db (\<lambda>db.
        case List.find (\<lambda>c. ad_id c = ad_id d) (aw_definitions db) of
          None \<Rightarrow> raise DoesNotExist
        | Some current \<Rightarrow> reconcile_run env sv user_id current True expected_rule_version clock))))"

end
