(* ===== verification/Award_Views.thy ===== *)
theory Award_Views
  imports Source_Events
begin

text \<open>
  The pages of the trophy room and the manual actions of the staff (\<^verbatim>\<open>achievements/views.py\<close>).
  A definition is addressed by its key, which stands for its public identifier. Texts that only
  describe an award are left out.
\<close>

section \<open>What a page shows of an award\<close>

definition applicable :: "AchievementDefinition \<Rightarrow> TraineeJourney option \<Rightarrow> bool option" where
  "applicable d journey =
     (if ad_applicability d = ''both'' then Some True
      else map_option (\<lambda>j. jo_entry_type j = NEW_HIRE) journey)"

record dto_details =
  dd_code :: string
  dd_kind :: string
  dd_rule_version :: nat
  dd_art_key :: string
  dd_supported_tiers :: "((string \<times> nat \<times> string) \<times> bool) list"
  dd_data_quality :: string
  dd_manual :: bool
  dd_management :: "(bool \<times> time option) option"

record award_dto =
  dt_public_id :: pk
  dt_secret :: bool
  dt_revealed :: bool
  dt_status :: string
  dt_applicable :: "bool option"
  dt_highest_tier :: "(string \<times> nat \<times> string) option"
  dt_earned_at :: "time option"
  dt_last_upgraded_at :: "time option"
  dt_revision :: nat
  dt_details :: "dto_details option"

definition active_tier_of :: "UserAchievement option \<Rightarrow> AchievementTier option" where
  "active_tier_of a = Option.bind a ua_active_tier"

definition hidden :: "AchievementDefinition \<Rightarrow> UserAchievement option \<Rightarrow> bool \<Rightarrow> bool" where
  "hidden d a management \<longleftrightarrow> ad_secret d \<and> active_tier_of a = None \<and> \<not> management"

definition award_status :: "UserAchievement option \<Rightarrow> string" where
  "award_status a =
     (case a of
        None \<Rightarrow> ''locked''
      | Some a \<Rightarrow> if ua_active_tier a \<noteq> None then ''earned'' else if ua_auto_grant_blocked a then ''revoked'' else ''locked'')"

definition dto ::
    "'a award_db_scheme \<Rightarrow> AchievementDefinition \<Rightarrow> UserAchievement option \<Rightarrow> TraineeJourney option \<Rightarrow> bool \<Rightarrow> award_dto" where
  "dto db d a journey management =
     \<lparr>dt_public_id = ad_id d, dt_secret = ad_secret d, dt_revealed = (\<not> hidden d a management),
      dt_status = award_status a, dt_applicable = applicable d journey,
      dt_highest_tier = (if hidden d a management then None else map_option item_tier (active_tier_of a)),
      dt_earned_at = Option.bind a ua_first_granted_at, dt_last_upgraded_at = Option.bind a ua_last_upgraded_at,
      dt_revision = (case a of None \<Rightarrow> 0 | Some a \<Rightarrow> ua_revision a),
      dt_details = (if hidden d a management then None else Some
        \<lparr>dd_code = ad_code d, dd_kind = ad_kind d, dd_rule_version = ad_rule_version d,
         dd_art_key = (if ad_art_key d \<in> set ART_KEYS then ad_art_key d else ''generic''),
         dd_supported_tiers = map (\<lambda>t. (item_tier t, tier_automatic t)) (definition_tiers db (ad_id d)),
         dd_data_quality = (case a of
             None \<Rightarrow> ''not_evaluated''
           | Some a \<Rightarrow> if ua_evidence_disputed a then ''disputed''
               else if ua_active_tier a \<noteq> None then ''verified'' else ''not_evaluated''),
         dd_manual = (active_tier_of a \<noteq> None \<and>
           (case Option.bind a (last_proof db) of None \<Rightarrow> False | Some p \<Rightarrow> ae_source_type p = ''manual'')),
         dd_management = (if management then Some
           (case a of None \<Rightarrow> (False, None) | Some a \<Rightarrow> (ua_auto_grant_blocked a, ua_last_changed_at a)) else None)\<rparr>)\<rparr>"

record award_collection =
  co_items :: "award_dto list"
  co_earned :: nat
  co_applicable_total :: nat
  co_rarities :: "(string \<times> nat) list"
  co_pending_source_events :: nat

definition user_journey :: "'a diary_db_scheme \<Rightarrow> pk \<Rightarrow> TraineeJourney option" where
  "user_journey db user_id = List.find (\<lambda>j. jo_user_id j = user_id) (di_journeys db)"

definition collection :: "'a award_db_scheme \<Rightarrow> pk \<Rightarrow> bool \<Rightarrow> award_collection" where
  "collection db user_id management =
     (let items = map (\<lambda>d. dto db d (user_award db user_id (ad_id d)) (user_journey db user_id) management)
            (sort_key ad_id (filter ad_active (aw_definitions db)));
          earned = filter (\<lambda>i. dt_highest_tier i \<noteq> None) items
      in \<lparr>co_items = items, co_earned = length earned,
          co_applicable_total = length (filter (\<lambda>i. dt_applicable i = Some True) items),
          co_rarities = map (\<lambda>r. (r, length (filter (\<lambda>i. map_option (snd \<circ> snd) (dt_highest_tier i) = Some r) earned))) RARITIES,
          co_pending_source_events = length (filter (\<lambda>e. so_user_id e = user_id \<and> so_status e \<noteq> ''processed'') (sb_source_events db))\<rparr>)"

section \<open>History\<close>

record history_row =
  hr_id :: pk
  hr_action :: AwardAction
  hr_from_tier :: "string option"
  hr_to_tier :: "string option"
  hr_occurred_at :: time
  hr_recorded_at :: time
  hr_source :: string
  hr_actor_id :: "pk option"
  hr_reason :: string
  hr_rule_version :: nat

definition history_row_of :: "AchievementEvent \<Rightarrow> history_row" where
  "history_row_of e =
     \<lparr>hr_id = ae_id e, hr_action = ae_action e, hr_from_tier = map_option ti_code (ae_from_tier e),
      hr_to_tier = map_option ti_code (ae_to_tier e), hr_occurred_at = ae_occurred_at e, hr_recorded_at = ae_recorded_at e,
      hr_source = ae_source_type e, hr_actor_id = map_option us_id (ae_actor e), hr_reason = ae_reason e,
      hr_rule_version = ae_rule_version e\<rparr>"

text \<open>A page of at most 50 events after the cursor, and the cursor of the next page.\<close>

definition history_page :: "AchievementEvent list \<Rightarrow> pk \<Rightarrow> history_row list \<times> pk option" where
  "history_page events cursor =
     (let found = take 51 (sort_key ae_id (filter (\<lambda>e. cursor < ae_id e) events))
      in (map history_row_of (take 50 found), if 50 < length found then Some (ae_id (found ! 49)) else None))"

definition detail_response ::
    "'a award_db_scheme \<Rightarrow> pk \<Rightarrow> AchievementDefinition \<Rightarrow> pk \<Rightarrow> bool \<Rightarrow> award_dto \<times> history_row list \<times> pk option" where
  "detail_response db user_id d cursor management =
     (let a = user_award db user_id (ad_id d);
          shown = dto db d a (user_journey db user_id) management
      in case a of
           None \<Rightarrow> (shown, [], None)
         | Some row \<Rightarrow>
             if \<not> dt_revealed shown then (shown, [], None)
             else (shown, history_page (award_events db (ua_id row)) cursor))"

section \<open>Manual actions\<close>

record action_request =
  ar_reason :: string
  ar_operation_id :: string
  ar_expected_revision :: "nat option"
  ar_tier :: string

definition text_field :: "string \<Rightarrow> nat \<Rightarrow> (string \<times> json) list \<Rightarrow> string result" where
  "text_field key limit body =
     (case json_get key body of
        JStr s \<Rightarrow> if py_strip s = [] \<or> limit < length s then Inl (ValidationError key) else Inr s
      | _ \<Rightarrow> Inl (ValidationError key))"

definition revision_field :: "(string \<times> json) list \<Rightarrow> nat option result" where
  "revision_field body =
     (if ''expected_revision'' \<notin> set (map fst body) then Inr None
      else case json_get ''expected_revision'' body of
        JNum n \<Rightarrow> if n < 0 then Inl (ValidationError ''expected_revision'') else Inr (Some (nat n))
      | _ \<Rightarrow> Inl (ValidationError ''expected_revision''))"

text \<open>\<open>body\<close> is the parsed JSON document; \<open>None\<close> for another content type or a text that is not JSON.\<close>

definition action_body :: "bool \<Rightarrow> json option \<Rightarrow> action_request result" where
  "action_body granting body =
     (case body of
        Some (JObj fs) \<Rightarrow>
          if \<not> set (map fst fs) \<subseteq> {''reason'', ''operation_id'', ''expected_revision''} \<union> (if granting then {''tier''} else {})
          then Inl (ValidationError ''unknown_fields'')
          else bindR (text_field ''reason'' 10000 fs) (\<lambda>reason.
            bindR (text_field ''operation_id'' 150 fs) (\<lambda>op_id.
            bindR (revision_field fs) (\<lambda>revision.
            if granting then
              (case json_get ''tier'' fs of
                 JStr tier \<Rightarrow> Inr \<lparr>ar_reason = reason, ar_operation_id = op_id, ar_expected_revision = revision, ar_tier = tier\<rparr>
               | _ \<Rightarrow> Inl (ValidationError ''tier''))
            else Inr \<lparr>ar_reason = reason, ar_operation_id = op_id, ar_expected_revision = revision, ar_tier = []\<rparr>)))
      | _ \<Rightarrow> Inl (ValidationError ''json''))"

datatype action_reply =
    ActionDone string "pk option" nat
  | ActionRefused nat string

definition manual_request :: "pk \<Rightarrow> AchievementDefinition \<Rightarrow> SandboxUser \<Rightarrow> action_request \<Rightarrow> time \<Rightarrow> grant_request" where
  "manual_request user_id d actor r now =
     \<lparr>gr_user_id = user_id, gr_definition_id = ad_id d, gr_tier_code = ar_tier r, gr_evidence = [(''manual'', JBool True)],
      gr_occurred_at = Some now, gr_source_type = ''manual'', gr_source_ref = ar_operation_id r,
      gr_operation_id = ar_operation_id r, gr_actor = Some actor, gr_reason = ar_reason r,
      gr_expected_revision = ar_expected_revision r, gr_rule_version = ad_rule_version d\<rparr>"

definition action_done :: "grant_reply \<Rightarrow> action_reply" where
  "action_done = (\<lambda>(a, action, event). ActionDone action (map_option ae_id event) (ua_revision a))"

definition manual_action ::
    "(json \<Rightarrow> string) \<Rightarrow> SandboxUser \<Rightarrow> pk \<Rightarrow> AchievementDefinition \<Rightarrow> bool \<Rightarrow> json option \<Rightarrow> time \<Rightarrow> (award_db, action_reply) op" where
  "manual_action digest actor user_id d granting body now =
     andthen (lift_result (action_body granting body)) (\<lambda>r. andthen get_db (\<lambda>db.
     if granting then
       (if \<not> list_ex (\<lambda>t. ti_code t = ar_tier r) (definition_tiers db (ad_id d)) then raise (ValidationError ''unknown_tier'')
        else andthen (grant digest (manual_request user_id d actor r now) now) (\<lambda>reply. ret (action_done reply)))
     else if user_award db user_id (ad_id d) = None then ret (ActionRefused 404 ''award_not_found'')
     else andthen (revoke digest user_id (ad_id d) (Some actor) (ar_reason r) (ar_operation_id r) (ar_expected_revision r) now)
       (\<lambda>reply. ret (action_done reply))))"

definition mutate ::
    "(json \<Rightarrow> string) \<Rightarrow> SandboxUser \<Rightarrow> pk \<Rightarrow> pk \<Rightarrow> bool \<Rightarrow> json option \<Rightarrow> time \<Rightarrow> (award_db, action_reply) op" where
  "mutate digest actor user_id definition_id granting body now =
     (if \<not> us_is_staff actor then ret (ActionRefused 403 ''staff_required'')
      else andthen get_db (\<lambda>db.
      case definition_row db definition_id of
        None \<Rightarrow> ret (ActionRefused 404 ''not_found'')
      | Some d \<Rightarrow>
          if \<not> list_ex (\<lambda>u. us_id u = user_id) (sb_users db) then ret (ActionRefused 404 ''not_found'')
          else catch (manual_action digest actor user_id d granting body now) (\<lambda>err.
            case err of
              ValidationError s \<Rightarrow> ret (ActionRefused 400 ''invalid_request'')
            | Conflict s \<Rightarrow> ret (ActionRefused 409 ''conflict'')
            | PermissionDenied \<Rightarrow> ret (ActionRefused 403 ''staff_required'')
            | _ \<Rightarrow> raise err)))"

definition manual_grant :: "(json \<Rightarrow> string) \<Rightarrow> SandboxUser \<Rightarrow> pk \<Rightarrow> pk \<Rightarrow> json option \<Rightarrow> time \<Rightarrow> (award_db, action_reply) op" where
  "manual_grant digest actor user_id definition_id body now = mutate digest actor user_id definition_id True body now"

definition manual_revoke :: "(json \<Rightarrow> string) \<Rightarrow> SandboxUser \<Rightarrow> pk \<Rightarrow> pk \<Rightarrow> json option \<Rightarrow> time \<Rightarrow> (award_db, action_reply) op" where
  "manual_revoke digest actor user_id definition_id body now = mutate digest actor user_id definition_id False body now"

end
