(* ===== verification/Award_Theorems.thy ===== *)
theory Award_Theorems
  imports Award_Journal Award_Views
begin

text \<open>
  Histories of the awards, and the properties they have: every award is the replay of its
  journal, a revoked award is only given back by hand, and a repeated request changes nothing.
\<close>

section \<open>The worker and the staff take the steps of the machine\<close>

lemma awards_dispute_metric_awards: "keeps award_order (dispute_metric_awards env e i now xs)"
  by (induction xs) (simp_all add: awards.keeps_intros award_services)

lemma awards_dispute_metric: "keeps award_order (dispute_metric env e now)"
  unfolding dispute_metric_def
  by (intro awards.keeps_intros award_services awards_dispute_metric_awards)

lemma awards_process_definition: "keeps award_order (process_definition env sv e clock d)"
  unfolding process_definition_def by (intro awards.keeps_intros award_services)

lemma awards_process_definitions: "keeps award_order (process_definitions env sv e clock ds)"
  by (induction ds) (simp_all add: awards.keeps_ret awards.keeps_andthen awards_process_definition)

lemma awards_process_source_event: "keeps award_order (process_source_event env sv describe i clock)"
  unfolding process_source_event_def process_locked_def process_now_def finish_source_def record_failure_def
  by (intro awards.keeps_intros award_services awards_dispute_metric awards_process_definitions awards_modify)
    (simp_all add: Let_def)

lemma awards_reconcile_run: "keeps award_order (reconcile_run env sv user_id d apply version clock)"
  unfolding reconcile_run_def by (intro awards.keeps_intros award_services)

lemma awards_reconcile: "keeps award_order (reconcile env sv user_id d apply version clock)"
  unfolding reconcile_def by (intro awards.keeps_intros award_services awards_reconcile_run)

lemma awards_manual_action: "keeps award_order (manual_action digest actor user_id d granting body now)"
  unfolding manual_action_def by (intro awards.keeps_intros award_services)

lemma awards_mutate: "keeps award_order (mutate digest actor user_id definition_id granting body now)"
proof -
  have "keeps award_order (case err of ValidationError s \<Rightarrow> ret (ActionRefused 400 ''invalid_request'')
      | Conflict s \<Rightarrow> ret (ActionRefused 409 ''conflict'') | PermissionDenied \<Rightarrow> ret (ActionRefused 403 ''staff_required'')
      | _ \<Rightarrow> raise err)" for err
    by (cases err) (simp_all add: awards.keeps_ret awards.keeps_raise)
  then show ?thesis
    unfolding mutate_def by (intro awards.keeps_intros awards_manual_action)
qed

section \<open>Histories\<close>

text \<open>
  A step of a history is a call of a service, a source record that the worker processes, a
  reconciliation, a manual action of the staff, or a change that leaves the awards, their journal
  and the receipts alone.
\<close>

inductive award_step :: "(json \<Rightarrow> string) \<Rightarrow> award_db \<Rightarrow> award_db \<Rightarrow> bool" for digest where
  granted: "award_step digest db (snd (grant digest g now db))"
| revoked: "award_step digest db (snd (revoke digest user_id definition_id actor reason op_id expected now db))"
| disputed: "award_step digest db (snd (flag_disputed digest ds now db))"
| processed: "aw_digest env = digest \<Longrightarrow> award_step digest db (snd (process_source_event env sv describe i clock db))"
| reconciled: "aw_digest env = digest \<Longrightarrow> award_step digest db (snd (reconcile env sv user_id d apply version clock db))"
| mutated: "award_step digest db (snd (mutate digest actor user_id definition_id granting body now db))"
| elsewhere: "aw_entitlements db' = aw_entitlements db \<Longrightarrow> aw_events db' = aw_events db \<Longrightarrow>
    aw_operations db' = aw_operations db \<Longrightarrow> award_step digest db db'"

definition award_history :: "(json \<Rightarrow> string) \<Rightarrow> award_db \<Rightarrow> award_db \<Rightarrow> bool" where
  "award_history digest = (award_step digest)\<^sup>*\<^sup>*"

lemma award_step_order:
  assumes "award_step digest s t"
  shows "award_order s t"
  using assms
proof cases
  case elsewhere
  then show ?thesis by (simp add: award_order_def journal_frame)
qed (auto intro: awards.run_keeps [OF awards_grant] awards.run_keeps [OF awards_revoke]
      awards.run_keeps [OF awards_flag_disputed] awards.run_keeps [OF awards_process_source_event]
      awards.run_keeps [OF awards_reconcile] awards.run_keeps [OF awards_mutate])

lemma award_history_journal:
  assumes "award_history digest s t" and "awards_kept s"
  shows "journal_order s t"
proof -
  from assms(1) have "award_order s t" unfolding award_history_def
    by (induction rule: rtranclp_induct) (auto intro: awards.unchanged awards.chained award_step_order)
  with assms(2) show ?thesis by (simp add: award_order_def)
qed

lemma award_history_keeps: "award_history digest s t \<Longrightarrow> awards_kept s \<Longrightarrow> awards_kept t"
  by (rule journal_order_keeps [OF award_history_journal])

lemma no_awards_kept: "aw_entitlements s = [] \<Longrightarrow> aw_events s = [] \<Longrightarrow> awards_kept s"
  by (simp add: awards_kept_def)

lemma award_histories [intro]:
  "award_history digest s s"
  "award_history digest s t \<Longrightarrow> award_step digest t u \<Longrightarrow> award_history digest s u"
  by (auto simp: award_history_def)

section \<open>Receipts\<close>

text \<open>A request that has its receipt: its key, with the digest of the request, names a row.\<close>

definition has_receipt :: "award_db \<Rightarrow> string \<Rightarrow> string \<Rightarrow> bool" where
  "has_receipt db key request \<longleftrightarrow> (\<exists>r. receipt_of db key = Some r \<and> ao_request_digest r = request \<and>
     ao_entitlement_id r \<in> ua_id ` set (aw_entitlements db))"

lemma award_row_exists: "i \<in> ua_id ` set (aw_entitlements db) \<Longrightarrow> \<exists>a. award_row db i = Some a \<and> a \<in> set (aw_entitlements db)"
proof -
  assume "i \<in> ua_id ` set (aw_entitlements db)"
  then have "award_row db i \<noteq> None" by (auto simp: award_row_def find_None_all)
  then show ?thesis by (auto simp: award_row_def dest: find_Some_member)
qed

lemma find_append: "List.find P (xs @ ys) = (case List.find P xs of None \<Rightarrow> List.find P ys | Some x \<Rightarrow> Some x)"
  by (induction xs) auto

lemma has_receipt_stays:
  assumes "has_receipt s key request" and "journal_order s t"
  shows "has_receipt t key request"
proof -
  obtain rs where "aw_operations t = aw_operations s @ rs"
    using journal_order_grows [OF assms(2)] by blast
  with assms(1) journal_order_rows [OF assms(2)] show ?thesis
    by (auto simp: has_receipt_def receipt_of_def find_append subset_iff)
qed

lemma has_receipt_repeated:
  assumes "has_receipt db key request"
  obtains a e where "repeated key request db = (Inr (Some (a, ''duplicate'', e)), db)" and "a \<in> set (aw_entitlements db)"
proof -
  from assms obtain r where r: "receipt_of db key = Some r" "ao_request_digest r = request"
      "ao_entitlement_id r \<in> ua_id ` set (aw_entitlements db)" by (auto simp: has_receipt_def)
  from award_row_exists [OF r(3)] obtain a where "award_row db (ao_entitlement_id r) = Some a"
      "a \<in> set (aw_entitlements db)" by blast
  with r that show ?thesis by (auto simp: repeated_def andthen_def op_apply)
qed

text \<open>A reply of \<^verbatim>\<open>remember\<close> leaves the receipt of its row behind.\<close>

lemma remember_receipt:
  assumes "remember key request a outcome e s = (Inr r, t)" and "ua_id a \<in> ua_id ` set (aw_entitlements s)"
  shows "has_receipt t key request"
proof -
  from assms(1) have "receipt_of s key = None"
    and t: "t = s\<lparr>aw_operations := aw_operations s @ [\<lparr>ao_key = key, ao_request_digest = request,
      ao_entitlement_id = ua_id a, ao_event_id = map_option ae_id e, ao_outcome = outcome\<rparr>]\<rparr>"
    by (auto simp: remember_def andthen_def op_apply split: if_splits)
  with assms(2) show ?thesis by (simp add: has_receipt_def receipt_of_def find_append t)
qed

lemma ua_id_granted: "ua_id (granted_award a tier now) = ua_id a"
  by (simp add: granted_award_def)

lemma issue_tier_receipt:
  assumes "issue_tier digest g a tier key request now s = (Inr r, t)" and "a \<in> set (aw_entitlements s)"
  shows "has_receipt t key request"
proof -
  from assms(1) obtain e s1 b s2 where
      change: "record_change a (grant_event digest g a tier key now) (granted_award a tier now) s = (Inr e, s1)"
      and enqueue: "enqueue e (ua_user_id a) s1 = (Inr b, s2)"
      and receipt: "remember key request (granted_award a tier now)
        (if ua_active_tier a = None then ''grant'' else ''upgrade'') (Some e) s2 = (Inr r, t)"
    unfolding issue_tier_def Let_def by (auto simp: andthen_Inr_iff)
  have "aw_entitlements s1 = map (\<lambda>row. if ua_id row = ua_id a then granted_award a tier now else row) (aw_entitlements s)"
    using change
    by (auto simp: record_change_def create_award_event_def save_award_def andthen_def op_apply ua_id_granted
        Let_def split: if_splits)
  then have "map ua_id (aw_entitlements s1) = map ua_id (aw_entitlements s)" by (simp add: ua_id_granted)
  then have "ua_id ` set (aw_entitlements s1) = ua_id ` set (aw_entitlements s)" by (metis list.set_map)
  with assms(2) have "ua_id (granted_award a tier now) \<in> ua_id ` set (aw_entitlements s1)"
    by (simp add: ua_id_granted)
  moreover have "aw_entitlements s2 = aw_entitlements s1"
    using enqueue by (auto simp: enqueue_def andthen_def op_apply split: option.splits if_splits)
  ultimately show ?thesis by (intro remember_receipt [OF receipt]) simp
qed

lemma new_grant_receipt:
  assumes "new_grant digest g d tier key request now s = (Inr r, t)"
  shows "has_receipt t key request"
proof -
  from assms(1) obtain a s1 where row: "get_or_create_award (gr_user_id g) (ad_id d) s = (Inr a, s1)"
    and rest: "(if (case gr_expected_revision g of None \<Rightarrow> False | Some r \<Rightarrow> ua_revision a \<noteq> r)
         then raise (Conflict ''revision_changed'')
       else if \<not> manual g \<and> ua_auto_grant_blocked a then remember key request a ''suppressed'' None
       else if (case ua_active_tier a of None \<Rightarrow> False | Some active \<Rightarrow> ti_rank tier \<le> ti_rank active)
         then remember key request a ''no_op'' None
       else issue_tier digest g a tier key request now) s1 = (Inr r, t)"
    unfolding new_grant_def by (auto simp: andthen_Inr_iff)
  from get_or_create_award_row(1) [OF row] have "a \<in> set (aw_entitlements s1)" .
  with rest show ?thesis
    by (auto simp: op_apply intro: remember_receipt issue_tier_receipt split: if_splits option.splits)
qed

section \<open>Properties\<close>

text \<open>
  C10. The row of an award is the replay of its journal: over any history of grants, revocations and
  disputes, every event was allowed where it stands and the tier, the block on automatic grants, the
  dispute and the revision are what the journal says.
\<close>

theorem awards_replay_their_journal:
  assumes "aw_entitlements s = []" and "aw_events s = []"
    and "award_history digest s t" and "a \<in> set (aw_entitlements t)"
  shows "replay no_award (journal t (ua_id a)) = Some (view_of a) \<and> ua_revision a = length (journal t (ua_id a))"
proof -
  from award_history_keeps [OF assms(3) no_awards_kept [OF assms(1,2)]] assms(4)
  have "replay no_award (journal t (ua_id a)) = Some (view_of a)" by (simp add: awards_kept_def)
  with replay_revision [OF this] show ?thesis by (simp add: view_of_def no_award_def)
qed

text \<open>
  C11. A revoked award is given back by hand only: once automatic grants are blocked, every later
  grant or upgrade in its journal is manual, signed by a member of the staff who gave a reason.
\<close>

theorem revoked_award_returns_by_hand_only:
  assumes kept: "awards_kept s" and row: "a \<in> set (aw_entitlements s)" and blocked: "ua_auto_grant_blocked a"
    and history: "award_history digest s t"
  shows "\<exists>es. journal t (ua_id a) = journal s (ua_id a) @ es \<and>
    (\<forall>e \<in> set es. ae_action e \<in> {GRANT, UPGRADE} \<longrightarrow> signed_by_staff e)"
proof -
  obtain es where es: "aw_events t = aw_events s @ es"
    using journal_order_grows [OF award_history_journal [OF history kept]] by blast
  let ?new = "filter (\<lambda>e. ae_entitlement_id e = ua_id a) es"
  have split: "journal t (ua_id a) = journal s (ua_id a) @ ?new" using es by (simp add: journal_def)
  have "ua_id a \<in> ua_id ` set (aw_entitlements t)"
    using journal_order_rows [OF award_history_journal [OF history kept]] row by blast
  then obtain b where "b \<in> set (aw_entitlements t)" "ua_id b = ua_id a" by auto
  with award_history_keeps [OF history kept] have "replay no_award (journal t (ua_id a)) = Some (view_of b)"
    by (auto simp: awards_kept_def)
  moreover have "replay no_award (journal s (ua_id a)) = Some (view_of a)"
    using kept row by (simp add: awards_kept_def)
  ultimately have "replay (view_of a) ?new = Some (view_of b)" by (simp add: split replay_append)
  from replay_blocked_signed [OF this] split blocked show ?thesis by (intro exI [of _ ?new]) (simp add: view_of_def)
qed

text \<open>The preparation of a grant reads the catalog and writes nothing.\<close>

lemma grant_tier_reads: "grant_tier g s = (r, t) \<Longrightarrow> t = s"
  unfolding grant_tier_def andthen_def by (auto simp: op_apply split: option.splits if_splits sum.splits)

lemma grant_tier_catalog:
  "aw_definitions t = aw_definitions s \<Longrightarrow> aw_tiers t = aw_tiers s \<Longrightarrow> fst (grant_tier g t) = fst (grant_tier g s)"
  unfolding grant_tier_def andthen_def by (auto simp: op_apply split: option.split sum.split)

lemma lock_user_reads: "lock_user i s = (r, t) \<Longrightarrow> t = s"
  unfolding lock_user_def andthen_def by (auto simp: op_apply split: if_splits)

lemma repeated_reads: "repeated key request s = (r, t) \<Longrightarrow> t = s"
  unfolding repeated_def andthen_def by (auto simp: op_apply split: option.splits if_splits)

lemma grant_Inr:
  assumes "grant digest g now s = (Inr reply, t)"
  obtains d tier key where "grant_guards g now = Inr ()" and "lock_user (gr_user_id g) s = (Inr (), s)"
    and "grant_tier g s = (Inr (d, tier), s)"
    and "operation_key digest (gr_user_id g) (ad_id d) ''grant'' (gr_operation_id g) = Inr key"
    and "has_receipt t key (digest (request_json g tier))"
proof -
  let ?rest = "\<lambda>d tier key repeat. case repeat of
      Some (a, outcome, event) \<Rightarrow>
        if \<not> manual g \<and> ua_auto_grant_blocked a then ret (a, ''suppressed'', None) else ret (a, outcome, event)
    | None \<Rightarrow> new_grant digest g d tier key (digest (request_json g tier)) now"
  from assms obtain s1 d tier s2 key repeat s3 where guards: "grant_guards g now = Inr ()"
      and lock: "lock_user (gr_user_id g) s = (Inr (), s1)" and tier: "grant_tier g s1 = (Inr (d, tier), s2)"
      and key: "operation_key digest (gr_user_id g) (ad_id d) ''grant'' (gr_operation_id g) = Inr key"
      and again: "repeated key (digest (request_json g tier)) s2 = (Inr repeat, s3)"
      and rest: "?rest d tier key repeat s3 = (Inr reply, t)"
    unfolding grant_def Let_def
    by (clarsimp simp: andthen_Inr_iff atomic_Inr_iff op_apply)
  from lock_user_reads [OF lock] grant_tier_reads [OF tier] repeated_reads [OF again]
  have states [simp]: "s1 = s" "s2 = s" "s3 = s" by simp_all
  have "has_receipt t key (digest (request_json g tier))"
  proof (cases repeat)
    case None
    with rest show ?thesis by (auto intro: new_grant_receipt)
  next
    case (Some r)
    with rest have "t = s" by (auto simp: op_apply split: prod.splits if_splits)
    with again Some show ?thesis
      by (auto simp: has_receipt_def repeated_def andthen_def op_apply award_row_def
          dest!: find_Some_member split: option.splits if_splits) (metis image_eqI)
  qed
  with guards lock tier key that show thesis by simp
qed

text \<open>
  C12. A request is carried out once. After a grant that returned, the same request, sent again after
  any history that leaves the users and the catalog as they were, writes nothing at all: it is
  answered as a duplicate, or as suppressed once automatic grants are blocked.
\<close>

theorem repeated_grant_changes_nothing:
  assumes first: "grant digest g now s = (Inr reply, t)"
    and kept: "awards_kept s" and history: "award_history digest t u"
    and catalog: "sb_users u = sb_users s" "aw_definitions u = aw_definitions s" "aw_tiers u = aw_tiers s"
    and later: "now \<le> now'"
  shows "\<exists>a outcome e. grant digest g now' u = (Inr (a, outcome, e), u) \<and> outcome \<in> {''duplicate'', ''suppressed''}"
proof -
  from grant_Inr [OF first] obtain d tier key where
      guards: "grant_guards g now = Inr ()" and lock: "lock_user (gr_user_id g) s = (Inr (), s)"
      and tier: "grant_tier g s = (Inr (d, tier), s)"
      and key: "operation_key digest (gr_user_id g) (ad_id d) ''grant'' (gr_operation_id g) = Inr key"
      and receipt: "has_receipt t key (digest (request_json g tier))" by blast
  have "awards_kept t"
    using journal_order_keeps [OF run_grant kept, of digest g now] first by simp
  from has_receipt_stays [OF receipt award_history_journal [OF history this]]
  obtain a e where again: "repeated key (digest (request_json g tier)) u = (Inr (Some (a, ''duplicate'', e)), u)"
    by (rule has_receipt_repeated)
  have "grant_guards g now' = Inr ()"
    using guards later by (auto simp: grant_guards_def bindR_Inr_iff split: option.splits if_splits)
  moreover have "lock_user (gr_user_id g) u = (Inr (), u)"
    using lock catalog(1) by (auto simp: lock_user_def andthen_def op_apply split: if_splits)
  moreover have "grant_tier g u = (Inr (d, tier), u)"
    using grant_tier_catalog [OF catalog(2,3), of g] tier grant_tier_reads [of g u] by (metis fst_conv prod.collapse)
  ultimately show ?thesis
    using key again unfolding grant_def by (auto simp: atomic_def andthen_def op_apply Let_def)
qed

text \<open>
  The mark of disputed evidence is never taken away: it outlives a revocation and a new grant by the
  staff, on the proof of which nothing is disputed.
\<close>

lemma replay_disputed: "replay v es = Some w \<Longrightarrow> av_disputed v \<Longrightarrow> av_disputed w"
  by (induction es arbitrary: v) (auto simp: apply_event_def split: if_splits)

lemma dispute_is_never_cleared:
  assumes kept: "awards_kept s" and row: "a \<in> set (aw_entitlements s)" and disputed: "ua_evidence_disputed a"
    and history: "award_history digest s t" and later: "b \<in> set (aw_entitlements t)" "ua_id b = ua_id a"
  shows "ua_evidence_disputed b"
proof -
  obtain es where "aw_events t = aw_events s @ es"
    using journal_order_grows [OF award_history_journal [OF history kept]] by blast
  then have "journal t (ua_id a) = journal s (ua_id a) @ filter (\<lambda>e. ae_entitlement_id e = ua_id a) es"
    by (simp add: journal_def)
  moreover have "replay no_award (journal t (ua_id a)) = Some (view_of b)"
    using award_history_keeps [OF history kept] later by (auto simp: awards_kept_def)
  moreover have "replay no_award (journal s (ua_id a)) = Some (view_of a)" using kept row by (simp add: awards_kept_def)
  ultimately have "replay (view_of a) (filter (\<lambda>e. ae_entitlement_id e = ua_id a) es) = Some (view_of b)"
    by (simp add: replay_append)
  from replay_disputed [OF this] disputed show ?thesis by (simp add: view_of_def)
qed

section \<open>A demo catalog\<close>

definition demo_definition :: AchievementDefinition where
  "demo_definition = \<lparr>ad_id = 4, ad_code = ''independent_engineer'', ad_secret = False, ad_kind = ''fixed'', ad_active = True,
     ad_applicability = ''both'', ad_evaluator_key = ''independent_engineer'', ad_rule_version = 1, ad_art_key = ''independent''\<rparr>"

definition demo_tier :: AchievementTier where
  "demo_tier = \<lparr>ti_id = 40, ti_definition_id = 4, ti_code = ''silver'', ti_rank = 2, ti_rarity = ''silver'',
     ti_parameters = [(''automatic'', JBool True)], ti_rule_version = 1\<rparr>"

definition demo_mentor :: SandboxUser where
  "demo_mentor = \<lparr>us_id = 2, us_is_staff = True, us_date_joined = 0\<rparr>"

definition demo_trainee :: SandboxUser where
  "demo_trainee = \<lparr>us_id = 9, us_is_staff = False, us_date_joined = 0\<rparr>"

definition demo_catalog :: award_db where
  "demo_catalog = \<lparr>sb_boundary = None, sb_users = [demo_mentor, demo_trainee], sb_queues = [], sb_tasks = [],
     sb_attempts = [], sb_check_runs = [], sb_completions = [], sb_manifests = [], sb_coverage = [], sb_gaps = [],
     sb_executions = [], sb_check_events = [], sb_env_events = [], sb_submissions = [], sb_reviews = [],
     sb_source_events = [], di_stages = [], di_journeys = [], di_visits = [], di_metrics = [], di_transfers = [],
     di_confirmations = [], aw_definitions = [demo_definition], aw_tiers = [demo_tier], aw_entitlements = [],
     aw_events = [], aw_operations = [], aw_boundary = Some 0, aw_notifications = []\<rparr>"

text \<open>A digest that tells the requests of the demo apart by action and operation.\<close>

definition demo_digest :: "json \<Rightarrow> string" where
  "demo_digest j = (case j of JArr [_, _, JStr action, JStr operation] \<Rightarrow> action @ operation | _ \<Rightarrow> ''request'')"

definition demo_grant :: grant_request where
  "demo_grant = \<lparr>gr_user_id = 9, gr_definition_id = 4, gr_tier_code = ''silver'', gr_evidence = [], gr_occurred_at = Some 5,
     gr_source_type = ''stage_transition'', gr_source_ref = ''1'', gr_operation_id = ''op'', gr_actor = None, gr_reason = [],
     gr_expected_revision = None, gr_rule_version = 1\<rparr>"

definition demo_event :: AchievementEvent where
  "demo_event = \<lparr>ae_id = 1, ae_entitlement_id = 1, ae_action = GRANT, ae_from_tier = None, ae_to_tier = Some demo_tier,
     ae_actor = None, ae_occurred_at = 5, ae_recorded_at = 10, ae_source_type = ''stage_transition'', ae_source_ref = ''1'',
     ae_rule_version = 1, ae_evidence = [], ae_evidence_digest = ''request'', ae_reason = [], ae_idempotency_key = ''grantop'',
     ae_revoked_event = None\<rparr>"

definition demo_award :: UserAchievement where
  "demo_award = \<lparr>ua_id = 1, ua_user_id = 9, ua_definition_id = 4, ua_active_tier = Some demo_tier,
     ua_first_granted_at = Some 10, ua_last_upgraded_at = None, ua_last_changed_at = Some 10, ua_revision = 1,
     ua_auto_grant_blocked = False, ua_evidence_disputed = False\<rparr>"

definition demo_granted :: award_db where
  "demo_granted = demo_catalog\<lparr>aw_entitlements := [demo_award], aw_events := [demo_event],
     aw_operations := [\<lparr>ao_key = ''grantop'', ao_request_digest = ''request'', ao_entitlement_id = 1, ao_event_id = Some 1,
       ao_outcome = ''grant''\<rparr>],
     aw_notifications := [\<lparr>nt_id = 1, nt_event_id = 1, nt_user_id = 9, nt_read_at = None, nt_claim_token = None,
       nt_claim_expires_at = None\<rparr>]\<rparr>"

lemma demo_grant_granted:
  "grant demo_digest demo_grant 10 demo_catalog = (Inr (demo_award, ''grant'', Some demo_event), demo_granted)"
  by code_simp

definition demo_revoked :: award_db where
  "demo_revoked = snd (revoke demo_digest 9 4 (Some demo_mentor) ''mistake'' ''rv'' None 20 demo_granted)"

text \<open>The revoked award, given back by hand under a new operation.\<close>

definition demo_regrant :: grant_request where
  "demo_regrant = demo_grant\<lparr>gr_source_type := ''manual'', gr_operation_id := ''again'', gr_actor := Some demo_mentor,
     gr_reason := ''appeal''\<rparr>"

definition demo_regranted :: award_db where
  "demo_regranted = snd (grant demo_digest demo_regrant 30 demo_revoked)"

lemma demo_award_history:
  "award_history demo_digest demo_catalog demo_granted"
  "award_history demo_digest demo_catalog demo_revoked"
  "award_history demo_digest demo_revoked demo_regranted"
proof -
  show granted: "award_history demo_digest demo_catalog demo_granted"
    using award_step.granted [of demo_digest demo_catalog demo_grant 10]
    by (auto simp: demo_grant_granted)
  show "award_history demo_digest demo_catalog demo_revoked"
    unfolding demo_revoked_def by (rule award_histories(2) [OF granted award_step.revoked])
  show "award_history demo_digest demo_revoked demo_regranted"
    unfolding demo_regranted_def by (rule award_histories(2) [OF award_histories(1) award_step.granted])
qed

lemma demo_catalog_empty: "aw_entitlements demo_catalog = []" "aw_events demo_catalog = []"
  by (simp_all add: demo_catalog_def)

lemma demo_revoked_row:
  "List.find (\<lambda>a. ua_id a = 1) (aw_entitlements demo_revoked) = Some (revoked_award demo_award 20)"
  by code_simp

theorem awards_replay_their_journal_witness:
  "replay no_award (journal demo_revoked 1) = Some \<lparr>av_tier = None, av_blocked = True, av_disputed = False, av_revision = 2\<rparr>
    \<and> length (journal demo_revoked 1) = 2"
  using awards_replay_their_journal [OF demo_catalog_empty demo_award_history(2), of "revoked_award demo_award 20"]
    find_Some_member [OF demo_revoked_row]
  by (simp add: view_of_def revoked_award_def demo_award_def)

theorem revoked_award_returns_by_hand_only_witness:
  "\<exists>es. journal demo_regranted 1 = journal demo_revoked 1 @ es \<and> length es = 1 \<and>
    (\<forall>e \<in> set es. ae_action e \<in> {GRANT, UPGRADE} \<longrightarrow> signed_by_staff e)"
proof -
  have kept: "awards_kept demo_revoked"
    using award_history_keeps [OF demo_award_history(2) no_awards_kept [OF demo_catalog_empty]] .
  have "length (journal demo_regranted 1) = length (journal demo_revoked 1) + 1" by code_simp
  with revoked_award_returns_by_hand_only [OF kept _ _ demo_award_history(3), of "revoked_award demo_award 20"]
    find_Some_member [OF demo_revoked_row]
  show ?thesis by (auto simp: revoked_award_def demo_award_def)
qed

theorem repeated_grant_changes_nothing_witness:
  "\<exists>a outcome e. grant demo_digest demo_grant 40 demo_revoked = (Inr (a, outcome, e), demo_revoked) \<and>
    outcome \<in> {''duplicate'', ''suppressed''}"
proof (rule repeated_grant_changes_nothing [OF demo_grant_granted])
  show "awards_kept demo_catalog" by (rule no_awards_kept [OF demo_catalog_empty])
  show "award_history demo_digest demo_granted demo_revoked"
    unfolding demo_revoked_def by (rule award_histories(2) [OF award_histories(1) award_step.revoked])
  show "sb_users demo_revoked = sb_users demo_catalog" by code_simp
  show "aw_definitions demo_revoked = aw_definitions demo_catalog" by code_simp
  show "aw_tiers demo_revoked = aw_tiers demo_catalog" by code_simp
qed simp

end
