(* ===== verification/Notification_Theorems.thy ===== *)
theory Notification_Theorems
  imports Notifications Award_Theorems
begin

text \<open>
  The lease of a notification: between a claim and its end nobody but the holder of the token
  changes the delivery, and the holder can acknowledge it.
\<close>

section \<open>Operations that leave a delivery alone\<close>

definition deliveries_distinct :: "'a award_db_scheme \<Rightarrow> bool" where
  "deliveries_distinct db \<longleftrightarrow> distinct (map nt_id (aw_notifications db)) \<and> distinct (map nt_event_id (aw_notifications db))"

definition leaves :: "AchievementNotification \<Rightarrow> 'a award_db_scheme \<Rightarrow> 'a award_db_scheme \<Rightarrow> bool" where
  "leaves n s t \<longleftrightarrow> (deliveries_distinct s \<and> n \<in> set (aw_notifications s) \<longrightarrow>
     deliveries_distinct t \<and> n \<in> set (aw_notifications t))"

interpretation leaves: effect_order "leaves n" for n
  by unfold_locales (auto simp: leaves_def)

lemma leaves_same: "aw_notifications t = aw_notifications s \<Longrightarrow> leaves n s t"
  by (simp add: leaves_def deliveries_distinct_def)

lemma leaves_modify: "(\<And>s. aw_notifications (f s) = aw_notifications s) \<Longrightarrow> keeps (leaves n) (modify_db f)"
  by (rule leaves.keeps_modify_db) (simp add: leaves_same)

lemma leaves_lock_user: "keeps (leaves n) (lock_user i)"
  unfolding lock_user_def by (intro leaves.keeps_intros)

lemma leaves_enqueue: "keeps (leaves n) (enqueue e i)"
proof (unfold keeps_def, intro allI)
  fix s :: award_db
  show "leaves n s (snd (enqueue e i s))"
    using fresh_pk_notin [of "map nt_id (aw_notifications s)"]
    unfolding enqueue_def andthen_def
    by (auto simp: op_apply leaves_def deliveries_distinct_def list_ex_iff image_iff split: option.split)
qed

lemma leaves_record_change: "keeps (leaves n) (record_change a new b)"
  unfolding record_change_def create_award_event_def save_award_def
  by (intro leaves.keeps_intros leaves_modify) simp_all

lemma leaves_remember: "keeps (leaves n) (remember key request a outcome e)"
  unfolding remember_def by (intro leaves.keeps_intros leaves_modify) simp

lemma leaves_repeated: "keeps (leaves n) (repeated key request)"
  unfolding repeated_def by (intro leaves.keeps_intros)

lemma leaves_grant: "keeps (leaves n) (grant digest g now)"
  unfolding grant_def grant_tier_def new_grant_def issue_tier_def get_or_create_award_def
  by (intro leaves.keeps_intros leaves_lock_user leaves_repeated leaves_remember leaves_enqueue
      leaves_record_change leaves_modify) simp_all

lemma leaves_revoke: "keeps (leaves n) (revoke digest user_id definition_id actor reason op_id expected now)"
  unfolding revoke_def new_revoke_def
  by (intro leaves.keeps_intros leaves_lock_user leaves_repeated leaves_remember leaves_record_change)

lemma leaves_flag_award: "keeps (leaves n) (flag_award digest ds now a)"
  unfolding flag_award_def by (intro leaves.keeps_intros leaves_record_change)

lemma leaves_flag_awards: "keeps (leaves n) (flag_awards digest ds now xs)"
  by (induction xs) (simp_all add: leaves.keeps_ret leaves.keeps_andthen leaves_flag_award)

lemma leaves_flag_disputed: "keeps (leaves n) (flag_disputed digest ds now)"
  unfolding flag_disputed_def by (intro leaves.keeps_intros leaves_lock_user leaves_flag_awards)

lemma leaves_enqueue_all: "keeps (leaves n) (enqueue_all start es)"
proof (induction es)
  case (Cons e es)
  then show ?case
    unfolding enqueue_all.simps by (intro leaves.keeps_intros leaves_enqueue)
qed (simp add: leaves.keeps_ret)

lemma leaves_repair_delivery: "keeps (leaves n) (repair_delivery limit)"
  unfolding repair_delivery_def by (intro leaves.keeps_intros leaves_enqueue_all)

lemmas leaves_services = leaves_grant leaves_revoke leaves_flag_disputed leaves_lock_user

lemma leaves_dispute_metric_awards: "keeps (leaves n) (dispute_metric_awards env e i now xs)"
  by (induction xs) (simp_all add: leaves.keeps_intros leaves_services)

lemma leaves_process_definitions: "keeps (leaves n) (process_definitions env sv e clock ds)"
proof (induction ds)
  case (Cons d ds)
  then show ?case
    unfolding process_definitions.simps process_definition_def by (intro leaves.keeps_intros leaves_services)
qed (simp add: leaves.keeps_ret)

lemma leaves_process_source_event: "keeps (leaves n) (process_source_event env sv describe i clock)"
  unfolding process_source_event_def process_locked_def process_now_def finish_source_def record_failure_def
    dispute_metric_def
  by (intro leaves.keeps_intros leaves_services leaves_dispute_metric_awards leaves_process_definitions leaves_modify)
    (simp_all add: Let_def)

lemma leaves_reconcile: "keeps (leaves n) (reconcile env sv user_id d apply version clock)"
  unfolding reconcile_def reconcile_run_def by (intro leaves.keeps_intros leaves_services)

text \<open>Writing another delivery.\<close>

lemma leaves_save_notification:
  assumes "m \<in> set (aw_notifications s)" and "m \<noteq> n" and "nt_id m' = nt_id m" and "nt_event_id m' = nt_event_id m"
  shows "leaves n s (snd (save_notification m' s))"
proof (unfold leaves_def, intro impI)
  assume kept: "deliveries_distinct s \<and> n \<in> set (aw_notifications s)"
  let ?f = "\<lambda>row. if nt_id row = nt_id m' then m' else row"
  define t where "t = snd (save_notification m' s)"
  have t: "aw_notifications t = map ?f (aw_notifications s)" by (simp add: t_def save_notification_def op_apply)
  have same: "row \<in> set (aw_notifications s) \<Longrightarrow> nt_id row = nt_id m \<Longrightarrow> row = m" for row
    using kept assms(1) by (metis deliveries_distinct_def inj_on_eq_iff distinct_map)
  then have "map nt_id (aw_notifications t) = map nt_id (aw_notifications s)"
    and "map nt_event_id (aw_notifications t) = map nt_event_id (aw_notifications s)"
    using assms(3,4) t by auto
  then have "deliveries_distinct t" using kept by (simp add: deliveries_distinct_def)
  moreover have "n \<in> set (aw_notifications t)"
  proof -
    have "nt_id n \<noteq> nt_id m'" using same [of n] kept assms(2,3) by metis
    then have "n = ?f n" by simp
    then show ?thesis unfolding t list.set_map using kept by (intro image_eqI [of n ?f n]) blast+
  qed
  ultimately show "deliveries_distinct (snd (save_notification m' s)) \<and>
      n \<in> set (aw_notifications (snd (save_notification m' s)))"
    by (simp add: t_def)
qed

text \<open>A claim or an acknowledgement that the lease of another token stops.\<close>

definition under_lease :: "AchievementNotification \<Rightarrow> string \<Rightarrow> time \<Rightarrow> bool" where
  "under_lease n k until \<longleftrightarrow> nt_read_at n = None \<and> nt_claim_token n = Some k \<and> nt_claim_expires_at n = Some until"

lemma owned_find:
  assumes "List.find (\<lambda>n. nt_event_id n = event_id) (owned db user_id) = Some m"
  shows "m \<in> set (aw_notifications db)" and "nt_event_id m = event_id" and "is_owned db user_id m"
  using find_Some_member [OF assms] by (auto simp: owned_def)

lemma leaves_lift_result: "leaves n s (snd (lift_result r s))"
  by (simp add: op_apply leaves.unchanged)

lemma leaves_claim:
  assumes lease: "under_lease n k until" and other: "event_id \<noteq> nt_event_id n \<or> token \<noteq> k" and before: "now < until"
  shows "leaves n s (snd (claim user_id event_id token now s))"
proof -
  have "leaves n s (snd (case List.find (\<lambda>n. nt_event_id n = event_id) (owned s user_id) of
       None \<Rightarrow> raise DoesNotExist s
     | Some m \<Rightarrow>
         (if nt_read_at m \<noteq> None then ret (AlreadyRead event_id)
         else if \<not> is_visible s m then raise DoesNotExist
         else if held_by_other m token now then raise (Conflict ''claimed'')
         else let m' = m\<lparr>nt_claim_token := Some token, nt_claim_expires_at := Some (now + lease)\<rparr>
           in andthen (save_notification m') (\<lambda>_. andthen get_db (\<lambda>db.
                andthen (lift_result (item db m')) (\<lambda>i. ret (Claimed i token))))) s))"
  proof (cases "List.find (\<lambda>n. nt_event_id n = event_id) (owned s user_id)")
    case None
    then show ?thesis by (simp add: op_apply leaves.unchanged)
  next
    case (Some m)
    show ?thesis
    proof (cases "held_by_other m token now")
      case True
      with Some show ?thesis by (simp add: op_apply leaves.unchanged)
    next
      case False
      with lease other before owned_find(2) [OF Some] have "m \<noteq> n"
        by (auto simp: held_by_other_def under_lease_def)
      then have "leaves n s (snd (save_notification
          (m\<lparr>nt_claim_token := Some token, nt_claim_expires_at := Some (now + lease)\<rparr>) s))"
        using owned_find(1) [OF Some] by (intro leaves_save_notification) simp_all
      with Some show ?thesis
        by (auto simp: op_apply leaves.unchanged Let_def intro!: leaves.run_andthen leaves_lift_result)
    qed
  qed
  then show ?thesis
    unfolding claim_def
    by (intro leaves.run_atomic leaves.run_andthen leaves.run_keeps [OF leaves_lock_user])
      (auto simp: andthen_def [of get_db] op_apply leaves.unchanged dest!: lock_user_reads split: option.splits)
qed

lemma leaves_acknowledge:
  assumes lease: "under_lease n k until" and other: "event_id \<noteq> nt_event_id n \<or> token \<noteq> k"
  shows "leaves n s (snd (acknowledge user_id event_id token now s))"
proof (cases "List.find (\<lambda>n. nt_event_id n = event_id) (owned s user_id)")
  case None
  then show ?thesis by (simp add: acknowledge_def atomic_def andthen_def op_apply leaves.unchanged)
next
  case (Some m)
  have "m \<noteq> n" if "nt_claim_token m = Some token"
    using lease other owned_find(2) [OF Some] that by (auto simp: under_lease_def)
  then have "leaves n s (snd (save_notification (m\<lparr>nt_read_at := Some now, nt_claim_expires_at := None\<rparr>) s))"
    if "nt_claim_token m = Some token"
    using owned_find(1) [OF Some] that by (intro leaves_save_notification) simp_all
  with Some show ?thesis
    unfolding acknowledge_def
    by (intro leaves.run_atomic) (auto simp: andthen_def [of get_db] op_apply leaves.unchanged
        intro!: leaves.run_andthen split: option.split)
qed

section \<open>Histories under a lease\<close>

text \<open>
  What others may do while the holder of token \<open>k\<close> has the delivery of event \<open>i\<close>: claims and
  acknowledgements of other deliveries or under other tokens, before the lease ends; grants, revocations,
  disputes, the worker and repairs; and changes elsewhere in the database.
\<close>

inductive others_step :: "(json \<Rightarrow> string) \<Rightarrow> pk \<Rightarrow> string \<Rightarrow> time \<Rightarrow> award_db \<Rightarrow> award_db \<Rightarrow> bool"
  for digest i k until where
  claimed: "event_id \<noteq> i \<or> token \<noteq> k \<Longrightarrow> now < until \<Longrightarrow>
    others_step digest i k until db (snd (claim user_id event_id token now db))"
| acknowledged: "event_id \<noteq> i \<or> token \<noteq> k \<Longrightarrow> now < until \<Longrightarrow>
    others_step digest i k until db (snd (acknowledge user_id event_id token now db))"
| granted: "others_step digest i k until db (snd (grant digest g now db))"
| revoked: "others_step digest i k until db (snd (revoke digest user_id definition_id actor reason op_id expected now db))"
| disputed: "others_step digest i k until db (snd (flag_disputed digest ds now db))"
| processed: "others_step digest i k until db (snd (process_source_event env sv describe source clock db))"
| reconciled: "others_step digest i k until db (snd (reconcile env sv user_id d apply version clock db))"
| repaired: "others_step digest i k until db (snd (repair_delivery limit db))"
| elsewhere: "aw_notifications db' = aw_notifications db \<Longrightarrow> others_step digest i k until db db'"

lemma others_step_leaves:
  "others_step digest (nt_event_id n) k until s t \<Longrightarrow> under_lease n k until \<Longrightarrow> leaves n s t"
  by (erule others_step.cases)
    (auto intro: leaves_claim leaves_acknowledge leaves.run_keeps [OF leaves_grant] leaves.run_keeps [OF leaves_revoke]
      leaves.run_keeps [OF leaves_flag_disputed] leaves.run_keeps [OF leaves_repair_delivery] leaves.run_keeps [OF leaves_process_source_event]
      leaves.run_keeps [OF leaves_reconcile] leaves_same)

lemma others_history_leaves:
  "(others_step digest (nt_event_id n) k until)\<^sup>*\<^sup>* s t \<Longrightarrow> under_lease n k until \<Longrightarrow> leaves n s t"
  by (induction rule: rtranclp_induct) (auto intro: leaves.unchanged leaves.chained others_step_leaves)

lemma acknowledge_holder:
  assumes "deliveries_distinct t" and "n \<in> set (aw_notifications t)" and "under_lease n k until" and "is_owned t user_id n"
  shows "acknowledge user_id (nt_event_id n) k now t =
    (Inr now, snd (save_notification (n\<lparr>nt_read_at := Some now, nt_claim_expires_at := None\<rparr>) t))"
proof -
  have "List.find (\<lambda>m. nt_event_id m = nt_event_id n) (owned t user_id) \<noteq> None"
    using assms(2,4) by (auto simp: find_None_all owned_def)
  then obtain m where m: "List.find (\<lambda>m. nt_event_id m = nt_event_id n) (owned t user_id) = Some m" by blast
  from owned_find [OF this] assms(1,2) have "m = n"
    by (metis deliveries_distinct_def distinct_map inj_on_eq_iff)
  with m assms(3) show ?thesis
    by (auto simp: acknowledge_def atomic_def andthen_def op_apply under_lease_def save_notification_def)
qed

text \<open>
  C16. A notification is shown once. From a claim to the end of its lease, whatever other tabs and the
  rest of the system do, the delivery stays as the claim left it: unread, in the name of its holder.
  The holder can still acknowledge it, and is told the time of reading.
\<close>

theorem lease_belongs_to_its_holder:
  assumes "deliveries_distinct s" and "n \<in> set (aw_notifications s)" and "under_lease n k until"
    and "(others_step digest (nt_event_id n) k until)\<^sup>*\<^sup>* s t"
  shows "n \<in> set (aw_notifications t) \<and>
    (is_owned t user_id n \<longrightarrow> fst (acknowledge user_id (nt_event_id n) k now t) = Inr now) \<and>
    (token \<noteq> k \<and> now < until \<longrightarrow>
      (\<forall>reply. fst (claim user_id (nt_event_id n) token now t) \<noteq> Inr reply) \<and>
      (\<forall>reply. fst (acknowledge user_id (nt_event_id n) token now t) \<noteq> Inr reply))"
proof -
  have kept: "deliveries_distinct t" "n \<in> set (aw_notifications t)"
    using others_history_leaves [OF assms(4,3)] assms(1,2) by (auto simp: leaves_def)
  have only: "m = n" if "List.find (\<lambda>m. nt_event_id m = nt_event_id n) (owned t user_id) = Some m" for m
    using owned_find [OF that] kept by (metis deliveries_distinct_def distinct_map inj_on_eq_iff)
  have "fst (claim user_id (nt_event_id n) token now t) \<noteq> Inr reply" if "token \<noteq> k" "now < until" for reply
    using assms(3) that only
    by (cases "List.find (\<lambda>m. nt_event_id m = nt_event_id n) (owned t user_id)")
      (auto simp: claim_def atomic_def andthen_def op_apply lock_user_def under_lease_def held_by_other_def split: if_splits)
  moreover have "fst (acknowledge user_id (nt_event_id n) token now t) \<noteq> Inr reply" if "token \<noteq> k" for reply
    using assms(3) that only
    by (cases "List.find (\<lambda>m. nt_event_id m = nt_event_id n) (owned t user_id)")
      (auto simp: acknowledge_def atomic_def andthen_def op_apply under_lease_def)
  ultimately show ?thesis using kept acknowledge_holder [OF kept assms(3)] by auto
qed

text \<open>The demo: the award of \<open>demo_granted\<close> is claimed by one tab, then another tab tries to take it.\<close>

definition demo_claimed :: award_db where
  "demo_claimed = snd (claim 9 1 ''tab1'' 100 demo_granted)"

definition demo_delivery :: AchievementNotification where
  "demo_delivery = \<lparr>nt_id = 1, nt_event_id = 1, nt_user_id = 9, nt_read_at = None, nt_claim_token = Some ''tab1'',
     nt_claim_expires_at = Some 90000100\<rparr>"

definition demo_contested :: award_db where
  "demo_contested = snd (claim 9 1 ''tab2'' 200 demo_claimed)"

theorem lease_belongs_to_its_holder_witness:
  "demo_delivery \<in> set (aw_notifications demo_contested) \<and> fst (acknowledge 9 1 ''tab1'' 300 demo_contested) = Inr 300"
proof -
  have "is_owned demo_contested 9 demo_delivery" by code_simp
  moreover have "deliveries_distinct demo_claimed" by code_simp
  moreover have "demo_delivery \<in> set (aw_notifications demo_claimed)" by code_simp
  moreover have "under_lease demo_delivery ''tab1'' 90000100" by code_simp
  moreover have "others_step demo_digest 1 ''tab1'' 90000100 demo_claimed demo_contested"
    unfolding demo_contested_def by (rule others_step.claimed) simp_all
  ultimately show ?thesis
    using lease_belongs_to_its_holder [of demo_claimed demo_delivery "''tab1''" 90000100 demo_digest demo_contested 9 300]
    by (auto simp: demo_delivery_def)
qed

end
