(* ===== verification/Evaluator_Theorems.thy ===== *)
theory Evaluator_Theorems
  imports Sandbox_Evaluators Journey_Integrity
begin

text \<open>
  What the evaluators promise: which histories of a journey they trust, which tier a probation earns
  by its day, that the best week is picked, and what a sandbox level proves.
\<close>

section \<open>Trusted histories\<close>

definition still_applies :: "'a diary_db_scheme \<Rightarrow> TraineeJourney \<Rightarrow> StageHistory \<Rightarrow> bool" where
  "still_applies db j v \<longleftrightarrow> (\<exists>stage. effective_history_stage db j v = Inr stage \<and>
     stage_applies stage (jo_scheme j) (jo_entry_type j))"

lemma visit_in_order_True:
  "visit_in_order db j today v = Inr True \<longleftrightarrow> jo_probation_start j \<le> sh_started_at v \<and> sh_started_at v \<le> today \<and>
     still_applies db j v \<and> (case sh_ended_at v of None \<Rightarrow> True | Some e \<Rightarrow> sh_started_at v \<le> e \<and> e \<le> today)"
  by (auto simp: visit_in_order_def still_applies_def bindR_Inr_iff split: option.splits)

lemma history_in_order_chain:
  assumes "chain a vs (jo_stage_started_at j)" and "jo_probation_start j \<le> a" and "jo_stage_started_at j \<le> today"
    and "last_visit_matches db j c = Inr True"
  shows "history_in_order db j today (vs @ [c]) = Inr True \<longleftrightarrow> (\<forall>v \<in> set (vs @ [c]). still_applies db j v)"
  using assms(1,2)
proof (induction vs arbitrary: a)
  case Nil
  have "sh_ended_at c = None" and "sh_started_at c = jo_stage_started_at j"
    using assms(4) by (auto simp: last_visit_matches_def bindR_Inr_iff split: if_splits)
  then have ok: "visit_in_order db j today c = Inr True \<longleftrightarrow> still_applies db j c"
    using Nil assms(3) by (simp add: visit_in_order_True)
  show ?case
  proof (cases "visit_in_order db j today c")
    case (Inl err)
    with ok show ?thesis by simp
  next
    case (Inr b)
    with ok assms(4) show ?thesis by (cases b) simp_all
  qed
next
  case (Cons v vs)
  then obtain e where v: "sh_started_at v = a" "sh_ended_at v = Some e" "a \<le> e" "chain e vs (jo_stage_started_at j)"
    by (auto split: option.splits)
  have c: "sh_started_at c = jo_stage_started_at j"
    using assms(4) by (auto simp: last_visit_matches_def bindR_Inr_iff split: if_splits)
  have next_start: "sh_started_at (hd (vs @ [c])) = e" using v(4) c by (cases vs) auto
  have "e \<le> today" using chain_mono [OF v(4)] assms(3) by simp
  then have ok: "visit_in_order db j today v = Inr True \<longleftrightarrow> still_applies db j v"
    using v Cons.prems(2) by (auto simp: visit_in_order_True)
  have rest: "history_in_order db j today (vs @ [c]) = Inr True \<longleftrightarrow> (\<forall>v \<in> set (vs @ [c]). still_applies db j v)"
    using Cons.IH [OF v(4)] v(3) Cons.prems(2) by simp
  show ?case
  proof (cases "visit_in_order db j today v")
    case (Inl err)
    with ok show ?thesis by auto
  next
    case (Inr b)
    with ok rest v next_start show ?thesis by (cases b) auto
  qed
qed

lemma kept_history_trusted:
  assumes "well_kept db j today"
  shows "history_for db j today = Inr (Some visits) \<longleftrightarrow>
    visits = journey_visits db j \<and> (\<forall>v \<in> set visits. still_applies db j v)"
proof -
  from assms obtain vs c stage where h: "journey_visits db j = vs @ [c]"
      "chain (jo_probation_start j) vs (jo_stage_started_at j)" "sh_ended_at c = None"
      "sh_started_at c = jo_stage_started_at j" "effective_history_stage db j c = Inr stage" "st_id stage = st_id (jo_stage j)"
    and today: "jo_stage_started_at j \<le> today"
    by (auto simp: well_kept_def history_kept_def)
  have "last_visit_matches db j c = Inr True" using h by (simp add: last_visit_matches_def)
  from history_in_order_chain [OF h(2) order_refl today this]
  have "history_in_order db j today (vs @ [c]) = Inr True \<longleftrightarrow> (\<forall>v \<in> set (vs @ [c]). still_applies db j v)" .
  moreover have start: "\<not> today < jo_probation_start j" using chain_mono [OF h(2)] today by simp
  moreover have "history_for db j today =
      bindR (history_in_order db j today (vs @ [c])) (\<lambda>ok. Inr (if ok then Some (vs @ [c]) else None))"
    using start unfolding history_for_def Let_def h(1) by simp
  moreover have "bindR r (\<lambda>ok. Inr (if ok then Some w else None)) = Inr (Some visits) \<longleftrightarrow> r = Inr True \<and> visits = w"
    for r and w :: "StageHistory list" by (cases r) auto
  ultimately show ?thesis unfolding h(1) by metis
qed

section \<open>The highest tier\<close>

lemma max_tier_fold:
  "foldl (\<lambda>b t. if ti_rank b < ti_rank t then t else b) t ts \<in> insert t (set ts) \<and>
   (\<forall>x \<in> insert t (set ts). ti_rank x \<le> ti_rank (foldl (\<lambda>b t. if ti_rank b < ti_rank t then t else b) t ts))"
proof (induction ts arbitrary: t)
  case Nil
  then show ?case by simp
next
  case (Cons u ts)
  let ?b = "if ti_rank t < ti_rank u then u else t"
  from Cons.IH [of ?b] show ?case by (auto split: if_splits intro: order_trans less_imp_le)
qed

lemma max_tier_Inr: "max_tier ts = Inr t \<Longrightarrow> t \<in> set ts \<and> (\<forall>x \<in> set ts. ti_rank x \<le> ti_rank t)"
  using max_tier_fold [of "hd ts" "tl ts"] by (cases ts) auto

lemma max_tier_Inl: "max_tier ts = Inl e \<Longrightarrow> ts = []"
  by (cases ts) auto

lemma max_tier_exists: "t \<in> set ts \<Longrightarrow> \<exists>u. max_tier ts = Inr u"
  by (cases ts) auto

section \<open>Weeks\<close>

definition qualifies ::
    "bool \<Rightarrow> StageHistory list \<Rightarrow> date \<Rightarrow> WeeklyMetric \<Rightarrow> nat \<Rightarrow> StageHistory \<Rightarrow> bool" where
  "qualifies quality visits today m number visit \<longleftrightarrow> (\<exists>start. wm_week_start m = Some start \<and> start + 7 \<le> today \<and>
     covering visits start = [visit] \<and> st_group (sh_stage visit) = (if quality then WITH_REVIEW else NO_REVIEW) \<and>
     weekly_value quality m = Some number \<and> (quality \<longrightarrow> number \<le> 1000))"

definition best_of ::
    "bool \<Rightarrow> AchievementTier list \<Rightarrow> StageHistory list \<Rightarrow> date \<Rightarrow> WeeklyMetric set \<Rightarrow> weekly_best option \<Rightarrow> bool" where
  "best_of quality tiers visits today ms best \<longleftrightarrow>
     (case best of
        None \<Rightarrow> True
      | Some (t, n, m, v) \<Rightarrow> m \<in> ms \<and> qualifies quality visits today m n v \<and> t \<in> set tiers \<and> reaches n t) \<and>
     (\<forall>m \<in> ms. \<forall>n v t. qualifies quality visits today m n v \<and> t \<in> set tiers \<and> reaches n t \<longrightarrow>
        (\<exists>u k x w. best = Some (u, k, x, w) \<and> ti_rank t \<le> ti_rank u))"

lemma weigh_week_cases:
  "fst (weigh_week quality tiers visits today (best, ambiguous) m) = best \<and>
     (\<forall>n v t. qualifies quality visits today m n v \<and> t \<in> set tiers \<and> reaches n t \<longrightarrow>
        (\<exists>u k x w. best = Some (u, k, x, w) \<and> ti_rank t \<le> ti_rank u)) \<or>
   (\<exists>t n v. fst (weigh_week quality tiers visits today (best, ambiguous) m) = Some (t, n, m, v) \<and>
     qualifies quality visits today m n v \<and> t \<in> set tiers \<and> reaches n t \<and>
     (\<forall>n' v' t'. qualifies quality visits today m n' v' \<and> t' \<in> set tiers \<and> reaches n' t' \<longrightarrow> ti_rank t' \<le> ti_rank t) \<and>
     (\<forall>u k x w. best = Some (u, k, x, w) \<longrightarrow> ti_rank u \<le> ti_rank t))"
proof (cases "\<exists>n v. qualifies quality visits today m n v")
  case False
  have "fst (weigh_week quality tiers visits today (best, ambiguous) m) = best"
  proof (rule ccontr)
    assume "fst (weigh_week quality tiers visits today (best, ambiguous) m) \<noteq> best"
    then obtain start v n where "wm_week_start m = Some start" "\<not> today < start + 7" "covering visits start = [v]"
        "st_group (sh_stage v) = (if quality then WITH_REVIEW else NO_REVIEW)" "weekly_value quality m = Some n"
        "\<not> (quality \<and> 1000 < n)"
      by (simp add: weigh_week_def split: option.splits if_splits list.splits)
    then have "qualifies quality visits today m n v" by (auto simp: qualifies_def)
    with False show False by blast
  qed
  then show ?thesis using False by simp
next
  case True
  then obtain n v start where q: "qualifies quality visits today m n v" and w: "wm_week_start m = Some start"
      "\<not> today < start + 7" "covering visits start = [v]"
      "st_group (sh_stage v) = (if quality then WITH_REVIEW else NO_REVIEW)" "weekly_value quality m = Some n"
      "\<not> (quality \<and> 1000 < n)"
    by (auto simp: qualifies_def)
  have only: "qualifies quality visits today m n' v' \<Longrightarrow> n' = n" for n' v'
    using w by (auto simp: qualifies_def)
  show ?thesis
  proof (cases "max_tier (filter (reaches n) tiers)")
    case (Inl e)
    then have "filter (reaches n) tiers = []" by (rule max_tier_Inl)
    then have "\<not> (t \<in> set tiers \<and> reaches n t)" for t by (auto simp: filter_empty_conv)
    with Inl w only show ?thesis by (auto simp: weigh_week_def)
  next
    case (Inr t)
    from max_tier_Inr [OF this] have t: "t \<in> set tiers" "reaches n t"
      and top: "\<And>x. x \<in> set tiers \<Longrightarrow> reaches n x \<Longrightarrow> ti_rank x \<le> ti_rank t" by auto
    show ?thesis
    proof (cases "better t n best")
      case True
      then have old: "\<forall>u k x w. best = Some (u, k, x, w) \<longrightarrow> ti_rank u \<le> ti_rank t" by (auto simp: better_def)
      have "fst (weigh_week quality tiers visits today (best, ambiguous) m) = Some (t, n, m, v)"
        using w by (auto simp: weigh_week_def Inr True)
      moreover have "ti_rank t' \<le> ti_rank t" if "qualifies quality visits today m n' v'" "t' \<in> set tiers" "reaches n' t'" for n' v' t'
        using only [OF that(1)] top that by simp
      ultimately show ?thesis using t q old by blast
    next
      case False
      then obtain u k x y where u: "best = Some (u, k, x, y)" "ti_rank t \<le> ti_rank u"
        by (auto simp: better_def split: option.splits prod.splits)
      have "fst (weigh_week quality tiers visits today (best, ambiguous) m) = best"
        using w by (auto simp: weigh_week_def Inr False)
      moreover have "ti_rank t' \<le> ti_rank u" if "qualifies quality visits today m n' v'" "t' \<in> set tiers" "reaches n' t'" for n' v' t'
        using only [OF that(1)] top [of t'] that u(2) by simp
      ultimately show ?thesis using u(1) by blast
    qed
  qed
qed

lemma weigh_weeks_best:
  "best_of quality tiers visits today (set ms) (fst (foldl (weigh_week quality tiers visits today) (None, False) ms))"
proof (induction ms rule: rev_induct)
  case Nil
  then show ?case by (simp add: best_of_def)
next
  case (snoc m ms)
  obtain best ambiguous where b: "foldl (weigh_week quality tiers visits today) (None, False) ms = (best, ambiguous)"
    by fastforce
  let ?q = "qualifies quality visits today"
  let ?next = "fst (weigh_week quality tiers visits today (best, ambiguous) m)"
  from snoc b have source: "case best of None \<Rightarrow> True | Some (t, n, x, v) \<Rightarrow> x \<in> set ms \<and> ?q x n v \<and> t \<in> set tiers \<and> reaches n t"
    and above: "\<And>x n v t. x \<in> set ms \<Longrightarrow> ?q x n v \<Longrightarrow> t \<in> set tiers \<Longrightarrow> reaches n t \<Longrightarrow>
      \<exists>u k y w. best = Some (u, k, y, w) \<and> ti_rank t \<le> ti_rank u"
    by (auto simp: best_of_def)
  from weigh_week_cases [of quality tiers visits today best ambiguous m]
  have "best_of quality tiers visits today (insert m (set ms)) ?next"
  proof (elim disjE exE conjE)
    assume "?next = best" and new: "\<forall>n v t. ?q m n v \<and> t \<in> set tiers \<and> reaches n t \<longrightarrow>
        (\<exists>u k x w. best = Some (u, k, x, w) \<and> ti_rank t \<le> ti_rank u)"
    with source above show ?thesis unfolding best_of_def by (auto split: option.splits)
  next
    fix t n v
    assume t: "?next = Some (t, n, m, v)" "?q m n v" "t \<in> set tiers" "reaches n t"
      and new: "\<forall>n' v' t'. ?q m n' v' \<and> t' \<in> set tiers \<and> reaches n' t' \<longrightarrow> ti_rank t' \<le> ti_rank t"
      and old: "\<forall>u k x w. best = Some (u, k, x, w) \<longrightarrow> ti_rank u \<le> ti_rank t"
    have "ti_rank t' \<le> ti_rank t" if "x \<in> insert m (set ms)" "?q x n' v'" "t' \<in> set tiers" "reaches n' t'" for x n' v' t'
    proof (cases "x = m")
      case True
      with new that show ?thesis by blast
    next
      case False
      with above [of x n' v' t'] that old show ?thesis using le_trans by blast
    qed
    with t show ?thesis unfolding best_of_def by auto
  qed
  then show ?case by (simp add: b)
qed

section \<open>The catalog\<close>

lemma same_dict_get:
  assumes "same_dict p q" and "distinct (map fst q)"
  shows "json_get key p = json_get key q"
proof -
  have "map_of p key = map_of q key"
  proof (cases "map_of q key")
    case None
    then have "key \<notin> fst ` set p" using assms(1) by (simp add: same_dict_def map_of_eq_None_iff)
    with None show ?thesis by (metis map_of_eq_None_iff)
  next
    case (Some x)
    then have "(key, x) \<in> set p" using assms(1) map_of_SomeD by (fastforce simp: same_dict_def)
    then obtain y where y: "map_of p key = Some y" by (metis weak_map_of_SomeI)
    then have "(key, y) \<in> set q" using assms(1) map_of_SomeD by (fastforce simp: same_dict_def)
    with assms(2) y show ?thesis by (metis map_of_is_SomeI)
  qed
  then show ?thesis by (simp add: json_get_def)
qed

lemma catalog_tiers:
  assumes "catalog_problem d tiers = None"
  obtains s where "schema_of (ad_evaluator_key d) = Some s" and "ad_applicability d = fa_applicability s"
    and "set (map ti_code tiers) = set (map fst (fa_tiers s))"
    and "\<And>t. t \<in> set tiers \<Longrightarrow> \<exists>q. map_of (fa_tiers s) (ti_code t) = Some q \<and> same_dict (ti_parameters t) q \<and>
      ti_rank t = rarity_rank (ti_code t)"
proof -
  from assms obtain u ts where v: "validate_definition d = Inr u" "mapR (validate_tier d) tiers = Inr ts"
    by (auto simp: catalog_problem_def bindR_Inr_iff split: sum.splits if_splits)
  then obtain s where s: "schema_of (ad_evaluator_key d) = Some s" "ad_applicability d = fa_applicability s"
    by (auto simp: validate_definition_def split: option.splits if_splits)
  moreover have "set (map ti_code tiers) = set (map fst (fa_tiers s))"
    using assms v s by (auto simp: catalog_problem_def split: if_splits)
  moreover have "\<exists>q. map_of (fa_tiers s) (ti_code t) = Some q \<and> same_dict (ti_parameters t) q \<and> ti_rank t = rarity_rank (ti_code t)"
    if "t \<in> set tiers" for t
  proof -
    from that v(2) obtain w where "validate_tier d t = Inr w"
      by (auto simp: mapR_list_all2 list_all2_conv_all_nth in_set_conv_nth)
    with s show ?thesis by (auto simp: validate_tier_def bindR_Inr_iff Let_def split: option.splits if_splits)
  qed
  ultimately show thesis using that by blast
qed

lemma probation_schema:
  "schema_of ''probation_new_hire'' = Some (family_row ''probation_new_hire'' ''probation''
        [(''bronze'', automatic True [(''min_day'', JNum 61)]),
         (''silver'', automatic True [(''min_day'', JNum 46), (''max_day'', JNum 60)]),
         (''gold'', automatic True [(''min_day'', JNum 31), (''max_day'', JNum 45)]),
         (''platinum'', automatic True [(''min_day'', JNum 1), (''max_day'', JNum 30)])] ''tiered'' ''new_hire'' False)"
  by code_simp

text \<open>The code of the tier for the day on which the probation ended.\<close>

definition tier_of_day :: "nat \<Rightarrow> string" where
  "tier_of_day day = (if day \<le> 30 then ''platinum'' else if day \<le> 45 then ''gold'' else if day \<le> 60 then ''silver'' else ''bronze'')"

lemma probation_tier_covers:
  assumes "catalog_problem d tiers = None" and "ad_evaluator_key d = ''probation_new_hire''" and "t \<in> set tiers" and "0 < day"
  shows "covers_day day t \<longleftrightarrow> ti_code t = tier_of_day day"
proof -
  from catalog_tiers [OF assms(1)] obtain s where s: "schema_of (ad_evaluator_key d) = Some s"
    and tier: "\<And>t. t \<in> set tiers \<Longrightarrow> \<exists>q. map_of (fa_tiers s) (ti_code t) = Some q \<and> same_dict (ti_parameters t) q \<and>
      ti_rank t = rarity_rank (ti_code t)" by blast
  have "fa_tiers s = [(''bronze'', automatic True [(''min_day'', JNum 61)]),
         (''silver'', automatic True [(''min_day'', JNum 46), (''max_day'', JNum 60)]),
         (''gold'', automatic True [(''min_day'', JNum 31), (''max_day'', JNum 45)]),
         (''platinum'', automatic True [(''min_day'', JNum 1), (''max_day'', JNum 30)])]"
    using s unfolding assms(2) probation_schema by (auto simp: family_row_def)
  with tier [OF assms(3)] obtain q where q: "same_dict (ti_parameters t) q" and
      "(ti_code t, q) \<in> {(''bronze'', automatic True [(''min_day'', JNum 61)]),
         (''silver'', automatic True [(''min_day'', JNum 46), (''max_day'', JNum 60)]),
         (''gold'', automatic True [(''min_day'', JNum 31), (''max_day'', JNum 45)]),
         (''platinum'', automatic True [(''min_day'', JNum 1), (''max_day'', JNum 30)])}"
    by (auto split: if_splits)
  moreover from this have "distinct (map fst q)" by (auto simp: automatic_def)
  note same_dict_get [OF q this]
  ultimately show ?thesis using assms(4)
    by (auto simp: covers_day_def param_nat_def param_def automatic_def json_get_def tier_of_day_def)
qed

lemma probation_earned:
  assumes "catalog_problem d tiers = None" and "ad_evaluator_key d = ''probation_new_hire''"
    and "jo_completion_status j = COMPLETION_SUCCESS" and "jo_completed_at j = Some completed"
    and "jo_probation_start j \<le> completed" and "completed \<le> today" and "st_group (jo_stage j) = DONE"
    and "jo_stage_started_at j = completed" and "staff_user db (jo_completed_by j)"
    and "history_for db j today = Inr (Some visits)"
  shows "\<exists>e. probation env db j tiers today = Inr e \<and> is_eligible e \<and>
    el_tier_code e = Some (tier_of_day (nat (completed - jo_probation_start j) + 1)) \<and>
    el_occurred_at e = Some (aw_at_date env completed)"
proof -
  let ?day = "nat (completed - jo_probation_start j) + 1"
  have covers: "covers_day ?day t \<longleftrightarrow> ti_code t = tier_of_day ?day" if "t \<in> set tiers" for t
    by (rule probation_tier_covers [OF assms(1,2) that]) simp
  obtain s where s: "schema_of (ad_evaluator_key d) = Some s"
      "set (map ti_code tiers) = set (map fst (fa_tiers s))"
    using catalog_tiers [OF assms(1)] by (metis (no_types, lifting))
  then have "set (map ti_code tiers) = {''bronze'', ''silver'', ''gold'', ''platinum''}"
    unfolding assms(2) probation_schema by (auto simp: family_row_def)
  moreover have "tier_of_day ?day \<in> {''bronze'', ''silver'', ''gold'', ''platinum''}" by (simp add: tier_of_day_def)
  ultimately have "tier_of_day ?day \<in> ti_code ` set tiers" by simp
  then obtain t where "t \<in> set tiers" "ti_code t = tier_of_day ?day" by auto
  with covers obtain u where u: "max_tier (filter (covers_day ?day) tiers) = Inr u"
    using max_tier_exists [of t "filter (covers_day ?day) tiers"] by auto
  with max_tier_Inr [OF u] covers have "ti_code u = tier_of_day ?day" by auto
  with u assms(3-) show ?thesis
    by (simp add: probation_def Let_def eligible_tier_def is_eligible_def COMPLETION_SUCCESS_def COMPLETION_TERMINATED_def)
qed

section \<open>Properties\<close>

text \<open>
  C17. The evaluators trust the history of a journey that the integrity check accepts exactly if every
  visited stage, past ones included, still applies to the entry type and the scheme of the journey.
\<close>

theorem evaluators_trust_kept_histories:
  assumes "check_journey_integrity db j today = Inr []"
  shows "history_for db j today = Inr (Some visits) \<longleftrightarrow>
    visits = journey_visits db j \<and> (\<forall>v \<in> set visits. still_applies db j v)"
  using assms kept_history_trusted unfolding integrity_iff by blast

text \<open>
  C18. A successful probation earns the tier of its last day. When a journey that the integrity check
  accepts is in its final stage with a success that a member of the staff has recorded, and its stages
  still apply, the evaluation is eligible for platinum up to day 30, gold up to day 45, silver up to
  day 60 and bronze after that, dated to the start of that day.
\<close>

theorem probation_earns_tier_of_its_day:
  assumes "catalog_problem d (definition_tiers db (ad_id d)) = None" and "ad_evaluator_key d = ''probation_new_hire''"
    and "ad_active d" and "List.find (\<lambda>j. jo_user_id j = user_id) (di_journeys db) = Some j"
    and "jo_entry_type j = NEW_HIRE" and "check_journey_integrity db j (cl_today clock) = Inr []"
    and "st_group (jo_stage j) = DONE" and "jo_completion_status j = COMPLETION_SUCCESS"
    and "staff_user db (jo_completed_by j)" and "\<forall>v \<in> set (journey_visits db j). still_applies db j v"
  shows "\<exists>e. evaluate env sv db user_id d clock = Inr e \<and> is_eligible e \<and>
    el_tier_code e = Some (tier_of_day (nat (jo_stage_started_at j - jo_probation_start j) + 1)) \<and>
    el_occurred_at e = Some (aw_at_date env (jo_stage_started_at j))"
proof -
  have kept: "well_kept db j (cl_today clock)" using assms(6) by (simp add: integrity_iff)
  then have "jo_completed_at j = Some (jo_stage_started_at j)" and "jo_stage_started_at j \<le> cl_today clock"
    and "jo_probation_start j \<le> jo_stage_started_at j"
    using assms(7) by (auto simp: well_kept_def outcome_kept_def history_kept_def dest: chain_mono)
  moreover have "history_for db j (cl_today clock) = Inr (Some (journey_visits db j))"
    using kept_history_trusted [OF kept] assms(10) by blast
  ultimately have "\<exists>e. probation env db j (definition_tiers db (ad_id d)) (cl_today clock) = Inr e \<and> is_eligible e \<and>
      el_tier_code e = Some (tier_of_day (nat (jo_stage_started_at j - jo_probation_start j) + 1)) \<and>
      el_occurred_at e = Some (aw_at_date env (jo_stage_started_at j))"
    using probation_earned [OF assms(1,2,8)] assms(7,9) by blast
  then show ?thesis using assms(1-5) by (simp add: evaluate_def REGISTRY_def)
qed

text \<open>
  C19. The weekly award is the best one. The evaluation of a trusted history is eligible exactly if some
  finished week, spent in a single visit of the required stage, reaches an automatic tier; then the
  tier it names is reached by such a week, and no such week reaches a higher tier.
\<close>

theorem weekly_award_is_the_best:
  assumes history: "history_for db j today = Inr (Some visits)" and quality: "quality = (ad_evaluator_key d = ''review_quality'')"
  shows "\<exists>e. weekly env db j tiers d today = Inr e \<and>
    (\<not> is_eligible e \<longrightarrow> (\<forall>m \<in> set (journey_metrics db (jo_id j)). \<forall>n v t.
       \<not> (qualifies quality visits today m n v \<and> t \<in> set tiers \<and> reaches n t))) \<and>
    (is_eligible e \<longrightarrow> (\<exists>m \<in> set (journey_metrics db (jo_id j)). \<exists>n v t.
       qualifies quality visits today m n v \<and> t \<in> set tiers \<and> reaches n t \<and> el_tier_code e = Some (ti_code t) \<and>
       json_get ''metric_id'' (el_evidence e) = JNum (int (wm_id m)) \<and>
       (\<forall>m' \<in> set (journey_metrics db (jo_id j)). \<forall>n' v' t'.
          qualifies quality visits today m' n' v' \<and> t' \<in> set tiers \<and> reaches n' t' \<longrightarrow> ti_rank t' \<le> ti_rank t)))"
proof -
  let ?ms = "sort_key (\<lambda>m. (wm_week_number m, wm_id m)) (journey_metrics db (jo_id j))"
  obtain best ambiguous where loop: "foldl (weigh_week quality tiers visits today) (None, False) ?ms = (best, ambiguous)"
    by fastforce
  with weigh_weeks_best [of quality tiers visits today ?ms]
  have best: "best_of quality tiers visits today (set (journey_metrics db (jo_id j))) best" by simp
  show ?thesis
  proof (cases best)
    case None
    have "\<not> is_eligible (if ambiguous then unknown a b else verdict ''not_met'' c [])" for a b c
      by (simp add: is_eligible_def unknown_def verdict_def)
    with None best loop history show ?thesis
      unfolding best_of_def quality by (simp add: weekly_def Let_def)
  next
    case (Some x)
    obtain t n m v where x: "x = (t, n, m, v)" by (cases x)
    with best Some have "m \<in> set (journey_metrics db (jo_id j))" "qualifies quality visits today m n v" "t \<in> set tiers" "reaches n t"
      and "\<And>m' n' v' t'. m' \<in> set (journey_metrics db (jo_id j)) \<Longrightarrow> qualifies quality visits today m' n' v' \<Longrightarrow> t' \<in> set tiers \<Longrightarrow>
        reaches n' t' \<Longrightarrow> ti_rank t' \<le> ti_rank t"
      by (auto simp: best_of_def)
    moreover obtain e where "weekly env db j tiers d today = Inr e" "is_eligible e" "el_tier_code e = Some (ti_code t)"
        "json_get ''metric_id'' (el_evidence e) = JNum (int (wm_id m))"
      using loop history Some x unfolding quality
      by (simp add: weekly_def Let_def eligible_tier_def is_eligible_def json_get_def)
    ultimately show ?thesis by blast
  qed
qed

lemma sorted_set_Nil [simp]: "sorted_set [] = []"
  by (simp add: sorted_set_def)

lemma level_of_status [simp]: "lv_status (level_of status reasons) = status"
  by (simp add: level_of_def)

lemma coverage_of_status: "coverage_of p names = Some l \<Longrightarrow> lv_status l = ''unknown''"
  by (auto simp: coverage_of_def Let_def split: if_splits)

lemma coverage_of_None: "coverage_of p names = None \<longleftrightarrow> (\<forall>name \<in> set names. pr_axes p name = [])"
  by (auto simp: coverage_of_def Let_def split: if_splits)

lemma technical_success_None: "technical_success xs = None \<longleftrightarrow> (\<forall>a \<in> set xs. registered_success a \<and> technical_conflicts a = [])"
  by (induction xs) auto

lemma technical_success_status: "technical_success xs = Some l \<Longrightarrow> lv_status l = ''unknown''"
  by (induction xs) (auto split: if_splits)

lemma technical_level_status: "technical_level m p = Some l \<Longrightarrow> lv_status l \<noteq> ''eligible''"
  by (auto simp: technical_level_def Let_def dest: technical_success_status split: if_splits)

text \<open>What the technical part of a level proves.\<close>

definition technically_proved :: "SandboxProgramManifest \<Rightarrow> program_evidence \<Rightarrow> bool" where
  "technically_proved m p \<longleftrightarrow> pr_attempts p \<noteq> [] \<and> length (pr_attempts p) = length (mf_snapshot m) \<and>
     (\<forall>a \<in> set (pr_attempts p). at_credit (pa_evidence a) = Some True \<and> at_technical_completed (pa_evidence a) = Some True \<and>
        registered_success a \<and> technical_conflicts a = [])"

lemma technical_level_None: "technical_level m p = None \<longleftrightarrow> technically_proved m p"
  by (auto simp: technical_level_def technically_proved_def technical_success_None Let_def list_all_iff list_ex_iff)

lemma first_obstacle_eligible:
  assumes "\<And>l. x = Some l \<Longrightarrow> lv_status l \<noteq> ''eligible''" and "\<And>l. y = Some l \<Longrightarrow> lv_status l \<noteq> ''eligible''"
  shows "lv_status (first_obstacle x y s) = ''eligible'' \<longleftrightarrow> x = None \<and> y = None \<and> lv_status s = ''eligible''"
  using assms by (auto simp: first_obstacle_def split: option.split)

lemma obstacle_covered:
  "lv_status (first_obstacle (coverage_of p names) (technical_level m p) s) = ''eligible'' \<longleftrightarrow>
     (\<forall>name \<in> set names. pr_axes p name = []) \<and> technically_proved m p \<and> lv_status s = ''eligible''"
proof -
  have "lv_status l \<noteq> ''eligible''" if "coverage_of p names = Some l" for l
    using coverage_of_status [OF that] by simp
  then have "lv_status (first_obstacle (coverage_of p names) (technical_level m p) s) = ''eligible'' \<longleftrightarrow>
      coverage_of p names = None \<and> technical_level m p = None \<and> lv_status s = ''eligible''"
    using technical_level_status by (intro first_obstacle_eligible) blast+
  then show ?thesis unfolding coverage_of_None technical_level_None by blast
qed

lemma silver_iff: "lv_status (silver_level m p) = ''eligible'' \<longleftrightarrow>
    pr_axes p Resets = [] \<and> technically_proved m p \<and> (\<exists>n \<le> 2. pr_successful_resets p = Some n)"
  by (auto simp: silver_level_def obstacle_covered split: option.split)

lemma gold_iff: "lv_status (gold_level m p) = ''eligible'' \<longleftrightarrow>
    pr_axes p Resets = [] \<and> pr_axes p Answers = [] \<and> technically_proved m p \<and>
    (\<exists>n \<le> 2. pr_successful_resets p = Some n) \<and> (\<exists>n \<le> 2. pr_valid_returns p = Some n) \<and>
    (\<forall>a \<in> set (pr_attempts p). requires_review a \<longrightarrow> answers_approved a)"
  by (auto simp: gold_level_def obstacle_covered list_all_iff split: option.split if_splits)

lemma platinum_never: "lv_status (platinum_level m p) \<noteq> ''eligible''"
  by (simp add: platinum_level_def obstacle_covered)

text \<open>
  C13. The levels of the sandbox program form a ladder that rests on evidence. Platinum is never
  awarded; gold implies silver; and silver is awarded only when the requirements were frozen from the
  start, no evidence lies in the future, the ledger covers every reset, at most two trainee resets
  succeeded, and every required task has a credited attempt with a registered, uncontradicted success.
\<close>

theorem sandbox_levels_rest_on_evidence:
  shows "lv_status (le_platinum (assess p now)) \<noteq> ''eligible'' \<and>
    (lv_status (le_gold (assess p now)) = ''eligible'' \<longrightarrow> lv_status (le_silver (assess p now)) = ''eligible'') \<and>
    (lv_status (le_silver (assess p now)) = ''eligible'' \<longleftrightarrow> (\<exists>m. pr_manifest p = Some m \<and> mf_source m = ''from_start'' \<and>
      (\<forall>t \<in> set (proof_times m p). t \<le> now) \<and> pr_axes p Resets = [] \<and> technically_proved m p \<and>
      (\<exists>n \<le> 2. pr_successful_resets p = Some n)))"
proof (cases "pr_manifest p")
  case None
  then show ?thesis by (simp add: assess_def all_levels_def)
next
  case (Some m)
  then show ?thesis
    by (auto simp: assess_def all_levels_def platinum_never silver_iff gold_iff list_ex_iff not_less) (meson not_less)
qed

section \<open>Demo journeys\<close>

definition trial_stage :: "pk \<Rightarrow> string \<Rightarrow> StageGroup \<Rightarrow> TraineeStage" where
  "trial_stage i slug g = \<lparr>st_id = i, st_slug = slug, st_order = i, st_min_days = 2, st_max_days = 5, st_weight = 10,
     st_group = g, st_is_active = True, st_scope = SCOPE_UNIFIED, st_new_hire = True, st_internal_transfer = (i \<noteq> 1)\<rparr>"

definition trial_visit :: "pk \<Rightarrow> TraineeStage \<Rightarrow> date \<Rightarrow> date option \<Rightarrow> StageHistory" where
  "trial_visit i stage start stop = \<lparr>sh_id = i, sh_journey_id = 1, sh_stage = stage, sh_started_at = start, sh_ended_at = stop,
     sh_changed_by = Some 2, sh_note = []\<rparr>"

text \<open>A probation from day 100 that a mentor has closed with a success on day 140.\<close>

definition trial_journey :: TraineeJourney where
  "trial_journey = \<lparr>jo_id = 1, jo_user_id = 9, jo_entry_type = NEW_HIRE, jo_scheme = SCHEME_UNIFIED,
     jo_probation_start = 100, jo_stage = trial_stage 3 ''done'' DONE, jo_stage_started_at = 140, jo_comment = [],
     jo_risk_override = None, jo_fixed_quality = None, jo_quality_fixed_at = None, jo_completion_status = COMPLETION_SUCCESS,
     jo_completed_at = Some 140, jo_completion_comment = [], jo_completed_by = Some 2\<rparr>"

definition trial_tier :: "pk \<Rightarrow> string \<Rightarrow> (string \<times> json) list \<Rightarrow> AchievementTier" where
  "trial_tier i code parameters = \<lparr>ti_id = i, ti_definition_id = 5, ti_code = code, ti_rank = i, ti_rarity = code,
     ti_parameters = parameters, ti_rule_version = 1\<rparr>"

definition trial_definition :: AchievementDefinition where
  "trial_definition = \<lparr>ad_id = 5, ad_code = ''probation_new_hire'', ad_secret = False, ad_kind = ''tiered'', ad_active = True,
     ad_applicability = ''new_hire'', ad_evaluator_key = ''probation_new_hire'', ad_rule_version = 1, ad_art_key = ''probation''\<rparr>"

definition trial_db :: award_db where
  "trial_db = \<lparr>sb_boundary = None, sb_users = [\<lparr>us_id = 2, us_is_staff = True, us_date_joined = 0\<rparr>], sb_queues = [], sb_tasks = [],
     sb_attempts = [], sb_check_runs = [], sb_completions = [], sb_manifests = [], sb_coverage = [], sb_gaps = [],
     sb_executions = [], sb_check_events = [], sb_env_events = [], sb_submissions = [], sb_reviews = [], sb_source_events = [],
     di_stages = [], di_journeys = [trial_journey],
     di_visits = [trial_visit 1 (trial_stage 1 ''review'' WITH_REVIEW) 100 (Some 140), trial_visit 2 (trial_stage 3 ''done'' DONE) 140 None],
     di_metrics = [\<lparr>wm_id = 7, wm_journey_id = 1, wm_week_number = 1, wm_week_start = Some 105, wm_speed = Some 80, wm_quality = Some 96,
       wm_comment = [], wm_goal = []\<rparr>],
     di_transfers = [], di_confirmations = [], aw_definitions = [trial_definition],
     aw_tiers = [trial_tier 1 ''bronze'' [(''automatic'', JBool True), (''min_day'', JNum 61)],
       trial_tier 2 ''silver'' [(''automatic'', JBool True), (''min_day'', JNum 46), (''max_day'', JNum 60)],
       trial_tier 3 ''gold'' [(''automatic'', JBool True), (''min_day'', JNum 31), (''max_day'', JNum 45)],
       trial_tier 4 ''platinum'' [(''automatic'', JBool True), (''min_day'', JNum 1), (''max_day'', JNum 30)]],
     aw_entitlements = [], aw_events = [], aw_operations = [], aw_boundary = None, aw_notifications = []\<rparr>"

text \<open>The journey after its entry type has been edited: its first stage is not one for transfers.\<close>

definition edited_journey :: TraineeJourney where
  "edited_journey = trial_journey\<lparr>jo_entry_type := INTERNAL_TRANSFER\<rparr>"

lemma trial_kept: "check_journey_integrity trial_db trial_journey 150 = Inr []"
  and edited_kept: "check_journey_integrity trial_db edited_journey 150 = Inr []"
  by code_simp+

lemma trial_applies:
  "\<forall>v \<in> set (journey_visits trial_db trial_journey). still_applies trial_db trial_journey v"
proof -
  have "journey_visits trial_db trial_journey =
      [trial_visit 1 (trial_stage 1 ''review'' WITH_REVIEW) 100 (Some 140), trial_visit 2 (trial_stage 3 ''done'' DONE) 140 None]"
    by code_simp
  moreover have "transfer_of trial_db trial_journey = None" by code_simp
  ultimately show ?thesis
    by (simp add: still_applies_def effective_stage_plain trial_visit_def trial_stage_def trial_journey_def
        stage_applies_def applies_to_entry_type_def)
qed

theorem evaluators_trust_kept_histories_witness:
  "history_for trial_db trial_journey 150 = Inr (Some (journey_visits trial_db trial_journey)) \<and>
   \<not> (\<forall>v \<in> set (journey_visits trial_db edited_journey). still_applies trial_db edited_journey v)"
proof -
  have "history_for trial_db edited_journey 150 = Inr None" by code_simp
  with evaluators_trust_kept_histories [OF edited_kept, of "journey_visits trial_db edited_journey"]
    evaluators_trust_kept_histories [OF trial_kept, of "journey_visits trial_db trial_journey"] trial_applies
  show ?thesis by simp
qed

definition trial_env :: award_env where
  "trial_env = \<lparr>aw_digest = (\<lambda>_. ''digest''), aw_fmt = (\<lambda>d. str_nat (nat d)), aw_stamp = (\<lambda>t. str_nat (nat t)),
     aw_at_date = (\<lambda>d. 86400 * d)\<rparr>"

definition trial_clock :: award_clock where
  "trial_clock = \<lparr>cl_now = 86400 * 150, cl_today = 150\<rparr>"

theorem probation_earns_tier_of_its_day_witness:
  "\<forall>sv. \<exists>e. evaluate trial_env sv trial_db 9 trial_definition trial_clock = Inr e \<and> el_tier_code e = Some ''gold''"
proof
  fix sv
  have "catalog_problem trial_definition (definition_tiers trial_db (ad_id trial_definition)) = None" by code_simp
  moreover have "List.find (\<lambda>j. jo_user_id j = 9) (di_journeys trial_db) = Some trial_journey" by code_simp
  moreover have "staff_user trial_db (jo_completed_by trial_journey)" by code_simp
  moreover have "check_journey_integrity trial_db trial_journey (cl_today trial_clock) = Inr []"
    using trial_kept by (simp add: trial_clock_def)
  moreover have "st_group (jo_stage trial_journey) = DONE" by (simp add: trial_journey_def trial_stage_def)
  moreover have "tier_of_day (nat (jo_stage_started_at trial_journey - jo_probation_start trial_journey) + 1) = ''gold''"
    by code_simp
  ultimately show "\<exists>e. evaluate trial_env sv trial_db 9 trial_definition trial_clock = Inr e \<and> el_tier_code e = Some ''gold''"
    using probation_earns_tier_of_its_day [of trial_definition trial_db 9 trial_journey trial_clock trial_env sv] trial_applies
    by (auto simp: trial_definition_def trial_journey_def)
qed

text \<open>The week of quality 96 earns the gold tier of \<open>review_quality\<close>.\<close>

definition quality_definition :: AchievementDefinition where
  "quality_definition = trial_definition\<lparr>ad_evaluator_key := ''review_quality''\<rparr>"

definition quality_tiers :: "AchievementTier list" where
  "quality_tiers =
     [trial_tier 1 ''bronze'' [(''automatic'', JBool True), (''minimum'', JStr ''80''), (''strict'', JBool False)],
      trial_tier 3 ''gold'' [(''automatic'', JBool True), (''minimum'', JStr ''95''), (''strict'', JBool True)]]"

theorem weekly_award_is_the_best_witness:
  "\<exists>e. weekly trial_env trial_db trial_journey quality_tiers quality_definition 150 = Inr e \<and> is_eligible e \<and>
    el_tier_code e = Some ''gold''"
proof -
  have history: "history_for trial_db trial_journey 150 = Inr (Some (journey_visits trial_db trial_journey))" by code_simp
  have quality: "True = (ad_evaluator_key quality_definition = ''review_quality'')" by (simp add: quality_definition_def)
  have "(case weekly trial_env trial_db trial_journey quality_tiers quality_definition 150 of
      Inr e \<Rightarrow> is_eligible e \<and> el_tier_code e = Some ''gold'' | Inl _ \<Rightarrow> False)" by code_simp
  with weekly_award_is_the_best [OF history quality, of trial_env quality_tiers] show ?thesis by auto
qed

text \<open>One task, one registered success, one reset.\<close>

definition proof_attempt :: program_attempt where
  "proof_attempt = \<lparr>pa_task_id = 1, pa_requires_review = Some False, pa_evidence =
     \<lparr>at_attempt_id = 1, at_credit = Some True, at_reasons = [], at_axes = (\<lambda>_. []), at_successful_resets = Some 1,
      at_observed_resets = 1,
      at_checks = [\<lparr>kf_run_id = ''r'', kf_ordinal = 1, kf_requested_at = 10, kf_finished_at = Some 20, kf_result = ''passed'',
        kf_failure_class = [], kf_checker_started = Some True, kf_check_run_id = Some 4, kf_reason = []\<rparr>],
      at_first_check = None, at_observed_first_check = None, at_submissions = [], at_valid_returns = Some 0,
      at_first_answer_approved = Some False, at_technical_completed = Some True\<rparr>\<rparr>"

definition proof_manifest :: SandboxProgramManifest where
  "proof_manifest = \<lparr>mf_id = 1, mf_user_id = 9, mf_program_key = ''l1'', mf_source = ''from_start'',
     mf_snapshot = [\<lparr>me_task_id = 1, me_task_slug = ''t'', me_order = 1, me_requires_review = Some False,
       me_criteria_version = None, me_criteria_digest = None\<rparr>], mf_digest = ''d'', mf_recorded_at = 5\<rparr>"

definition proof_of_one :: program_evidence where
  "proof_of_one = \<lparr>pr_manifest = Some proof_manifest, pr_completion_id = None, pr_reasons = [], pr_axes = (\<lambda>_. []),
     pr_attempts = [proof_attempt], pr_successful_resets = Some 1, pr_valid_returns = Some 0, pr_observed_first_answers = [],
     pr_first_five_answers = Some [], pr_all_required_answers_approved = Some True\<rparr>"

theorem sandbox_levels_rest_on_evidence_witness:
  "lv_status (le_gold (assess proof_of_one 30)) = ''eligible'' \<and> lv_status (le_silver (assess proof_of_one 30)) = ''eligible'' \<and>
   technically_proved proof_manifest proof_of_one"
proof -
  have gold: "lv_status (le_gold (assess proof_of_one 30)) = ''eligible''" by code_simp
  have "pr_manifest proof_of_one = Some proof_manifest" by (simp add: proof_of_one_def)
  with gold sandbox_levels_rest_on_evidence [of proof_of_one 30] show ?thesis by auto
qed

end
