(* ===== verification/Worker_Theorems.thy ===== *)
theory Worker_Theorems
  imports Award_Theorems
begin

text \<open>
  The durable source records under the worker: a record is processed once, and a failure leaves
  nothing behind but its own note. And what the trophy room shows of a secret award.
\<close>

section \<open>Evaluation and grants leave users and source records alone\<close>

definition same_sources :: "'a sandbox_db_scheme \<Rightarrow> 'a sandbox_db_scheme \<Rightarrow> bool" where
  "same_sources s t \<longleftrightarrow> sb_users t = sb_users s \<and> sb_source_events t = sb_source_events s"

interpretation sources: effect_order same_sources
  by unfold_locales (auto simp: same_sources_def)

lemma sources_modify:
  "(\<And>s. sb_users (f s) = sb_users s) \<Longrightarrow> (\<And>s. sb_source_events (f s) = sb_source_events s) \<Longrightarrow> keeps same_sources (modify_db f)"
  by (rule sources.keeps_modify_db) (simp add: same_sources_def)

lemma sources_record_change: "keeps same_sources (record_change a new b)"
  unfolding record_change_def create_award_event_def save_award_def
  by (intro sources.keeps_intros sources_modify) simp_all

lemma sources_remember: "keeps same_sources (remember key request a text e)"
  unfolding remember_def by (intro sources.keeps_intros sources_modify) simp_all

lemma sources_lock_user: "keeps same_sources (lock_user i)"
  unfolding lock_user_def by (intro sources.keeps_intros)

lemma sources_grant: "keeps same_sources (grant digest g now)"
  unfolding grant_def grant_tier_def new_grant_def issue_tier_def get_or_create_award_def enqueue_def repeated_def
  by (intro sources.keeps_intros sources_lock_user sources_remember sources_record_change sources_modify) simp_all

lemma sources_flag_awards: "keeps same_sources (flag_awards digest ds now xs)"
proof (induction xs)
  case (Cons a xs)
  then show ?case
    unfolding flag_awards.simps flag_award_def by (intro sources.keeps_intros sources_record_change)
qed (simp add: sources.keeps_ret)

lemma sources_flag_disputed: "keeps same_sources (flag_disputed digest ds now)"
  unfolding flag_disputed_def by (intro sources.keeps_intros sources_lock_user sources_flag_awards)

lemma sources_dispute_metric_awards: "keeps same_sources (dispute_metric_awards env e i now xs)"
  by (induction xs) (simp_all add: sources.keeps_intros sources_flag_disputed)

lemma sources_process_definitions: "keeps same_sources (process_definitions env sv e clock ds)"
proof (induction ds)
  case (Cons d ds)
  then show ?case
    unfolding process_definitions.simps process_definition_def
    by (intro sources.keeps_intros sources_grant sources_flag_disputed)
qed (simp add: sources.keeps_ret)

lemma sources_process_now: "keeps same_sources (process_now env sv e clock)"
  unfolding process_now_def dispute_metric_def
  by (intro sources.keeps_intros sources_flag_disputed sources_dispute_metric_awards sources_process_definitions)

section \<open>One record\<close>

lemma find_map_row:
  assumes "\<And>x. P (f x) = P x" and "List.find P xs = Some y"
  shows "List.find P (map f xs) = Some (f y)"
  using assms(2) by (induction xs) (auto simp: assms(1) split: if_splits)

lemma finish_source_row:
  assumes "source_row db (so_id e) = Some row"
  shows "\<exists>row'. source_row (snd (finish_source env e results now db)) (so_id e) = Some row' \<and>
    so_status row' = (if still_open env db e now = None then ''processed'' else ''pending'') \<and> so_result row' = JArr results \<and>
    so_user_id row' = so_user_id row"
proof -
  let ?ready = "still_open env db e now"
  let ?f = "\<lambda>row. if so_id row = so_id e
       then row\<lparr>so_status := (if ?ready = None then ''processed'' else ''pending''),
         so_available_at := (if ?ready = None then so_available_at row else ?ready),
         so_attempts := so_attempts row + 1, so_error := [], so_result := JArr results,
         so_processed_at := (if ?ready = None then Some now else None)\<rparr> else row"
  have "List.find (\<lambda>r. so_id r = so_id e) (map ?f (sb_source_events db)) = Some (?f row)"
    using assms by (intro find_map_row) (auto simp: source_row_def)
  moreover have "so_id row = so_id e" using assms by (auto simp: source_row_def dest: find_Some_member)
  ultimately show ?thesis by (simp add: source_row_def finish_source_def op_apply Let_def)
qed

text \<open>A processed record answers with its result.\<close>

lemma process_processed:
  assumes "source_row db i = Some row" and "so_status row = ''processed''" and "so_result row = JArr rs"
    and "fst (lock_user (so_user_id row) db) = Inr ()"
  shows "process_source_event env sv describe i clock db = (Inr rs, db)"
proof -
  have "lock_user (so_user_id row) db = (Inr (), db)"
    using assms(4) lock_user_reads [of "so_user_id row" db] by (metis prod.collapse)
  with assms show ?thesis
    by (simp add: process_source_event_def process_locked_def catch_def atomic_def andthen_def op_apply)
qed

lemma process_Inr:
  assumes "process_source_event env sv describe i clock s = (Inr rs, t)"
  obtains row where "source_row s i = Some row" and "lock_user (so_user_id row) s = (Inr (), s)"
    and "t = s \<or> (so_status row \<noteq> ''processed'' \<and>
      (\<exists>u. process_now env sv row clock s = (Inr rs, u) \<and> t = snd (finish_source env row rs (cl_now clock) u)))"
    and "so_status row = ''processed'' \<Longrightarrow> rs = (case so_result row of JArr rs \<Rightarrow> rs | j \<Rightarrow> [j])"
proof -
  have run: "process_locked env sv i clock s = (Inr rs, t)"
    using assms by (auto simp: process_source_event_def catch_def andthen_def op_apply record_failure_def split: prod.splits sum.splits)
  then obtain row where row: "source_row s i = Some row"
    by (auto simp: process_locked_def atomic_Inr_iff andthen_Inr_iff op_apply split: option.splits)
  with run obtain v where lock: "lock_user (so_user_id row) s = (Inr (), v)"
    by (auto simp: process_locked_def atomic_Inr_iff andthen_Inr_iff op_apply)
  with lock_user_reads have v: "v = s" by blast
  show thesis
  proof (rule that [OF row])
    show "lock_user (so_user_id row) s = (Inr (), s)" using lock v by simp
    show "t = s \<or> (so_status row \<noteq> ''processed'' \<and>
      (\<exists>u. process_now env sv row clock s = (Inr rs, u) \<and> t = snd (finish_source env row rs (cl_now clock) u)))"
      using run row lock v
      by (auto simp: process_locked_def atomic_Inr_iff andthen_Inr_iff op_apply finish_source_def split: if_splits)
    show "rs = (case so_result row of JArr rs \<Rightarrow> rs | j \<Rightarrow> [j])" if "so_status row = ''processed''"
      using run row lock v that
      by (auto simp: process_locked_def atomic_Inr_iff andthen_Inr_iff op_apply)
  qed
qed

section \<open>Properties\<close>

text \<open>
  C14. A source record is processed once. When the worker returns and the record is processed, delivering
  the record again, at any time, returns the same results and changes nothing.
\<close>

theorem source_record_is_processed_once:
  assumes run: "process_source_event env sv describe i clock s = (Inr rs, t)"
    and processed: "source_row t i = Some row" "so_status row = ''processed''" "so_result row = JArr stored"
  shows "process_source_event env sv describe i clock' t = (Inr rs, t)"
proof -
  from process_Inr [OF run] obtain before where b: "source_row s i = Some before"
      "lock_user (so_user_id before) s = (Inr (), s)"
    and effect: "t = s \<or> (so_status before \<noteq> ''processed'' \<and>
      (\<exists>u. process_now env sv before clock s = (Inr rs, u) \<and> t = snd (finish_source env before rs (cl_now clock) u)))"
    and again: "so_status before = ''processed'' \<Longrightarrow> rs = (case so_result before of JArr rs \<Rightarrow> rs | j \<Rightarrow> [j])"
    by blast
  from effect show ?thesis
  proof
    assume "t = s"
    with b processed again show ?thesis by (intro process_processed) auto
  next
    assume "so_status before \<noteq> ''processed'' \<and>
      (\<exists>u. process_now env sv before clock s = (Inr rs, u) \<and> t = snd (finish_source env before rs (cl_now clock) u))"
    then obtain u where u: "process_now env sv before clock s = (Inr rs, u)"
      and t: "t = snd (finish_source env before rs (cl_now clock) u)" by blast
    have same: "sb_users u = sb_users s" "sb_source_events u = sb_source_events s"
      using keepsD [OF sources_process_now u] by (simp_all add: same_sources_def)
    have i: "so_id before = i" using b(1) by (auto simp: source_row_def dest: find_Some_member)
    with b(1) same have "source_row u (so_id before) = Some before" by (simp add: source_row_def)
    from finish_source_row [OF this, of env rs "cl_now clock"] t i processed
    have row: "so_result row = JArr rs" "so_user_id row = so_user_id before" by auto
    have "sb_users t = sb_users s" using t same by (simp add: finish_source_def op_apply Let_def)
    with b(2) row(2) have lock: "fst (lock_user (so_user_id row) t) = Inr ()"
      by (auto simp: lock_user_def andthen_def op_apply split: if_splits)
    show ?thesis by (rule process_processed [OF processed(1,2) row(1) lock])
  qed
qed

text \<open>
  C15. A failure can be retried. When the worker fails, every table but that of the source records is as
  it was; every record keeps its facts, and only the failed one, unless it was processed already, is
  marked with one more attempt.
\<close>

theorem failed_record_can_be_retried:
  assumes "process_source_event env sv describe i clock s = (Inl err, t)"
  shows "\<exists>rows. t = s\<lparr>sb_source_events := rows\<rparr> \<and> length rows = length (sb_source_events s) \<and>
    (\<forall>n < length rows. let before = sb_source_events s ! n; row = rows ! n in
       so_provider row = so_provider before \<and> so_external_id row = so_external_id before \<and>
       so_user_id row = so_user_id before \<and> so_context row = so_context before \<and> so_payload row = so_payload before \<and>
       (row = before \<or> (so_id before = i \<and> so_status before \<noteq> ''processed'' \<and> so_status row = ''error'' \<and>
          so_attempts row = so_attempts before + 1)))"
proof -
  have locked: "process_locked env sv i clock s = (Inl err, s)"
  proof (cases "process_locked env sv i clock s")
    case (Pair r u)
    have "process_source_event env sv describe i clock s =
        (case r of Inl e \<Rightarrow> (Inl e, snd (record_failure describe i e u)) | Inr rs \<Rightarrow> (Inr rs, u))"
      using Pair by (cases r) (simp_all add: process_source_event_def catch_def andthen_def op_apply record_failure_def)
    with assms have r: "r = Inl err" by (cases r) auto
    have "u = s" by (rule atomic_rollback [OF Pair [unfolded process_locked_def r]])
    with Pair r show ?thesis by simp
  qed
  let ?f = "\<lambda>row. if so_id row = i \<and> so_status row \<noteq> ''processed''
     then row\<lparr>so_status := ''error'', so_attempts := so_attempts row + 1, so_error := take 2000 (describe err)\<rparr> else row"
  from assms locked have "t = s\<lparr>sb_source_events := map ?f (sb_source_events s)\<rparr>"
    by (simp add: process_source_event_def catch_def andthen_def op_apply record_failure_def)
  moreover have "so_provider (?f e) = so_provider e \<and> so_external_id (?f e) = so_external_id e \<and>
       so_user_id (?f e) = so_user_id e \<and> so_context (?f e) = so_context e \<and> so_payload (?f e) = so_payload e \<and>
       (?f e = e \<or> (so_id e = i \<and> so_status e \<noteq> ''processed'' \<and> so_status (?f e) = ''error'' \<and>
          so_attempts (?f e) = so_attempts e + 1))" for e
    by (cases "so_id e = i"; cases "so_status e = ''processed''") simp_all
  ultimately show ?thesis
    by (intro exI [of _ "map ?f (sb_source_events s)"] conjI allI impI) (simp_all only: Let_def length_map nth_map)
qed


section \<open>Demo records\<close>

definition worker_env :: award_env where
  "worker_env = \<lparr>aw_digest = demo_digest, aw_fmt = (\<lambda>d. str_nat (nat d)), aw_stamp = (\<lambda>t. str_nat (nat t)),
     aw_at_date = (\<lambda>d. 86400 * d)\<rparr>"

definition worker_services :: services where
  "worker_services = \<lparr>sv_uuid4 = ''uuid'', sv_parse_uuid = Some, sv_digest = (\<lambda>_. ''digest''), sv_file_digest = (\<lambda>_. None)\<rparr>"

definition worker_clock :: award_clock where
  "worker_clock = \<lparr>cl_now = 100, cl_today = 1\<rparr>"

definition demo_record :: "pk \<Rightarrow> string \<Rightarrow> AchievementSourceEvent" where
  "demo_record i provider = \<lparr>so_id = i, so_provider = provider, so_external_id = ''1'', so_user_id = 9, so_context = JObj [],
     so_payload = JObj [], so_available_at = None, so_status = ''pending'', so_schema_version = 1, so_attempts = 0,
     so_error = [], so_result = JArr [], so_processed_at = None\<rparr>"

definition worker_db :: award_db where
  "worker_db = demo_catalog\<lparr>sb_source_events := [demo_record 1 ''stage_transition'', demo_record 2 ''unheard_of'']\<rparr>"

definition worker_run :: "pk \<Rightarrow> award_db \<Rightarrow> json list result \<times> award_db" where
  "worker_run i = process_source_event worker_env worker_services (\<lambda>_. ''failed'') i worker_clock"

theorem source_record_is_processed_once_witness:
  "\<exists>rs. fst (worker_run 1 worker_db) = Inr rs \<and> length rs = 1 \<and>
    worker_run 1 (snd (worker_run 1 worker_db)) = (Inr rs, snd (worker_run 1 worker_db))"
proof -
  have "(case worker_run 1 worker_db of (Inr rs, t) \<Rightarrow> length rs = 1 \<and>
      (case source_row t 1 of Some row \<Rightarrow> so_status row = ''processed'' \<and> so_result row = JArr rs | None \<Rightarrow> False) | _ \<Rightarrow> False)"
    by code_simp
  then obtain rs t row where run: "worker_run 1 worker_db = (Inr rs, t)" "length rs = 1"
      and row: "source_row t 1 = Some row" "so_status row = ''processed''" "so_result row = JArr rs"
    by (auto split: prod.splits sum.splits option.splits)
  from source_record_is_processed_once [OF run(1) [unfolded worker_run_def] row] run show ?thesis
    by (auto simp: worker_run_def)
qed

theorem failed_record_can_be_retried_witness:
  "\<exists>rows. snd (worker_run 2 worker_db) = worker_db\<lparr>sb_source_events := rows\<rparr> \<and> length rows = 2"
proof -
  have "(case worker_run 2 worker_db of (Inl _, _) \<Rightarrow> True | _ \<Rightarrow> False)" by code_simp
  then obtain err t where run: "worker_run 2 worker_db = (Inl err, t)" by (auto split: prod.splits sum.splits)
  have "length (sb_source_events worker_db) = 2" by code_simp
  with failed_record_can_be_retried [OF run [unfolded worker_run_def]] run show ?thesis by auto
qed

definition demo_secret :: "string \<Rightarrow> AchievementDefinition" where
  "demo_secret art = demo_definition\<lparr>ad_secret := True, ad_art_key := art\<rparr>"


end
