(* ===== verification/Environments.thy ===== *)
theory Environments
  imports Check_Execution
begin

text \<open>
  The environment of an attempt (\<^verbatim>\<open>sandbox/services/environments.py\<close>) inside the wrapper that
  fences duplicate deliveries and late results (\<^verbatim>\<open>sandbox/services/ledger_execution.py\<close>,
  \<^verbatim>\<open>environment\<close>), and the addresses of terminals
  (\<^verbatim>\<open>sandbox/services/terminal_gateway.py\<close>). What Docker and the sockets answer is a parameter,
  as is the text of an exception. The attempts here are not the terminal broker's
  (\<^verbatim>\<open>TERMINAL_BROKER_ENABLED\<close> is off and \<^verbatim>\<open>environment_generation\<close> empty), and the
  runtime that the HTTP pilot captures is left out. A worker is split at the call of Docker, so that
  histories can interleave what happens before and after it.
\<close>

section \<open>Addresses\<close>

record gateway =
  gw_docker_network :: bool
  gw_enabled :: bool
  gw_external_host :: string

definition build_terminal_base_path :: "gateway \<Rightarrow> pk \<Rightarrow> nat option \<Rightarrow> string result" where
  "build_terminal_base_path gw attempt_id port =
     (if \<not> gw_enabled gw then Inr []
      else if gw_docker_network gw then Inr (''/terminal/'' @ str_nat attempt_id @ ''/'')
      else case port of
        None \<Rightarrow> Inl ValueError
      | Some p \<Rightarrow> Inr (''/terminal/'' @ str_nat attempt_id @ ''/'' @ str_nat p @ ''/''))"

definition build_terminal_url :: "gateway \<Rightarrow> pk \<Rightarrow> nat option \<Rightarrow> string result" where
  "build_terminal_url gw attempt_id port =
     (if gw_enabled gw then build_terminal_base_path gw attempt_id port
      else case port of
        None \<Rightarrow> Inl ValueError
      | Some p \<Rightarrow> Inr (''http://'' @ gw_external_host gw @ '':'' @ str_nat p))"

text \<open>The regular expressions over ASCII: digits are read greedily, and \<^verbatim>\<open>$\<close> allows a final newline.\<close>

definition is_digit :: "char \<Rightarrow> bool" where
  "is_digit c \<longleftrightarrow> c \<in> set ''0123456789''"

definition digits_value :: "string \<Rightarrow> nat" where
  "digits_value s = foldl (\<lambda>n c. 10 * n + (of_char c - 48)) 0 s"

definition after_terminal :: "string \<Rightarrow> (nat \<times> string) option" where
  "after_terminal uri =
     (if take 10 uri \<noteq> ''/terminal/'' then None
      else let rest = drop 10 uri; ds = takeWhile is_digit rest
           in if ds = [] then None else Some (digits_value ds, dropWhile is_digit rest))"

definition terminal_port_text :: "string \<Rightarrow> bool" where
  "terminal_port_text p \<longleftrightarrow> length p = 5 \<and> list_all is_digit p \<and> (hd p = CHR ''2'' \<or> p = ''30000'')"

definition parse_terminal_uri :: "gateway \<Rightarrow> string \<Rightarrow> (nat \<times> nat option) option" where
  "parse_terminal_uri gw uri =
     (case after_terminal uri of
        None \<Rightarrow> None
      | Some (attempt_id, rest) \<Rightarrow>
          if gw_docker_network gw
          then (if rest = [] \<or> rest = [CHR 0x0A] \<or> hd rest = CHR ''/'' then Some (attempt_id, None) else None)
          else (if rest \<noteq> [] \<and> hd rest = CHR ''/'' \<and> terminal_port_text (take 5 (tl rest)) \<and>
                  take 1 (drop 6 rest) = ''/''
                then Some (attempt_id, Some (digits_value (take 5 (tl rest)))) else None))"

section \<open>Surroundings\<close>

record env_docker = docker +
  ed_create_task :: "Task \<Rightarrow> pk \<Rightarrow> (string \<times> string) result"
  ed_free_port :: "nat result"
  ed_create_terminal :: "Task \<Rightarrow> pk \<Rightarrow> string \<Rightarrow> nat option \<Rightarrow> string \<Rightarrow> string result"
  ed_wait_ready :: "string \<Rightarrow> nat option \<Rightarrow> unit result"

text \<open>
  \<^verbatim>\<open>get_free_port\<close>: \<open>draws\<close> is what \<^verbatim>\<open>random.randint(20000, 30000)\<close> answers, and a
  port is busy when a connection to it succeeds.
\<close>

definition get_free_port :: "nat list \<Rightarrow> (nat \<Rightarrow> bool) \<Rightarrow> nat result" where
  "get_free_port draws busy =
     (case List.find (\<lambda>port. \<not> busy port) (take 100 draws) of None \<Rightarrow> Inl RuntimeError | Some port \<Rightarrow> Inr port)"

text \<open>The containers of an environment, with the port and the address of its terminal.\<close>

record built =
  bu_container_id :: string
  bu_container_name :: string
  bu_terminal_name :: string
  bu_port :: "nat option"
  bu_url :: string

definition build_environment :: "gateway \<Rightarrow> env_docker \<Rightarrow> TaskAttempt \<Rightarrow> built result" where
  "build_environment gw dk a =
     bindR (ed_create_task dk (ta_task a) (ta_id a)) (\<lambda>(cid, name).
     bindR (if gw_docker_network gw then Inr None else bindR (ed_free_port dk) (\<lambda>p. Inr (Some p))) (\<lambda>port.
     bindR (build_terminal_base_path gw (ta_id a) port) (\<lambda>path.
     bindR (ed_create_terminal dk (ta_task a) (ta_id a) name port path) (\<lambda>terminal.
     bindR (ed_wait_ready dk terminal port) (\<lambda>_.
     bindR (build_terminal_url gw (ta_id a) port) (\<lambda>url.
     Inr \<lparr>bu_container_id = cid, bu_container_name = name, bu_terminal_name = terminal,
          bu_port = port, bu_url = url\<rparr>))))))"

definition remove_environment :: "env_docker \<Rightarrow> TaskAttempt \<Rightarrow> unit result" where
  "remove_environment dk a =
     bindR (if ta_terminal_container_name a \<noteq> [] then dk_remove_terminal dk (ta_terminal_container_name a) else Inr ())
     (\<lambda>_. if ta_container_name a \<noteq> [] then dk_remove_task dk (ta_container_name a) else Inr ())"

section \<open>Marking an environment\<close>

definition starting_fields :: "time \<Rightarrow> TaskAttempt \<Rightarrow> TaskAttempt" where
  "starting_fields now a = a\<lparr>ta_environment_status := EN_STARTING, ta_environment_started_at := Some now,
     ta_environment_finished_at := None, ta_last_check_output := ''environment_starting'', ta_stuck_reason := STUCK_NONE\<rparr>"

definition restarting_fields :: "time \<Rightarrow> TaskAttempt \<Rightarrow> TaskAttempt" where
  "restarting_fields now a = a\<lparr>ta_environment_status := EN_RESTARTING, ta_environment_started_at := Some now,
     ta_environment_finished_at := None, ta_finished_at := None, ta_last_check_output := ''environment_restarting'',
     ta_check_status := CK_IDLE, ta_check_started_at := None, ta_check_finished_at := None, ta_stuck_reason := STUCK_NONE\<rparr>"

definition mark_environment_starting ::
    "services \<Rightarrow> TaskAttempt \<Rightarrow> SandboxUser option \<Rightarrow> string \<Rightarrow> string option \<Rightarrow> time \<Rightarrow> (sandbox_db, unit) op" where
  "mark_environment_starting sv attempt actor origin op_id now =
     atomic (andthen (request_environment sv attempt KIND_START actor origin op_id now) (\<lambda>_.
       update_attempt (ta_id attempt) (starting_fields now)))"

definition mark_environment_restarting ::
    "services \<Rightarrow> TaskAttempt \<Rightarrow> SandboxUser option \<Rightarrow> string \<Rightarrow> string option \<Rightarrow> time \<Rightarrow> (sandbox_db, unit) op" where
  "mark_environment_restarting sv attempt actor origin op_id now =
     atomic (andthen (request_environment sv attempt KIND_RESET actor origin op_id now) (\<lambda>_.
       update_attempt (ta_id attempt) (restarting_fields now)))"

definition being_built :: "TaskAttempt \<Rightarrow> bool" where
  "being_built a \<longleftrightarrow> ta_environment_status a \<in> {EN_STARTING, EN_RESTARTING}"

text \<open>\<open>Some op\<close> is \<^verbatim>\<open>True\<close>, with the operation that the request was given.\<close>

definition try_mark_environment ::
    "services \<Rightarrow> EnvironmentKind \<Rightarrow> (TaskAttempt \<Rightarrow> TaskAttempt) \<Rightarrow> TaskAttempt \<Rightarrow> SandboxUser option \<Rightarrow> string
     \<Rightarrow> string option \<Rightarrow> time \<Rightarrow> (sandbox_db, string option) op" where
  "try_mark_environment sv kind mark attempt actor origin op_id now =
     atomic (andthen (request_environment sv attempt kind actor origin op_id now) (\<lambda>(event, created).
       if \<not> created then ret None
       else andthen get_db (\<lambda>db.
         if list_ex (\<lambda>a. ta_id a = ta_id attempt \<and> \<not> being_built a) (sb_attempts db)
         then andthen (update_attempt (ta_id attempt) mark) (\<lambda>_. ret (Some (ev_operation_id event)))
         else andthen (environment_phase event EP_FINISHED ''not_started'' ''already_running'' now) (\<lambda>_. ret None))))"

definition try_mark_environment_starting ::
    "services \<Rightarrow> TaskAttempt \<Rightarrow> SandboxUser option \<Rightarrow> string \<Rightarrow> string option \<Rightarrow> time \<Rightarrow> (sandbox_db, string option) op" where
  "try_mark_environment_starting sv attempt actor origin op_id now =
     try_mark_environment sv KIND_START (starting_fields now) attempt actor origin op_id now"

definition try_mark_environment_restarting ::
    "services \<Rightarrow> TaskAttempt \<Rightarrow> SandboxUser option \<Rightarrow> string \<Rightarrow> string option \<Rightarrow> time \<Rightarrow> (sandbox_db, string option) op" where
  "try_mark_environment_restarting sv attempt actor origin op_id now =
     try_mark_environment sv KIND_RESET (restarting_fields now) attempt actor origin op_id now"

section \<open>Running an operation\<close>

text \<open>\<open>a\<close> is the object that the worker has loaded before it called Docker.\<close>

definition ready_fields :: "TaskAttempt \<Rightarrow> built \<Rightarrow> string \<Rightarrow> time \<Rightarrow> TaskAttempt \<Rightarrow> TaskAttempt" where
  "ready_fields a b output now row = row\<lparr>ta_status := ST_IN_PROGRESS, ta_started_at := Some now,
     ta_container_id := bu_container_id b, ta_container_name := bu_container_name b,
     ta_terminal_container_name := bu_terminal_name b, ta_terminal_port := bu_port b, ta_terminal_url := bu_url b,
     ta_shell_command := ''docker exec -it '' @ bu_container_name b @ '' bash'', ta_last_check_output := output,
     ta_environment_status := EN_READY, ta_environment_finished_at := Some now\<rparr>"

definition restarted_fields :: "TaskAttempt \<Rightarrow> built \<Rightarrow> time \<Rightarrow> TaskAttempt \<Rightarrow> TaskAttempt" where
  "restarted_fields a b now row = (ready_fields a b ''container_restarted'' now row)
     \<lparr>ta_restart_count := ta_restart_count a + 1, ta_finished_at := None, ta_check_status := CK_IDLE,
      ta_check_started_at := None, ta_check_finished_at := None\<rparr>"

definition save_ready ::
    "TaskAttempt \<Rightarrow> SandboxEnvironmentEvent \<Rightarrow> (TaskAttempt \<Rightarrow> TaskAttempt) \<Rightarrow> time \<Rightarrow> (sandbox_db, unit) op" where
  "save_ready a request mark now =
     atomic (andthen (get_task_attempt (ta_id a)) (\<lambda>_. andthen (environment_live (Some request)) (\<lambda>_.
       andthen (update_attempt (ta_id a) mark) (\<lambda>_.
       andthen (environment_phase request EP_FINISHED ''success'' [] now) (\<lambda>_. ret ())))))"

definition run_environment_start ::
    "gateway \<Rightarrow> env_docker \<Rightarrow> TaskAttempt \<Rightarrow> SandboxEnvironmentEvent \<Rightarrow> time \<Rightarrow> (sandbox_db, unit) op" where
  "run_environment_start gw dk a request now =
     andthen (lift_result (build_environment gw dk a)) (\<lambda>b.
     save_ready a request (ready_fields a b ''container_created'' now) now)"

definition run_environment_restart ::
    "gateway \<Rightarrow> env_docker \<Rightarrow> TaskAttempt \<Rightarrow> SandboxEnvironmentEvent \<Rightarrow> time \<Rightarrow> (sandbox_db, unit) op" where
  "run_environment_restart gw dk a request now =
     andthen (lift_result (remove_environment dk a)) (\<lambda>_.
     andthen (lift_result (build_environment gw dk a)) (\<lambda>b.
     save_ready a request (restarted_fields a b now) now))"

type_synonym env_worker = "TaskAttempt \<times> SandboxEnvironmentEvent"

text \<open>What the wrapper does before the call: \<open>None\<close> when there is nothing to run.\<close>

definition begin_run ::
    "services \<Rightarrow> EnvironmentKind \<Rightarrow> pk \<Rightarrow> string option \<Rightarrow> SandboxUser option \<Rightarrow> string \<Rightarrow> time
     \<Rightarrow> (sandbox_db, env_worker option) op" where
  "begin_run sv kind attempt_id op_id actor origin now =
     andthen (get_task_attempt attempt_id) (\<lambda>attempt.
     andthen (begin_environment sv attempt kind op_id actor origin now) (\<lambda>(request, started).
     if \<not> started then ret None
     else andthen (get_task_attempt attempt_id) (\<lambda>fresh. ret (Some (fresh, request)))))"

definition close_environment :: "SandboxEnvironmentEvent \<Rightarrow> pk \<Rightarrow> time \<Rightarrow> py_error \<Rightarrow> (sandbox_db, 'a) op" where
  "close_environment request attempt_id now e =
     andthen (atomic (andthen (get_task_attempt attempt_id) (\<lambda>_.
       environment_phase request EP_FINISHED ''unknown'' ''environment_error'' now))) (\<lambda>_. raise e)"

text \<open>What the wrapper does from the call on.\<close>

definition finish_run :: "gateway \<Rightarrow> env_docker \<Rightarrow> env_worker \<Rightarrow> time \<Rightarrow> (sandbox_db, unit) op" where
  "finish_run gw dk w now =
     (case w of (a, request) \<Rightarrow>
       catch (if ev_kind request = KIND_RESET then run_environment_restart gw dk a request now
              else run_environment_start gw dk a request now)
         (close_environment request (ta_id a) now))"

definition environment ::
    "gateway \<Rightarrow> services \<Rightarrow> env_docker \<Rightarrow> EnvironmentKind \<Rightarrow> pk \<Rightarrow> string option \<Rightarrow> SandboxUser option \<Rightarrow> string \<Rightarrow> time
     \<Rightarrow> (sandbox_db, unit) op" where
  "environment gw sv dk kind attempt_id op_id actor origin now =
     andthen (begin_run sv kind attempt_id op_id actor origin now) (\<lambda>w.
     case w of None \<Rightarrow> ret () | Some w \<Rightarrow> finish_run gw dk w now)"

section \<open>Errors\<close>

definition environment_error_fields :: "string \<Rightarrow> time \<Rightarrow> TaskAttempt \<Rightarrow> TaskAttempt" where
  "environment_error_fields output now row = row\<lparr>ta_status := ST_FAILED, ta_environment_status := EN_ERROR,
     ta_environment_finished_at := Some now, ta_last_check_output := output\<rparr>"

text \<open>
  \<^verbatim>\<open>mark_environment_start_error\<close> and \<^verbatim>\<open>mark_environment_restart_error\<close>, which differ in the
  kind of the request that a legacy delivery is given.
\<close>

definition mark_environment_error ::
    "services \<Rightarrow> EnvironmentKind \<Rightarrow> TaskAttempt \<Rightarrow> string \<Rightarrow> time \<Rightarrow> (sandbox_db, unit) op" where
  "mark_environment_error sv kind attempt error now =
     atomic (andthen (get_task_attempt (ta_id attempt)) (\<lambda>fresh. andthen get_db (\<lambda>db.
       if \<not> being_built fresh \<and> (technical_passed db fresh \<or>
           list_ex (\<lambda>e. ev_attempt_id e = ta_id attempt) (sb_env_events db)) then ret ()
       else andthen (if being_built fresh then ret ()
           else andthen (gap (ta_id attempt) ''legacy_environment_delivery'' ''service'') (\<lambda>_.
             andthen (request_environment sv attempt kind None ''unknown'' None now) (\<lambda>_. ret ()))) (\<lambda>_.
         andthen (interrupt (ta_id attempt) ''environment_error'' now) (\<lambda>_.
         update_attempt (ta_id attempt) (environment_error_fields (''docker_api_error '' @ error) now))))))"

definition mark_environment_start_error :: "services \<Rightarrow> TaskAttempt \<Rightarrow> string \<Rightarrow> time \<Rightarrow> (sandbox_db, unit) op" where
  "mark_environment_start_error sv = mark_environment_error sv KIND_START"

definition mark_environment_restart_error :: "services \<Rightarrow> TaskAttempt \<Rightarrow> string \<Rightarrow> time \<Rightarrow> (sandbox_db, unit) op" where
  "mark_environment_restart_error sv = mark_environment_error sv KIND_RESET"

text \<open>An error of an operation that is no longer the latest of its attempt marks nothing.\<close>

definition mark_background_environment_error ::
    "services \<Rightarrow> EnvironmentKind \<Rightarrow> pk \<Rightarrow> string \<Rightarrow> string option \<Rightarrow> time \<Rightarrow> (sandbox_db, unit) op" where
  "mark_background_environment_error sv kind attempt_id error op_id now = andthen get_db (\<lambda>db.
     case List.find (\<lambda>a. ta_id a = attempt_id) (sb_attempts db) of
       None \<Rightarrow> ret ()
     | Some attempt \<Rightarrow>
         let latest = last_by ev_id (filter (\<lambda>e. ev_attempt_id e = attempt_id \<and> ev_phase e = EP_REQUESTED) (sb_env_events db))
         in if op_id \<notin> {None, Some []} \<and> map_option ev_operation_id latest \<noteq> op_id then ret ()
            else mark_environment_error sv kind attempt error now)"

definition run_environment_background ::
    "gateway \<Rightarrow> services \<Rightarrow> env_docker \<Rightarrow> (py_error \<Rightarrow> string) \<Rightarrow> EnvironmentKind \<Rightarrow> pk \<Rightarrow> string option \<Rightarrow> time
     \<Rightarrow> (sandbox_db, unit) op" where
  "run_environment_background gw sv dk describe kind attempt_id op_id now =
     catch (environment gw sv dk kind attempt_id op_id None ''unknown'' now)
       (\<lambda>e. mark_background_environment_error sv kind attempt_id (describe e) op_id now)"

text \<open>Handing an operation to the queue; \<open>delay\<close> is what the broker of the queue answers.\<close>

definition dispatch_environment ::
    "services \<Rightarrow> (py_error \<Rightarrow> string) \<Rightarrow> unit result \<Rightarrow> EnvironmentKind \<Rightarrow> pk \<Rightarrow> string \<Rightarrow> time \<Rightarrow> (sandbox_db, unit) op" where
  "dispatch_environment sv describe delay kind attempt_id op now =
     (case delay of
        Inr _ \<Rightarrow> ret ()
      | Inl e \<Rightarrow> andthen (get_task_attempt attempt_id) (\<lambda>attempt.
          andthen (atomic (andthen get_db (\<lambda>db.
            andthen (case List.find (\<lambda>r. ev_operation_id r = op \<and> ev_phase r = EP_REQUESTED) (sb_env_events db) of
                None \<Rightarrow> ret ()
              | Some request \<Rightarrow> andthen (environment_phase request EP_FINISHED ''unknown'' ''dispatch_error'' now) (\<lambda>_. ret ()))
            (\<lambda>_. mark_environment_error sv kind attempt (describe e) now)))) (\<lambda>_. raise e)))"

definition start_in_background ::
    "services \<Rightarrow> (py_error \<Rightarrow> string) \<Rightarrow> unit result \<Rightarrow> EnvironmentKind \<Rightarrow> pk \<Rightarrow> string option \<Rightarrow> time \<Rightarrow> (sandbox_db, string) op" where
  "start_in_background sv describe delay kind attempt_id op_id now =
     andthen (case op_id of
         Some op \<Rightarrow> ret op
       | None \<Rightarrow> andthen (get_task_attempt attempt_id) (\<lambda>attempt.
           andthen (request_environment sv attempt kind None ''unknown'' None now) (\<lambda>(request, _).
           ret (ev_operation_id request)))) (\<lambda>op.
     andthen (dispatch_environment sv describe delay kind attempt_id op now) (\<lambda>_. ret op))"

section \<open>Cleaning up\<close>

text \<open>What the two halves of the cleanup clear, and the end of a complete cleanup.\<close>

definition clear_terminal :: "env_docker \<Rightarrow> TaskAttempt \<Rightarrow> TaskAttempt \<Rightarrow> TaskAttempt" where
  "clear_terminal dk a row =
     (if ta_terminal_container_name a \<noteq> [] then
        (case dk_remove_terminal dk (ta_terminal_container_name a) of
           Inl _ \<Rightarrow> row
         | Inr _ \<Rightarrow> row\<lparr>ta_terminal_container_name := [], ta_terminal_url := [], ta_terminal_port := None\<rparr>)
      else if ta_terminal_url a \<noteq> [] \<or> ta_terminal_port a \<noteq> None
        then row\<lparr>ta_terminal_url := [], ta_terminal_port := None\<rparr> else row)"

definition clear_container :: "env_docker \<Rightarrow> TaskAttempt \<Rightarrow> TaskAttempt \<Rightarrow> TaskAttempt" where
  "clear_container dk a row =
     (if ta_container_name a \<noteq> [] then
        (case dk_remove_task dk (ta_container_name a) of
           Inl _ \<Rightarrow> row
         | Inr _ \<Rightarrow> row\<lparr>ta_container_id := [], ta_container_name := [], ta_shell_command := []\<rparr>)
      else if ta_container_id a \<noteq> [] \<or> ta_shell_command a \<noteq> []
        then row\<lparr>ta_container_id := [], ta_shell_command := []\<rparr> else row)"

definition cleared_fields :: "env_docker \<Rightarrow> TaskAttempt \<Rightarrow> TaskAttempt \<Rightarrow> TaskAttempt" where
  "cleared_fields dk a row = clear_container dk a (clear_terminal dk a row)"

definition cleanup_complete :: "env_docker \<Rightarrow> TaskAttempt \<Rightarrow> bool" where
  "cleanup_complete dk a \<longleftrightarrow>
     ta_container_name (cleared_fields dk a a) = [] \<and> ta_terminal_container_name (cleared_fields dk a a) = []"

definition idle_fields :: "TaskAttempt \<Rightarrow> TaskAttempt" where
  "idle_fields row = row\<lparr>ta_environment_status := EN_IDLE, ta_environment_started_at := None,
     ta_environment_finished_at := None\<rparr>"

definition cleanup_attempt_environment :: "env_docker \<Rightarrow> TaskAttempt \<Rightarrow> (sandbox_db, bool) op" where
  "cleanup_attempt_environment dk attempt =
     andthen (update_attempt (ta_id attempt) (\<lambda>row.
       (if cleanup_complete dk attempt then idle_fields else id) (cleared_fields dk attempt row))) (\<lambda>_.
     ret (cleanup_complete dk attempt))"

end
