(* ===== verification/Environment_Runs.thy ===== *)
theory Environment_Runs
  imports Environments Ledger_Evidence Check_Properties
begin

text \<open>
  Workers that build environments, interleaved with everything else that happens to the attempts.
  A history is a sequence of steps on the database and the workers that are between the two halves
  of a run. The restart counter of an attempt counts the resets that the ledger calls successful, in
  any history: a worker writes the counter it has read before it called Docker, and the ledger lets
  only the worker of the one open operation write.
\<close>

section \<open>Effects on the counters\<close>

definition counters :: "sandbox_db \<Rightarrow> (pk \<times> nat) list" where
  "counters db = map (\<lambda>a. (ta_id a, ta_restart_count a)) (sb_attempts db)"

definition succeeded :: "SandboxEnvironmentEvent \<Rightarrow> bool" where
  "succeeded e \<longleftrightarrow> ev_phase e = EP_FINISHED \<and> ev_outcome e = ''success''"

text \<open>No operation starts, none succeeds, and no counter changes.\<close>

definition quiet :: "sandbox_db \<Rightarrow> sandbox_db \<Rightarrow> bool" where
  "quiet db db' \<longleftrightarrow> counters db' = counters db \<and>
     (\<exists>es. sb_env_events db' = sb_env_events db @ es \<and>
        (\<forall>e \<in> set es. ev_phase e \<noteq> EP_STARTED \<and> \<not> succeeded e))"

lemma quiet_sameI: "counters db' = counters db \<Longrightarrow> sb_env_events db' = sb_env_events db \<Longrightarrow> quiet db db'"
  by (simp add: quiet_def)

interpretation quiet: effect_order quiet
  by unfold_locales (fastforce simp: quiet_def)+

lemma quiet_insert: "(\<And>db. \<not> clash db \<Longrightarrow> quiet db (ins db)) \<Longrightarrow> keeps quiet (insert_unless clash ins x)"
  by (simp add: keeps_def insert_unless_def quiet.unchanged)

lemma quiet_rows:
  "keeps quiet (create_coverage c)"
  "keeps quiet (create_execution e)"
  "keeps quiet (create_check_event ce)"
  "keeps quiet (create_submission sm)"
  "keeps quiet (gap i reason source)"
  unfolding create_coverage_def create_execution_def create_check_event_def create_submission_def gap_def
  by (intro quiet.keeps_intros quiet_insert quiet.keeps_modify_db;
      simp add: quiet_def counters_def)+

lemma quiet_env_event:
  "ev_phase e \<noteq> EP_STARTED \<Longrightarrow> \<not> succeeded e \<Longrightarrow> keeps quiet (create_env_event e)"
  unfolding keeps_def create_env_event_def
  by (auto simp: andthen_def op_apply insert_unless_def Let_def quiet.unchanged quiet_def counters_def succeeded_def)

lemma quiet_get_task_attempt: "keeps quiet (get_task_attempt i)"
  by (simp add: keeps_def get_task_attempt_def quiet.unchanged split: option.split)

lemma quiet_update: "(\<And>a. ta_id (f a) = ta_id a \<and> ta_restart_count (f a) = ta_restart_count a) \<Longrightarrow>
    keeps quiet (update_attempt i f)"
  by (auto simp: keeps_def update_attempt_def op_apply quiet_def counters_def)

lemma quiet_phase:
  "phase \<noteq> EP_STARTED \<Longrightarrow> outcome \<noteq> ''success'' \<Longrightarrow> keeps quiet (environment_phase request phase outcome reason now)"
  unfolding environment_phase_def
  by (intro quiet.keeps_intros quiet_env_event) (simp_all add: succeeded_def)

lemmas quiet_basic = quiet.keeps_intros quiet_rows quiet_get_task_attempt

lemma quiet_observe: "keeps quiet (observe attempt)"
  unfolding observe_def by (intro quiet_basic)

lemma quiet_request_environment: "keeps quiet (request_environment sv attempt kind actor origin op_id now)"
  unfolding request_environment_def
  by (intro quiet_basic quiet_observe quiet_env_event) (simp_all add: succeeded_def)

lemma quiet_registered_request: "keeps quiet (registered_request sv attempt kind op_id actor origin now)"
  unfolding registered_request_def by (intro quiet_basic quiet_observe quiet_request_environment)

lemma quiet_environment_live: "keeps quiet (environment_live request)"
  unfolding environment_live_def by (intro quiet_basic)

lemma quiet_close_executions: "keeps quiet (close_executions reason now es)"
  by (induction es) (simp_all, (intro quiet_basic; assumption)+)

lemma quiet_close_requests: "keeps quiet (close_requests reason now rs)"
  by (induction rs) (simp_all, (intro quiet_basic quiet_phase; (assumption | simp))+)

lemma quiet_interrupt: "keeps quiet (interrupt i reason now)"
  unfolding interrupt_def by (intro quiet_basic quiet_close_executions quiet_close_requests)

section \<open>Operations that are quiet\<close>

lemma quiet_try_mark:
  assumes "\<And>a. ta_id (f a) = ta_id a \<and> ta_restart_count (f a) = ta_restart_count a"
  shows "keeps quiet (try_mark_environment sv kind f attempt actor origin op_id now)"
  unfolding try_mark_environment_def
  by (intro quiet_basic quiet_request_environment quiet_update assms quiet_phase) simp_all

lemma quiet_marks:
  "keeps quiet (mark_environment_starting sv attempt actor origin op_id now)"
  "keeps quiet (mark_environment_restarting sv attempt actor origin op_id now)"
  "keeps quiet (try_mark_environment_starting sv attempt actor origin op_id now)"
  "keeps quiet (try_mark_environment_restarting sv attempt actor origin op_id now)"
  unfolding mark_environment_starting_def mark_environment_restarting_def
    try_mark_environment_starting_def try_mark_environment_restarting_def
  by (intro quiet_basic quiet_request_environment quiet_update quiet_try_mark;
      simp add: starting_fields_def restarting_fields_def)+

lemma quiet_environment_error: "keeps quiet (mark_environment_error sv kind attempt error now)"
  unfolding mark_environment_error_def
  by (intro quiet_basic quiet_request_environment quiet_interrupt quiet_update)
    (simp add: environment_error_fields_def)

lemma quiet_background_error: "keeps quiet (mark_background_environment_error sv kind i error op_id now)"
  unfolding mark_background_environment_error_def by (intro quiet_basic quiet_environment_error)

lemma quiet_start_in_background: "keeps quiet (start_in_background sv describe delay kind i op_id now)"
  unfolding start_in_background_def dispatch_environment_def
  by (intro quiet_basic quiet_request_environment quiet_phase quiet_environment_error) simp_all

lemma quiet_cleanup: "keeps quiet (cleanup_attempt_environment dk attempt)"
  unfolding cleanup_attempt_environment_def
  by (intro quiet_basic quiet_update)
    (auto simp: idle_fields_def cleared_fields_def clear_container_def clear_terminal_def split: sum.split)

lemma quiet_close_environment: "keeps quiet (close_environment request i now e)"
  unfolding close_environment_def by (intro quiet_basic quiet_phase) simp_all

text \<open>The operations of the checks and of the answers are quiet as well.\<close>

lemma quiet_modify: "(\<And>db. quiet db (f db)) \<Longrightarrow> keeps quiet (modify_db f)"
  by (rule quiet.keeps_modify_db)

lemma quiet_publish: "keeps quiet (publish provider external_id user_id context payload available_at)"
  unfolding publish_def
  by (intro quiet_basic quiet_modify) (simp add: quiet_sameI counters_def)

lemma quiet_store_completion: "keeps quiet (store_completion sv cand source)"
  unfolding store_completion_def
  by (intro quiet_basic quiet_publish quiet_modify) (simp add: quiet_sameI counters_def)

lemma quiet_record_completion: "keeps quiet (record_completion_after_success sv i r now)"
  unfolding record_completion_after_success_def by (intro quiet_basic quiet_store_completion)

lemma quiet_check_events:
  "keeps quiet (request_check sv attempt source run_id now)"
  "keeps quiet (check_duplicate j now)"
  "keeps quiet (check_live execution)"
  "keeps quiet (finish_check execution result failure_class reason exit_code run started now)"
  unfolding request_check_def check_duplicate_def check_live_def finish_check_def
  by (intro quiet_basic quiet_observe)+

lemma quiet_begin_check: "keeps quiet (begin_check attempt run_id now)"
  unfolding begin_check_def by (intro quiet_basic quiet_check_events)

lemma quiet_create_check_run: "keeps quiet (create_check_run i result output code now)"
  unfolding create_check_run_def
  by (intro quiet_basic quiet_modify) (simp add: quiet_sameI counters_def)

lemma quiet_try_check: "keeps quiet (try_mark_attempt_check_running sv i op_id now)"
  unfolding try_mark_attempt_check_running_def
  by (intro quiet_basic quiet_check_events quiet_update) (simp add: mark_running_fields_def)

lemmas quiet_check_basic = quiet_basic quiet_check_events quiet_begin_check quiet_create_check_run
  quiet_try_check quiet_record_completion quiet_publish quiet_interrupt keeps_outcome

lemma quiet_save_checks:
  "keeps quiet (save_check_error i execution output failure_class reason started now)"
  "keeps quiet (save_check_passed sv attempt execution review output now)"
  "keeps quiet (save_check_failed i execution code output now)"
  unfolding save_check_error_def save_check_passed_def save_check_failed_def
  by (intro quiet_check_basic quiet_update;
      simp add: check_error_fields_def check_passed_fields_def check_failed_fields_def Let_def)+

lemma quiet_run_attempt_check: "keeps quiet (run_attempt_check sv dk i execution now)"
  unfolding run_attempt_check_def handle_outcome_def remove_containers_def
  by (intro quiet_check_basic quiet_save_checks)

lemma quiet_checked_run: "keeps quiet (checked_run se sv dk i user_id mark run_id now)"
  unfolding checked_run_def registered_run_def duplicate_after_pass_def execute_run_def close_after_error_def
  by (intro quiet_check_basic quiet_run_attempt_check)

lemma quiet_background_check_error: "keeps quiet (mark_background_check_error i user_id error run_id now)"
  unfolding mark_background_check_error_def
  by (intro quiet_check_basic quiet_update) (simp add: check_error_fields_def)

section \<open>The operations around the workers only add to the ledger\<close>

lemma grows_try_environment: "keeps ledger_step (try_mark_environment sv kind f attempt actor origin op_id now)"
  unfolding try_mark_environment_def by (intro grows_basic grows_ledger)

lemma grows_marks:
  "keeps ledger_step (mark_environment_starting sv attempt actor origin op_id now)"
  "keeps ledger_step (mark_environment_restarting sv attempt actor origin op_id now)"
  "keeps ledger_step (try_mark_environment_starting sv attempt actor origin op_id now)"
  "keeps ledger_step (try_mark_environment_restarting sv attempt actor origin op_id now)"
  unfolding mark_environment_starting_def mark_environment_restarting_def
    try_mark_environment_starting_def try_mark_environment_restarting_def
  by (intro grows_basic grows_ledger grows_try_environment)+

lemma grows_environment_error: "keeps ledger_step (mark_environment_error sv kind attempt error now)"
  unfolding mark_environment_error_def by (intro grows_basic grows_ledger)

lemma grows_background_environment_error:
  "keeps ledger_step (mark_background_environment_error sv kind i error op_id now)"
  unfolding mark_background_environment_error_def by (intro grows_basic grows_environment_error)

lemma grows_start_in_background: "keeps ledger_step (start_in_background sv describe delay kind i op_id now)"
  unfolding start_in_background_def dispatch_environment_def
  by (intro grows_basic grows_ledger grows_environment_error)

lemma grows_cleanup: "keeps ledger_step (cleanup_attempt_environment dk attempt)"
  unfolding cleanup_attempt_environment_def by (intro grows_basic)

lemma grows_save_ready: "keeps ledger_step (save_ready a request mark now)"
  unfolding save_ready_def by (intro grows_basic grows_ledger)

lemma grows_finish_run: "keeps ledger_step (finish_run gw dk w now)"
  unfolding finish_run_def run_environment_start_def run_environment_restart_def close_environment_def
  by (intro grows_basic grows_ledger grows_save_ready)

lemma grows_begin_run: "keeps ledger_step (begin_run sv kind i op_id actor origin now)"
  unfolding begin_run_def by (intro grows_basic grows_ledger)

end
