(* ===== verification/Sandbox_Views.thy ===== *)
theory Sandbox_Views
  imports Environments Ledger_Evidence
begin

text \<open>
  The pages and requests of the sandbox (\<^verbatim>\<open>sandbox/views.py\<close>) around the services, with the
  creation of attempts (\<^verbatim>\<open>sandbox/services/attempts.py\<close>, \<^verbatim>\<open>TaskAttempt.save\<close>). A request
  is answered by a page to go to and a tag for its message; a missing object raises
  \<^verbatim>\<open>DoesNotExist\<close> (404). The rows of AI reviews, e-mails, logging and the HTTP pilot are left
  out: of the AI reviewer the model keeps whether it is configured for a task, and whether a review
  can be prepared. What a request hands to the queue after its transaction is part of its reply.
\<close>

section \<open>New attempts\<close>

definition new_attempt :: "pk \<Rightarrow> pk \<Rightarrow> Task \<Rightarrow> nat \<Rightarrow> string \<Rightarrow> TaskAttempt" where
  "new_attempt i user_id task number output =
     \<lparr>ta_id = i, ta_user_id = user_id, ta_task = task, ta_attempt_number = number, ta_is_current = True,
      ta_status = ST_NEW, ta_attempts_count = 0, ta_restart_count = 0, ta_started_at = None,
      ta_finished_at = None, ta_technical_passed_at = None, ta_check_status = CK_IDLE,
      ta_check_started_at = None, ta_check_finished_at = None, ta_environment_status = EN_IDLE,
      ta_environment_started_at = None, ta_environment_finished_at = None, ta_stuck_reason = STUCK_NONE,
      ta_last_check_output = output, ta_trainee_report = [], ta_client_answer = [], ta_container_id = [],
      ta_container_name = [], ta_shell_command = [], ta_environment_cleanup_requested = False,
      ta_terminal_container_name = [], ta_terminal_url = [], ta_terminal_port = None,
      ta_mentor_feedback = [], ta_mentor_decision = NOT_REVIEWED, ta_mentor_reviewed_by = None,
      ta_mentor_reviewed_at = None, ta_mentor_feedback_seen_at = None\<rparr>"

text \<open>The two unique constraints of the table: the attempt number, and one current attempt.\<close>

definition attempt_clashes :: "sandbox_db \<Rightarrow> TaskAttempt \<Rightarrow> bool" where
  "attempt_clashes db a \<longleftrightarrow> list_ex (\<lambda>b. ta_user_id b = ta_user_id a \<and> tk_id (ta_task b) = tk_id (ta_task a) \<and>
     (ta_attempt_number b = ta_attempt_number a \<or> ta_is_current b \<and> ta_is_current a)) (sb_attempts db)"

definition insert_attempt :: "services \<Rightarrow> pk \<Rightarrow> Task \<Rightarrow> nat \<Rightarrow> string \<Rightarrow> time \<Rightarrow> (sandbox_db, TaskAttempt) op" where
  "insert_attempt sv user_id task number output now =
     atomic (andthen get_db (\<lambda>db. let enabled = sb_boundary db \<noteq> None in
       andthen (if enabled then ensure_manifest sv user_id task now else ret None) (\<lambda>manifest.
       andthen get_db (\<lambda>db. let a = new_attempt (fresh_pk (map ta_id (sb_attempts db))) user_id task number output in
       if attempt_clashes db a then raise IntegrityError
       else andthen (modify_db (\<lambda>db. db\<lparr>sb_attempts := sb_attempts db @ [a]\<rparr>)) (\<lambda>_.
         andthen (if enabled then andthen (created_attempt a manifest) (\<lambda>_. ret ()) else ret ()) (\<lambda>_. ret a))))))"

text \<open>\<^verbatim>\<open>order_by("-attempt_number", "-id").first()\<close>.\<close>

definition latest_attempt :: "TaskAttempt list \<Rightarrow> TaskAttempt option" where
  "latest_attempt rows = (case rev (sort_key (\<lambda>a. (ta_attempt_number a, ta_id a)) rows) of [] \<Rightarrow> None | a # _ \<Rightarrow> Some a)"

definition task_attempts :: "sandbox_db \<Rightarrow> pk \<Rightarrow> pk \<Rightarrow> TaskAttempt list" where
  "task_attempts db user_id task_id =
     filter (\<lambda>a. ta_user_id a = user_id \<and> tk_id (ta_task a) = task_id) (sb_attempts db)"

definition get_current_attempt :: "services \<Rightarrow> pk \<Rightarrow> Task \<Rightarrow> time \<Rightarrow> (sandbox_db, TaskAttempt) op" where
  "get_current_attempt sv user_id task now = andthen get_db (\<lambda>db.
     let rows = task_attempts db user_id (tk_id task);
         current = latest_attempt (filter ta_is_current rows)
     in case current of
          Some a \<Rightarrow> ret a
        | None \<Rightarrow> (case latest_attempt rows of
            Some a \<Rightarrow> andthen (update_attempt (ta_id a) (\<lambda>row. row\<lparr>ta_is_current := True\<rparr>)) (\<lambda>_.
              ret (a\<lparr>ta_is_current := True\<rparr>))
          | None \<Rightarrow> catch (insert_attempt sv user_id task 1 [] now) (\<lambda>e.
              if e \<noteq> IntegrityError then raise e
              else andthen get_db (\<lambda>db.
                case latest_attempt (filter ta_is_current (task_attempts db user_id (tk_id task))) of
                  None \<Rightarrow> raise DoesNotExist | Some a \<Rightarrow> ret a))))"

definition get_next_attempt_number :: "sandbox_db \<Rightarrow> pk \<Rightarrow> pk \<Rightarrow> nat" where
  "get_next_attempt_number db user_id task_id =
     (case latest_attempt (task_attempts db user_id task_id) of None \<Rightarrow> 1 | Some a \<Rightarrow> ta_attempt_number a + 1)"

text \<open>
  The trainee's dashboard: the active tasks of the trainee's level, each with its current attempt,
  which is created on the first visit.
\<close>

definition dashboard_tasks :: "sandbox_db \<Rightarrow> Level \<Rightarrow> Task list" where
  "dashboard_tasks db level =
     sort_key (\<lambda>t. (qu_order (tk_queue t), tk_order t))
       (filter (\<lambda>t. tk_is_active t \<and> qu_is_active (tk_queue t) \<and> qu_required_level (tk_queue t) = level) (sb_tasks db))"

primrec current_attempts :: "services \<Rightarrow> pk \<Rightarrow> Task list \<Rightarrow> time \<Rightarrow> (sandbox_db, TaskAttempt list) op" where
  "current_attempts sv user_id [] now = ret []"
| "current_attempts sv user_id (t # ts) now =
     andthen (get_current_attempt sv user_id t now) (\<lambda>a.
     andthen (current_attempts sv user_id ts now) (\<lambda>rest. ret (a # rest)))"

definition trainee_dashboard :: "services \<Rightarrow> pk \<Rightarrow> Level \<Rightarrow> time \<Rightarrow> (sandbox_db, TaskAttempt list \<times> TaskAttempt list) op" where
  "trainee_dashboard sv user_id level now = andthen get_db (\<lambda>db.
     let tasks = dashboard_tasks db level
     in andthen (current_attempts sv user_id tasks now) (\<lambda>attempts. andthen get_db (\<lambda>db.
        ret (attempts, filter (\<lambda>a. ta_user_id a = user_id \<and> ta_attempt_number a = 1 \<and>
          tk_id (ta_task a) \<in> set (map tk_id tasks) \<and> has_unread_mentor_feedback a) (sb_attempts db)))))"

section \<open>Requests\<close>

datatype task_reply = TaskPage pk string | Dashboard string

definition own_attempt :: "pk \<Rightarrow> pk \<Rightarrow> (sandbox_db, TaskAttempt) op" where
  "own_attempt user_id attempt_id = andthen get_db (\<lambda>db.
     case List.find (\<lambda>a. ta_id a = attempt_id \<and> ta_user_id a = user_id) (sb_attempts db) of
       None \<Rightarrow> raise DoesNotExist | Some a \<Rightarrow> ret a)"

text \<open>
  \<^verbatim>\<open>ledger_form\<close>: a malformed identifier, and any other \<^verbatim>\<open>ValidationError\<close> of the view,
  leads back to the task.
\<close>

definition ledger_form ::
    "services \<Rightarrow> string option \<Rightarrow> pk \<Rightarrow> (task_reply \<Rightarrow> 'a) \<Rightarrow> (sandbox_db, 'a) op \<Rightarrow> (sandbox_db, 'a) op" where
  "ledger_form sv op_id attempt_id reply view =
     catch (andthen (if op_id \<in> {None, Some []} then ret ()
         else andthen (lift_result (operation_id sv op_id)) (\<lambda>_. ret ())) (\<lambda>_. view))
       (\<lambda>e. case e of ValidationError _ \<Rightarrow> ret (reply (TaskPage attempt_id ''stale_operation'')) | _ \<Rightarrow> raise e)"

section \<open>Starting and restarting\<close>

text \<open>A reply and the operation to hand to the queue once the transaction has committed.\<close>

type_synonym start_reply = "task_reply \<times> string option"

definition only_reply :: "task_reply \<Rightarrow> start_reply" where
  "only_reply r = (r, None)"

definition start_view :: "services \<Rightarrow> SandboxUser \<Rightarrow> pk \<Rightarrow> string option \<Rightarrow> time \<Rightarrow> (sandbox_db, start_reply) op" where
  "start_view sv user attempt_id op_id now =
     andthen (own_attempt (us_id user) attempt_id) (\<lambda>a. andthen get_db (\<lambda>db.
     if \<not> ta_is_current a then ret (only_reply (TaskPage attempt_id ''historical_attempt''))
     else if technical_passed db a then ret (only_reply (TaskPage attempt_id ''technical_part_done''))
     else if being_built a then ret (only_reply (TaskPage attempt_id ''environment_is_starting''))
     else if ta_container_name a \<noteq> [] then ret (only_reply (TaskPage attempt_id ''environment_is_running''))
     else if \<not> is_available db a then ret (only_reply (Dashboard []))
     else andthen (try_mark_environment_starting sv a (Some user) ''trainee'' op_id now) (\<lambda>marked.
       case marked of
         None \<Rightarrow> ret (only_reply (TaskPage attempt_id ''environment_is_starting''))
       | Some op \<Rightarrow> ret (TaskPage attempt_id ''environment_starts'', Some op))))"

definition restart_view :: "services \<Rightarrow> SandboxUser \<Rightarrow> pk \<Rightarrow> string option \<Rightarrow> time \<Rightarrow> (sandbox_db, start_reply) op" where
  "restart_view sv user attempt_id op_id now =
     andthen (own_attempt (us_id user) attempt_id) (\<lambda>a. andthen get_db (\<lambda>db.
     if \<not> ta_is_current a then ret (only_reply (TaskPage attempt_id ''historical_attempt''))
     else if technical_passed db a then ret (only_reply (TaskPage attempt_id ''technical_part_done''))
     else if being_built a then ret (only_reply (TaskPage attempt_id ''environment_is_starting''))
     else if ta_check_status a = CK_RUNNING then ret (only_reply (TaskPage attempt_id ''check_is_running''))
     else if \<not> is_available db a then ret (only_reply (Dashboard ''task_not_available''))
     else andthen (try_mark_environment_restarting sv a (Some user) ''trainee'' op_id now) (\<lambda>marked.
       case marked of
         None \<Rightarrow> ret (only_reply (TaskPage attempt_id ''environment_is_starting''))
       | Some op \<Rightarrow> ret (TaskPage attempt_id ''environment_restarts'', Some op))))"

text \<open>A request with what follows its transaction; \<open>delay\<close> is what the broker of the queue answers.\<close>

definition hand_over ::
    "services \<Rightarrow> (py_error \<Rightarrow> string) \<Rightarrow> unit result \<Rightarrow> EnvironmentKind \<Rightarrow> pk \<Rightarrow> time \<Rightarrow> start_reply \<Rightarrow> (sandbox_db, task_reply) op" where
  "hand_over sv describe delay kind attempt_id now r =
     (case r of
        (reply, None) \<Rightarrow> ret reply
      | (reply, Some op) \<Rightarrow> andthen (start_in_background sv describe delay kind attempt_id (Some op) now) (\<lambda>_. ret reply))"

definition start_task ::
    "services \<Rightarrow> (py_error \<Rightarrow> string) \<Rightarrow> unit result \<Rightarrow> SandboxUser \<Rightarrow> pk \<Rightarrow> string option \<Rightarrow> time \<Rightarrow> (sandbox_db, task_reply) op" where
  "start_task sv describe delay user attempt_id op_id now =
     andthen (atomic (ledger_form sv op_id attempt_id only_reply (start_view sv user attempt_id op_id now)))
       (hand_over sv describe delay KIND_START attempt_id now)"

definition restart_task ::
    "services \<Rightarrow> (py_error \<Rightarrow> string) \<Rightarrow> unit result \<Rightarrow> SandboxUser \<Rightarrow> pk \<Rightarrow> string option \<Rightarrow> time \<Rightarrow> (sandbox_db, task_reply) op" where
  "restart_task sv describe delay user attempt_id op_id now =
     andthen (atomic (ledger_form sv op_id attempt_id only_reply (restart_view sv user attempt_id op_id now)))
       (hand_over sv describe delay KIND_RESET attempt_id now)"

section \<open>Practice attempts\<close>

definition rerun_task :: "services \<Rightarrow> SandboxUser \<Rightarrow> pk \<Rightarrow> time \<Rightarrow> (sandbox_db, task_reply) op" where
  "rerun_task sv user attempt_id now =
     atomic (andthen (own_attempt (us_id user) attempt_id) (\<lambda>a. andthen get_db (\<lambda>db.
       if \<not> ta_is_current a then ret (Dashboard ''not_the_current_attempt'')
       else if \<not> technical_passed db a then ret (TaskPage attempt_id ''not_technically_done'')
       else if \<not> can_rerun db a then ret (TaskPage attempt_id ''finish_the_credit_attempt'')
       else if \<not> is_available db a then ret (Dashboard ''task_not_available'')
       else let number = get_next_attempt_number db (us_id user) (tk_id (ta_task a))
         in andthen (modify_db (\<lambda>db. db\<lparr>sb_attempts := map (\<lambda>row.
                if ta_user_id row = us_id user \<and> tk_id (ta_task row) = tk_id (ta_task a) \<and> ta_is_current row
                then row\<lparr>ta_is_current := False\<rparr> else row) (sb_attempts db)\<rparr>)) (\<lambda>_.
            andthen (insert_attempt sv (us_id user) (ta_task a) number ''practice_attempt'' now) (\<lambda>new.
            ret (TaskPage (ta_id new) ''practice_attempt_created''))))))"

section \<open>Checks and answers\<close>

text \<open>
  \<open>ai\<close> is \<open>None\<close> for a task without an AI context, else what the preparation of a review
  answers: \<open>Inl (ExternalError _)\<close> is \<^verbatim>\<open>AIReviewerError\<close>.
\<close>

record answer_post =
  ap_client_answer :: string
  ap_trainee_report :: string
  ap_operation_id :: "string option"

definition draft_fields :: "answer_post \<Rightarrow> TaskAttempt \<Rightarrow> TaskAttempt" where
  "draft_fields p row = row\<lparr>ta_client_answer := ap_client_answer p, ta_trainee_report := ap_trainee_report p\<rparr>"

definition answer_fields :: "string \<Rightarrow> string \<Rightarrow> time \<Rightarrow> TaskAttempt \<Rightarrow> TaskAttempt" where
  "answer_fields client_answer trainee_report now row = row\<lparr>ta_client_answer := client_answer,
     ta_trainee_report := trainee_report, ta_status := ST_ON_REVIEW, ta_mentor_decision := NOT_REVIEWED,
     ta_mentor_reviewed_by := None, ta_mentor_reviewed_at := None, ta_mentor_feedback_seen_at := Some now\<rparr>"

definition submitted :: "TaskAttempt \<Rightarrow> bool" where
  "submitted a \<longleftrightarrow> ta_status a \<in> {ST_ON_REVIEW, ST_PASSED}"

text \<open>The draft is kept as it was typed, unless the answer is already with the mentor.\<close>

definition save_draft :: "pk \<Rightarrow> answer_post \<Rightarrow> (sandbox_db, bool) op" where
  "save_draft attempt_id p =
     atomic (andthen (get_task_attempt attempt_id) (\<lambda>fresh.
       if submitted fresh then ret False
       else andthen (update_attempt attempt_id (draft_fields p)) (\<lambda>_. ret True)))"

text \<open>\<open>True\<close> when the answer is now with the mentor.\<close>

definition submit_draft ::
    "services \<Rightarrow> unit result option \<Rightarrow> TaskAttempt \<Rightarrow> answer_post \<Rightarrow> time \<Rightarrow> (sandbox_db, bool) op" where
  "submit_draft sv ai attempt p now =
     atomic (andthen (get_task_attempt (ta_id attempt)) (\<lambda>fresh.
       if submitted fresh then ret False
       else andthen (submit_answer sv attempt (ap_client_answer p) (ap_trainee_report p) (ap_operation_id p) now) (\<lambda>_.
         andthen (case ai of None \<Rightarrow> ret () | Some r \<Rightarrow> lift_result r) (\<lambda>_.
         andthen (update_attempt (ta_id attempt)
           (answer_fields (py_strip (ap_client_answer p)) (py_strip (ap_trainee_report p)) now)) (\<lambda>_. ret True)))))"

text \<open>The identifier of the request is compared as the UUID it denotes; it was checked before.\<close>

definition prior_submission :: "services \<Rightarrow> sandbox_db \<Rightarrow> string option \<Rightarrow> SandboxAnswerSubmission option" where
  "prior_submission sv db op_id =
     (if op_id \<in> {None, Some []} then None
      else List.find (\<lambda>s. Inr (sm_operation_id s) = operation_id sv op_id) (sb_submissions db))"

text \<open>What follows the transaction: \<open>None\<close> is a review that could not be prepared.\<close>

definition after_sending ::
    "env_docker \<Rightarrow> TaskAttempt \<Rightarrow> answer_post \<Rightarrow> time \<Rightarrow> bool option \<Rightarrow> (sandbox_db, task_reply) op" where
  "after_sending dk attempt p now sent =
     (case sent of
        None \<Rightarrow> ret (TaskPage (ta_id attempt) ''ai_review_not_prepared'')
      | Some False \<Rightarrow> ret (TaskPage (ta_id attempt) [])
      | Some True \<Rightarrow>
          andthen (if ta_is_current attempt then
              andthen (cleanup_attempt_environment dk (answer_fields (py_strip (ap_client_answer p))
                (py_strip (ap_trainee_report p)) now attempt)) (\<lambda>_. ret ())
            else ret ()) (\<lambda>_. ret (TaskPage (ta_id attempt) ''answer_sent'')))"

definition try_submit ::
    "services \<Rightarrow> unit result option \<Rightarrow> TaskAttempt \<Rightarrow> answer_post \<Rightarrow> time \<Rightarrow> (sandbox_db, bool option) op" where
  "try_submit sv ai attempt p now =
     catch (andthen (submit_draft sv ai attempt p now) (\<lambda>b. ret (Some b)))
       (\<lambda>e. case e of ExternalError _ \<Rightarrow> ret None | _ \<Rightarrow> raise e)"

definition send_answer ::
    "services \<Rightarrow> env_docker \<Rightarrow> unit result option \<Rightarrow> TaskAttempt \<Rightarrow> answer_post \<Rightarrow> time \<Rightarrow> bool \<Rightarrow> (sandbox_db, task_reply) op" where
  "send_answer sv dk ai attempt p now saved =
     (if \<not> saved then ret (TaskPage (ta_id attempt) ''answer_already_sent'')
      else if py_strip (ap_client_answer p) = [] then ret (TaskPage (ta_id attempt) ''answer_missing'')
      else if py_strip (ap_trainee_report p) = [] then ret (TaskPage (ta_id attempt) ''report_missing'')
      else andthen (try_submit sv ai attempt p now) (after_sending dk attempt p now))"

definition answer_view ::
    "services \<Rightarrow> env_docker \<Rightarrow> unit result option \<Rightarrow> TaskAttempt \<Rightarrow> answer_post \<Rightarrow> time \<Rightarrow> (sandbox_db, task_reply) op" where
  "answer_view sv dk ai attempt p now = andthen get_db (\<lambda>db.
     if \<not> tk_requires_manual_review (ta_task attempt) then ret (TaskPage (ta_id attempt) ''review_not_required'')
     else case prior_submission sv db (ap_operation_id p) of
       Some prior \<Rightarrow>
         if sm_attempt_id prior \<noteq> ta_id attempt \<or>
             sm_digest prior \<noteq> sv_digest sv (JArr [JStr (ap_client_answer p), JStr (ap_trainee_report p)])
         then ret (TaskPage (ta_id attempt) ''another_version_of_the_answer'')
         else ret (TaskPage (ta_id attempt) ''answer_already_sent'')
     | None \<Rightarrow> andthen (save_draft (ta_id attempt) p) (send_answer sv dk ai attempt p now))"

definition check_view ::
    "settings \<Rightarrow> services \<Rightarrow> env_docker \<Rightarrow> unit result option \<Rightarrow> SandboxUser \<Rightarrow> pk \<Rightarrow> answer_post \<Rightarrow> time
     \<Rightarrow> (sandbox_db, task_reply \<times> string option) op" where
  "check_view se sv dk ai user attempt_id p now =
     andthen (own_attempt (us_id user) attempt_id) (\<lambda>a. andthen get_db (\<lambda>db.
     let page = (\<lambda>tag. ret (only_reply (TaskPage attempt_id tag))) in
     if enabled_for se a then page ''http_observation''
     else if \<not> can_edit_client_answer db a \<and> \<not> ta_is_current a then page ''historical_attempt''
     else if \<not> is_available db a then ret (only_reply (Dashboard ''task_not_available''))
     else if ta_status a = ST_PASSED then page ''already_passed''
     else if ta_status a = ST_ON_REVIEW then page ''answer_is_under_review''
     else if ta_check_status a = CK_RUNNING then page ''check_is_running''
     else if technical_passed db a then andthen (answer_view sv dk ai a p now) (\<lambda>r. ret (only_reply r))
     else if being_built a then page ''environment_is_starting''
     else if ta_environment_status a = EN_ERROR then page ''environment_failed''
     else if ta_container_name a = [] then page ''start_the_task_first''
     else andthen (try_mark_attempt_check_running sv attempt_id (ap_operation_id p) now) (\<lambda>run.
       case run of
         None \<Rightarrow> page ''check_is_running''
       | Some r \<Rightarrow> ret (TaskPage attempt_id ''check_started'', Some r))))"

text \<open>\<^verbatim>\<open>start_attempt_check_in_background\<close> hands the run to the queue.\<close>

definition dispatch_check ::
    "(py_error \<Rightarrow> string) \<Rightarrow> unit result \<Rightarrow> pk \<Rightarrow> pk \<Rightarrow> time \<Rightarrow> task_reply \<times> string option \<Rightarrow> (sandbox_db, task_reply) op" where
  "dispatch_check describe delay attempt_id user_id now r =
     (case r of
        (reply, None) \<Rightarrow> ret reply
      | (reply, Some run_id) \<Rightarrow> (case delay of
            Inr _ \<Rightarrow> ret reply
          | Inl e \<Rightarrow> andthen (mark_background_check_error attempt_id user_id (describe e) (Some run_id) now) (\<lambda>_. raise e)))"

definition check_task ::
    "settings \<Rightarrow> services \<Rightarrow> env_docker \<Rightarrow> unit result option \<Rightarrow> (py_error \<Rightarrow> string) \<Rightarrow> unit result
     \<Rightarrow> SandboxUser \<Rightarrow> pk \<Rightarrow> answer_post \<Rightarrow> time \<Rightarrow> (sandbox_db, task_reply) op" where
  "check_task se sv dk ai describe delay user attempt_id p now =
     andthen (ledger_form sv (ap_operation_id p) attempt_id only_reply
       (andthen (check_view se sv dk ai user attempt_id p now) (\<lambda>r.
        andthen (dispatch_check describe delay attempt_id (us_id user) now r) (\<lambda>reply. ret (only_reply reply)))))
       (\<lambda>r. ret (fst r))"

text \<open>The worker that the queue starts.\<close>

definition run_attempt_check_background ::
    "settings \<Rightarrow> services \<Rightarrow> docker \<Rightarrow> (py_error \<Rightarrow> string) \<Rightarrow> pk \<Rightarrow> pk \<Rightarrow> string option \<Rightarrow> time \<Rightarrow> (sandbox_db, unit) op" where
  "run_attempt_check_background se sv dk describe attempt_id user_id run_id now = andthen get_db (\<lambda>db.
     if \<not> list_ex (\<lambda>a. ta_id a = attempt_id) (sb_attempts db) then ret ()
     else catch (andthen (checked_run se sv dk attempt_id user_id False run_id now) (\<lambda>_. ret ()))
       (\<lambda>e. mark_background_check_error attempt_id user_id (describe e) run_id now))"

section \<open>The mentor's decision\<close>

text \<open>The posted decision; an unknown one is read as \<open>NOT_REVIEWED\<close>.\<close>

definition posted_decision :: "string \<Rightarrow> MentorDecision" where
  "posted_decision s =
     (if s = ''approved'' then APPROVED else if s = ''needs_revision'' then NEEDS_REVISION else NOT_REVIEWED)"

record feedback_post =
  fp_decision :: string
  fp_feedback :: string
  fp_submission_id :: "pk option"
  fp_operation_id :: "string option"

definition feedback_fields :: "MentorDecision \<Rightarrow> string \<Rightarrow> pk \<Rightarrow> time \<Rightarrow> TaskAttempt \<Rightarrow> TaskAttempt" where
  "feedback_fields decision feedback actor now row =
     (let a = row\<lparr>ta_mentor_feedback := feedback, ta_mentor_decision := decision, ta_mentor_reviewed_by := Some actor,
            ta_mentor_reviewed_at := Some now, ta_mentor_feedback_seen_at := None\<rparr>
      in case decision of
           APPROVED \<Rightarrow> a\<lparr>ta_status := ST_PASSED, ta_finished_at := Some now\<rparr>
         | NEEDS_REVISION \<Rightarrow> a\<lparr>ta_status := ST_FAILED, ta_finished_at := None\<rparr>
         | NOT_REVIEWED \<Rightarrow> a)"

definition feedback_view :: "services \<Rightarrow> SandboxUser \<Rightarrow> pk \<Rightarrow> feedback_post \<Rightarrow> time \<Rightarrow> (sandbox_db, task_reply) op" where
  "feedback_view sv user attempt_id p now =
     (if \<not> us_is_staff user then ret (Dashboard ''staff_only'')
      else andthen (get_task_attempt attempt_id) (\<lambda>a. andthen get_db (\<lambda>db.
        if is_extra_attempt a then ret (TaskPage attempt_id ''practice_attempt'')
        else
          let decision = posted_decision (fp_decision p);
              duplicate = (fp_operation_id p \<notin> {None, Some []} \<and>
                list_ex (\<lambda>r. Inr (rv_operation_id r) = operation_id sv (fp_operation_id p)) (sb_reviews db))
          in andthen (catch (andthen (review_answer sv a user (decision_text decision) (py_strip (fp_feedback p))
                 (fp_submission_id p) (fp_operation_id p) now) (\<lambda>_. ret True))
               (\<lambda>e. case e of ValidationError _ \<Rightarrow> ret False | ValueError \<Rightarrow> ret False | _ \<Rightarrow> raise e)) (\<lambda>reviewed.
             if \<not> reviewed then ret (TaskPage attempt_id ''answer_version_changed'')
             else if duplicate then ret (TaskPage attempt_id ''decision_already_saved'')
             else andthen (update_attempt attempt_id (feedback_fields decision (py_strip (fp_feedback p)) (us_id user) now)) (\<lambda>_.
               ret (TaskPage attempt_id ''decision_saved''))))))"

definition save_mentor_feedback :: "services \<Rightarrow> SandboxUser \<Rightarrow> pk \<Rightarrow> feedback_post \<Rightarrow> time \<Rightarrow> (sandbox_db, task_reply) op" where
  "save_mentor_feedback sv user attempt_id p now =
     atomic (ledger_form sv (fp_operation_id p) attempt_id id (feedback_view sv user attempt_id p now))"

end
