(* ===== verification/Sandbox_Pages.thy ===== *)
theory Sandbox_Pages
  imports Sandbox_Views
begin

text \<open>
  What the pages of the sandbox tell about an attempt, and the authorization of terminals
  (\<^verbatim>\<open>sandbox/views.py\<close>). A viewer is a user; rendering, labels and the AI reviews are left out.
\<close>

section \<open>The page of a task\<close>

definition visible_attempt :: "SandboxUser \<Rightarrow> pk \<Rightarrow> (sandbox_db, TaskAttempt) op" where
  "visible_attempt user attempt_id =
     (if us_is_staff user then get_task_attempt attempt_id else own_attempt (us_id user) attempt_id)"

record task_page =
  tp_attempt :: TaskAttempt
  tp_is_mentor_view :: bool
  tp_submission_id :: "pk option"
  tp_manual_review_required :: bool
  tp_technical_part_passed :: bool
  tp_answer_can_be_edited :: bool
  tp_answer_is_locked :: bool
  tp_answer_is_collapsed :: bool
  tp_answer_is_hidden_before_technical_pass :: bool
  tp_answer_section_is_hidden :: bool

definition task_page_of :: "sandbox_db \<Rightarrow> TaskAttempt \<Rightarrow> bool \<Rightarrow> task_page" where
  "task_page_of db a is_mentor_view =
     (let required = tk_requires_manual_review (ta_task a);
          passed = technical_passed db a;
          locked = (required \<and> submitted a)
      in \<lparr>tp_attempt = a, tp_is_mentor_view = is_mentor_view,
          tp_submission_id = map_option sm_id (last_by sm_ordinal (filter (\<lambda>s. sm_attempt_id s = ta_id a) (sb_submissions db))),
          tp_manual_review_required = required, tp_technical_part_passed = passed,
          tp_answer_can_be_edited = (required \<and> can_edit_client_answer db a \<and> \<not> locked),
          tp_answer_is_locked = locked,
          tp_answer_is_collapsed = (required \<and> is_extra_attempt a \<and> ta_status a = ST_PASSED),
          tp_answer_is_hidden_before_technical_pass = (required \<and> ta_is_current a \<and> \<not> passed \<and> \<not> locked),
          tp_answer_section_is_hidden = (\<not> required \<and> ta_is_current a)\<rparr>)"

text \<open>Opening the page marks unread feedback as seen; \<open>None\<close> leads to the dashboard.\<close>

definition task_detail :: "SandboxUser \<Rightarrow> pk \<Rightarrow> time \<Rightarrow> (sandbox_db, task_page option) op" where
  "task_detail user attempt_id now =
     andthen (visible_attempt user attempt_id) (\<lambda>a.
     if us_is_staff user then andthen get_db (\<lambda>db. ret (Some (task_page_of db a True)))
     else let seen = has_unread_mentor_feedback a;
            a' = (if seen then a\<lparr>ta_mentor_feedback_seen_at := Some now\<rparr> else a)
       in andthen (if seen then update_attempt attempt_id (\<lambda>row. row\<lparr>ta_mentor_feedback_seen_at := Some now\<rparr>) else ret ()) (\<lambda>_.
          andthen get_db (\<lambda>db.
          if \<not> is_available db a' then ret None else ret (Some (task_page_of db a' False)))))"

section \<open>Polling\<close>

record check_status_reply =
  cs_attempt_id :: pk
  cs_attempt_status :: Status
  cs_check_status :: CheckStatus
  cs_check_started_at :: "time option"
  cs_check_finished_at :: "time option"
  cs_technical_passed :: bool
  cs_last_check_output :: string
  cs_is_running :: bool
  cs_is_finished :: bool

text \<open>\<open>None\<close> is the answer 403, for a task that is not available yet.\<close>

definition check_task_status :: "SandboxUser \<Rightarrow> pk \<Rightarrow> (sandbox_db, check_status_reply option) op" where
  "check_task_status user attempt_id =
     andthen (visible_attempt user attempt_id) (\<lambda>a. andthen get_db (\<lambda>db.
     if \<not> us_is_staff user \<and> \<not> is_available db a then ret None
     else ret (Some \<lparr>cs_attempt_id = ta_id a, cs_attempt_status = ta_status a, cs_check_status = ta_check_status a,
       cs_check_started_at = ta_check_started_at a, cs_check_finished_at = ta_check_finished_at a,
       cs_technical_passed = technical_passed db a, cs_last_check_output = ta_last_check_output a,
       cs_is_running = (ta_check_status a = CK_RUNNING),
       cs_is_finished = (ta_check_status a \<in> {CK_PASSED, CK_FAILED, CK_ERROR})\<rparr>)))"

record environment_status_reply =
  es_attempt_id :: pk
  es_attempt_status :: Status
  es_environment_status :: EnvironmentStatus
  es_environment_ready :: bool
  es_last_check_output :: string
  es_is_running :: bool
  es_is_finished :: bool

definition environment_status :: "SandboxUser \<Rightarrow> pk \<Rightarrow> (sandbox_db, environment_status_reply) op" where
  "environment_status user attempt_id =
     andthen (visible_attempt user attempt_id) (\<lambda>a.
     ret \<lparr>es_attempt_id = ta_id a, es_attempt_status = ta_status a, es_environment_status = ta_environment_status a,
       es_environment_ready = (ta_environment_status a = EN_READY), es_last_check_output = ta_last_check_output a,
       es_is_running = being_built a, es_is_finished = (ta_environment_status a \<in> {EN_READY, EN_ERROR})\<rparr>)"

section \<open>Terminals\<close>

text \<open>
  The reason of a refusal with its status, or 204 with the upstream of the terminal, if the gateway
  forwards by name. \<open>address\<close> is what the URL of the request says, if anything, and \<open>uri\<close> the
  address that the gateway forwards.
\<close>

datatype terminal_reply = Denied nat string | Forward "string option"

definition authorize_terminal ::
    "gateway \<Rightarrow> sandbox_db \<Rightarrow> SandboxUser option \<Rightarrow> nat \<Rightarrow> nat option \<Rightarrow> terminal_reply" where
  "authorize_terminal gw db viewer attempt_id port =
     (if \<not> gw_docker_network gw \<and> port = None then Denied 403 ''invalid_original_uri''
      else case viewer of
        None \<Rightarrow> Denied 401 ''anonymous''
      | Some user \<Rightarrow> (case List.find (\<lambda>a. ta_id a = attempt_id) (sb_attempts db) of
          None \<Rightarrow> Denied 403 ''attempt_not_found''
        | Some a \<Rightarrow>
            if ta_user_id a \<noteq> us_id user \<and> \<not> us_is_staff user then Denied 403 ''forbidden_user''
            else if \<not> gw_docker_network gw \<and> ta_terminal_port a \<noteq> port then Denied 403 ''wrong_port''
            else if ta_terminal_container_name a = [] then Denied 403 ''missing_terminal_container''
            else if ta_terminal_url a = [] then Denied 403 ''empty_terminal_url''
            else if \<not> can_access_terminal db a then Denied 403 ''terminal_not_available''
            else if \<not> is_available db a then Denied 403 ''attempt_not_available''
            else Forward (if gw_docker_network gw then Some (ta_terminal_container_name a @ '':7681'') else None)))"

definition terminal_auth ::
    "gateway \<Rightarrow> sandbox_db \<Rightarrow> SandboxUser option \<Rightarrow> (nat \<times> nat option) option \<Rightarrow> string \<Rightarrow> terminal_reply" where
  "terminal_auth gw db viewer address uri =
     (case (case address of None \<Rightarrow> parse_terminal_uri gw uri | Some a \<Rightarrow> Some a) of
        None \<Rightarrow> Denied 403 ''invalid_original_uri''
      | Some (attempt_id, port) \<Rightarrow> authorize_terminal gw db viewer attempt_id port)"

end
