(* ===== verification/Environment_Theorems.thy ===== *)
theory Environment_Theorems
  imports Environment_Runs Sandbox_Pages
begin

text \<open>
  Histories of environment operations, and the property that the counter of resets follows the
  ledger in all of them.
\<close>

section \<open>What the two halves of a run do\<close>

lemma create_env_event_Inr:
  assumes "create_env_event new s = (Inr row, t)"
  shows "row = new\<lparr>ev_id := fresh_pk (map ev_id (sb_env_events s))\<rparr> \<and> t = s\<lparr>sb_env_events := sb_env_events s @ [row]\<rparr>"
  using assms by (auto simp: create_env_event_def andthen_Inr_iff op_apply insert_unless_def Let_def split: if_splits)

lemma request_environment_row:
  assumes "request_environment sv attempt kind actor origin op_id now s = (Inr (r, b), t)"
  shows "r \<in> set (sb_env_events t) \<and> ev_phase r = EP_REQUESTED \<and> ev_attempt_id r = ta_id attempt \<and> ev_kind r = kind"
proof -
  from assms obtain op u where u: "(case List.find (\<lambda>e. ev_operation_id e = op \<and> ev_phase e = EP_REQUESTED) (sb_env_events u) of
       Some old \<Rightarrow>
         if (ev_attempt_id old, ev_kind old, ev_origin old, ev_actor_id old) \<noteq>
            (ta_id attempt, kind, origin, map_option us_id actor)
         then raise (ValidationError ''operation_id_conflict'')
         else ret (old, False)
     | None \<Rightarrow> andthen (observe attempt) (\<lambda>_.
         andthen (create_env_event
           \<lparr>ev_id = 0, ev_operation_id = op, ev_attempt_id = ta_id attempt,
            ev_user_id = ta_user_id attempt, ev_task_id = tk_id (ta_task attempt),
            ev_attempt_number = ta_attempt_number attempt, ev_kind = kind, ev_phase = EP_REQUESTED,
            ev_actor_id = map_option us_id actor, ev_origin = origin, ev_requested_at = now,
            ev_occurred_at = now, ev_outcome = ''unknown'', ev_reason = []\<rparr>) (\<lambda>event.
         ret (event, True)))) u = (Inr (r, b), t)"
    unfolding request_environment_def atomic_Inr_iff andthen_Inr_iff
    by (clarsimp simp: andthen_Inr_iff op_apply split: if_splits)
  show ?thesis
  proof (cases "List.find (\<lambda>e. ev_operation_id e = op \<and> ev_phase e = EP_REQUESTED) (sb_env_events u)")
    case None
    with u show ?thesis by (auto simp: andthen_Inr_iff op_apply dest!: create_env_event_Inr)
  next
    case (Some old)
    with u find_Some_member [OF Some] show ?thesis by (simp add: op_apply split: if_splits)
  qed
qed

lemma registered_request_row:
  assumes "registered_request sv attempt kind op_id actor origin now s = (Inr r, t)"
  shows "r \<in> set (sb_env_events t) \<and> ev_phase r = EP_REQUESTED \<and> ev_attempt_id r = ta_id attempt \<and> ev_kind r = kind"
  using assms
  by (auto simp: registered_request_def andthen_Inr_iff op_apply split: if_splits option.splits
      dest: find_Some_member dest!: request_environment_row)

lemma environment_phase_new:
  assumes "environment_phase r phase outcome reason now s = (Inr x, t)"
    and "\<not> list_ex (\<lambda>e. ev_operation_id e = ev_operation_id r \<and> ev_phase e = phase) (sb_env_events s)"
  shows "\<exists>i. t = s\<lparr>sb_env_events := sb_env_events s @ [r\<lparr>ev_phase := phase, ev_occurred_at := now,
    ev_outcome := outcome, ev_reason := reason, ev_id := i\<rparr>]\<rparr>"
  using assms
  by (auto simp: environment_phase_def andthen_Inr_iff op_apply list_ex_iff split: option.splits
      dest: find_Some_member dest!: create_env_event_Inr)

definition open_operation :: "sandbox_db \<Rightarrow> string \<Rightarrow> bool" where
  "open_operation db op \<longleftrightarrow> \<not> environment_finished db op"

definition started_event :: "SandboxEnvironmentEvent \<Rightarrow> SandboxEnvironmentEvent \<Rightarrow> bool" where
  "started_event r e \<longleftrightarrow> ev_phase e = EP_STARTED \<and> ev_operation_id e = ev_operation_id r \<and>
     ev_attempt_id e = ev_attempt_id r \<and> ev_kind e = ev_kind r"

text \<open>A run that begins: every other operation of the attempt is finished, and its start is recorded.\<close>

lemma begin_run_Some:
  assumes "begin_run sv kind i op_id actor origin now s = (Inr (Some (a, r)), t)"
  shows "\<exists>u e. quiet s u \<and> ledger_step s u \<and> r \<in> set (sb_env_events u) \<and> ev_phase r = EP_REQUESTED \<and>
    ev_attempt_id r = i \<and> a \<in> set (sb_attempts t) \<and> ta_id a = i \<and>
    (\<forall>q \<in> set (sb_env_events u). ev_phase q = EP_REQUESTED \<and> ev_attempt_id q = i \<and>
       ev_operation_id q \<noteq> ev_operation_id r \<longrightarrow> \<not> open_operation u (ev_operation_id q)) \<and>
    \<not> environment_begun (ev_operation_id r) u \<and> started_event r e \<and>
    t = u\<lparr>sb_env_events := sb_env_events u @ [e]\<rparr>"
proof -
  from assms obtain b where b: "b \<in> set (sb_attempts s)" "ta_id b = i"
      "begin_environment sv b kind op_id actor origin now s = (Inr (r, True), t)"
    and a: "List.find (\<lambda>a. ta_id a = i) (sb_attempts t) = Some a"
    by (auto simp: begin_run_def andthen_Inr_iff op_apply get_task_attempt_Inr_iff split: if_splits
        dest: find_Some_member)
  from b(3) obtain u x where u: "registered_request sv b kind op_id actor origin now s = (Inr r, u)"
      and fresh: "\<not> environment_begun (ev_operation_id r) u"
      and alone: "\<not> list_ex (\<lambda>e. ev_attempt_id e = i \<and> ev_phase e = EP_REQUESTED \<and>
        ev_operation_id e \<noteq> ev_operation_id r \<and> \<not> environment_finished u (ev_operation_id e)) (sb_env_events u)"
      and x: "environment_phase r EP_STARTED ''unknown'' [] now u = (Inr x, t)"
    using b(2)
    by (auto simp: begin_environment_def atomic_Inr_iff andthen_Inr_iff get_task_attempt_Inr_iff
        claim_environment_def op_apply Let_def environment_begun_def split: if_splits)
  have "\<not> list_ex (\<lambda>e. ev_operation_id e = ev_operation_id r \<and> ev_phase e = EP_STARTED) (sb_env_events u)"
    using fresh by (auto simp: environment_begun_def list_ex_iff)
  from environment_phase_new [OF x this] obtain k where
    t: "t = u\<lparr>sb_env_events := sb_env_events u @ [r\<lparr>ev_phase := EP_STARTED, ev_occurred_at := now,
      ev_outcome := ''unknown'', ev_reason := [], ev_id := k\<rparr>]\<rparr>" by blast
  have "quiet s u" "ledger_step s u"
    using keepsD [OF quiet_registered_request u] keepsD [OF grows_registered_request u] by auto
  moreover have "r \<in> set (sb_env_events u) \<and> ev_phase r = EP_REQUESTED \<and> ev_attempt_id r = i"
    using registered_request_row [OF u] b(2) by simp
  moreover have "a \<in> set (sb_attempts t) \<and> ta_id a = i" using a by (auto dest: find_Some_member)
  ultimately show ?thesis
    using alone fresh t
    by (intro exI [of _ u] exI [of _ "r\<lparr>ev_phase := EP_STARTED, ev_occurred_at := now,
      ev_outcome := ''unknown'', ev_reason := [], ev_id := k\<rparr>"])
      (auto simp: list_ex_iff started_event_def open_operation_def)
qed

text \<open>A run that writes its result: the operation was open, and its success is recorded with it.\<close>

lemma save_ready_Inr:
  assumes "save_ready a r mark now s = (Inr x, t)"
  shows "open_operation s (ev_operation_id r) \<and>
    (\<exists>i. t = s\<lparr>sb_attempts := map (\<lambda>row. if ta_id row = ta_id a then mark row else row) (sb_attempts s),
      sb_env_events := sb_env_events s @ [r\<lparr>ev_phase := EP_FINISHED, ev_occurred_at := now,
        ev_outcome := ''success'', ev_reason := [], ev_id := i\<rparr>]\<rparr>)"
proof -
  from assms obtain u y where live: "open_operation s (ev_operation_id r)"
    and u: "u = s\<lparr>sb_attempts := map (\<lambda>row. if ta_id row = ta_id a then mark row else row) (sb_attempts s)\<rparr>"
    and y: "environment_phase r EP_FINISHED ''success'' [] now u = (Inr y, t)"
    by (auto simp: save_ready_def atomic_Inr_iff andthen_Inr_iff op_apply get_task_attempt_Inr_iff environment_live_def
        update_attempt_def open_operation_def split: if_splits)
  from live u have "\<not> list_ex (\<lambda>e. ev_operation_id e = ev_operation_id r \<and> ev_phase e = EP_FINISHED) (sb_env_events u)"
    by (simp add: open_operation_def environment_finished_def)
  from environment_phase_new [OF y this] live u show ?thesis by auto
qed

lemma quiet_save_ready_Inl: "save_ready a r mark now s = (Inl e, t) \<Longrightarrow> t = s"
  unfolding save_ready_def by (rule atomic_rollback)

section \<open>Everything else is calm\<close>

definition calm :: "sandbox_db \<Rightarrow> sandbox_db \<Rightarrow> bool" where
  "calm s t \<longleftrightarrow> quiet s t \<and> ledger_step s t"

interpretation calm: effect_order calm
  by unfold_locales (auto simp: calm_def intro: quiet.unchanged grows.unchanged quiet.chained grows.chained)

lemma calmI: "keeps quiet m \<Longrightarrow> keeps ledger_step m \<Longrightarrow> keeps calm m"
  by (simp add: keeps_def calm_def)

lemma calm_update: "(\<And>a. ta_id (f a) = ta_id a \<and> ta_restart_count (f a) = ta_restart_count a) \<Longrightarrow>
    keeps calm (update_attempt i f)"
  by (intro calmI quiet_update grows_update_attempt)

lemma calm_save_review: "keeps calm (save_review submission new)"
  unfolding save_review_def
  by (intro calm.keeps_intros calmI [OF quiet_get_task_attempt grows_get_task_attempt] calmI [OF quiet_insert grows_insert])
    (simp_all add: quiet_sameI counters_def ledger_step_def ledger_extends_def ledger_keys_def)

lemmas calm_rows = calmI [OF quiet_get_task_attempt grows_get_task_attempt] calmI [OF quiet_observe grows_observe]
  calmI [OF quiet_rows(4) grows_submission] calmI [OF quiet_rows(5) grows_gap] calmI [OF quiet_publish grows_publish]

lemmas calm_environment = calmI [OF quiet_marks(3) grows_marks(3)] calmI [OF quiet_marks(4) grows_marks(4)]
  calmI [OF quiet_start_in_background grows_start_in_background] calmI [OF quiet_cleanup grows_cleanup]
  calmI [OF quiet_background_error grows_background_environment_error]

lemmas calm_checks = calmI [OF quiet_try_check grows_try_mark] calmI [OF quiet_checked_run grows_checked_run]
  calmI [OF quiet_background_check_error grows_background_error]

lemmas calm_basic = calm.keeps_intros calm_rows calm_environment calm_checks

lemma calm_ledger_form: "keeps calm view \<Longrightarrow> keeps calm (ledger_form sv op_id i reply view)"
  unfolding ledger_form_def
  by (intro calm.keeps_catch calm.keeps_andthen calm.keeps_if)
    (auto intro: calm.keeps_intros split: py_error.split)

lemma calm_own_attempt: "keeps calm (own_attempt user_id i)"
  unfolding own_attempt_def by (intro calm_basic)

lemma calm_start: "keeps calm (start_task sv describe delay user i op_id now)"
  unfolding start_task_def start_view_def hand_over_def
  by (intro calm_basic calm_ledger_form calm_own_attempt)

lemma calm_restart: "keeps calm (restart_task sv describe delay user i op_id now)"
  unfolding restart_task_def restart_view_def hand_over_def
  by (intro calm_basic calm_ledger_form calm_own_attempt)

lemma calm_submit_answer: "keeps calm (submit_answer sv attempt answer report op_id now)"
  unfolding submit_answer_def by (intro calm_basic)

lemma calm_review_answer: "keeps calm (review_answer sv attempt actor decision comment submission_id op_id now)"
  unfolding review_answer_def by (intro calm_basic calm_save_review)

lemma calm_answer_view: "keeps calm (answer_view sv dk ai attempt p now)"
proof -
  have "keeps calm (submit_draft sv ai attempt p now)"
    unfolding submit_draft_def
    by (intro calm_basic calm_submit_answer calm_update) (simp add: answer_fields_def)
  moreover have "keeps calm (save_draft i p)" for i
    unfolding save_draft_def by (intro calm_basic calm_update) (simp add: draft_fields_def)
  ultimately show ?thesis
    unfolding answer_view_def send_answer_def try_submit_def after_sending_def
    by (intro calm_basic) (auto intro: calm_basic split: py_error.split option.split bool.split)
qed

lemma calm_check_task: "keeps calm (check_task se sv dk ai describe delay user i p now)"
  unfolding check_task_def check_view_def dispatch_check_def Let_def
  by (intro calm_basic calm_ledger_form calm_own_attempt calm_answer_view)

lemma calm_check_worker: "keeps calm (run_attempt_check_background se sv dk describe i user_id run_id now)"
  unfolding run_attempt_check_background_def by (intro calm_basic)

lemma calm_feedback: "keeps calm (save_mentor_feedback sv user i p now)"
proof -
  have "ta_id (feedback_fields d f u now a) = ta_id a \<and> ta_restart_count (feedback_fields d f u now a) = ta_restart_count a"
    for d f u a by (cases d) (simp_all add: feedback_fields_def)
  then show ?thesis
    unfolding save_mentor_feedback_def feedback_view_def Let_def
    by (intro calm_basic calm_ledger_form calm_update)
      (auto intro: calm.keeps_intros calm_review_answer split: py_error.split)
qed

lemma calm_task_detail: "keeps calm (task_detail user i now)"
  unfolding task_detail_def visible_attempt_def Let_def
  by (intro calm_basic calm_own_attempt calm_update) simp

section \<open>Histories\<close>

text \<open>What users, the check worker and the error handlers do to the attempts.\<close>

inductive attempt_request :: "sandbox_db \<Rightarrow> sandbox_db \<Rightarrow> bool" where
  "attempt_request s (snd (start_task sv describe delay user i op_id now s))"
| "attempt_request s (snd (restart_task sv describe delay user i op_id now s))"
| "attempt_request s (snd (check_task se sv dk ai describe delay user i p now s))"
| "attempt_request s (snd (run_attempt_check_background se sv dk' describe i user_id run_id now s))"
| "attempt_request s (snd (save_mentor_feedback sv user i fp now s))"
| "attempt_request s (snd (task_detail user i now s))"
| "attempt_request s (snd (cleanup_attempt_environment dk attempt s))"
| "attempt_request s (snd (mark_background_environment_error sv kind i err op_id now s))"

lemma attempt_request_calm: "attempt_request s t \<Longrightarrow> calm s t"
  by (induction rule: attempt_request.induct)
    (rule calm.run_keeps, rule calm_start calm_restart calm_check_task calm_check_worker calm_feedback
      calm_task_detail calm_environment)+

text \<open>
  A state is the database with the workers that are between the halves of a run. A worker may begin,
  be refused, write what it has built, possibly late or twice, or be lost.
\<close>

inductive run_step :: "sandbox_db \<times> env_worker list \<Rightarrow> sandbox_db \<times> env_worker list \<Rightarrow> bool" where
  run_request: "attempt_request s t \<Longrightarrow> run_step (s, ws) (t, ws)"
| run_begin: "begin_run sv kind i op_id actor origin now s = (Inr (Some w), t) \<Longrightarrow> run_step (s, ws) (t, w # ws)"
| run_refused: "begin_run sv kind i op_id actor origin now s = (Inr None, t) \<Longrightarrow> run_step (s, ws) (t, ws)"
| run_write: "w \<in> set ws \<Longrightarrow> run_step (s, ws) (snd (finish_run gw dk w now s), ws)"
| run_lost: "run_step (s, w # ws) (s, ws)"

lemma begin_run_None_quiet:
  assumes "begin_run sv kind i op_id actor origin now s = (Inr None, t)"
  shows "quiet s t"
proof -
  from assms obtain b r where b: "b \<in> set (sb_attempts s)" "ta_id b = i"
      "begin_environment sv b kind op_id actor origin now s = (Inr (r, False), t)"
    by (auto simp: begin_run_def andthen_Inr_iff op_apply get_task_attempt_Inr_iff split: if_splits
        dest: find_Some_member)
  then obtain u where u: "registered_request sv b kind op_id actor origin now s = (Inr r, u)"
      and claim: "claim_environment b r now u = (Inr (r, False), t)"
    by (auto simp: begin_environment_def atomic_Inr_iff andthen_Inr_iff get_task_attempt_Inr_iff
        claim_environment_def op_apply Let_def split: if_splits)
  have "quiet u t"
  proof -
    have d: "keeps quiet (environment_phase r EP_DUPLICATE ''unknown'' ''duplicate_delivery'' now)"
      "keeps quiet (environment_phase r EP_FINISHED ''not_started'' ''already_running'' now)"
      by (auto intro: quiet_phase)
    from claim show ?thesis
      by (auto simp: claim_environment_def andthen_Inr_iff op_apply Let_def split: if_splits
          dest: keepsD [OF d(1)] keepsD [OF d(2)])
  qed
  with keepsD [OF quiet_registered_request u] show ?thesis by (rule quiet.chained)
qed

text \<open>The second half leaves the state quiet, or writes the result of an operation that was open.\<close>

lemma finish_run_cases:
  obtains "quiet s (snd (finish_run gw dk (a, r) now s))"
  | mark i where "open_operation s (ev_operation_id r)"
      and "\<And>row. ta_id (mark row) = ta_id row"
      and "\<And>row. ta_restart_count (mark row) =
        (if ev_kind r = KIND_RESET then ta_restart_count a + 1 else ta_restart_count row)"
      and "snd (finish_run gw dk (a, r) now s) = s\<lparr>
        sb_attempts := map (\<lambda>row. if ta_id row = ta_id a then mark row else row) (sb_attempts s),
        sb_env_events := sb_env_events s @ [r\<lparr>ev_phase := EP_FINISHED, ev_occurred_at := now,
          ev_outcome := ''success'', ev_reason := [], ev_id := i\<rparr>]\<rparr>"
proof -
  let ?run = "if ev_kind r = KIND_RESET then run_environment_restart gw dk a r now
    else run_environment_start gw dk a r now"
  obtain x t where run: "?run s = (x, t)" by (cases "?run s")
  show ?thesis
  proof (cases x)
    case (Inl e)
    with run have "t = s"
      by (auto simp: run_environment_restart_def run_environment_start_def andthen_def op_apply
          dest: quiet_save_ready_Inl split: if_splits sum.splits)
    with Inl run have "snd (finish_run gw dk (a, r) now s) = snd ((close_environment r (ta_id a) now e :: (sandbox_db, unit) op) s)"
      by (simp add: finish_run_def catch_def)
    with that(1) show ?thesis
      using quiet.run_keeps [OF quiet_close_environment, of s r "ta_id a" now e] by metis
  next
    case (Inr u)
    with run have t: "snd (finish_run gw dk (a, r) now s) = t" by (simp add: finish_run_def catch_def)
    let ?mark = "\<lambda>b. if ev_kind r = KIND_RESET then restarted_fields a b now
         else ready_fields a b ''container_created'' now"
    from run Inr obtain b where "save_ready a r (?mark b) now s = (Inr u, t)"
      by (auto simp: run_environment_restart_def run_environment_start_def andthen_Inr_iff op_apply split: if_splits)
    from save_ready_Inr [OF this] t obtain k where "open_operation s (ev_operation_id r)"
      and "snd (finish_run gw dk (a, r) now s) = s\<lparr>
        sb_attempts := map (\<lambda>row. if ta_id row = ta_id a then ?mark b row else row) (sb_attempts s),
        sb_env_events := sb_env_events s @ [r\<lparr>ev_phase := EP_FINISHED, ev_occurred_at := now,
          ev_outcome := ''success'', ev_reason := [], ev_id := k\<rparr>]\<rparr>" by blast
    then show ?thesis
      by (intro that(2) [where mark = "?mark b" and i = k]) (simp_all add: ready_fields_def restarted_fields_def)
  qed
qed

section \<open>The invariant of a history\<close>

definition resets_of :: "sandbox_db \<Rightarrow> pk \<Rightarrow> nat" where
  "resets_of db i = length (filter (\<lambda>e. ev_attempt_id e = i \<and> ev_kind e = KIND_RESET \<and> succeeded e) (sb_env_events db))"

text \<open>Starts and successes belong to requests, and of an attempt at most one started operation is open.\<close>

definition operations_linked :: "sandbox_db \<Rightarrow> bool" where
  "operations_linked db \<longleftrightarrow> (\<forall>e \<in> set (sb_env_events db). ev_phase e = EP_STARTED \<or> succeeded e \<longrightarrow>
     (\<exists>r \<in> set (sb_env_events db). ev_phase r = EP_REQUESTED \<and> ev_operation_id r = ev_operation_id e \<and>
        ev_attempt_id r = ev_attempt_id e \<and> ev_kind r = ev_kind e))"

definition one_open :: "sandbox_db \<Rightarrow> bool" where
  "one_open db \<longleftrightarrow> (\<forall>e \<in> set (sb_env_events db). \<forall>e' \<in> set (sb_env_events db).
     ev_phase e = EP_STARTED \<and> ev_phase e' = EP_STARTED \<and> ev_attempt_id e = ev_attempt_id e' \<and>
     open_operation db (ev_operation_id e) \<and> open_operation db (ev_operation_id e') \<longrightarrow>
     ev_operation_id e = ev_operation_id e')"

definition counted :: "(pk \<Rightarrow> nat) \<Rightarrow> sandbox_db \<Rightarrow> bool" where
  "counted base db \<longleftrightarrow> (\<forall>(i, n) \<in> set (counters db). n = base i + resets_of db i)"

text \<open>A worker holds the counter of its attempt for as long as its operation is open.\<close>

definition worker_ready :: "sandbox_db \<Rightarrow> env_worker \<Rightarrow> bool" where
  "worker_ready db w \<longleftrightarrow> (case w of (a, r) \<Rightarrow> r \<in> set (sb_env_events db) \<and> ev_phase r = EP_REQUESTED \<and>
     ev_attempt_id r = ta_id a \<and> (\<exists>e \<in> set (sb_env_events db). started_event r e) \<and>
     (open_operation db (ev_operation_id r) \<longrightarrow> (\<forall>n. (ta_id a, n) \<in> set (counters db) \<longrightarrow> n = ta_restart_count a)))"

definition runs_inv :: "(pk \<Rightarrow> nat) \<Rightarrow> sandbox_db \<times> env_worker list \<Rightarrow> bool" where
  "runs_inv base = (\<lambda>(db, ws). operations_linked db \<and> one_open db \<and> counted base db \<and>
     (\<forall>w \<in> set ws. worker_ready db w))"

lemma open_before: "sb_env_events t = sb_env_events s @ es \<Longrightarrow> open_operation t op \<Longrightarrow> open_operation s op"
  by (auto simp: open_operation_def environment_finished_def)

lemma quiet_resets: "quiet s t \<Longrightarrow> resets_of t i = resets_of s i"
  by (auto simp: quiet_def resets_of_def filter_empty_conv)

lemma runs_inv_quiet:
  assumes "runs_inv base (s, ws)" and "quiet s t"
  shows "runs_inv base (t, ws)"
proof -
  from assms(2) obtain es where es: "counters t = counters s" "sb_env_events t = sb_env_events s @ es"
    "\<And>e. e \<in> set es \<Longrightarrow> ev_phase e \<noteq> EP_STARTED \<and> \<not> succeeded e" by (auto simp: quiet_def)
  note before = open_before [OF es(2)]
  have "operations_linked t" using assms(1) es unfolding runs_inv_def operations_linked_def by fastforce
  moreover have "one_open t"
  proof -
    have "one_open s" using assms(1) by (simp add: runs_inv_def)
    then show ?thesis unfolding one_open_def using es(2,3) before by (metis Un_iff set_append)
  qed
  moreover have "counted base t"
    using assms(1) es(1) quiet_resets [OF assms(2)] by (simp add: runs_inv_def counted_def)
  moreover have "worker_ready t w" if "w \<in> set ws" for w
    using assms(1) that es(1,2) before by (fastforce simp: runs_inv_def worker_ready_def)
  ultimately show ?thesis by (simp add: runs_inv_def)
qed

text \<open>An event of a request that is known keeps the operations linked.\<close>

lemma operations_linked_append:
  assumes "operations_linked s" and "sb_env_events t = sb_env_events s @ [e]" and "r \<in> set (sb_env_events s)"
    and "ev_phase r = EP_REQUESTED" and "ev_operation_id e = ev_operation_id r" and "ev_attempt_id e = ev_attempt_id r"
    and "ev_kind e = ev_kind r"
  shows "operations_linked t"
  unfolding operations_linked_def
proof (intro ballI impI)
  fix x assume x: "x \<in> set (sb_env_events t)" "ev_phase x = EP_STARTED \<or> succeeded x"
  have kept: "set (sb_env_events s) \<subseteq> set (sb_env_events t)" using assms(2) by auto
  show "\<exists>q \<in> set (sb_env_events t). ev_phase q = EP_REQUESTED \<and> ev_operation_id q = ev_operation_id x \<and>
      ev_attempt_id q = ev_attempt_id x \<and> ev_kind q = ev_kind x"
  proof (cases "x = e")
    case True
    with assms(3-7) kept show ?thesis by (intro bexI [of _ r]) auto
  next
    case False
    with x assms(2) have "x \<in> set (sb_env_events s)" by simp
    with x(2) assms(1) kept show ?thesis unfolding operations_linked_def by blast
  qed
qed

lemma runs_inv_begin:
  assumes inv: "runs_inv base (s, ws)" and run: "begin_run sv kind i op_id actor origin now s = (Inr (Some (a, r)), t)"
  shows "runs_inv base (t, (a, r) # ws)"
proof -
  from begin_run_Some [OF run] obtain u e where u: "quiet s u"
    and r: "r \<in> set (sb_env_events u)" "ev_phase r = EP_REQUESTED" "ev_attempt_id r = i"
    and a: "a \<in> set (sb_attempts t)" "ta_id a = i"
    and others: "\<And>q. q \<in> set (sb_env_events u) \<Longrightarrow> ev_phase q = EP_REQUESTED \<Longrightarrow> ev_attempt_id q = i \<Longrightarrow>
       ev_operation_id q \<noteq> ev_operation_id r \<Longrightarrow> \<not> open_operation u (ev_operation_id q)"
    and e: "started_event r e" and t: "t = u\<lparr>sb_env_events := sb_env_events u @ [e]\<rparr>" by blast
  have inv_u: "runs_inv base (u, ws)" using runs_inv_quiet [OF inv u] .
  have same: "counters t = counters u" "sb_env_events t = sb_env_events u @ [e]" using t by (simp_all add: counters_def)
  have resets: "resets_of t j = resets_of u j" for j
    using e same(2) by (simp add: resets_of_def started_event_def succeeded_def)
  have finished: "open_operation t op \<longleftrightarrow> open_operation u op" for op
    using e same(2) by (simp add: open_operation_def environment_finished_def started_event_def)
  have "operations_linked t"
    using inv_u e by (intro operations_linked_append [OF _ same(2) r(1,2)]) (auto simp: runs_inv_def started_event_def)
  moreover have "one_open t"
  proof -
    have other: "ev_operation_id e' = ev_operation_id r" if e': "e' \<in> set (sb_env_events u)" "ev_phase e' = EP_STARTED"
      "ev_attempt_id e' = i" "open_operation u (ev_operation_id e')" for e'
    proof -
      from inv_u e' obtain q where "q \<in> set (sb_env_events u)" "ev_phase q = EP_REQUESTED"
        "ev_operation_id q = ev_operation_id e'" "ev_attempt_id q = i"
        unfolding runs_inv_def operations_linked_def by auto
      with others e'(4) show ?thesis by metis
    qed
    have "one_open u" using inv_u by (simp add: runs_inv_def)
    with other e r(3) show ?thesis
      unfolding one_open_def finished same(2) started_event_def by auto
  qed
  moreover have counted: "counted base t"
    using inv_u resets by (simp add: runs_inv_def counted_def same(1))
  moreover have "worker_ready t w" if "w \<in> set ws" for w
  proof -
    have "worker_ready u w" using inv_u that by (simp add: runs_inv_def)
    then show ?thesis using same finished by (auto simp: worker_ready_def)
  qed
  moreover have "worker_ready t (a, r)"
  proof -
    have "n = ta_restart_count a" if "(ta_id a, n) \<in> set (counters t)" for n
      using counted that a(1) unfolding counted_def counters_def by auto
    then show ?thesis using r a(2) e same(2) by (auto simp: worker_ready_def)
  qed
  ultimately show ?thesis by (simp add: runs_inv_def)
qed

lemma runs_inv_write:
  assumes inv: "runs_inv base (s, ws)" and w: "(a, r) \<in> set ws" and live: "open_operation s (ev_operation_id r)"
    and mark: "\<And>row. ta_id (mark row) = ta_id row"
      "\<And>row. ta_restart_count (mark row) = (if ev_kind r = KIND_RESET then ta_restart_count a + 1 else ta_restart_count row)"
    and t: "t = s\<lparr>sb_attempts := map (\<lambda>row. if ta_id row = ta_id a then mark row else row) (sb_attempts s),
        sb_env_events := sb_env_events s @ [r\<lparr>ev_phase := EP_FINISHED, ev_occurred_at := now,
          ev_outcome := ''success'', ev_reason := [], ev_id := k\<rparr>]\<rparr>"
  shows "runs_inv base (t, ws)"
proof -
  let ?e = "r\<lparr>ev_phase := EP_FINISHED, ev_occurred_at := now, ev_outcome := ''success'', ev_reason := [], ev_id := k\<rparr>"
  have ev: "sb_env_events t = sb_env_events s @ [?e]" using t by simp
  have "worker_ready s (a, r)" using inv w by (simp add: runs_inv_def)
  then obtain e where r: "r \<in> set (sb_env_events s)" "ev_phase r = EP_REQUESTED" "ev_attempt_id r = ta_id a"
    and e: "e \<in> set (sb_env_events s)" "started_event r e"
    and count: "\<And>n. (ta_id a, n) \<in> set (counters s) \<Longrightarrow> n = ta_restart_count a"
    using live unfolding worker_ready_def by blast
  have finished: "open_operation t op \<longleftrightarrow> open_operation s op \<and> op \<noteq> ev_operation_id r" for op
    by (auto simp: open_operation_def environment_finished_def ev)
  have resets: "resets_of t i = resets_of s i + (if i = ta_id a \<and> ev_kind r = KIND_RESET then 1 else 0)" for i
    using r(3) by (auto simp: resets_of_def ev succeeded_def)
  have all: "counters t = map (\<lambda>(i, n). (i, if i = ta_id a \<and> ev_kind r = KIND_RESET then ta_restart_count a + 1 else n)) (counters s)"
    using t mark by (simp add: counters_def)
  have counters: "(i, n) \<in> set (counters t) \<longleftrightarrow> (if i = ta_id a \<and> ev_kind r = KIND_RESET
      then n = ta_restart_count a + 1 \<and> (\<exists>m. (i, m) \<in> set (counters s)) else (i, n) \<in> set (counters s))" for i n
    unfolding all by (auto simp: image_iff split: prod.splits)
  have "operations_linked t"
    using inv by (intro operations_linked_append [OF _ ev r(1,2)]) (simp_all add: runs_inv_def)
  moreover have "one_open t"
    using inv unfolding runs_inv_def one_open_def by (auto simp: finished ev)
  moreover have "counted base t"
  proof -
    have "\<And>i n. (i, n) \<in> set (counters s) \<Longrightarrow> n = base i + resets_of s i"
      using inv by (auto simp: runs_inv_def counted_def)
    with count show ?thesis by (fastforce simp: counted_def counters resets split: if_splits)
  qed
  moreover have "worker_ready t w'" if w': "w' \<in> set ws" for w'
  proof (cases w')
    case (Pair a' r')
    have ready: "worker_ready s (a', r')" using inv w' Pair by (simp add: runs_inv_def)
    have "ta_id a' \<noteq> ta_id a" if later: "open_operation t (ev_operation_id r')"
    proof
      assume same: "ta_id a' = ta_id a"
      from ready obtain e' where "e' \<in> set (sb_env_events s)" "started_event r' e'" "ev_attempt_id r' = ta_id a'"
        by (auto simp: worker_ready_def)
      with inv e same r(3) live later have "ev_operation_id r' = ev_operation_id r"
        unfolding runs_inv_def one_open_def started_event_def finished by fastforce
      with later show False by (simp add: finished)
    qed
    with ready show ?thesis by (auto simp: Pair worker_ready_def ev finished counters)
  qed
  ultimately show ?thesis by (simp add: runs_inv_def)
qed

lemma runs_inv_step:
  assumes "run_step x y" and "runs_inv base x"
  shows "runs_inv base y"
  using assms
proof (induction rule: run_step.induct)
  case (run_request s t ws)
  then show ?case using runs_inv_quiet attempt_request_calm by (simp add: calm_def)
next
  case (run_begin sv kind i op_id actor origin now s w t ws)
  then show ?case using runs_inv_begin by (cases w) blast
next
  case (run_refused sv kind i op_id actor origin now s t ws)
  then show ?case using runs_inv_quiet begin_run_None_quiet by blast
next
  case (run_write w ws s gw dk now)
  obtain a r where w: "w = (a, r)" by (cases w)
  show ?case
  proof (cases rule: finish_run_cases [of s gw dk a r now])
    case 1
    with run_write w show ?thesis using runs_inv_quiet by simp
  next
    case (2 mark i)
    from runs_inv_write [OF run_write(2) _ 2(1) 2(2) 2(3) 2(4)] run_write(1) w show ?thesis by simp
  qed
next
  case (run_lost s w ws)
  then show ?case by (auto simp: runs_inv_def)
qed

lemma runs_inv_history: "run_step\<^sup>*\<^sup>* x y \<Longrightarrow> runs_inv base x \<Longrightarrow> runs_inv base y"
  by (induction rule: rtranclp_induct) (auto intro: runs_inv_step)

lemma run_step_grows: "run_step x y \<Longrightarrow> ledger_step (fst x) (fst y)"
  by (induction rule: run_step.induct)
    (auto dest: attempt_request_calm keepsD [OF grows_begin_run] simp: calm_def grows.unchanged
      intro: grows.run_keeps [OF grows_finish_run])

lemma run_history_grows: "run_step\<^sup>*\<^sup>* x y \<Longrightarrow> ledger_step (fst x) (fst y)"
  by (induction rule: rtranclp_induct) (auto intro: grows.unchanged grows.chained run_step_grows)

section \<open>The count of the evidence\<close>

text \<open>The evidence counts requests with a successful end, the counter follows the successes themselves.\<close>

lemma operation_end_iff:
  assumes keys: "ledger_keys db" and r: "r \<in> set (attempt_environment db i)"
    and linked: "operations_linked db" and req: "ev_phase r = EP_REQUESTED"
  shows "successful_reset (attempt_environment db i) r \<longleftrightarrow> ev_kind r = KIND_RESET \<and>
    (\<exists>e \<in> set (sb_env_events db). ev_operation_id e = ev_operation_id r \<and> succeeded e)"
proof -
  let ?env = "attempt_environment db i"
  have env: "e \<in> set ?env \<longleftrightarrow> e \<in> set (sb_env_events db) \<and> ev_attempt_id e = i" for e
    by (auto simp: attempt_environment_def)
  have unique: "e = e'" if "e \<in> set (sb_env_events db)" "e' \<in> set (sb_env_events db)"
    "ev_operation_id e = ev_operation_id e'" "ev_phase e = ev_phase e'" for e e'
    using keys that unfolding ledger_keys_def by (auto simp: distinct_map dest: inj_onD)
  have own: "e \<in> set ?env" if "e \<in> set (sb_env_events db)" "ev_operation_id e = ev_operation_id r" "succeeded e" for e
  proof -
    from linked that obtain q where "q \<in> set (sb_env_events db)" "ev_phase q = EP_REQUESTED"
      "ev_operation_id q = ev_operation_id e" "ev_attempt_id q = ev_attempt_id e"
      unfolding operations_linked_def by auto
    with unique [of q r] r req that have "ev_attempt_id e = i" by (auto simp: env)
    with that(1) env show ?thesis by blast
  qed
  show ?thesis
  proof (cases "operation_end ?env r")
    case None
    then have "\<not> (ev_phase e = EP_FINISHED \<and> ev_operation_id e = ev_operation_id r)" if "e \<in> set ?env" for e
      using that by (auto simp: operation_end_def find_None_all)
    with own None show ?thesis by (auto simp: successful_reset_def succeeded_def)
  next
    case (Some f)
    then have f: "f \<in> set (sb_env_events db)" "ev_phase f = EP_FINISHED" "ev_operation_id f = ev_operation_id r"
      by (auto simp: operation_end_def env dest!: find_Some_member)
    have "e = f" if "e \<in> set (sb_env_events db)" "ev_operation_id e = ev_operation_id r" "succeeded e" for e
      using unique [of e f] f that by (simp add: succeeded_def)
    with f have "(\<exists>e \<in> set (sb_env_events db). ev_operation_id e = ev_operation_id r \<and> succeeded e) \<longleftrightarrow>
        ev_outcome f = ''success''" unfolding succeeded_def by metis
    with Some show ?thesis by (simp add: successful_reset_def)
  qed
qed

lemma evidence_resets:
  assumes keys: "ledger_keys db" and linked: "operations_linked db"
  shows "length (filter (successful_reset (attempt_environment db i))
    (filter (\<lambda>e. ev_phase e = EP_REQUESTED) (attempt_environment db i))) = resets_of db i"
proof -
  let ?env = "attempt_environment db i"
  let ?good = "{r \<in> set (sb_env_events db). ev_attempt_id r = i \<and> ev_phase r = EP_REQUESTED \<and> ev_kind r = KIND_RESET \<and>
    (\<exists>e \<in> set (sb_env_events db). ev_operation_id e = ev_operation_id r \<and> succeeded e)}"
  let ?ends = "set (filter (\<lambda>e. ev_attempt_id e = i \<and> ev_kind e = KIND_RESET \<and> succeeded e) (sb_env_events db))"
  have dist: "distinct (map (\<lambda>e. (ev_operation_id e, ev_phase e)) (sb_env_events db))"
    using keys by (simp add: ledger_keys_def)
  have inj: "e = e'" if "e \<in> set (sb_env_events db)" "e' \<in> set (sb_env_events db)"
    "ev_operation_id e = ev_operation_id e'" "ev_phase e = ev_phase e'" for e e'
    using dist that by (auto simp: distinct_map dest: inj_onD)
  have "distinct ?env" using dist by (simp add: attempt_environment_def distinct_map)
  then have "distinct (filter (successful_reset ?env) (filter (\<lambda>e. ev_phase e = EP_REQUESTED) ?env))"
    by (intro distinct_filter)
  from distinct_card [OF this] have "length (filter (successful_reset ?env) (filter (\<lambda>e. ev_phase e = EP_REQUESTED) ?env)) =
      card (set (filter (successful_reset ?env) (filter (\<lambda>e. ev_phase e = EP_REQUESTED) ?env)))" by (rule sym)
  also have "set (filter (successful_reset ?env) (filter (\<lambda>e. ev_phase e = EP_REQUESTED) ?env)) = ?good"
  proof (intro set_eqI)
    fix r
    have "r \<in> set ?env \<longleftrightarrow> r \<in> set (sb_env_events db) \<and> ev_attempt_id r = i"
      by (auto simp: attempt_environment_def)
    then show "r \<in> set (filter (successful_reset ?env) (filter (\<lambda>e. ev_phase e = EP_REQUESTED) ?env)) \<longleftrightarrow> r \<in> ?good"
      using operation_end_iff [OF keys _ linked, of r i] by auto
  qed
  also have "card ?good = card (ev_operation_id ` ?good)"
    by (rule card_image [symmetric]) (auto intro!: inj_onI inj)
  also have "ev_operation_id ` ?good = ev_operation_id ` ?ends"
  proof (intro set_eqI iffI)
    fix op assume "op \<in> ev_operation_id ` ?good"
    then obtain r e where r: "r \<in> ?good" "op = ev_operation_id r" and e: "e \<in> set (sb_env_events db)"
      "ev_operation_id e = ev_operation_id r" "succeeded e" by auto
    from linked e obtain q where "q \<in> set (sb_env_events db)" "ev_phase q = EP_REQUESTED"
      "ev_operation_id q = ev_operation_id e" "ev_attempt_id q = ev_attempt_id e" "ev_kind q = ev_kind e"
      unfolding operations_linked_def by auto
    with inj [of q r] r e show "op \<in> ev_operation_id ` ?ends" by (auto intro!: image_eqI [of _ _ e])
  next
    fix op assume "op \<in> ev_operation_id ` ?ends"
    then obtain e where e: "e \<in> ?ends" "op = ev_operation_id e" by auto
    with linked obtain q where "q \<in> set (sb_env_events db)" "ev_phase q = EP_REQUESTED"
      "ev_operation_id q = ev_operation_id e" "ev_attempt_id q = ev_attempt_id e" "ev_kind q = ev_kind e"
      unfolding operations_linked_def by auto
    with e show "op \<in> ev_operation_id ` ?good" by (auto intro!: image_eqI [of _ _ q])
  qed
  also have "card (ev_operation_id ` ?ends) = card ?ends"
    by (rule card_image) (auto intro!: inj_onI inj simp: succeeded_def)
  also have "\<dots> = resets_of db i"
    unfolding resets_of_def by (rule distinct_card) (use dist in \<open>simp add: distinct_map\<close>)
  finally show ?thesis .
qed

end
