(* ===== verification/Terminal_Theorems.thy ===== *)
theory Terminal_Theorems
  imports Environment_Theorems Check_Theorems
begin

text \<open>
  The terminal of an environment: the address that a worker stores, the gateway that reads it, and
  the check of rights behind it.
\<close>

section \<open>Addresses of terminals\<close>

lemma of_digit_char: "d < 10 \<Longrightarrow> of_char (digit_char d) = (48 + d :: nat)"
  by (simp add: digit_char_def of_char_of)

lemma is_digit_digit_char: "d < 10 \<Longrightarrow> is_digit (digit_char d)"
proof -
  assume "d < 10"
  then have "d \<in> set [0..<10]" by simp
  moreover have "\<forall>d \<in> set [0..<10]. is_digit (digit_char d)" by code_simp
  ultimately show ?thesis by blast
qed

lemma str_nat_digits: "list_all is_digit (str_nat n)"
proof (induction n rule: str_nat.induct)
  case (1 n)
  then show ?case by (cases "n < 10") (simp_all add: str_nat.simps [of n] is_digit_digit_char)
qed

lemma digits_value_snoc: "digits_value (s @ [c]) = 10 * digits_value s + (of_char c - 48)"
  by (simp add: digits_value_def)

lemma digits_value_str_nat: "digits_value (str_nat n) = n"
proof (induction n rule: str_nat.induct)
  case (1 n)
  show ?case
  proof (cases "n < 10")
    case True
    then show ?thesis by (simp add: str_nat.simps [of n] digits_value_def of_digit_char)
  next
    case False
    with 1 show ?thesis by (simp add: str_nat.simps [of n] digits_value_snoc of_digit_char)
  qed
qed

lemma take_digits:
  assumes "list_all is_digit ds" and "\<not> is_digit c"
  shows "takeWhile is_digit (ds @ c # rest) = ds" "dropWhile is_digit (ds @ c # rest) = c # rest"
  using assms by (induction ds) auto

lemma after_terminal_path:
  assumes "\<not> is_digit c"
  shows "after_terminal (''/terminal/'' @ str_nat i @ c # rest) = Some (i, c # rest)"
  using take_digits [OF str_nat_digits assms] by (simp add: after_terminal_def Let_def digits_value_str_nat str_nat_nonempty)

lemma str_nat_length: "length (str_nat n) = (if n < 10 then 1 else Suc (length (str_nat (n div 10))))"
  by (subst str_nat.simps) simp

lemma str_nat_hd: "hd (str_nat n) = (if n < 10 then digit_char n else hd (str_nat (n div 10)))"
  by (subst str_nat.simps) (simp add: str_nat_nonempty)

lemma terminal_port_text:
  assumes "20000 \<le> p" and "p \<le> 30000"
  shows "terminal_port_text (str_nat p)"
proof -
  define a where "a = p div 10"
  define b where "b = a div 10"
  define c where "c = b div 10"
  define d where "d = c div 10"
  have big: "\<not> p < 10" "\<not> a < 10" "\<not> b < 10" "\<not> c < 10" "d < 10"
    using assms by (simp_all add: a_def b_def c_def d_def)
  have "length (str_nat p) = 5"
    using big by (simp add: str_nat_length [of p] str_nat_length [of a] str_nat_length [of b] str_nat_length [of c]
        str_nat_length [of d] flip: a_def b_def c_def d_def)
  moreover have "hd (str_nat p) = digit_char d"
    using big by (simp add: str_nat_hd [of p] str_nat_hd [of a] str_nat_hd [of b] str_nat_hd [of c]
        str_nat_hd [of d] flip: a_def b_def c_def d_def)
  moreover have "d = 2 \<or> p = 30000" using assms by (auto simp: a_def b_def c_def d_def)
  moreover have "digit_char 2 = CHR ''2''" "digit_char 3 = CHR ''3''" "digit_char 0 = CHR ''0''" by code_simp+
  moreover from this have "str_nat 30000 = ''30000''" by (simp add: str_nat.simps)
  ultimately show ?thesis by (auto simp: terminal_port_text_def str_nat_digits)
qed

text \<open>The address that the trainee is given is read back as the attempt and the port it was made from.\<close>

lemma parse_terminal_path:
  assumes "build_terminal_base_path gw i port = Inr path" and "gw_enabled gw"
    and "gw_docker_network gw \<and> port = None \<or> \<not> gw_docker_network gw \<and> (\<exists>p. port = Some p \<and> 20000 \<le> p \<and> p \<le> 30000)"
  shows "parse_terminal_uri gw path = Some (i, port)"
proof -
  have slash: "\<not> is_digit CHR ''/''" by code_simp
  show ?thesis
  proof (cases "gw_docker_network gw")
    case True
    with assms have "path = ''/terminal/'' @ str_nat i @ CHR ''/'' # []" "port = None"
      by (auto simp: build_terminal_base_path_def)
    with True after_terminal_path [OF slash, of i "[]"] show ?thesis by (simp add: parse_terminal_uri_def)
  next
    case False
    with assms obtain p where p: "port = Some p" "20000 \<le> p" "p \<le> 30000" by auto
    with False assms have path: "path = ''/terminal/'' @ str_nat i @ CHR ''/'' # (str_nat p @ ''/'')"
      by (auto simp: build_terminal_base_path_def)
    have shape: "terminal_port_text (str_nat p)" using p by (intro terminal_port_text)
    then have "length (str_nat p) = 5" by (simp add: terminal_port_text_def)
    with False path after_terminal_path [OF slash, of i "str_nat p @ ''/''"] shape p show ?thesis
      by (simp add: parse_terminal_uri_def digits_value_str_nat)
  qed
qed

section \<open>Terminals\<close>

lemma build_environment_Inr:
  assumes "build_environment gw dk a = Inr b"
  shows "\<exists>cid name terminal path. ed_create_task dk (ta_task a) (ta_id a) = Inr (cid, name) \<and> bu_container_name b = name \<and>
    ed_create_terminal dk (ta_task a) (ta_id a) name (bu_port b) path = Inr terminal \<and> bu_terminal_name b = terminal \<and>
    build_terminal_base_path gw (ta_id a) (bu_port b) = Inr path \<and> build_terminal_url gw (ta_id a) (bu_port b) = Inr (bu_url b) \<and>
    (if gw_docker_network gw then bu_port b = None else \<exists>p. bu_port b = Some p \<and> ed_free_port dk = Inr p)"
  using assms by (auto simp: build_environment_def bindR_Inr_iff split: if_splits)

lemma finish_run_Inr:
  assumes "finish_run gw dk (a, r) now s = (Inr (), t)"
  obtains b mark where "build_environment gw dk a = Inr b" and "save_ready a r mark now s = (Inr (), t)"
    and "mark = ready_fields a b ''container_created'' now \<or> mark = restarted_fields a b now"
proof -
  have closed: "fst ((close_environment r (ta_id a) now e :: (sandbox_db, unit) op) s) \<noteq> Inr ()" for e s
    by (auto simp: close_environment_def andthen_def op_apply split: prod.splits sum.splits)
  from assms have "(if ev_kind r = KIND_RESET then run_environment_restart gw dk a r now
      else run_environment_start gw dk a r now) s = (Inr (), t)"
    using closed by (auto simp: finish_run_def catch_def split: prod.splits sum.splits if_splits) (metis fst_conv)+
  with that show ?thesis
    by (auto simp: run_environment_restart_def run_environment_start_def andthen_Inr_iff op_apply split: if_splits)
qed

lemma ready_row:
  assumes "mark = ready_fields a b output now \<or> mark = restarted_fields a b now"
  shows "ta_id (mark row) = ta_id row" "ta_user_id (mark row) = ta_user_id row" "ta_task (mark row) = ta_task row"
    "ta_attempt_number (mark row) = ta_attempt_number row" "ta_is_current (mark row) = ta_is_current row"
    "ta_environment_cleanup_requested (mark row) = ta_environment_cleanup_requested row"
    "ta_technical_passed_at (mark row) = ta_technical_passed_at row"
    "ta_environment_status (mark row) = EN_READY" "ta_status (mark row) = ST_IN_PROGRESS"
    "ta_container_name (mark row) = bu_container_name b" "ta_terminal_container_name (mark row) = bu_terminal_name b"
    "ta_terminal_url (mark row) = bu_url b" "ta_terminal_port (mark row) = bu_port b"
  using assms by (auto simp: ready_fields_def restarted_fields_def)

lemma find_mapped:
  assumes "List.find (\<lambda>x. ta_id x = i) xs = Some row" and "\<And>x. ta_id (f x) = ta_id x"
  shows "List.find (\<lambda>x. ta_id x = i) (map f xs) = Some (f row)"
  using assms by (induction xs) (auto split: if_splits)

text \<open>What is read of the attempts to judge a task does not depend on their containers.\<close>

lemma evidence_of_mapped:
  assumes "\<And>x. ta_id (f x) = ta_id x \<and> ta_technical_passed_at (f x) = ta_technical_passed_at x"
    and "sb_check_runs t = sb_check_runs s"
  shows "get_technical_evidence t (f x) = get_technical_evidence s x"
proof -
  have "successful_runs t = successful_runs s" using assms(2) by (simp add: successful_runs_def fun_eq_iff)
  with assms(1) show ?thesis by (simp add: get_technical_evidence_def split: option.split)
qed

lemma available_mapped:
  assumes f: "\<And>x. ta_id (f x) = ta_id x \<and> ta_technical_passed_at (f x) = ta_technical_passed_at x \<and>
      ta_user_id (f x) = ta_user_id x \<and> ta_task (f x) = ta_task x \<and> ta_attempt_number (f x) = ta_attempt_number x"
    and "sb_check_runs t = sb_check_runs s" and "sb_attempts t = map f (sb_attempts s)"
  shows "is_available t (f x) = is_available s x"
proof -
  have "get_technical_evidence t (f y) = get_technical_evidence s y" for y
    using evidence_of_mapped [of f t s] assms by simp
  with assms show ?thesis by (simp add: is_available_def list_ex_iff)
qed

text \<open>
  C9. An environment that was built can be used. When a worker has written its result, the address it
  has stored opens the terminal for the owner of the attempt and for the staff, and for nobody else:
  the gateway reads from the address the attempt and the port that the check of rights compares.
\<close>

theorem built_terminal_opens:
  assumes run: "finish_run gw dk (a, r) now s = (Inr (), t)" and gateway: "gw_enabled gw"
    and port: "ed_free_port dk = get_free_port draws busy" "\<forall>p \<in> set draws. 20000 \<le> p \<and> p \<le> 30000"
    and named: "\<forall>cid name. ed_create_task dk (ta_task a) (ta_id a) = Inr (cid, name) \<longrightarrow> name \<noteq> []"
      "\<forall>name p path x. ed_create_terminal dk (ta_task a) (ta_id a) name p path = Inr x \<longrightarrow> x \<noteq> []"
    and row: "List.find (\<lambda>x. ta_id x = ta_id a) (sb_attempts s) = Some row"
    and permitted: "ta_is_current row" "\<not> ta_environment_cleanup_requested row" "\<not> technical_passed s row" "is_available s row"
  shows "\<exists>x url upstream. List.find (\<lambda>x. ta_id x = ta_id a) (sb_attempts t) = Some x \<and> ta_terminal_url x = url \<and>
    (\<forall>viewer. terminal_auth gw t viewer None url =
      (case viewer of None \<Rightarrow> Denied 401 ''anonymous''
       | Some u \<Rightarrow> if us_id u = ta_user_id row \<or> us_is_staff u then Forward upstream else Denied 403 ''forbidden_user''))"
proof -
  from run obtain b mark where b: "build_environment gw dk a = Inr b" and saved: "save_ready a r mark now s = (Inr (), t)"
    and mark: "mark = ready_fields a b ''container_created'' now \<or> mark = restarted_fields a b now"
    by (rule finish_run_Inr)
  let ?f = "\<lambda>x. if ta_id x = ta_id a then mark x else x"
  from save_ready_Inr [OF saved] have t: "sb_attempts t = map ?f (sb_attempts s)" "sb_check_runs t = sb_check_runs s" by auto
  have own: "ta_id row = ta_id a" using find_Some_member [OF row] by simp
  have f: "ta_id (?f x) = ta_id x \<and> ta_technical_passed_at (?f x) = ta_technical_passed_at x \<and>
      ta_user_id (?f x) = ta_user_id x \<and> ta_task (?f x) = ta_task x \<and> ta_attempt_number (?f x) = ta_attempt_number x" for x
    using ready_row [OF mark] by simp
  have found: "List.find (\<lambda>x. ta_id x = ta_id a) (sb_attempts t) = Some (mark row)"
    using find_mapped [OF row, of ?f] f own t by simp
  have available: "is_available t (mark row)" using available_mapped [OF f t(2,1), of row] permitted own by simp
  have unproved: "\<not> technical_passed t (mark row)"
    using evidence_of_mapped [of ?f t s row] f t(2) permitted own by (simp add: technical_passed_def)
  from build_environment_Inr [OF b] named have names: "bu_container_name b \<noteq> []" "bu_terminal_name b \<noteq> []"
    by blast+
  from build_environment_Inr [OF b] gateway have url: "build_terminal_base_path gw (ta_id a) (bu_port b) = Inr (bu_url b)"
    by (auto simp: build_terminal_url_def)
  have "gw_docker_network gw \<and> bu_port b = None \<or>
      \<not> gw_docker_network gw \<and> (\<exists>p. bu_port b = Some p \<and> 20000 \<le> p \<and> p \<le> 30000)"
    using build_environment_Inr [OF b] port
    by (auto simp: get_free_port_def split: if_splits option.splits dest!: find_Some_member dest: in_set_takeD)
  from parse_terminal_path [OF url gateway this] have parsed: "parse_terminal_uri gw (bu_url b) = Some (ta_id a, bu_port b)" .
  have nonempty: "bu_url b \<noteq> []" using url gateway by (auto simp: build_terminal_base_path_def split: if_splits option.splits)
  have "can_access_terminal t (mark row)"
    using permitted names nonempty unproved by (simp add: can_access_terminal_def ready_row [OF mark])
  moreover have "gw_docker_network gw \<or> bu_port b \<noteq> None" using build_environment_Inr [OF b] by (auto split: if_splits)
  moreover have "ta_user_id (mark row) = ta_user_id row" by (rule ready_row [OF mark])
  ultimately have "terminal_auth gw t viewer None (bu_url b) =
      (case viewer of None \<Rightarrow> Denied 401 ''anonymous''
       | Some u \<Rightarrow> if us_id u = ta_user_id row \<or> us_is_staff u
           then Forward (if gw_docker_network gw then Some (bu_terminal_name b @ '':7681'') else None)
           else Denied 403 ''forbidden_user'')" for viewer
    using found available parsed names nonempty
    by (auto simp: terminal_auth_def authorize_terminal_def ready_row [OF mark] split: option.split)
  moreover have "ta_terminal_url (mark row) = bu_url b" by (rule ready_row [OF mark])
  ultimately show ?thesis using found by blast
qed

text \<open>The small sandbox, with its attempt covered, and a worker that resets its environment.\<close>

definition demo_env_docker :: env_docker where
  "demo_env_docker = \<lparr>dk_check = (\<lambda>_. CheckExit (Some 0) []), dk_remove_terminal = (\<lambda>_. Inr ()), dk_remove_task = (\<lambda>_. Inr ()),
     ed_create_task = (\<lambda>_ _. Inr (''id2'', ''c3b'')), ed_free_port = get_free_port [23456] (\<lambda>_. False),
     ed_create_terminal = (\<lambda>_ _ _ _ _. Inr ''t3b''), ed_wait_ready = (\<lambda>_ _. Inr ())\<rparr>"

definition demo_gateway :: gateway where
  "demo_gateway = \<lparr>gw_docker_network = True, gw_enabled = True, gw_external_host = ''localhost''\<rparr>"

definition demo_coverage :: SandboxAttemptCoverage where
  "demo_coverage = \<lparr>cv_attempt_id = 3, cv_user_id = 9, cv_task_id = 5, cv_attempt_number = 1, cv_origin = ''creation'',
     cv_initial_checks = 0, cv_initial_resets = 0, cv_manifest_id = None\<rparr>"

definition demo_covered :: sandbox_db where
  "demo_covered = demo_sandbox\<lparr>sb_coverage := [demo_coverage]\<rparr>"

definition demo_begin_reset :: "env_worker option result \<times> sandbox_db" where
  "demo_begin_reset = begin_run demo_services KIND_RESET 3 (Some ''u7'') (Some \<lparr>us_id = 9, us_is_staff = False, us_date_joined = 0\<rparr>)
     ''trainee'' 4 demo_covered"

definition demo_worker :: env_worker where
  "demo_worker = (case fst demo_begin_reset of Inr (Some w) \<Rightarrow> w | _ \<Rightarrow> (demo_ta, hd (sb_env_events demo_covered)))"

lemma demo_begin_reset: "demo_begin_reset = (Inr (Some demo_worker), snd demo_begin_reset)"
proof -
  have "case fst demo_begin_reset of Inr (Some w) \<Rightarrow> True | _ \<Rightarrow> False" by code_simp
  then have "fst demo_begin_reset = Inr (Some demo_worker)"
    by (simp add: demo_worker_def split: sum.splits option.splits)
  then show ?thesis by (metis prod.collapse)
qed

lemma demo_resettable:
  "case List.find (\<lambda>x. ta_id x = ta_id (fst demo_worker)) (sb_attempts (snd demo_begin_reset)) of None \<Rightarrow> False
    | Some row \<Rightarrow> ta_is_current row \<and> \<not> ta_environment_cleanup_requested row \<and>
       \<not> technical_passed (snd demo_begin_reset) row \<and> is_available (snd demo_begin_reset) row \<and> ta_user_id row = 9"
  by code_simp

theorem built_terminal_opens_witness:
  "\<exists>t url upstream. finish_run demo_gateway demo_env_docker demo_worker 9 (snd demo_begin_reset) = (Inr (), t) \<and>
    terminal_auth demo_gateway t (Some \<lparr>us_id = 9, us_is_staff = False, us_date_joined = 0\<rparr>) None url = Forward upstream"
proof -
  have "fst (finish_run demo_gateway demo_env_docker demo_worker 9 (snd demo_begin_reset)) = Inr ()" by code_simp
  then obtain t where run: "finish_run demo_gateway demo_env_docker (fst demo_worker, snd demo_worker) 9 (snd demo_begin_reset) = (Inr (), t)"
    by (metis prod.collapse)
  have gateway: "gw_enabled demo_gateway" by code_simp
  have port: "ed_free_port demo_env_docker = get_free_port [23456] (\<lambda>_. False)" "\<forall>p \<in> set [23456 :: nat]. 20000 \<le> p \<and> p \<le> 30000"
    by (simp_all add: demo_env_docker_def)
  have named: "\<forall>cid name. ed_create_task demo_env_docker (ta_task (fst demo_worker)) (ta_id (fst demo_worker)) = Inr (cid, name)
        \<longrightarrow> name \<noteq> []"
      "\<forall>name p path x. ed_create_terminal demo_env_docker (ta_task (fst demo_worker)) (ta_id (fst demo_worker)) name p path = Inr x
        \<longrightarrow> x \<noteq> []"
    by (auto simp: demo_env_docker_def)
  have "\<exists>row. List.find (\<lambda>x. ta_id x = ta_id (fst demo_worker)) (sb_attempts (snd demo_begin_reset)) = Some row \<and>
      ta_is_current row \<and> \<not> ta_environment_cleanup_requested row \<and> \<not> technical_passed (snd demo_begin_reset) row \<and>
      is_available (snd demo_begin_reset) row \<and> ta_user_id row = 9"
    using demo_resettable by (auto split: option.splits)
  then obtain row where row: "List.find (\<lambda>x. ta_id x = ta_id (fst demo_worker)) (sb_attempts (snd demo_begin_reset)) = Some row"
    and permitted: "ta_is_current row" "\<not> ta_environment_cleanup_requested row" "\<not> technical_passed (snd demo_begin_reset) row"
      "is_available (snd demo_begin_reset) row" and owner: "ta_user_id row = 9" by blast
  from built_terminal_opens [OF run gateway port named row permitted] obtain url upstream where
    "terminal_auth demo_gateway t (Some \<lparr>us_id = 9, us_is_staff = False, us_date_joined = 0\<rparr>) None url =
      (case Some \<lparr>us_id = 9, us_is_staff = False, us_date_joined = 0\<rparr> of None \<Rightarrow> Denied 401 ''anonymous''
       | Some u \<Rightarrow> if us_id u = ta_user_id row \<or> us_is_staff u then Forward upstream else Denied 403 ''forbidden_user'')"
    by blast
  with owner run show ?thesis by (auto simp: prod.collapse)
qed

end
