(* ===== verification/Sandbox_Theorems.thy ===== *)
theory Sandbox_Theorems
  imports Terminal_Theorems
begin

text \<open>
  Properties that span the pages of the sandbox, the environments, the ledger and its evidence: the
  counter of resets, the terminals, and the answers with their reviews.
\<close>

section \<open>Resets\<close>

lemma set_because [simp]: "x \<in> set (because b reason) \<longleftrightarrow> b \<and> x = reason"
  by (auto simp: because_def)

lemma reasons_without_resets:
  "''reset_count_mismatch'' \<notin> set (coverage_reasons a c)"
  "''reset_count_mismatch'' \<notin> set (execution_reasons db c x)"
  "''reset_count_mismatch'' \<notin> set (request_reasons c es r)"
  "''reset_count_mismatch'' \<notin> set (submission_reasons db c sm)"
  "''reset_count_mismatch'' \<notin> set (run_reasons db i named)"
  "''reset_count_mismatch'' \<notin> set (answer_reasons db row sms)"
proof -
  have chain: "''reset_count_mismatch'' \<notin> set (review_chain p rs)" for p rs
    by (induction rs arbitrary: p) (auto simp: because_def)
  show "''reset_count_mismatch'' \<notin> set (coverage_reasons a c)"
    by (auto simp: coverage_reasons_def split: option.splits)
  show "''reset_count_mismatch'' \<notin> set (execution_reasons db c x)"
    by (auto simp: execution_reasons_def split: option.splits)
  show "''reset_count_mismatch'' \<notin> set (request_reasons c es r)"
    by (auto simp: request_reasons_def split: option.splits)
  show "''reset_count_mismatch'' \<notin> set (submission_reasons db c sm)"
    using chain by (auto simp: submission_reasons_def)
  show "''reset_count_mismatch'' \<notin> set (run_reasons db i named)"
    by (auto simp: run_reasons_def Let_def split: option.splits)
  show "''reset_count_mismatch'' \<notin> set (answer_reasons db row sms)"
    by (auto simp: answer_reasons_def Let_def)
qed

lemma find_some_row: "x \<in> set xs \<Longrightarrow> P x \<Longrightarrow> \<exists>y. List.find P xs = Some y"
  by (induction xs) auto

definition initial_resets :: "sandbox_db \<Rightarrow> pk \<Rightarrow> nat" where
  "initial_resets db i = (case List.find (\<lambda>c. cv_attempt_id c = i) (sb_coverage db) of None \<Rightarrow> 0 | Some c \<Rightarrow> cv_initial_resets c)"

lemma reset_mismatch_iff:
  assumes "ledger_keys db" and "operations_linked db"
  shows "''reset_count_mismatch'' \<in> set (at_reasons (attempt_evidence db i)) \<longleftrightarrow>
    (\<exists>a. List.find (\<lambda>a. ta_id a = i) (sb_attempts db) = Some a \<and>
      ta_restart_count a \<noteq> resets_of db i + initial_resets db i)"
proof (cases "List.find (\<lambda>a. ta_id a = i) (sb_attempts db)")
  case None
  then show ?thesis
    by (simp add: attempt_evidence_def attempt_evidence_of_def Let_def sorted_set_def reasons_without_resets)
next
  case (Some a)
  have initial: "(case List.find (\<lambda>c. cv_attempt_id c = i) (sb_coverage db) of None \<Rightarrow> 0 | Some c \<Rightarrow> cv_initial_resets c) =
    initial_resets db i" by (simp add: initial_resets_def)
  from Some show ?thesis
    by (simp add: attempt_evidence_def attempt_evidence_of_def Let_def sorted_set_def reasons_without_resets
        projection_reasons_def evidence_resets [OF assms, unfolded filter_filter] initial)
qed

text \<open>
  C7. The counter of resets never contradicts the ledger. Whatever users, check workers and
  environment workers do, in any interleaving and with late, repeated and lost workers, the evidence
  of an attempt that the ledger covers does not gain the objection that its counter differs from the
  resets the ledger calls successful.
\<close>

theorem resets_are_counted:
  assumes start: "ledger_keys s" "operations_linked s" "one_open s" "distinct (map ta_id (sb_attempts s))"
    and agrees: "\<And>j. ''reset_count_mismatch'' \<notin> set (at_reasons (attempt_evidence s j))"
    and history: "run_step\<^sup>*\<^sup>* (s, []) (t, ws)"
    and covered: "c \<in> set (sb_coverage s)"
  shows "''reset_count_mismatch'' \<notin> set (at_reasons (attempt_evidence t (cv_attempt_id c)))"
proof -
  let ?i = "cv_attempt_id c"
  have "counted (initial_resets s) s"
  proof -
    have "ta_restart_count a = initial_resets s (ta_id a) + resets_of s (ta_id a)" if "a \<in> set (sb_attempts s)" for a
    proof -
      obtain b where b: "List.find (\<lambda>b. ta_id b = ta_id a) (sb_attempts s) = Some b"
        using find_some_row [of a "sb_attempts s" "\<lambda>b. ta_id b = ta_id a"] \<open>a \<in> set (sb_attempts s)\<close> by blast
      with that start(4) have "b = a" by (auto simp: distinct_map dest: find_Some_member inj_onD)
      with b agrees [of "ta_id a"] show ?thesis by (simp add: reset_mismatch_iff [OF start(1,2)])
    qed
    then show ?thesis by (auto simp: counted_def counters_def)
  qed
  with start have "runs_inv (initial_resets s) (s, [])" by (simp add: runs_inv_def)
  from runs_inv_history [OF history this] have inv: "operations_linked t" "counted (initial_resets s) t"
    by (simp_all add: runs_inv_def)
  have step: "ledger_step s t" using run_history_grows [OF history] by simp
  obtain d where d: "List.find (\<lambda>d. cv_attempt_id d = ?i) (sb_coverage s) = Some d"
    using find_some_row [OF covered, of "\<lambda>d. cv_attempt_id d = ?i"] by blast
  with step have "initial_resets t ?i = initial_resets s ?i"
    unfolding ledger_step_def ledger_extends_def by (auto simp: initial_resets_def dest: prefix_find)
  moreover have "ledger_keys t" using step start(1) by (simp add: ledger_step_def)
  moreover have "ta_restart_count a = initial_resets s ?i + resets_of t ?i"
    if "List.find (\<lambda>a. ta_id a = ?i) (sb_attempts t) = Some a" for a
    using find_Some_member [OF that] inv(2) by (auto simp: counted_def counters_def)
  ultimately show ?thesis using inv(1) by (auto simp: reset_mismatch_iff)
qed

text \<open>The small sandbox through one reset.\<close>

definition demo_reset :: sandbox_db where
  "demo_reset = snd (finish_run demo_gateway demo_env_docker demo_worker 9 (snd demo_begin_reset))"

lemma demo_reset_history: "run_step\<^sup>*\<^sup>* (demo_covered, []) (demo_reset, [demo_worker])"
proof -
  have "begin_run demo_services KIND_RESET 3 (Some ''u7'') (Some \<lparr>us_id = 9, us_is_staff = False, us_date_joined = 0\<rparr>)
     ''trainee'' 4 demo_covered = (Inr (Some demo_worker), snd demo_begin_reset)"
    using demo_begin_reset by (simp only: demo_begin_reset_def [symmetric])
  then have "run_step (demo_covered, []) (snd demo_begin_reset, [demo_worker])" by (rule run_begin)
  moreover have "run_step (snd demo_begin_reset, [demo_worker]) (demo_reset, [demo_worker])"
    unfolding demo_reset_def by (rule run_write) simp
  ultimately show ?thesis by (meson converse_rtranclp_into_rtranclp r_into_rtranclp)
qed

theorem resets_are_counted_witness:
  "''reset_count_mismatch'' \<notin> set (at_reasons (attempt_evidence demo_reset 3)) \<and> counters demo_reset = [(3, 1)]"
proof -
  have start: "ledger_keys demo_covered" "operations_linked demo_covered" "one_open demo_covered"
      "distinct (map ta_id (sb_attempts demo_covered))"
    by (simp_all add: demo_covered_def demo_sandbox_defs ledger_keys_def operations_linked_def one_open_def)
  have counters: "counters demo_covered = [(3, 0)]" and resets: "resets_of demo_covered i = 0" for i
    by (simp_all add: counters_def resets_of_def demo_covered_def demo_sandbox_defs)
  have initial: "initial_resets demo_covered j = 0" for j
    by (simp add: initial_resets_def demo_covered_def demo_coverage_def)
  have count: "ta_restart_count a = 0" if "List.find (\<lambda>a. ta_id a = j) (sb_attempts demo_covered) = Some a" for j a
    using find_Some_member [OF that] counters by (auto simp: counters_def)
  have agrees: "''reset_count_mismatch'' \<notin> set (at_reasons (attempt_evidence demo_covered j))" for j
    unfolding reset_mismatch_iff [OF start(1,2)] using count resets initial by simp
  from resets_are_counted [OF start agrees demo_reset_history, of demo_coverage]
  have "''reset_count_mismatch'' \<notin> set (at_reasons (attempt_evidence demo_reset 3))"
    by (simp add: demo_covered_def demo_coverage_def)
  moreover have "counters demo_reset = [(3, 1)]" by code_simp
  ultimately show ?thesis by blast
qed

end
