(* ===== verification/Review_Theorems.thy ===== *)
theory Review_Theorems
  imports Sandbox_Theorems
begin

text \<open>
  Written answers and their reviews over histories of requests, check workers and environment
  workers: what the attempt shows of its answer is what the ledger holds of it.
\<close>

section \<open>What leaves the answers alone\<close>

definition reviewed_task :: "TaskAttempt \<Rightarrow> bool" where
  "reviewed_task a \<longleftrightarrow> tk_requires_manual_review (ta_task a) \<and> is_credit_attempt a"

definition same_task :: "TaskAttempt \<Rightarrow> TaskAttempt \<Rightarrow> bool" where
  "same_task a b \<longleftrightarrow> ta_id b = ta_id a \<and> ta_user_id b = ta_user_id a \<and> ta_task b = ta_task a \<and>
     ta_attempt_number b = ta_attempt_number a"

text \<open>An answer that is with the mentor stays as it is, or is taken back; none is handed in.\<close>

definition with_mentor :: "TaskAttempt \<Rightarrow> bool" where
  "with_mentor a \<longleftrightarrow> submitted a \<and> reviewed_task a"

definition same_answer :: "TaskAttempt \<Rightarrow> TaskAttempt \<Rightarrow> bool" where
  "same_answer a b \<longleftrightarrow> same_task a b \<and>
     (with_mentor b \<longrightarrow> with_mentor a \<and> ta_client_answer b = ta_client_answer a \<and>
        ta_trainee_report b = ta_trainee_report a \<and> ta_mentor_decision b = ta_mentor_decision a)"

abbreviation attempt_ids :: "sandbox_db \<Rightarrow> pk list" where
  "attempt_ids db \<equiv> map ta_id (sb_attempts db)"

definition answers_kept :: "sandbox_db \<Rightarrow> sandbox_db \<Rightarrow> bool" where
  "answers_kept s t \<longleftrightarrow> sb_submissions t = sb_submissions s \<and> sb_reviews t = sb_reviews s \<and>
     (distinct (attempt_ids s) \<longrightarrow> distinct (attempt_ids t) \<and>
        (\<forall>b \<in> set (sb_attempts t). (\<exists>a \<in> set (sb_attempts s). same_answer a b) \<or>
           \<not> with_mentor b \<and> ta_id b \<notin> set (attempt_ids s)) \<and>
        (\<forall>a \<in> set (sb_attempts s). \<exists>b \<in> set (sb_attempts t). same_task a b))"

lemma same_answer_refl: "same_answer a a" "same_task a a"
  by (simp_all add: same_answer_def same_task_def)

lemma same_answer_trans: "same_answer a b \<Longrightarrow> same_answer b c \<Longrightarrow> same_answer a c"
  by (auto simp: same_answer_def same_task_def)

lemma answers_kept_trans:
  assumes "answers_kept s t" and "answers_kept t u"
  shows "answers_kept s u"
proof -
  have "(\<exists>a \<in> set (sb_attempts s). same_answer a c) \<or> \<not> with_mentor c \<and> ta_id c \<notin> set (attempt_ids s)"
    if dist: "distinct (attempt_ids s)" and c: "c \<in> set (sb_attempts u)" for c
  proof -
    have ids: "set (attempt_ids s) \<subseteq> set (attempt_ids t)"
    proof
      fix i assume "i \<in> set (attempt_ids s)"
      then obtain a where "a \<in> set (sb_attempts s)" "i = ta_id a" by auto
      with assms(1) dist obtain b where "b \<in> set (sb_attempts t)" "same_task a b" unfolding answers_kept_def by blast
      with \<open>i = ta_id a\<close> show "i \<in> set (attempt_ids t)"
        unfolding same_task_def by (metis image_eqI list.set_map)
    qed
    from assms dist c consider b where "b \<in> set (sb_attempts t)" "same_answer b c" | "\<not> with_mentor c" "ta_id c \<notin> set (attempt_ids t)"
      by (auto simp: answers_kept_def)
    then show ?thesis
    proof cases
      case 1
      from assms(1) dist 1(1) consider a where "a \<in> set (sb_attempts s)" "same_answer a b"
        | "\<not> with_mentor b" "ta_id b \<notin> set (attempt_ids s)"
        by (auto simp: answers_kept_def)
      then show ?thesis
        using 1(2) by cases (auto intro: same_answer_trans simp: same_answer_def same_task_def)
    qed (use ids in blast)
  qed
  moreover have "\<exists>c \<in> set (sb_attempts u). same_task a c"
    if "distinct (attempt_ids s)" "a \<in> set (sb_attempts s)" for a
  proof -
    from assms(1) that obtain b where "b \<in> set (sb_attempts t)" "same_task a b" by (auto simp: answers_kept_def)
    with assms that(1) obtain c where "c \<in> set (sb_attempts u)" "same_task b c"
      unfolding answers_kept_def by blast
    with \<open>same_task a b\<close> show ?thesis by (auto simp: same_task_def intro!: bexI [of _ c])
  qed
  ultimately show ?thesis using assms by (simp add: answers_kept_def)
qed

lemma answers_kept_refl: "answers_kept s s"
  using same_answer_refl by (auto simp: answers_kept_def)

interpretation answers: effect_order answers_kept
  by unfold_locales (auto intro: answers_kept_refl answers_kept_trans)

lemma answers_sameI:
  "sb_submissions t = sb_submissions s \<Longrightarrow> sb_reviews t = sb_reviews s \<Longrightarrow> sb_attempts t = sb_attempts s \<Longrightarrow> answers_kept s t"
  using same_answer_refl by (auto simp: answers_kept_def)

lemma answers_rewrite:
  assumes "\<And>a. a \<in> set (sb_attempts s) \<Longrightarrow> same_answer a (f a)"
  shows "answers_kept s (s\<lparr>sb_attempts := map f (sb_attempts s)\<rparr>)"
proof -
  have ids: "map ta_id (map f (sb_attempts s)) = attempt_ids s"
    using assms by (auto simp: same_answer_def same_task_def)
  have "distinct (attempt_ids s) \<Longrightarrow> distinct (map ta_id (map f (sb_attempts s)))" by (simp only: ids)
  moreover have "\<exists>b \<in> set (map f (sb_attempts s)). same_task a b" if "a \<in> set (sb_attempts s)" for a
    using assms [OF that] that by (auto simp: same_answer_def)
  moreover have "\<exists>a \<in> set (sb_attempts s). same_answer a b" if "b \<in> set (map f (sb_attempts s))" for b
    using assms that by auto
  ultimately show ?thesis unfolding answers_kept_def by (simp del: map_map)
qed


section \<open>Operations that leave the answers alone\<close>

lemma answers_modify:
  "(\<And>db. sb_submissions (f db) = sb_submissions db \<and> sb_reviews (f db) = sb_reviews db \<and> sb_attempts (f db) = sb_attempts db) \<Longrightarrow>
    keeps answers_kept (modify_db f)"
  by (intro answers.keeps_modify_db answers_sameI) simp_all

lemma answers_insert:
  "(\<And>db. sb_submissions (ins db) = sb_submissions db \<and> sb_reviews (ins db) = sb_reviews db \<and> sb_attempts (ins db) = sb_attempts db) \<Longrightarrow>
    keeps answers_kept (insert_unless clash ins x)"
  by (simp add: keeps_def insert_unless_def answers.unchanged answers_sameI)

lemma answers_rows:
  "keeps answers_kept (create_coverage c)"
  "keeps answers_kept (create_execution e)"
  "keeps answers_kept (create_check_event ce)"
  "keeps answers_kept (create_env_event ee)"
  "keeps answers_kept (gap i reason source)"
  "keeps answers_kept (create_check_run i result out code now)"
  "keeps answers_kept (publish provider external_id user_id context payload available_at)"
  "keeps answers_kept (store_completion sv cand src)"
  unfolding create_coverage_def create_execution_def create_check_event_def create_env_event_def gap_def
    create_check_run_def publish_def store_completion_def Let_def
  by (intro answers.keeps_intros answers_insert answers_modify; simp)+

lemma answers_get_task_attempt: "keeps answers_kept (get_task_attempt i)"
  by (simp add: keeps_def get_task_attempt_def answers.unchanged split: option.split)

lemma answers_update: "(\<And>a. same_answer a (f a)) \<Longrightarrow> keeps answers_kept (update_attempt i f)"
  by (simp add: keeps_def update_attempt_def op_apply answers_rewrite same_answer_refl)

lemmas answers_basic = answers.keeps_intros answers_rows answers_get_task_attempt keeps_outcome

lemma answers_observe: "keeps answers_kept (observe attempt)"
  unfolding observe_def by (intro answers_basic)

lemma answers_record: "keeps answers_kept (record_completion_after_success sv i r now)"
  unfolding record_completion_after_success_def by (intro answers_basic)

lemma answers_check_events:
  "keeps answers_kept (request_check sv attempt src run_id now)"
  "keeps answers_kept (check_duplicate j now)"
  "keeps answers_kept (check_live execution)"
  "keeps answers_kept (finish_check execution result failure_class reason exit_code run started now)"
  unfolding request_check_def check_duplicate_def check_live_def finish_check_def
  by (intro answers_basic answers_observe)+

lemma answers_begin_check: "keeps answers_kept (begin_check attempt run_id now)"
  unfolding begin_check_def by (intro answers_basic answers_check_events)

lemma answers_phase: "keeps answers_kept (environment_phase request phase outcome reason now)"
  unfolding environment_phase_def by (intro answers_basic)

lemma answers_request_environment: "keeps answers_kept (request_environment sv attempt kind actor origin op_id now)"
  unfolding request_environment_def by (intro answers_basic answers_observe)

lemma answers_registered_request: "keeps answers_kept (registered_request sv attempt kind op_id actor origin now)"
  unfolding registered_request_def by (intro answers_basic answers_observe answers_request_environment)

lemma answers_begin_environment: "keeps answers_kept (begin_environment sv attempt kind op_id actor origin now)"
  unfolding begin_environment_def claim_environment_def Let_def
  by (intro answers_basic answers_registered_request answers_phase)

lemma answers_environment_live: "keeps answers_kept (environment_live request)"
  unfolding environment_live_def by (intro answers_basic)

lemma answers_close:
  "keeps answers_kept (close_executions reason now es)"
  "keeps answers_kept (close_requests reason now rs)"
  by (induction es, simp_all, (intro answers_basic; assumption)+)
    (induction rs, simp_all, (intro answers_basic answers_phase; assumption)+)

lemma answers_interrupt: "keeps answers_kept (interrupt i reason now)"
  unfolding interrupt_def by (intro answers_basic answers_close)

lemmas answers_ledger = answers_basic answers_observe answers_record answers_check_events answers_begin_check answers_phase
  answers_request_environment answers_registered_request answers_begin_environment answers_environment_live answers_interrupt

text \<open>The statuses and fields that the services write.\<close>

lemma answers_fields:
  "same_answer a (starting_fields now a)"
  "same_answer a (restarting_fields now a)"
  "same_answer a (ready_fields x b out now a)"
  "same_answer a (restarted_fields x b now a)"
  "same_answer a (environment_error_fields out now a)"
  "same_answer a (mark_running_fields now a)"
  "same_answer a (check_error_fields out now a)"
  "same_answer a (check_failed_fields out now a)"
  "same_answer a (check_passed_fields True out now a)"
  "same_answer a (a\<lparr>ta_mentor_feedback_seen_at := seen\<rparr>)"
  "same_answer a (a\<lparr>ta_is_current := c\<rparr>)"
  by (simp_all add: same_answer_def same_task_def with_mentor_def submitted_def reviewed_task_def is_credit_attempt_def
      starting_fields_def restarting_fields_def ready_fields_def restarted_fields_def environment_error_fields_def
      mark_running_fields_def check_error_fields_def check_failed_fields_def check_passed_fields_def)


lemma answers_try_environment:
  assumes "\<And>a. same_answer a (f a)"
  shows "keeps answers_kept (try_mark_environment sv kind f attempt actor origin op_id now)"
  unfolding try_mark_environment_def by (intro answers_ledger answers_update assms)

lemma answers_environment_error: "keeps answers_kept (mark_environment_error sv kind attempt error now)"
  unfolding mark_environment_error_def by (intro answers_ledger answers_update answers_fields)

lemma answers_start_in_background: "keeps answers_kept (start_in_background sv describe delay kind i op_id now)"
  unfolding start_in_background_def dispatch_environment_def by (intro answers_ledger answers_environment_error)

lemma answers_background_environment_error: "keeps answers_kept (mark_background_environment_error sv kind i error op_id now)"
  unfolding mark_background_environment_error_def by (intro answers_ledger answers_environment_error)

lemma answers_cleared: "same_answer a (cleared_fields dk x a)" "same_answer a (idle_fields (cleared_fields dk x a))"
proof -
  have "same_answer a (clear_terminal dk x a)" "same_answer a (clear_container dk x a)" "same_answer a (idle_fields a)" for a
    unfolding same_answer_def same_task_def with_mentor_def submitted_def reviewed_task_def is_credit_attempt_def
    by (simp_all add: idle_fields_def clear_container_def clear_terminal_def split: sum.split)
  then show "same_answer a (cleared_fields dk x a)" "same_answer a (idle_fields (cleared_fields dk x a))"
    unfolding cleared_fields_def by (blast intro: same_answer_trans)+
qed

lemma answers_cleanup: "keeps answers_kept (cleanup_attempt_environment dk attempt)"
  unfolding cleanup_attempt_environment_def
  by (intro answers_ledger answers_update) (simp add: answers_cleared)

lemma answers_save_ready: "(\<And>a. same_answer a (f a)) \<Longrightarrow> keeps answers_kept (save_ready x r f now)"
  unfolding save_ready_def by (intro answers_ledger answers_update)

lemma answers_finish_run: "keeps answers_kept (finish_run gw dk w now)"
  unfolding finish_run_def run_environment_start_def run_environment_restart_def close_environment_def
  by (intro answers_ledger answers_save_ready answers_fields)

lemma answers_begin_run: "keeps answers_kept (begin_run sv kind i op_id actor origin now)"
  unfolding begin_run_def by (intro answers_ledger)

text \<open>
  A check of a task that needs no review ends the attempt. The flag that says so was computed from
  the attempt that the check has loaded.
\<close>

lemma save_check_passed_answers:
  assumes "review \<or> (\<forall>b \<in> set (sb_attempts s). ta_id b = ta_id attempt \<longrightarrow> \<not> reviewed_task b)"
  shows "answers_kept s (snd (save_check_passed sv attempt execution review out now s))"
proof -
  have upd: "answers_kept u (snd (update_attempt (ta_id attempt) (check_passed_fields review out now) u))"
    if "sb_attempts u = sb_attempts s" for u
  proof -
    have "same_answer a (check_passed_fields review out now a)" if "review \<or> \<not> reviewed_task a" for a
      using that answers_fields(9) [of a out now]
      by (cases review) (auto simp: same_answer_def same_task_def with_mentor_def reviewed_task_def is_credit_attempt_def
          check_passed_fields_def)
    with assms that have "answers_kept u (u\<lparr>sb_attempts :=
        map (\<lambda>a. if ta_id a = ta_id attempt then check_passed_fields review out now a else a) (sb_attempts u)\<rparr>)"
      by (intro answers_rewrite) (auto simp: same_answer_refl)
    then show ?thesis by (simp add: update_attempt_def op_apply)
  qed
  show ?thesis
    unfolding save_check_passed_def
  proof (intro answers.run_atomic answers.run_andthen answers.run_keeps [OF answers_get_task_attempt]
      answers.run_keeps [OF answers_check_events(3)] answers.run_keeps [OF answers_rows(6)] upd; (rule answers.run_keeps)?)
  qed (auto simp: get_task_attempt_Inr_iff check_live_def create_check_run_def op_apply andthen_Inr_iff Let_def
      split: option.splits if_splits intro: answers_ledger)
qed


lemma answers_save_checks:
  "keeps answers_kept (save_check_error i execution out failure_class reason started now)"
  "keeps answers_kept (save_check_failed i execution code out now)"
  unfolding save_check_error_def save_check_failed_def by (intro answers_ledger answers_update answers_fields)+

lemma remove_containers_state: "snd (remove_containers dk attempt s) = s"
  by (auto simp: remove_containers_def andthen_def op_apply split: sum.split)

lemma handle_outcome_answers:
  assumes "\<forall>b \<in> set (sb_attempts s). ta_id b = ta_id attempt \<longrightarrow> reviewed_task b = reviewed_task attempt"
  shows "answers_kept s (snd (handle_outcome sv dk attempt execution now answer s))"
proof (cases answer)
  case (CheckRaised error started)
  then show ?thesis unfolding handle_outcome_def
    by (auto intro!: answers.run_keeps answers_ledger answers_save_checks)
next
  case (CheckExit code out)
  show ?thesis
  proof (cases "code = Some 0")
    case False
    with CheckExit show ?thesis unfolding handle_outcome_def
      by (cases code) (auto intro!: answers.run_keeps answers_ledger answers_save_checks)
  next
    case True
    let ?review = "tk_requires_manual_review (ta_task attempt) \<and> is_credit_attempt attempt"
    let ?first = "if ?review then ret () else remove_containers dk attempt"
    have first: "snd (?first s) = s" by (simp add: op_apply remove_containers_state)
    have second: "answers_kept s (snd (save_check_passed sv attempt execution ?review out now s))"
      by (rule save_check_passed_answers) (use assms in \<open>auto simp: reviewed_task_def\<close>)
    have "answers_kept s (snd (andthen ?first (\<lambda>_.
        andthen (save_check_passed sv attempt execution ?review out now) (\<lambda>_. ret z)) s))" for z :: check_result
    proof (intro answers.run_andthen)
      show "answers_kept s (snd (?first s))" using first by (simp add: answers.unchanged)
    next
      fix x u
      assume "?first s = (Inr x, u)"
      with first have "u = s" by (metis snd_conv)
      with second show "answers_kept u (snd (save_check_passed sv attempt execution ?review out now u))" by simp
    qed (simp add: op_apply answers.unchanged)
    with CheckExit True show ?thesis by (simp add: handle_outcome_def Let_def)
  qed
qed

lemma run_check_answers:
  assumes "distinct (attempt_ids s)"
  shows "answers_kept s (snd (run_attempt_check sv dk i execution now s))"
  unfolding run_attempt_check_def
proof (intro answers.run_andthen)
  fix attempt u
  assume "get_task_attempt i s = (Inr attempt, u)"
  then have u: "u = s" "attempt \<in> set (sb_attempts s)" by (auto simp: get_task_attempt_Inr_iff dest: find_Some_member)
  then have only: "b = attempt" if "b \<in> set (sb_attempts s)" "ta_id b = ta_id attempt" for b
    using assms that by (auto simp: distinct_map dest: inj_onD)
  fix db w
  assume "get_db u = (Inr db, w)"
  then have "w = s" using u by (auto simp: op_apply)
  then show "answers_kept w (snd ((if technical_passed db attempt then ret (True, ''already_passed'')
      else handle_outcome sv dk attempt execution now (dk_check dk (ta_container_name attempt))) w))"
    using only by (auto simp: op_apply answers.unchanged intro!: handle_outcome_answers)
qed (auto intro: answers.run_keeps answers_ledger)

lemma answers_distinct: "answers_kept s t \<Longrightarrow> distinct (attempt_ids s) \<Longrightarrow> distinct (attempt_ids t)"
  by (simp add: answers_kept_def)

lemma answers_try_mark: "keeps answers_kept (try_mark_attempt_check_running sv i op_id now)"
  unfolding try_mark_attempt_check_running_def by (intro answers_ledger answers_update answers_fields)

lemma answers_background_check_error: "keeps answers_kept (mark_background_check_error i user_id error run_id now)"
  unfolding mark_background_check_error_def by (intro answers_ledger answers_update answers_fields)

lemma run_catch:
  assumes "R s (snd (m s))" and "\<And>e. keeps R (h e)" and "effect_order R"
  shows "R s (snd (catch m h s))"
proof (cases "m s")
  case (Pair r u)
  with assms show ?thesis
    by (cases r) (auto simp: catch_def keeps_def intro: effect_order.chained [OF assms(3)])
qed

lemma execute_run_answers:
  assumes "distinct (attempt_ids s)"
  shows "answers_kept s (snd (execute_run sv dk attempt run_id now s))"
  unfolding execute_run_def
proof (intro answers.run_andthen answers.run_keeps [OF answers_begin_check])
  fix x u
  assume "begin_check attempt run_id now s = (Inr x, u)"
  from keepsD [OF answers_begin_check this] assms have u: "distinct (attempt_ids u)" by (rule answers_distinct)
  have close: "keeps answers_kept (close_after_error (ta_id attempt) execution now e)" for execution e
    unfolding close_after_error_def by (intro answers_ledger)
  obtain execution started where x: "x = (execution, started)" by (cases x)
  let ?known = "andthen get_db (\<lambda>db. ret (list_ex (\<lambda>e. ce_execution_id e = ex_id execution \<and>
        ce_phase e = PH_FINISHED \<and> ce_result e = ''passed'') (sb_check_events db), ''already_handled''))"
  have "answers_kept u (snd (?known u))" by (rule answers.run_keeps) (intro answers_ledger)
  moreover have "answers_kept u (snd (catch (run_attempt_check sv dk (ta_id attempt) (Some execution) now)
        (close_after_error (ta_id attempt) execution now) u))"
    by (rule run_catch [where R = answers_kept and s = u and m = "run_attempt_check sv dk (ta_id attempt) (Some execution) now"
        and h = "close_after_error (ta_id attempt) execution now"])
      (rule run_check_answers [OF u], rule close, rule answers.effect_order_axioms)
  ultimately show "answers_kept u (snd ((case x of (execution, started) \<Rightarrow>
      if \<not> started then andthen get_db (\<lambda>db. ret (list_ex (\<lambda>e. ce_execution_id e = ex_id execution \<and>
        ce_phase e = PH_FINISHED \<and> ce_result e = ''passed'') (sb_check_events db), ''already_handled''))
      else catch (run_attempt_check sv dk (ta_id attempt) (Some execution) now)
        (close_after_error (ta_id attempt) execution now)) u))"
    unfolding x by simp
qed


lemma checked_run_answers:
  assumes "distinct (attempt_ids s)"
  shows "answers_kept s (snd (checked_run se sv dk i user_id mark run_id now s))"
proof -
  have registered: "keeps answers_kept (registered_run sv attempt mark run_id now)" for attempt
    unfolding registered_run_def by (intro answers_ledger answers_try_mark)
  have duplicate: "keeps answers_kept (duplicate_after_pass i user_id r now)" for r
    unfolding duplicate_after_pass_def by (intro answers_ledger)
  let ?passed = "andthen (case run_id of None \<Rightarrow> ret () | Some r \<Rightarrow> duplicate_after_pass i user_id r now)
    (\<lambda>_. run_attempt_check sv dk i None now)"
  let ?run = "\<lambda>attempt. andthen (registered_run sv attempt mark run_id now) (\<lambda>run.
    case run of
      None \<Rightarrow> andthen (get_task_attempt i) (\<lambda>fresh. andthen get_db (\<lambda>db.
        ret (technical_passed db fresh, ''already_running_or_passed'')))
    | Some r \<Rightarrow> andthen (get_task_attempt i) (\<lambda>fresh. execute_run sv dk fresh r now))"
  have passed: "answers_kept u (snd (?passed u))" if "distinct (attempt_ids u)" for u
  proof (intro answers.run_andthen run_check_answers)
    have d: "keeps answers_kept (case run_id of None \<Rightarrow> ret () | Some r \<Rightarrow> duplicate_after_pass i user_id r now)"
      by (intro answers_ledger duplicate)
    then show "answers_kept u (snd ((case run_id of None \<Rightarrow> ret () | Some r \<Rightarrow> duplicate_after_pass i user_id r now) u))"
      by (rule answers.run_keeps)
    show "distinct (attempt_ids w)"
      if "(case run_id of None \<Rightarrow> ret () | Some r \<Rightarrow> duplicate_after_pass i user_id r now) u = (Inr x, w)" for x w
      using answers_distinct [OF keepsD [OF d that]] \<open>distinct (attempt_ids u)\<close> by simp
  qed
  have run: "answers_kept u (snd (?run attempt u))" if "distinct (attempt_ids u)" for attempt u
  proof (intro answers.run_andthen answers.run_keeps [OF registered])
    fix run w
    assume w: "registered_run sv attempt mark run_id now u = (Inr run, w)"
    from answers_distinct [OF keepsD [OF registered w]] that have dist: "distinct (attempt_ids w)" by simp
    show "answers_kept w (snd ((case run of
        None \<Rightarrow> andthen (get_task_attempt i) (\<lambda>fresh. andthen get_db (\<lambda>db.
          ret (technical_passed db fresh, ''already_running_or_passed'')))
      | Some r \<Rightarrow> andthen (get_task_attempt i) (\<lambda>fresh. execute_run sv dk fresh r now)) w))"
    proof (cases run)
      case None
      have "keeps answers_kept (andthen (get_task_attempt i) (\<lambda>fresh. andthen get_db (\<lambda>db.
          ret (technical_passed db fresh, ''already_running_or_passed''))))" by (intro answers_ledger)
      with None show ?thesis by (simp add: answers.run_keeps)
    next
      case (Some r)
      have "answers_kept w (snd (andthen (get_task_attempt i) (\<lambda>fresh. execute_run sv dk fresh r now) w))"
      proof (intro answers.run_andthen answers.run_keeps [OF answers_get_task_attempt] execute_run_answers)
        show "distinct (attempt_ids v)" if "get_task_attempt i w = (Inr x, v)" for x v
          using that dist by (simp add: get_task_attempt_Inr_iff)
      qed
      with Some show ?thesis by simp
    qed
  qed
  show ?thesis
    unfolding checked_run_def
  proof (intro answers.run_andthen answers.run_keeps [OF answers_get_task_attempt])
    fix attempt u db w
    assume "get_task_attempt i s = (Inr attempt, u)" and "get_db u = (Inr db, w)"
    then have "distinct (attempt_ids w)" using assms by (auto simp: get_task_attempt_Inr_iff op_apply)
    with passed [of w] run [of w attempt] show "answers_kept w (snd ((if ta_user_id attempt \<noteq> user_id then raise PermissionDenied
      else if enabled_for se attempt then ret (False, ''http_observation_enabled'')
      else if technical_passed db attempt then ?passed else ?run attempt) w))"
      by (simp add: op_apply answers.unchanged)
  qed (simp add: op_apply answers.unchanged)
qed


section \<open>Requests that leave the answers alone\<close>

lemma answers_own_attempt: "keeps answers_kept (own_attempt user_id i)"
  unfolding own_attempt_def by (intro answers_ledger)

lemma answers_ledger_form: "keeps answers_kept view \<Longrightarrow> keeps answers_kept (ledger_form sv op_id i reply view)"
  unfolding ledger_form_def
  by (intro answers.keeps_catch answers.keeps_andthen answers.keeps_if)
    (auto intro: answers_ledger split: py_error.split)

lemma answers_start: "keeps answers_kept (start_task sv describe delay user i op_id now)"
  unfolding start_task_def start_view_def hand_over_def try_mark_environment_starting_def
  by (intro answers_ledger answers_ledger_form answers_own_attempt answers_try_environment answers_fields
      answers_start_in_background)

lemma answers_restart: "keeps answers_kept (restart_task sv describe delay user i op_id now)"
  unfolding restart_task_def restart_view_def hand_over_def try_mark_environment_restarting_def
  by (intro answers_ledger answers_ledger_form answers_own_attempt answers_try_environment answers_fields
      answers_start_in_background)

lemma answers_task_detail: "keeps answers_kept (task_detail user i now)"
  unfolding task_detail_def visible_attempt_def Let_def
  by (intro answers_ledger answers_own_attempt answers_update answers_fields)

lemma worker_answers:
  assumes "distinct (attempt_ids s)"
  shows "answers_kept s (snd (run_attempt_check_background se sv dk describe i user_id run_id now s))"
proof -
  have "answers_kept s (snd (catch (andthen (checked_run se sv dk i user_id False run_id now) (\<lambda>_. ret ()))
      (\<lambda>e. mark_background_check_error i user_id (describe e) run_id now) s))"
  proof (rule run_catch [where R = answers_kept])
    show "answers_kept s (snd (andthen (checked_run se sv dk i user_id False run_id now) (\<lambda>_. ret ()) s))"
      by (rule answers.run_andthen) (simp_all add: checked_run_answers assms op_apply answers.unchanged)
  qed (rule answers_background_check_error answers.effect_order_axioms)+
  then show ?thesis
    by (simp add: run_attempt_check_background_def andthen_def op_apply answers.unchanged)
qed

text \<open>A new attempt has no answer yet.\<close>

lemma answers_new_row:
  assumes "\<not> submitted a" and "ta_id a = fresh_pk (attempt_ids s)"
  shows "answers_kept s (s\<lparr>sb_attempts := sb_attempts s @ [a]\<rparr>)"
proof -
  have "ta_id a \<notin> set (attempt_ids s)" using assms(2) fresh_pk_notin by metis
  with assms(1) show ?thesis
    unfolding answers_kept_def by (auto simp: with_mentor_def intro: same_answer_refl)
qed

lemma answers_insert_attempt: "keeps answers_kept (insert_attempt sv user_id task number out now)"
proof -
  have manifest: "keeps answers_kept (ensure_manifest sv user_id task now)"
    unfolding ensure_manifest_def Let_def by (intro answers_ledger answers_modify) simp
  have created: "keeps answers_kept (created_attempt a m)" for a m
    unfolding created_attempt_def by (rule answers_rows)
  have inner: "keeps answers_kept (andthen get_db (\<lambda>db. let a = new_attempt (fresh_pk (map ta_id (sb_attempts db))) user_id task number out in
       if attempt_clashes db a then raise IntegrityError
       else andthen (modify_db (\<lambda>db. db\<lparr>sb_attempts := sb_attempts db @ [a]\<rparr>)) (\<lambda>_.
         andthen (if enabled then andthen (created_attempt a m) (\<lambda>_. ret ()) else ret ()) (\<lambda>_. ret a))))" for enabled m
  proof -
    have "answers_kept s (snd ((if attempt_clashes s a then raise IntegrityError
       else andthen (modify_db (\<lambda>db. db\<lparr>sb_attempts := sb_attempts db @ [a]\<rparr>)) (\<lambda>_.
         andthen (if enabled then andthen (created_attempt a m) (\<lambda>_. ret ()) else ret ()) (\<lambda>_. ret a))) s))"
      if a: "a = new_attempt (fresh_pk (map ta_id (sb_attempts s))) user_id task number out" for s a
    proof -
      have rest: "keeps answers_kept (andthen (if enabled then andthen (created_attempt a m) (\<lambda>_. ret ()) else ret ()) (\<lambda>_. ret a))"
        by (intro answers_ledger created)
      have "answers_kept s (snd (andthen (modify_db (\<lambda>db. db\<lparr>sb_attempts := sb_attempts db @ [a]\<rparr>)) (\<lambda>_.
         andthen (if enabled then andthen (created_attempt a m) (\<lambda>_. ret ()) else ret ()) (\<lambda>_. ret a)) s))"
      proof (rule answers.run_andthen)
        have "\<not> submitted a" "ta_id a = fresh_pk (attempt_ids s)" using a by (simp_all add: new_attempt_def submitted_def)
        then show "answers_kept s (snd (modify_db (\<lambda>db. db\<lparr>sb_attempts := sb_attempts db @ [a]\<rparr>) s))"
          by (simp add: op_apply answers_new_row)
      qed (rule answers.run_keeps [OF rest])
      then show ?thesis by (simp add: op_apply answers.unchanged)
    qed
    then show ?thesis by (simp add: keeps_def andthen_def [of get_db] op_apply Let_def)
  qed
  have first: "keeps answers_kept (if b then ensure_manifest sv user_id task now else ret None)" for b
    by (intro answers_ledger manifest)
  show ?thesis
    unfolding insert_attempt_def Let_def
    by (rule answers.keeps_atomic, rule answers.keeps_andthen, rule answers.keeps_get_db,
        rule answers.keeps_andthen, rule first, rule inner [unfolded Let_def])
qed

lemma answers_rerun: "keeps answers_kept (rerun_task sv user i now)"
proof -
  have "keeps answers_kept (modify_db (\<lambda>db. db\<lparr>sb_attempts := map (\<lambda>row. if P row then row\<lparr>ta_is_current := False\<rparr> else row)
      (sb_attempts db)\<rparr>))" for P
    by (intro answers.keeps_modify_db answers_rewrite) (simp add: same_answer_refl answers_fields)
  then show ?thesis
    unfolding rerun_task_def Let_def by (intro answers_ledger answers_own_attempt answers_insert_attempt)
qed

lemma answers_dashboard: "keeps answers_kept (trainee_dashboard sv user_id level now)"
proof -
  have current: "keeps answers_kept (get_current_attempt sv user_id task now)" for task
    unfolding get_current_attempt_def Let_def
    by (intro answers_ledger answers_update answers_fields answers_insert_attempt)
  have "keeps answers_kept (current_attempts sv user_id ts now)" for ts
    by (induction ts) (simp_all, (intro answers_ledger current; assumption)+)
  then show ?thesis unfolding trainee_dashboard_def Let_def by (intro answers_ledger)
qed


section \<open>The invariant\<close>

definition latest_submission :: "sandbox_db \<Rightarrow> pk \<Rightarrow> SandboxAnswerSubmission option" where
  "latest_submission db i = last_option (attempt_submissions db i)"

text \<open>What the attempt shows of its answer is what the ledger holds of it, up to surrounding white space.\<close>

definition answer_recorded :: "sandbox_db \<Rightarrow> TaskAttempt \<Rightarrow> bool" where
  "answer_recorded db a \<longleftrightarrow> (case latest_submission db (ta_id a) of
     None \<Rightarrow> True
   | Some m \<Rightarrow> py_strip (ta_client_answer a) = py_strip (sm_client_answer m) \<and>
       py_strip (ta_trainee_report a) = py_strip (sm_trainee_report m) \<and>
       decision_text (ta_mentor_decision a) = last_decision db m)"

definition submission_keys :: "sandbox_db \<Rightarrow> bool" where
  "submission_keys db \<longleftrightarrow> distinct (map sm_id (sb_submissions db)) \<and>
     distinct (map (\<lambda>m. (sm_attempt_id m, sm_ordinal m)) (sb_submissions db)) \<and>
     distinct (map rv_id (sb_reviews db)) \<and>
     (\<forall>r \<in> set (sb_reviews db). rv_submission_id r \<in> set (map sm_id (sb_submissions db)))"

definition submission_of :: "SandboxAnswerSubmission \<Rightarrow> TaskAttempt \<Rightarrow> bool" where
  "submission_of m a \<longleftrightarrow> ta_id a = sm_attempt_id m \<and> ta_user_id a = sm_user_id m \<and> tk_id (ta_task a) = sm_task_id m \<and>
     reviewed_task a"

definition answers_inv :: "sandbox_db \<Rightarrow> bool" where
  "answers_inv db \<longleftrightarrow> distinct (attempt_ids db) \<and> submission_keys db \<and>
     (\<forall>m \<in> set (sb_submissions db). \<exists>a \<in> set (sb_attempts db). submission_of m a) \<and>
     (\<forall>a \<in> set (sb_attempts db). submitted a \<longrightarrow> answer_recorded db a)"

lemma last_by_Some:
  assumes "last_by f xs = Some x"
  shows "x \<in> set xs \<and> (\<forall>y \<in> set xs. f y \<le> f x)"
proof -
  let ?k = "\<lambda>x. - int (f x)"
  from assms obtain ys where ys: "sort_key ?k xs = x # ys" by (auto simp: last_by_def split: list.splits)
  have "sorted (map ?k (x # ys))" using sorted_sort_key [of ?k xs] ys by simp
  then have "\<forall>y \<in> set (x # ys). ?k x \<le> ?k y" by auto
  moreover have "set (x # ys) = set xs" by (metis set_sort ys)
  ultimately show ?thesis by auto
qed

lemma last_by_None: "last_by f xs = None \<longleftrightarrow> xs = []"
proof -
  have "sort_key (\<lambda>x. - int (f x)) xs = [] \<longleftrightarrow> xs = []" by (metis set_empty set_sort)
  then show ?thesis by (cases "sort_key (\<lambda>x. - int (f x)) xs") (auto simp: last_by_def)
qed

lemma last_option_sorted:
  assumes "last_option (sort_key f xs) = Some x"
  shows "x \<in> set xs \<and> (\<forall>y \<in> set xs. f y \<le> f x)"
proof -
  let ?ys = "sort_key f xs"
  from assms have ys: "?ys \<noteq> []" "x = last ?ys" by (auto simp: last_option_def split: if_splits)
  have split: "?ys = butlast ?ys @ [x]" using ys by simp
  have "sorted (map f (butlast ?ys @ [x]))" using sorted_sort_key [of f xs] split by metis
  then have "\<forall>y \<in> set (butlast ?ys @ [x]). f y \<le> f x" by (auto simp: sorted_append)
  then have "\<forall>y \<in> set ?ys. f y \<le> f x" using split by metis
  moreover have "x \<in> set ?ys" using ys last_in_set by blast
  ultimately show ?thesis by simp
qed

lemma last_option_None: "last_option (sort_key f xs) = None \<longleftrightarrow> xs = []"
proof -
  have "sort_key f xs = [] \<longleftrightarrow> xs = []" by (metis set_empty set_sort)
  then show ?thesis by (simp add: last_option_def)
qed

text \<open>A row with a number above all others is the last one.\<close>

lemma last_option_new:
  assumes "x \<in> set xs" and "\<forall>y \<in> set xs. y \<noteq> x \<longrightarrow> f y < f x"
  shows "last_option (sort_key f xs) = Some x"
proof (cases "last_option (sort_key f xs)")
  case None
  with assms(1) show ?thesis by (auto simp: last_option_None)
next
  case (Some y)
  with last_option_sorted [OF Some] assms show ?thesis by (metis leD)
qed

lemma last_by_last:
  assumes "inj_on f (set xs)"
  shows "last_by f xs = last_option (sort_key f xs)"
proof (cases "last_by f xs")
  case None
  then show ?thesis by (simp add: last_by_None last_option_def)
next
  case (Some x)
  with last_by_Some [OF Some] assms have "last_option (sort_key f xs) = Some x"
    by (intro last_option_new) (auto simp: inj_on_def le_less)
  with Some show ?thesis by simp
qed

text \<open>The invariant follows the answers.\<close>

lemma kept_submission:
  assumes "answers_kept s t" and "distinct (attempt_ids s)"
    and "\<forall>m \<in> set (sb_submissions s). \<exists>a \<in> set (sb_attempts s). submission_of m a"
  shows "\<forall>m \<in> set (sb_submissions t). \<exists>a \<in> set (sb_attempts t). submission_of m a"
proof
  fix m assume "m \<in> set (sb_submissions t)"
  with assms obtain a where a: "a \<in> set (sb_attempts s)" "submission_of m a" unfolding answers_kept_def by metis
  with assms(1,2) obtain b where "b \<in> set (sb_attempts t)" "same_task a b" unfolding answers_kept_def by blast
  with a(2) show "\<exists>a \<in> set (sb_attempts t). submission_of m a"
    by (intro bexI [of _ b]) (auto simp: submission_of_def same_task_def reviewed_task_def is_credit_attempt_def)
qed

lemma submissions_reviewed:
  assumes "distinct (attempt_ids t)" and "\<forall>m \<in> set (sb_submissions t). \<exists>a \<in> set (sb_attempts t). submission_of m a"
    and "b \<in> set (sb_attempts t)" and "\<not> reviewed_task b"
  shows "latest_submission t (ta_id b) = None"
proof -
  have "m \<notin> set (sb_submissions t)" if "sm_attempt_id m = ta_id b" for m
  proof
    assume "m \<in> set (sb_submissions t)"
    with assms(2) obtain a where a: "a \<in> set (sb_attempts t)" "submission_of m a" by blast
    with that have "ta_id a = ta_id b" by (simp add: submission_of_def)
    with assms(1,3) a(1) have "a = b" by (auto simp: distinct_map dest: inj_onD)
    with a(2) assms(4) show False by (simp add: submission_of_def)
  qed
  then show ?thesis by (auto simp: latest_submission_def attempt_submissions_def last_option_None filter_empty_conv)
qed

lemma kept_inv:
  assumes kept: "answers_kept s t" and inv: "answers_inv s"
  shows "answers_inv t"
proof -
  from kept have same: "sb_submissions t = sb_submissions s" "sb_reviews t = sb_reviews s"
    by (simp_all add: answers_kept_def)
  from inv have dist: "distinct (attempt_ids s)" by (simp add: answers_inv_def)
  have dist': "distinct (attempt_ids t)" by (rule answers_distinct [OF kept dist])
  have of: "\<forall>m \<in> set (sb_submissions t). \<exists>a \<in> set (sb_attempts t). submission_of m a"
    using kept_submission [OF kept dist] inv by (simp add: answers_inv_def)
  have latest: "latest_submission t = latest_submission s" "last_decision t = last_decision s"
    using same by (simp_all add: fun_eq_iff latest_submission_def attempt_submissions_def last_decision_def reviews_of_def)
  have "answer_recorded t b" if b: "b \<in> set (sb_attempts t)" "submitted b" for b
  proof (cases "reviewed_task b")
    case False
    with submissions_reviewed [OF dist' of b(1)] show ?thesis by (simp add: answer_recorded_def)
  next
    case True
    with b have "with_mentor b" by (simp add: with_mentor_def)
    with kept dist b(1) obtain a where a: "a \<in> set (sb_attempts s)" "same_answer a b" unfolding answers_kept_def by blast
    with \<open>with_mentor b\<close> have "submitted a" and eq: "ta_id b = ta_id a" "ta_client_answer b = ta_client_answer a"
        "ta_trainee_report b = ta_trainee_report a" "ta_mentor_decision b = ta_mentor_decision a"
      by (auto simp: same_answer_def same_task_def with_mentor_def)
    with inv a(1) have "answer_recorded s a" by (simp add: answers_inv_def)
    with eq latest show ?thesis by (simp add: answer_recorded_def split: option.splits)
  qed
  with dist' of inv same show ?thesis by (simp add: answers_inv_def submission_keys_def)
qed


section \<open>Handing in an answer\<close>

lemma dropWhile_twice: "dropWhile P (dropWhile P xs) = dropWhile P xs"
  by (induction xs) auto

lemma py_strip_twice: "py_strip (py_strip s) = py_strip s"
proof -
  define t where "t = dropWhile is_space s"
  define u where "u = rev (dropWhile is_space (rev t))"
  have strip: "py_strip s = u" by (simp add: py_strip_def t_def u_def)
  have "t = u @ rev (takeWhile is_space (rev t))"
    unfolding u_def by (metis rev_append rev_rev_ident takeWhile_dropWhile_id)
  then have "u \<noteq> [] \<Longrightarrow> hd u = hd t \<and> t \<noteq> []" by (metis append_is_Nil_conv hd_append2)
  then have "u \<noteq> [] \<Longrightarrow> \<not> is_space (hd u)" using hd_dropWhile [of is_space s] by (simp add: t_def)
  then have "dropWhile is_space u = u" by (cases u) auto
  then have "py_strip u = rev (dropWhile is_space (rev u))" by (simp add: py_strip_def)
  also have "rev u = dropWhile is_space (rev t)" by (simp add: u_def)
  finally show ?thesis by (simp add: strip dropWhile_twice u_def)
qed

text \<open>An operation identifier that no submission has.\<close>

definition unused_submission :: "services \<Rightarrow> string option \<Rightarrow> sandbox_db \<Rightarrow> bool" where
  "unused_submission sv op_id db \<longleftrightarrow>
     (\<forall>m \<in> set (sb_submissions db). Inr (sm_operation_id m) \<noteq> operation_id sv op_id)"

lemma create_submission_Inr:
  assumes "create_submission new s = (Inr row, t)"
  shows "row = new\<lparr>sm_id := fresh_pk (map sm_id (sb_submissions s))\<rparr> \<and> t = s\<lparr>sb_submissions := sb_submissions s @ [row]\<rparr>"
  using assms by (auto simp: create_submission_def andthen_Inr_iff op_apply insert_unless_def Let_def split: if_splits)

lemma submit_answer_Inr:
  assumes run: "submit_answer sv attempt answer report op_id now s = (Inr x, t)"
    and unused: "unused_submission sv op_id s"
  shows "\<exists>row u m. List.find (\<lambda>a. ta_id a = ta_id attempt) (sb_attempts s) = Some row \<and> reviewed_task row \<and>
    answers_kept s u \<and> sb_attempts u = sb_attempts s \<and> t = u\<lparr>sb_submissions := sb_submissions u @ [m]\<rparr> \<and>
    sm_id m = fresh_pk (map sm_id (sb_submissions s)) \<and> sm_attempt_id m = ta_id attempt \<and>
    sm_user_id m = ta_user_id attempt \<and> sm_task_id m = tk_id (ta_task attempt) \<and>
    sm_ordinal m = fold max (map sm_ordinal (filter (\<lambda>m. sm_attempt_id m = ta_id attempt) (sb_submissions s))) 0 + 1 \<and>
    sm_client_answer m = answer \<and> sm_trainee_report m = report"
proof -
  let ?tail = "andthen (lift_result (operation_id sv op_id)) (\<lambda>op. andthen get_db (\<lambda>db.
         let body = sv_digest sv (JArr [JStr answer, JStr report])
         in case List.find (\<lambda>s. sm_operation_id s = op) (sb_submissions db) of
              Some old \<Rightarrow>
                if sm_attempt_id old \<noteq> ta_id attempt \<or> sm_digest old \<noteq> body
                then raise (ValidationError ''submission_operation_conflict'') else ret (old, False)
            | None \<Rightarrow>
                let ordinal = fold max (map sm_ordinal
                      (filter (\<lambda>s. sm_attempt_id s = ta_id attempt) (sb_submissions db))) 0 + 1
                in andthen (create_submission
                  \<lparr>sm_id = 0, sm_operation_id = op, sm_attempt_id = ta_id attempt,
                   sm_user_id = ta_user_id attempt, sm_task_id = tk_id (ta_task attempt),
                   sm_attempt_number = ta_attempt_number attempt, sm_ordinal = ordinal,
                   sm_submitted_at = now, sm_client_answer = answer,
                   sm_trainee_report = report, sm_digest = body\<rparr>) (\<lambda>submission.
                ret (submission, True))))"
  from run obtain row where row: "List.find (\<lambda>a. ta_id a = ta_id attempt) (sb_attempts s) = Some row"
    and task: "reviewed_task row"
    and rest: "andthen (observe attempt) (\<lambda>_.
         ?tail) s = (Inr x, t)"
    unfolding submit_answer_def atomic_Inr_iff
    by (auto simp: andthen_Inr_iff [of "get_task_attempt i" for i] andthen_def [of get_db] op_apply get_task_attempt_Inr_iff
        reviewed_task_def split: if_splits)
  from rest obtain c u where u: "observe attempt s = (Inr c, u)" and op: "?tail u = (Inr x, t)"
    unfolding andthen_Inr_iff by blast
  have kept: "answers_kept s u" by (rule keepsD [OF answers_observe u])
  have attempts: "sb_attempts u = sb_attempts s"
    using u by (auto simp: observe_def atomic_def create_coverage_def insert_unless_def gap_def andthen_def op_apply
        split: option.splits if_splits sum.splits prod.splits)
  from kept have subs: "sb_submissions u = sb_submissions s" by (simp add: answers_kept_def)
  from op obtain opid where opid: "operation_id sv op_id = Inr opid" by (auto simp: andthen_Inr_iff op_apply)
  with unused subs have "List.find (\<lambda>s. sm_operation_id s = opid) (sb_submissions u) = None"
    by (auto simp: find_None_all unused_submission_def)
  with op opid obtain m where "create_submission
                  \<lparr>sm_id = 0, sm_operation_id = opid, sm_attempt_id = ta_id attempt,
                   sm_user_id = ta_user_id attempt, sm_task_id = tk_id (ta_task attempt),
                   sm_attempt_number = ta_attempt_number attempt,
                   sm_ordinal = fold max (map sm_ordinal (filter (\<lambda>s. sm_attempt_id s = ta_id attempt) (sb_submissions u))) 0 + 1,
                   sm_submitted_at = now, sm_client_answer = answer,
                   sm_trainee_report = report, sm_digest = sv_digest sv (JArr [JStr answer, JStr report])\<rparr> u = (Inr m, t)"
    by (auto simp: andthen_Inr_iff andthen_def [of get_db] op_apply Let_def)
  note new = create_submission_Inr [OF this]
  show ?thesis
    by (intro exI [of _ row] exI [of _ u] exI [of _ m] conjI row task kept attempts) (use new subs in auto)
qed


lemma attempt_by_id: "distinct (attempt_ids s) \<Longrightarrow> a \<in> set (sb_attempts s) \<Longrightarrow> b \<in> set (sb_attempts s) \<Longrightarrow> ta_id a = ta_id b \<Longrightarrow> a = b"
  by (auto simp: distinct_map dest: inj_onD)

lemma new_submission_inv:
  assumes inv: "answers_inv s" and row: "row \<in> set (sb_attempts s)" "reviewed_task row"
    and m: "sm_id m = fresh_pk (map sm_id (sb_submissions s))" "submission_of m row"
      "sm_ordinal m = fold max (map sm_ordinal (filter (\<lambda>m. sm_attempt_id m = ta_id row) (sb_submissions s))) 0 + 1"
    and f: "\<And>a. same_task a (f a)" "py_strip (ta_client_answer (f row)) = py_strip (sm_client_answer m)"
      "py_strip (ta_trainee_report (f row)) = py_strip (sm_trainee_report m)" "ta_mentor_decision (f row) = NOT_REVIEWED"
    and t: "sb_attempts t = map (\<lambda>a. if ta_id a = ta_id row then f a else a) (sb_attempts s)"
      "sb_submissions t = sb_submissions s @ [m]" "sb_reviews t = sb_reviews s"
  shows "answers_inv t"
proof -
  from inv have dist: "distinct (attempt_ids s)" and keys: "submission_keys s" by (simp_all add: answers_inv_def)
  have own: "sm_attempt_id m = ta_id row" using m(2) by (simp add: submission_of_def)
  have ids: "attempt_ids t = attempt_ids s" using f(1) t(1) by (simp add: same_task_def)
  have fresh: "sm_id m \<notin> set (map sm_id (sb_submissions s))" using m(1) fresh_pk_notin by metis
  have above: "sm_ordinal m' < sm_ordinal m" if "m' \<in> set (sb_submissions s)" "sm_attempt_id m' = ta_id row" for m'
  proof -
    have "sm_ordinal m' \<le> fold max (map sm_ordinal (filter (\<lambda>m. sm_attempt_id m = ta_id row) (sb_submissions s))) 0"
      using that by (intro fold_max_ge) auto
    then show ?thesis using m(3) by simp
  qed
  have "submission_keys t"
    using keys fresh above own by (fastforce simp: submission_keys_def t(2,3))
  moreover have "\<exists>b \<in> set (sb_attempts t). submission_of m' b" if m': "m' \<in> set (sb_submissions t)" for m'
  proof -
    have "\<exists>a \<in> set (sb_attempts s). submission_of m' a"
      using m' t(2) m(2) row(1) inv by (auto simp: answers_inv_def)
    then obtain a where a: "a \<in> set (sb_attempts s)" "submission_of m' a" by blast
    let ?b = "if ta_id a = ta_id row then f a else a"
    have "same_task a ?b" using f(1) by (simp add: same_answer_refl)
    with a(2) have "submission_of m' ?b"
      unfolding submission_of_def same_task_def reviewed_task_def is_credit_attempt_def by metis
    moreover have "?b \<in> set (sb_attempts t)" using a(1) t(1) by auto
    ultimately show ?thesis by blast
  qed
  moreover have "answer_recorded t b" if b: "b \<in> set (sb_attempts t)" "submitted b" for b
  proof -
    from b(1) t(1) obtain a where a: "a \<in> set (sb_attempts s)" "b = (if ta_id a = ta_id row then f a else a)" by auto
    show ?thesis
    proof (cases "ta_id a = ta_id row")
      case True
      with attempt_by_id [OF dist a(1) row(1)] a(2) have "b = f row" by simp
      moreover have "ta_id (f row) = ta_id row" using f(1) by (simp add: same_task_def)
      moreover have "latest_submission t (ta_id row) = Some m"
        unfolding latest_submission_def attempt_submissions_def
        by (rule last_option_new) (use t(2) own above in auto)
      moreover have "last_decision t m = ''not_reviewed''"
      proof -
        have "filter (\<lambda>r. rv_submission_id r = sm_id m) (sb_reviews s) = []"
          using keys fresh unfolding submission_keys_def filter_empty_conv by metis
        then have "reviews_of t m = []" using t(3) by (simp add: reviews_of_def)
        then show ?thesis by (simp add: last_decision_def last_option_def)
      qed
      ultimately show ?thesis using f by (simp add: answer_recorded_def)
    next
      case False
      with a b have "answer_recorded s b" using inv by (simp add: answers_inv_def)
      moreover have "latest_submission t (ta_id b) = latest_submission s (ta_id b)"
        using False a(2) own t(2) by (simp add: latest_submission_def attempt_submissions_def)
      moreover have "last_decision t = last_decision s"
        using t(3) by (simp add: fun_eq_iff last_decision_def reviews_of_def)
      ultimately show ?thesis by (simp add: answer_recorded_def split: option.splits)
    qed
  qed
  ultimately show ?thesis using dist ids by (simp add: answers_inv_def)
qed

lemma submit_draft_inv:
  assumes inv: "answers_inv s" and row: "row \<in> set (sb_attempts s)" "same_task row attempt"
    and unused: "unused_submission sv (ap_operation_id p) s"
  shows "answers_inv (snd (submit_draft sv ai attempt p now s))"
proof (cases "submit_draft sv ai attempt p now s")
  case (Pair r t)
  show ?thesis
  proof (cases r)
    case (Inl e)
    with Pair have "t = s" unfolding submit_draft_def by (auto dest: atomic_rollback)
    with Pair inv show ?thesis by simp
  next
    case (Inr b)
    with Pair have run: "submit_draft sv ai attempt p now s = (Inr b, t)" by simp
    then consider "t = s" | x u where "submit_answer sv attempt (ap_client_answer p) (ap_trainee_report p) (ap_operation_id p) now s = (Inr x, u)"
        "t = u\<lparr>sb_attempts := map (\<lambda>a. if ta_id a = ta_id attempt then answer_fields (py_strip (ap_client_answer p))
          (py_strip (ap_trainee_report p)) now a else a) (sb_attempts u)\<rparr>"
      unfolding submit_draft_def atomic_Inr_iff
      by (auto simp: andthen_Inr_iff op_apply get_task_attempt_Inr_iff update_attempt_def split: if_splits option.splits)
    then show ?thesis
    proof cases
      case 1
      with Pair inv show ?thesis by simp
    next
      case 2
      from submit_answer_Inr [OF 2(1) unused] obtain old v m
        where found: "List.find (\<lambda>a. ta_id a = ta_id attempt) (sb_attempts s) = Some old" "reviewed_task old"
        and v: "answers_kept s v" "sb_attempts v = sb_attempts s" "u = v\<lparr>sb_submissions := sb_submissions v @ [m]\<rparr>"
        and m: "sm_id m = fresh_pk (map sm_id (sb_submissions s))" "sm_attempt_id m = ta_id attempt"
          "sm_user_id m = ta_user_id attempt" "sm_task_id m = tk_id (ta_task attempt)"
          "sm_ordinal m = fold max (map sm_ordinal (filter (\<lambda>m. sm_attempt_id m = ta_id attempt) (sb_submissions s))) 0 + 1"
          "sm_client_answer m = ap_client_answer p" "sm_trainee_report m = ap_trainee_report p" by blast
      have old: "old = row"
        using attempt_by_id [of s old row] find_Some_member [OF found(1)] row inv by (auto simp: answers_inv_def same_task_def)
      have subs: "sb_submissions v = sb_submissions s" using v(1) by (simp add: answers_kept_def)
      have id: "ta_id attempt = ta_id row" using row(2) by (simp add: same_task_def)
      let ?f = "answer_fields (py_strip (ap_client_answer p)) (py_strip (ap_trainee_report p)) now"
      have "answers_inv t"
      proof (rule new_submission_inv [OF kept_inv [OF v(1) inv], of row m ?f])
        show "row \<in> set (sb_attempts v)" "reviewed_task row" using row(1) v(2) found(2) old by simp_all
        show "submission_of m row" using m row(2) found(2) old by (simp add: submission_of_def same_task_def)
        show "same_task a (?f a)" for a by (simp add: same_task_def answer_fields_def)
      qed (use 2(2) v(3) m subs id in \<open>simp_all add: answer_fields_def py_strip_twice\<close>)
      with Pair show ?thesis by simp
    qed
  qed
qed


definition inv_step :: "sandbox_db \<Rightarrow> sandbox_db \<Rightarrow> bool" where
  "inv_step s t \<longleftrightarrow> (answers_inv s \<longrightarrow> answers_inv t)"

interpretation recorded: effect_order inv_step
  by unfold_locales (auto simp: inv_step_def)

lemma recorded_kept: "answers_kept s t \<Longrightarrow> inv_step s t"
  by (auto simp: inv_step_def intro: kept_inv)

lemma recorded_keeps: "keeps answers_kept m \<Longrightarrow> keeps inv_step m"
  by (simp add: keeps_def recorded_kept)

text \<open>A draft is only kept while the answer is not with the mentor.\<close>

lemma save_draft_answers:
  assumes "distinct (attempt_ids s)"
  shows "answers_kept s (snd (save_draft i p s))"
  unfolding save_draft_def
proof (intro answers.run_atomic answers.run_andthen answers.run_keeps [OF answers_get_task_attempt])
  fix fresh u
  assume "get_task_attempt i s = (Inr fresh, u)"
  then have u: "u = s" "fresh \<in> set (sb_attempts s)" "ta_id fresh = i"
    by (auto simp: get_task_attempt_Inr_iff dest: find_Some_member)
  have "same_answer a (if ta_id a = i then draft_fields p a else a)" if "a \<in> set (sb_attempts s)" "\<not> submitted fresh" for a
    using attempt_by_id [OF assms that(1) u(2)] u(3) that(2)
    by (auto simp: same_answer_def same_task_def with_mentor_def submitted_def draft_fields_def)
  then have "answers_kept s (snd (update_attempt i (draft_fields p) s))" if "\<not> submitted fresh"
    using that by (simp add: update_attempt_def op_apply answers_rewrite)
  then show "answers_kept u (snd ((if submitted fresh then ret False
      else andthen (update_attempt i (draft_fields p)) (\<lambda>_. ret True)) u))"
    using u(1) by (auto simp: op_apply answers.unchanged intro!: answers.run_andthen)
qed

lemma answer_view_inv:
  assumes row: "attempt \<in> set (sb_attempts s)"
    and fresh: "ap_operation_id p \<in> {None, Some []} \<longrightarrow> unused_submission sv (ap_operation_id p) s"
  shows "inv_step s (snd (answer_view sv dk ai attempt p now s))"
proof (cases "prior_submission sv s (ap_operation_id p)")
  case (Some prior)
  then show ?thesis
    by (simp add: answer_view_def andthen_def [of get_db] op_apply recorded.unchanged)
next
  case None
  have unused: "unused_submission sv (ap_operation_id p) s"
    using fresh None by (auto simp: prior_submission_def find_None_all unused_submission_def split: if_splits)
  have send: "inv_step u (snd (try_submit sv ai attempt p now u))"
    if u: "save_draft (ta_id attempt) p s = (Inr saved, u)" "answers_inv s" for saved u
    unfolding try_submit_def
  proof (rule run_catch [where R = inv_step])
    have dist: "distinct (attempt_ids s)" using u(2) by (simp add: answers_inv_def)
    have kept: "answers_kept s u" using save_draft_answers [OF dist, of "ta_id attempt" p] u(1) by simp
    with dist row obtain b where b: "b \<in> set (sb_attempts u)" "same_task attempt b" unfolding answers_kept_def by blast
    then have "same_task b attempt" by (simp add: same_task_def)
    moreover have "unused_submission sv (ap_operation_id p) u"
      using unused kept by (simp add: unused_submission_def answers_kept_def)
    ultimately have "inv_step u (snd (submit_draft sv ai attempt p now u))"
      using submit_draft_inv [of u b attempt sv p ai now] b(1) by (simp add: inv_step_def)
    then show "inv_step u (snd (andthen (submit_draft sv ai attempt p now) (\<lambda>b. ret (Some b)) u))"
      by (intro recorded.run_andthen) (simp_all add: op_apply recorded.unchanged)
    show "keeps inv_step ((case e of ExternalError _ \<Rightarrow> ret None | _ \<Rightarrow> raise e) :: (sandbox_db, bool option) op)" for e
      by (auto intro: recorded.keeps_intros split: py_error.split)
  qed (rule recorded.effect_order_axioms)
  have "keeps answers_kept (after_sending dk attempt p now sent)" for sent
    unfolding after_sending_def by (auto intro!: answers_ledger answers_cleanup split: option.split bool.split)
  then have sent: "keeps inv_step (after_sending dk attempt p now sent)" for sent by (rule recorded_keeps)
  have sending: "inv_step u (snd (send_answer sv dk ai attempt p now saved u))"
    if "save_draft (ta_id attempt) p s = (Inr saved, u)" "answers_inv s" for saved u
  proof -
    have "inv_step u (snd (andthen (try_submit sv ai attempt p now) (after_sending dk attempt p now) u))"
      by (rule recorded.run_andthen) (rule send [OF that], rule recorded.run_keeps [OF sent])
    then show ?thesis by (simp add: send_answer_def op_apply recorded.unchanged)
  qed
  have "inv_step s (snd (andthen (save_draft (ta_id attempt) p) (send_answer sv dk ai attempt p now) s))"
  proof (cases "answers_inv s")
    case True
    then have "distinct (attempt_ids s)" by (simp add: answers_inv_def)
    from recorded_kept [OF save_draft_answers [OF this]] sending True show ?thesis by (intro recorded.run_andthen) auto
  qed (simp add: inv_step_def)
  with None show ?thesis by (simp add: answer_view_def andthen_def [of get_db] op_apply recorded.unchanged)
qed


lemma run_ledger_form:
  assumes "inv_step s (snd (view s))"
  shows "inv_step s (snd (ledger_form sv op_id i reply view s))"
  unfolding ledger_form_def
proof (rule run_catch [where R = inv_step])
  let ?check = "if op_id \<in> {None, Some []} then ret () else andthen (lift_result (operation_id sv op_id)) (\<lambda>_. ret ())"
  have state: "snd (?check s) = s" by (auto simp: andthen_def op_apply split: sum.split)
  show "inv_step s (snd (andthen ?check (\<lambda>_. view) s))"
  proof (rule recorded.run_andthen)
    show "inv_step s (snd (?check s))" using state by (simp add: recorded.unchanged)
    show "inv_step u (snd (view u))" if "?check s = (Inr x, u)" for x u
      using assms state that by (metis snd_conv)
  qed
qed (auto intro: recorded.keeps_intros recorded.effect_order_axioms split: py_error.split)

lemma own_attempt_Inr: "own_attempt user_id i s = (Inr a, u) \<Longrightarrow> u = s \<and> a \<in> set (sb_attempts s) \<and> ta_id a = i"
  by (auto simp: own_attempt_def andthen_Inr_iff op_apply split: option.splits dest: find_Some_member)

definition unused_answer :: "services \<Rightarrow> answer_post \<Rightarrow> sandbox_db \<Rightarrow> bool" where
  "unused_answer sv p db \<longleftrightarrow> (ap_operation_id p \<in> {None, Some []} \<longrightarrow> unused_submission sv (ap_operation_id p) db)"

lemma check_view_inv:
  assumes "unused_answer sv p s"
  shows "inv_step s (snd (check_view se sv dk ai user i p now s))"
  unfolding check_view_def
proof (rule recorded.run_andthen)
  show "inv_step s (snd (own_attempt (us_id user) i s))"
    by (rule recorded.run_keeps [OF recorded_keeps [OF answers_own_attempt]])
  fix a u
  assume "own_attempt (us_id user) i s = (Inr a, u)"
  then have u: "u = s" and a: "a \<in> set (sb_attempts s)" by (auto dest: own_attempt_Inr)
  have answer: "inv_step s (snd (andthen (answer_view sv dk ai a p now) (\<lambda>r. ret (only_reply r)) s))"
    using answer_view_inv [OF a] assms
    by (intro recorded.run_andthen) (simp_all add: unused_answer_def op_apply recorded.unchanged)
  have "keeps answers_kept (andthen (try_mark_attempt_check_running sv i (ap_operation_id p) now) (\<lambda>run.
       case run of None \<Rightarrow> ret (only_reply (TaskPage i ''check_is_running''))
       | Some r \<Rightarrow> ret (TaskPage i ''check_started'', Some r)))"
    by (intro answers_ledger answers_try_mark)
  then have check: "inv_step s (snd (andthen (try_mark_attempt_check_running sv i (ap_operation_id p) now) (\<lambda>run.
       case run of None \<Rightarrow> ret (only_reply (TaskPage i ''check_is_running''))
       | Some r \<Rightarrow> ret (TaskPage i ''check_started'', Some r)) s))"
    by (rule recorded.run_keeps [OF recorded_keeps])
  show "inv_step u (snd (andthen get_db (\<lambda>db.
     let page = (\<lambda>tag. ret (only_reply (TaskPage i tag))) in
     if enabled_for se a then page ''http_observation''
     else if \<not> can_edit_client_answer db a \<and> \<not> ta_is_current a then page ''historical_attempt''
     else if \<not> is_available db a then ret (only_reply (Dashboard ''task_not_available''))
     else if ta_status a = ST_PASSED then page ''already_passed''
     else if ta_status a = ST_ON_REVIEW then page ''answer_is_under_review''
     else if ta_check_status a = CK_RUNNING then page ''check_is_running''
     else if technical_passed db a then andthen (answer_view sv dk ai a p now) (\<lambda>r. ret (only_reply r))
     else if being_built a then page ''environment_is_starting''
     else if ta_environment_status a = EN_ERROR then page ''environment_failed''
     else if ta_container_name a = [] then page ''start_the_task_first''
     else andthen (try_mark_attempt_check_running sv i (ap_operation_id p) now) (\<lambda>run.
       case run of
         None \<Rightarrow> page ''check_is_running''
       | Some r \<Rightarrow> ret (TaskPage i ''check_started'', Some r))) u))"
    using answer check u by (simp add: andthen_def [of get_db] op_apply Let_def recorded.unchanged)
qed

lemma check_task_inv:
  assumes "unused_answer sv p s"
  shows "inv_step s (snd (check_task se sv dk ai describe delay user i p now s))"
proof -
  have dispatch: "keeps inv_step (andthen (dispatch_check describe delay i (us_id user) now r) (\<lambda>reply. ret (only_reply reply)))" for r
    unfolding dispatch_check_def by (intro recorded_keeps answers_ledger answers_background_check_error)
  have "inv_step s (snd (ledger_form sv (ap_operation_id p) i only_reply
       (andthen (check_view se sv dk ai user i p now) (\<lambda>r.
        andthen (dispatch_check describe delay i (us_id user) now r) (\<lambda>reply. ret (only_reply reply)))) s))"
    by (intro run_ledger_form recorded.run_andthen check_view_inv [OF assms] recorded.run_keeps [OF dispatch])
  then show ?thesis
    unfolding check_task_def by (intro recorded.run_andthen) (simp_all add: op_apply recorded.unchanged)
qed


section \<open>Reviewing an answer\<close>

text \<open>No row of the answers changes at all.\<close>

definition rows_same :: "sandbox_db \<Rightarrow> sandbox_db \<Rightarrow> bool" where
  "rows_same s t \<longleftrightarrow> sb_attempts t = sb_attempts s \<and> sb_submissions t = sb_submissions s \<and> sb_reviews t = sb_reviews s"

interpretation rows: effect_order rows_same
  by unfold_locales (auto simp: rows_same_def)

lemma rows_kept: "rows_same s t \<Longrightarrow> answers_kept s t"
  by (simp add: rows_same_def answers_sameI)

lemma rows_operations:
  "keeps rows_same (observe attempt)"
  "keeps rows_same (gap i reason source)"
  "keeps rows_same (publish provider external_id user_id context payload available_at)"
  unfolding observe_def create_coverage_def gap_def publish_def Let_def
  by (intro rows.keeps_intros rows.keeps_modify_db;
      simp add: keeps_def insert_unless_def rows_same_def split: option.split)+

definition unused_review :: "services \<Rightarrow> string option \<Rightarrow> sandbox_db \<Rightarrow> bool" where
  "unused_review sv op_id db \<longleftrightarrow> (\<forall>r \<in> set (sb_reviews db). Inr (rv_operation_id r) \<noteq> operation_id sv op_id)"

lemma save_review_Inr:
  assumes "save_review m new s = (Inr r, t)"
  shows "r = new\<lparr>rv_id := fresh_pk (map rv_id (sb_reviews s))\<rparr> \<and> t = s\<lparr>sb_reviews := sb_reviews s @ [r]\<rparr>"
  using assms
  by (auto simp: save_review_def andthen_Inr_iff op_apply get_task_attempt_Inr_iff insert_unless_def Let_def split: if_splits)

lemma latest_by_identity:
  assumes inv: "answers_inv s" and a: "a \<in> set (sb_attempts s)" and t: "sb_submissions t = sb_submissions s"
  shows "last_by sm_ordinal (filter (\<lambda>m. sm_attempt_id m = ta_id a \<and> sm_user_id m = ta_user_id a \<and>
    sm_task_id m = tk_id (ta_task a)) (sb_submissions t)) = latest_submission s (ta_id a)"
proof -
  have "sm_user_id m = ta_user_id a \<and> sm_task_id m = tk_id (ta_task a)"
    if m: "m \<in> set (sb_submissions s)" "sm_attempt_id m = ta_id a" for m
  proof -
    from inv m(1) obtain b where b: "b \<in> set (sb_attempts s)" "submission_of m b" by (auto simp: answers_inv_def)
    with m(2) inv a have "b = a" by (intro attempt_by_id [of s]) (auto simp: answers_inv_def submission_of_def)
    with b(2) show ?thesis by (simp add: submission_of_def)
  qed
  then have same: "filter (\<lambda>m. sm_attempt_id m = ta_id a \<and> sm_user_id m = ta_user_id a \<and>
      sm_task_id m = tk_id (ta_task a)) (sb_submissions t) = filter (\<lambda>m. sm_attempt_id m = ta_id a) (sb_submissions s)"
    unfolding t by (intro filter_cong) auto
  have "inj_on (\<lambda>m. (sm_attempt_id m, sm_ordinal m)) (set (sb_submissions s))"
    using inv by (simp add: answers_inv_def submission_keys_def distinct_map)
  then have "inj_on sm_ordinal (set (filter (\<lambda>m. sm_attempt_id m = ta_id a) (sb_submissions s)))"
    by (auto simp: inj_on_def)
  from last_by_last [OF this] show ?thesis
    unfolding same latest_submission_def attempt_submissions_def .
qed

lemma last_review:
  assumes "submission_keys s" and "sb_reviews t = sb_reviews s"
  shows "last_by rv_id (submission_reviews t (sm_id m)) = last_option (reviews_of s m)"
proof -
  have "inj_on rv_id (set (filter (\<lambda>r. rv_submission_id r = sm_id m) (sb_reviews s)))"
    using assms(1) by (intro inj_onI) (auto simp: submission_keys_def distinct_map dest: inj_onD)
  from last_by_last [OF this] show ?thesis using assms(2) by (simp add: submission_reviews_def reviews_of_def)
qed

lemma new_review_decision:
  assumes "submission_keys s" and "sb_reviews t = sb_reviews s @ [r]" and "rv_id r = fresh_pk (map rv_id (sb_reviews s))"
    and "rv_submission_id r = sm_id m"
  shows "last_decision t m = rv_decision r"
    and "rv_submission_id r \<noteq> sm_id m' \<Longrightarrow> last_decision t m' = last_decision s m'"
proof -
  have "rv_id r' < rv_id r" if "r' \<in> set (sb_reviews s)" for r'
    using that assms(3) fold_max_ge [of "rv_id r'" "map rv_id (sb_reviews s)" 0] by (simp add: fresh_pk_def)
  then have "last_option (reviews_of t m) = Some r"
    unfolding reviews_of_def using assms(2,4) by (intro last_option_new) auto
  then show "last_decision t m = rv_decision r" by (simp add: last_decision_def)
  show "rv_submission_id r \<noteq> sm_id m' \<Longrightarrow> last_decision t m' = last_decision s m'"
    using assms(2) by (simp add: last_decision_def reviews_of_def)
qed


lemma review_answer_Inr:
  assumes run: "review_answer sv attempt actor decision comment sid op_id now s = (Inr x, t)"
    and inv: "answers_inv s" and a: "attempt \<in> set (sb_attempts s)"
  shows "(latest_submission s (ta_id attempt) = None \<and> rows_same s t) \<or>
    (\<exists>m. latest_submission s (ta_id attempt) = Some m \<and>
      py_strip (ta_client_answer attempt) = py_strip (sm_client_answer m) \<and>
      py_strip (ta_trainee_report attempt) = py_strip (sm_trainee_report m) \<and>
      (rows_same s t \<and> (unused_review sv op_id s \<longrightarrow> last_decision s m = decision) \<or>
       (\<exists>r. unused_review sv op_id s \<and> sb_attempts t = sb_attempts s \<and> sb_submissions t = sb_submissions s \<and>
          sb_reviews t = sb_reviews s @ [r] \<and> rv_id r = fresh_pk (map rv_id (sb_reviews s)) \<and>
          rv_submission_id r = sm_id m \<and> rv_decision r = decision)))"
proof -
  let ?texts = "\<lambda>b m. (py_strip (ta_client_answer b), py_strip (ta_trainee_report b)) =
      (py_strip (sm_client_answer m), py_strip (sm_trainee_report m))"
  let ?note = "\<lambda>m event last. if ta_attempt_number attempt = 1 \<and> qu_slug (tk_queue (ta_task attempt)) = ''l1'' \<and>
        (case last of None \<Rightarrow> True | Some l \<Rightarrow> rv_decision l \<noteq> decision)
      then andthen (publish ''sandbox_review'' (str_nat (rv_id event)) (ta_user_id attempt) program_context
        (JObj [(''review_id'', JNum (int (rv_id event))), (''submission_id'', JNum (int (sm_id m))),
               (''attempt_id'', JNum (int (ta_id attempt))), (''kind'', JStr (rv_kind event))]) None) (\<lambda>_. ret ())
      else ret ()"
  let ?new = "\<lambda>m op last. \<lparr>rv_id = 0, rv_submission_id = sm_id m, rv_actor_id = us_id actor,
      rv_reviewed_at = now, rv_decision = decision, rv_comment = comment,
      rv_operation_id = op, rv_kind = (if last \<noteq> None then ''correction'' else ''decision''),
      rv_supersedes = map_option rv_id last\<rparr>"
  let ?decide = "\<lambda>m op db. case List.find (\<lambda>r. rv_operation_id r = op) (sb_reviews db) of
      Some previous \<Rightarrow>
        if (rv_submission_id previous, rv_actor_id previous, rv_decision previous, rv_comment previous) \<noteq>
           (sm_id m, us_id actor, decision, comment)
        then raise (ValidationError ''review_operation_conflict'') else ret (Some previous)
    | None \<Rightarrow>
        let last = last_by rv_id (submission_reviews db (sm_id m))
        in if (case last of None \<Rightarrow> False | Some l \<Rightarrow>
             (rv_actor_id l, rv_decision l, rv_comment l) = (us_id actor, decision, comment))
           then ret last
           else andthen (save_review m (?new m op last)) (\<lambda>event.
             andthen (?note m event last) (\<lambda>_. ret (Some event)))"
  from run obtain c u where u: "observe attempt s = (Inr c, u)"
    and rest: "(case last_by sm_ordinal (filter (\<lambda>m. sm_attempt_id m = ta_id attempt \<and>
           sm_user_id m = ta_user_id attempt \<and> sm_task_id m = tk_id (ta_task attempt)) (sb_submissions u)) of
         None \<Rightarrow>
           if sid \<noteq> None then raise (ValidationError ''foreign_submission'')
           else andthen (gap (ta_id attempt) ''review_without_submission'' ''service'') (\<lambda>_. ret None)
       | Some m \<Rightarrow>
           andthen (case sid of
               None \<Rightarrow> gap (ta_id attempt) ''review_version_unspecified'' ''service''
             | Some i \<Rightarrow> if sm_id m \<noteq> i then raise (ValidationError ''stale_submission_version'') else ret ()) (\<lambda>_.
           andthen (get_task_attempt (ta_id attempt)) (\<lambda>fresh.
           if \<not> ?texts fresh m then raise (ValidationError ''draft_is_not_the_submitted_version'')
           else andthen (lift_result (operation_id sv op_id)) (\<lambda>op. andthen get_db (?decide m op))))) u = (Inr x, t)"
    unfolding review_answer_def atomic_Inr_iff
    by (auto simp: andthen_Inr_iff [of "get_task_attempt i" for i] andthen_Inr_iff [of "observe attempt"]
        andthen_def [of get_db] op_apply get_task_attempt_Inr_iff split: if_splits)
  have su: "rows_same s u" by (rule keepsD [OF rows_operations(1) u])
  then have subs: "sb_submissions u = sb_submissions s" by (simp add: rows_same_def)
  note found = latest_by_identity [OF inv a subs]
  show ?thesis
  proof (cases "latest_submission s (ta_id attempt)")
    case None
    with rest found have "andthen (gap (ta_id attempt) ''review_without_submission'' ''service'')
        (\<lambda>_. ret (None :: SandboxAnswerReviewEvent option)) u = (Inr x, t)"
      by (simp add: op_apply split: if_splits)
    then have "rows_same u t" by (auto simp: andthen_Inr_iff op_apply dest: keepsD [OF rows_operations(2)])
    with su None show ?thesis using rows.chained by blast
  next
    case (Some m)
    with rest found obtain v fresh op where
      v: "(case sid of None \<Rightarrow> gap (ta_id attempt) ''review_version_unspecified'' ''service''
        | Some i \<Rightarrow> if sm_id m \<noteq> i then raise (ValidationError ''stale_submission_version'') else ret ()) u = (Inr (), v)"
      and fresh: "List.find (\<lambda>b. ta_id b = ta_id attempt) (sb_attempts v) = Some fresh" "?texts fresh m"
      and op: "operation_id sv op_id = Inr op" and tail: "?decide m op v v = (Inr x, t)"
      by (auto simp: andthen_Inr_iff [of "get_task_attempt i" for i] andthen_Inr_iff [of "lift_result i" for i]
          andthen_Inr_iff [of "case sid of None \<Rightarrow> f | Some i \<Rightarrow> g i" for f g]
          andthen_def [of get_db] op_apply get_task_attempt_Inr_iff split: if_splits)
    have "rows_same u v" using v by (auto simp: op_apply rows.unchanged split: option.splits if_splits dest: keepsD [OF rows_operations(2)])
    with su have sv': "rows_same s v" by (rule rows.chained)
    then have same: "sb_attempts v = sb_attempts s" "sb_submissions v = sb_submissions s" "sb_reviews v = sb_reviews s"
      by (simp_all add: rows_same_def)
    have "fresh = attempt"
      using find_Some_member [OF fresh(1)] a inv same(1) by (intro attempt_by_id [of s]) (auto simp: answers_inv_def)
    with fresh(2) have texts: "?texts attempt m" by simp
    show ?thesis
    proof (cases "List.find (\<lambda>r. rv_operation_id r = op) (sb_reviews v)")
      case (Some previous)
      with tail have "t = v" by (auto simp: op_apply split: if_splits)
      moreover have "\<not> unused_review sv op_id s"
        using find_Some_member [OF Some] op same(3) by (auto simp: unused_review_def)
      ultimately show ?thesis using \<open>latest_submission s (ta_id attempt) = Some m\<close> texts sv' by auto
    next
      case None
      have unused: "unused_review sv op_id s" using None op same(3) by (auto simp: find_None_all unused_review_def)
      let ?last = "last_by rv_id (submission_reviews v (sm_id m))"
      have last: "?last = last_option (reviews_of s m)"
        using last_review [of s v m] inv same(3) by (simp add: answers_inv_def)
      from None tail consider "t = v" "\<exists>l. ?last = Some l \<and> rv_decision l = decision"
        | event w where "save_review m (?new m op ?last) v = (Inr event, w)" "\<exists>y. ?note m event ?last w = (Inr y, t)"
        by (auto simp: Let_def andthen_Inr_iff [of "save_review i j" for i j] andthen_Inr_iff [of "if b then f else g" for b f g]
            op_apply split: if_splits option.splits)
      then show ?thesis
      proof cases
        case 1
        then have "last_decision s m = decision" unfolding last by (auto simp: last_decision_def)
        with 1(1) sv' texts \<open>latest_submission s (ta_id attempt) = Some m\<close> show ?thesis by auto
      next
        case 2
        note new = save_review_Inr [OF 2(1)]
        have "rows_same w t" using 2(2)
          by (auto simp: op_apply rows.unchanged andthen_Inr_iff split: if_splits dest: keepsD [OF rows_operations(3)])
        with new same texts unused \<open>latest_submission s (ta_id attempt) = Some m\<close> show ?thesis
          by (intro disjI2 exI [of _ m] conjI disjI2 exI [of _ event]) (auto simp: rows_same_def)
      qed
    qed
  qed
qed


lemma latest_submission_member:
  "latest_submission db i = Some m \<Longrightarrow> m \<in> set (sb_submissions db) \<and> sm_attempt_id m = i"
  using last_option_sorted [of sm_ordinal "filter (\<lambda>s. sm_attempt_id s = i) (sb_submissions db)" m]
  by (simp add: latest_submission_def attempt_submissions_def)

lemma feedback_fields_same:
  "same_task a (feedback_fields d fb actor now a)"
  "ta_client_answer (feedback_fields d fb actor now a) = ta_client_answer a"
  "ta_trainee_report (feedback_fields d fb actor now a) = ta_trainee_report a"
  "ta_mentor_decision (feedback_fields d fb actor now a) = d"
  by (cases d; simp add: feedback_fields_def same_task_def)+

lemma feedback_update_inv:
  assumes inv: "answers_inv s" and a: "a \<in> set (sb_attempts s)" and unused: "unused_review sv (fp_operation_id p) s"
    and run: "review_answer sv a actor (decision_text d) fb (fp_submission_id p) (fp_operation_id p) now s = (Inr x, t)"
    and w: "w = t\<lparr>sb_attempts := map (\<lambda>b. if ta_id b = ta_id a then feedback_fields d fb u now b else b) (sb_attempts t)\<rparr>"
  shows "answers_inv w"
proof -
  let ?f = "\<lambda>b. if ta_id b = ta_id a then feedback_fields d fb u now b else b"
  from inv have dist: "distinct (attempt_ids s)" and keys: "submission_keys s" by (simp_all add: answers_inv_def)
  note review = review_answer_Inr [OF run inv a]
  from review have t: "sb_attempts t = sb_attempts s" "sb_submissions t = sb_submissions s" by (auto simp: rows_same_def)
  have same: "same_task b (?f b)" for b using feedback_fields_same(1) by (simp add: same_answer_refl)
  have ids: "attempt_ids w = attempt_ids s" using same by (simp add: w t same_task_def)
  have latest: "latest_submission w = latest_submission s"
    by (simp add: fun_eq_iff w t latest_submission_def attempt_submissions_def)
  have decided: "last_decision w m = decision_text d" if m: "latest_submission s (ta_id a) = Some m" for m
    using review unused m new_review_decision(1) [OF keys, of w _ m] by (auto simp: w rows_same_def last_decision_def reviews_of_def)
  have others: "last_decision w m' = last_decision s m'"
    if m': "latest_submission s i = Some m'" "i \<noteq> ta_id a" for m' i
  proof -
    have "last_decision w m' = last_decision s m'"
      if r: "sb_reviews t = sb_reviews s @ [r]" "rv_id r = fresh_pk (map rv_id (sb_reviews s))"
        "rv_submission_id r = sm_id m" "latest_submission s (ta_id a) = Some m" for r m
    proof -
      from latest_submission_member [OF r(4)] latest_submission_member [OF m'(1)] m'(2)
      have "m \<in> set (sb_submissions s)" "m' \<in> set (sb_submissions s)" "m \<noteq> m'" by auto
      with keys have "sm_id m \<noteq> sm_id m'" by (auto simp: submission_keys_def distinct_map dest: inj_onD)
      with new_review_decision(2) [OF keys, of w r m m'] r show ?thesis by (simp add: w)
    qed
    with review show ?thesis by (auto simp: w rows_same_def last_decision_def reviews_of_def)
  qed
  have "submission_keys w"
  proof -
    have "submission_keys w" if "sb_reviews t = sb_reviews s" using keys that by (simp add: w t submission_keys_def)
    moreover have "submission_keys w" if r: "sb_reviews t = sb_reviews s @ [r]" "rv_id r = fresh_pk (map rv_id (sb_reviews s))"
        "rv_submission_id r = sm_id m" "latest_submission s (ta_id a) = Some m" for r m
    proof -
      have "rv_id r \<notin> set (map rv_id (sb_reviews s))" using r(2) fresh_pk_notin by metis
      moreover have "sm_id m \<in> set (map sm_id (sb_submissions s))" using latest_submission_member [OF r(4)] by simp
      ultimately show ?thesis using keys r by (simp add: w t submission_keys_def)
    qed
    ultimately show ?thesis using review unfolding rows_same_def by blast
  qed
  moreover have "\<exists>b \<in> set (sb_attempts w). submission_of m b" if m: "m \<in> set (sb_submissions w)" for m
  proof -
    from m inv obtain b where b: "b \<in> set (sb_attempts s)" "submission_of m b" by (auto simp: w t answers_inv_def)
    from same [of b] b(2) have "submission_of m (?f b)"
      unfolding submission_of_def same_task_def reviewed_task_def is_credit_attempt_def by metis
    moreover have "?f b \<in> set (sb_attempts w)" using b(1) by (auto simp: w t)
    ultimately show ?thesis by blast
  qed
  moreover have "answer_recorded w b" if b: "b \<in> set (sb_attempts w)" "submitted b" for b
  proof -
    from b(1) obtain c where c: "c \<in> set (sb_attempts s)" "b = ?f c" by (auto simp: w t)
    show ?thesis
    proof (cases "ta_id c = ta_id a")
      case True
      with attempt_by_id [OF dist c(1) a] c(2) have bf: "b = feedback_fields d fb u now a" by simp
      have "ta_id b = ta_id a" using same [of a] bf by (simp add: same_task_def)
      moreover have "py_strip (ta_client_answer a) = py_strip (sm_client_answer m) \<and>
          py_strip (ta_trainee_report a) = py_strip (sm_trainee_report m)"
        if "latest_submission s (ta_id a) = Some m" for m
        using review that by auto
      ultimately show ?thesis
        using bf decided by (auto simp: answer_recorded_def latest feedback_fields_same split: option.split)
    next
      case False
      with c b inv have "answer_recorded s b" by (simp add: answers_inv_def)
      moreover have "ta_id b \<noteq> ta_id a" using False c(2) by simp
      ultimately show ?thesis using others by (auto simp: answer_recorded_def latest split: option.splits)
    qed
  qed
  ultimately show ?thesis using dist ids by (simp add: answers_inv_def)
qed


definition unused_feedback :: "services \<Rightarrow> feedback_post \<Rightarrow> sandbox_db \<Rightarrow> bool" where
  "unused_feedback sv p db \<longleftrightarrow> (fp_operation_id p \<in> {None, Some []} \<longrightarrow> unused_review sv (fp_operation_id p) db)"

lemma andthen_run: "m s = (Inr x, t) \<Longrightarrow> andthen m f s = f x t"
  by (simp add: andthen_def)

lemma feedback_inv:
  assumes fresh: "unused_feedback sv p s"
  shows "inv_step s (snd (save_mentor_feedback sv user i p now s))"
proof -
  let ?d = "posted_decision (fp_decision p)" and ?fb = "py_strip (fp_feedback p)"
  let ?duplicate = "fp_operation_id p \<notin> {None, Some []} \<and>
    list_ex (\<lambda>r. Inr (rv_operation_id r) = operation_id sv (fp_operation_id p)) (sb_reviews s)"
  let ?review = "\<lambda>a. review_answer sv a user (decision_text ?d) ?fb (fp_submission_id p) (fp_operation_id p) now"
  let ?caught = "\<lambda>a. catch (andthen (?review a) (\<lambda>_. ret True))
    (\<lambda>e. case e of ValidationError _ \<Rightarrow> ret False | ValueError \<Rightarrow> ret False | _ \<Rightarrow> raise e)"
  let ?after = "\<lambda>reviewed. if \<not> reviewed then ret (TaskPage i ''answer_version_changed'')
    else if ?duplicate then ret (TaskPage i ''decision_already_saved'')
    else andthen (update_attempt i (feedback_fields ?d ?fb (us_id user) now)) (\<lambda>_. ret (TaskPage i ''decision_saved''))"
  have handler: "snd ((case e of ValidationError _ \<Rightarrow> ret False | ValueError \<Rightarrow> ret False | _ \<Rightarrow> raise e) u) = u" for e u
    by (simp add: op_apply split: py_error.split)
  have core: "inv_step s (snd (andthen (?caught a) ?after s))"
    if a: "a \<in> set (sb_attempts s)" "ta_id a = i" and inv: "answers_inv s" for a
  proof (cases "?review a s")
    case (Pair r t)
    show ?thesis
    proof (cases r)
      case (Inl e)
      with Pair have "t = s" by (auto simp: review_answer_def dest: atomic_rollback)
      with Pair Inl have state: "snd (?caught a s) = s" using handler by (simp add: catch_def andthen_def)
      have "fst (?caught a s) \<noteq> Inr True"
        using Pair Inl by (simp add: catch_def andthen_def op_apply split: py_error.split)
      then have "snd (andthen (?caught a) ?after s) = s"
        using state by (cases "?caught a s") (auto simp: andthen_def op_apply split: sum.split)
      then show ?thesis by (simp add: recorded.unchanged)
    next
      case (Inr x)
      with Pair have run: "?review a s = (Inr x, t)" by simp
      then have caught: "?caught a s = (Inr True, t)" by (simp add: catch_def andthen_def op_apply)
      have after: "andthen (?caught a) ?after s = ?after True t"
        by (rule andthen_run [where m = "?caught a" and f = ?after and x = True]) (rule caught)
      show ?thesis
      proof (cases ?duplicate)
        case True
        then have "\<not> unused_review sv (fp_operation_id p) s" by (auto simp: unused_review_def list_ex_iff)
        with review_answer_Inr [OF run inv a(1)] have "rows_same s t" by auto
        moreover have "snd (andthen (?caught a) ?after s) = t" unfolding after using True by (simp add: op_apply)
        ultimately show ?thesis using recorded_kept [OF rows_kept] by simp
      next
        case False
        then have unused: "unused_review sv (fp_operation_id p) s"
          using fresh by (auto simp: unused_feedback_def unused_review_def list_ex_iff)
        have "snd (andthen (?caught a) ?after s) = t\<lparr>sb_attempts := map (\<lambda>b. if ta_id b = ta_id a
            then feedback_fields ?d ?fb (us_id user) now b else b) (sb_attempts t)\<rparr>"
          unfolding after using False a(2) by (auto simp: andthen_def op_apply update_attempt_def)
        with feedback_update_inv [OF inv a(1) unused run] show ?thesis by (simp add: inv_step_def)
      qed
    qed
  qed
  have "inv_step s (snd (feedback_view sv user i p now s))"
  proof (cases "answers_inv s \<and> us_is_staff user")
    case False
    then show ?thesis by (auto simp: feedback_view_def inv_step_def op_apply)
  next
    case True
    then have view: "feedback_view sv user i p now s = (case List.find (\<lambda>a. ta_id a = i) (sb_attempts s) of
        None \<Rightarrow> (Inl DoesNotExist, s)
      | Some a \<Rightarrow> if is_extra_attempt a then (Inr (TaskPage i ''practice_attempt''), s) else andthen (?caught a) ?after s)"
      by (simp add: feedback_view_def get_task_attempt_def andthen_def [of "\<lambda>db. case f db of None \<Rightarrow> g db | Some a \<Rightarrow> h db a" for f g h]
          andthen_def [of get_db] op_apply Let_def split: option.split)
    show ?thesis
    proof (cases "List.find (\<lambda>a. ta_id a = i) (sb_attempts s)")
      case None
      then show ?thesis by (simp add: view recorded.unchanged)
    next
      case (Some a)
      with find_Some_member [OF Some] core [of a] True show ?thesis by (simp add: view recorded.unchanged)
    qed
  qed
  then show ?thesis
    unfolding save_mentor_feedback_def by (intro recorded.run_atomic run_ledger_form)
qed

section \<open>Histories\<close>

text \<open>
  What users, workers and error handlers do. A new UUID (\<^verbatim>\<open>uuid4\<close>) is one that no submission and
  no review has; the identifiers that a request brings may be used.
\<close>

inductive answer_step :: "sandbox_db \<Rightarrow> sandbox_db \<Rightarrow> bool" where
  "answer_step s (snd (trainee_dashboard sv user_id level now s))"
| "answer_step s (snd (task_detail user i now s))"
| "answer_step s (snd (start_task sv describe delay user i op_id now s))"
| "answer_step s (snd (restart_task sv describe delay user i op_id now s))"
| "answer_step s (snd (rerun_task sv user i now s))"
| "unused_answer sv p s \<Longrightarrow> answer_step s (snd (check_task se sv dk ai describe delay user i p now s))"
| "unused_feedback sv fp s \<Longrightarrow> answer_step s (snd (save_mentor_feedback sv user i fp now s))"
| "answer_step s (snd (run_attempt_check_background se sv dk' describe i user_id run_id now s))"
| "answer_step s (snd (begin_run sv kind i op_id actor origin now s))"
| "answer_step s (snd (finish_run gw dk w now s))"
| "answer_step s (snd (cleanup_attempt_environment dk attempt s))"
| "answer_step s (snd (mark_background_environment_error sv kind i err op_id now s))"

lemma answer_step_inv: "answer_step s t \<Longrightarrow> inv_step s t"
proof (induction rule: answer_step.induct)
  case (8 s se sv dk' describe i user_id run_id now)
  show ?case using recorded_kept [OF worker_answers] by (auto simp: inv_step_def answers_inv_def)
qed (simp_all add: check_task_inv feedback_inv recorded_kept [OF answers.run_keeps] answers_dashboard answers_task_detail
    answers_start answers_restart answers_rerun answers_begin_run answers_finish_run answers_cleanup
    answers_background_environment_error)

lemma answer_history_inv: "answer_step\<^sup>*\<^sup>* s t \<Longrightarrow> answers_inv s \<Longrightarrow> answers_inv t"
  by (induction rule: rtranclp_induct) (auto dest: answer_step_inv simp: inv_step_def)

text \<open>
  C8. A decision stands for the answer that was handed in. Whatever trainees, mentors and workers do,
  in any order, an attempt that is with the mentor or passed shows the last decision that the ledger
  holds of the latest submission, and the texts of that submission up to surrounding white space: the
  account of the ledger never objects to the decision, and objects to the texts exactly when the
  attempt holds them with white space around.
\<close>

theorem reviews_agree_with_attempts:
  assumes "answers_inv s" and "answer_step\<^sup>*\<^sup>* s t" and "a \<in> set (sb_attempts t)"
  shows "''review_projection_mismatch'' \<notin> set (answer_reasons t a (attempt_submissions t (ta_id a))) \<and>
    (''submitted_text_mismatch'' \<in> set (answer_reasons t a (attempt_submissions t (ta_id a))) \<longleftrightarrow>
      submitted a \<and> attempt_submissions t (ta_id a) \<noteq> [] \<and>
      (py_strip (ta_client_answer a), py_strip (ta_trainee_report a)) \<noteq> (ta_client_answer a, ta_trainee_report a))"
proof (cases "submitted a \<and> attempt_submissions t (ta_id a) \<noteq> []")
  case False
  then show ?thesis by (auto simp: answer_reasons_def submitted_def)
next
  case True
  with answer_history_inv [OF assms(2,1)] assms(3) have "answer_recorded t a" by (simp add: answers_inv_def)
  with True show ?thesis
    by (auto simp: answer_recorded_def latest_submission_def last_option_def answer_reasons_def submitted_def Let_def)
qed


section \<open>A run of the small sandbox\<close>

text \<open>
  A trainee hands in an answer and it is sent back. The next version is the same text with a space
  after it; the AI review cannot be prepared, so only the draft is kept, as it was typed. The mentor
  then approves the submission that the page still shows.
\<close>

definition demo_review_task :: Task where
  "demo_review_task = demo_task\<lparr>tk_requires_manual_review := True, tk_queue := demo_queue\<lparr>qu_slug := ''l2''\<rparr>\<rparr>"

definition demo_written :: sandbox_db where
  "demo_written = demo_sandbox\<lparr>sb_tasks := [demo_review_task],
     sb_attempts := [demo_ta\<lparr>ta_task := demo_review_task, ta_technical_passed_at := Some 2\<rparr>]\<rparr>"

definition demo_trainee :: SandboxUser where
  "demo_trainee = \<lparr>us_id = 9, us_is_staff = False, us_date_joined = 0\<rparr>"

definition demo_mentor :: SandboxUser where
  "demo_mentor = \<lparr>us_id = 2, us_is_staff = True, us_date_joined = 0\<rparr>"

definition demo_answer :: "string \<Rightarrow> string \<Rightarrow> answer_post" where
  "demo_answer s op = \<lparr>ap_client_answer = s, ap_trainee_report = ''r'', ap_operation_id = Some op\<rparr>"

definition demo_feedback :: "string \<Rightarrow> string \<Rightarrow> feedback_post" where
  "demo_feedback d op = \<lparr>fp_decision = d, fp_feedback = [], fp_submission_id = Some 1, fp_operation_id = Some op\<rparr>"

definition demo_send :: "unit result option \<Rightarrow> string \<Rightarrow> string \<Rightarrow> time \<Rightarrow> sandbox_db \<Rightarrow> sandbox_db" where
  "demo_send ai s op now db = snd (check_task demo_settings demo_services demo_env_docker ai (\<lambda>_. []) (Inr ()) demo_trainee 3
     (demo_answer s op) now db)"

definition demo_decide :: "string \<Rightarrow> string \<Rightarrow> time \<Rightarrow> sandbox_db \<Rightarrow> sandbox_db" where
  "demo_decide d op now db = snd (save_mentor_feedback demo_services demo_mentor 3 (demo_feedback d op) now db)"

text \<open>The attempt and the ledger after each of the four requests.\<close>

definition demo_review_row :: "string \<Rightarrow> string \<Rightarrow> pk \<Rightarrow> string \<Rightarrow> pk option \<Rightarrow> time \<Rightarrow> SandboxAnswerReviewEvent" where
  "demo_review_row d kind i op before now = \<lparr>rv_id = i, rv_submission_id = 1, rv_actor_id = 2, rv_reviewed_at = now,
     rv_decision = d, rv_comment = [], rv_operation_id = op, rv_kind = kind, rv_supersedes = before\<rparr>"

definition demo_handed_in :: sandbox_db where
  "demo_handed_in = demo_written\<lparr>
     sb_attempts := [demo_ta\<lparr>ta_task := demo_review_task, ta_technical_passed_at := Some 2, ta_status := ST_ON_REVIEW,
       ta_client_answer := ''hi'', ta_trainee_report := ''r'', ta_mentor_feedback_seen_at := Some 4,
       ta_environment_status := EN_IDLE, ta_environment_started_at := None, ta_environment_finished_at := None,
       ta_container_id := [], ta_container_name := [], ta_terminal_container_name := [], ta_terminal_url := []\<rparr>],
     sb_coverage := [\<lparr>cv_attempt_id = 3, cv_user_id = 9, cv_task_id = 5, cv_attempt_number = 1,
       cv_origin = ''legacy_observed'', cv_initial_checks = 0, cv_initial_resets = 0, cv_manifest_id = None\<rparr>],
     sb_submissions := [\<lparr>sm_id = 1, sm_operation_id = ''a1'', sm_attempt_id = 3, sm_user_id = 9, sm_task_id = 5,
       sm_attempt_number = 1, sm_ordinal = 1, sm_submitted_at = 4, sm_client_answer = ''hi'', sm_trainee_report = ''r'',
       sm_digest = ''d''\<rparr>]\<rparr>"

definition demo_returned :: sandbox_db where
  "demo_returned = demo_handed_in\<lparr>sb_attempts := map (feedback_fields NEEDS_REVISION [] 2 5) (sb_attempts demo_handed_in),
     sb_reviews := [demo_review_row ''needs_revision'' ''decision'' 1 ''f1'' None 5]\<rparr>"

definition demo_redrafted :: sandbox_db where
  "demo_redrafted = demo_returned\<lparr>sb_attempts := map (draft_fields (demo_answer ''hi '' ''a2'')) (sb_attempts demo_returned)\<rparr>"

definition demo_spaced :: sandbox_db where
  "demo_spaced = demo_redrafted\<lparr>sb_attempts := map (feedback_fields APPROVED [] 2 7) (sb_attempts demo_redrafted),
     sb_reviews := [demo_review_row ''needs_revision'' ''decision'' 1 ''f1'' None 5,
       demo_review_row ''approved'' ''correction'' 2 ''f2'' (Some 1) 7]\<rparr>"

lemma demo_stage1: "demo_send None ''hi'' ''a1'' 4 demo_written = demo_handed_in" by code_simp
lemma demo_stage2: "demo_decide ''needs_revision'' ''f1'' 5 demo_handed_in = demo_returned" by code_simp
lemma demo_stage3: "demo_send (Some (Inl (ExternalError []))) ''hi '' ''a2'' 6 demo_returned = demo_redrafted" by code_simp
lemma demo_stage4: "demo_decide ''approved'' ''f2'' 7 demo_redrafted = demo_spaced" by code_simp

lemma demo_send_step: "answer_step db (demo_send ai s op now db)" if "op \<noteq> []"
  unfolding demo_send_def by (rule answer_step.intros) (use that in \<open>simp add: unused_answer_def demo_answer_def\<close>)

lemma demo_decide_step: "answer_step db (demo_decide d op now db)" if "op \<noteq> []"
  unfolding demo_decide_def by (rule answer_step.intros) (use that in \<open>simp add: unused_feedback_def demo_feedback_def\<close>)

lemma demo_spaced_history: "answer_step\<^sup>*\<^sup>* demo_written demo_spaced"
proof -
  have "answer_step demo_written demo_handed_in" "answer_step demo_handed_in demo_returned"
    "answer_step demo_returned demo_redrafted" "answer_step demo_redrafted demo_spaced"
    using demo_send_step [of "''a1''" demo_written None "''hi''" 4] demo_decide_step [of "''f1''" demo_handed_in "''needs_revision''" 5]
      demo_send_step [of "''a2''" demo_returned "Some (Inl (ExternalError []))" "''hi ''" 6]
      demo_decide_step [of "''f2''" demo_redrafted "''approved''" 7]
    by (simp_all add: demo_stage1 demo_stage2 demo_stage3 demo_stage4)
  then show ?thesis by (meson converse_rtranclp_into_rtranclp r_into_rtranclp)
qed

lemma demo_written_inv: "answers_inv demo_written"
  by (simp add: answers_inv_def submission_keys_def submitted_def demo_written_def demo_sandbox_defs)

lemma demo_spaced_row: "map (\<lambda>a. (ta_id a, ta_status a, ta_client_answer a, ta_mentor_decision a)) (sb_attempts demo_spaced) =
    [(3, ST_PASSED, ''hi '', APPROVED)]"
  by code_simp

text \<open>
  The attempt is passed and its text has been approved, but the account of the ledger objects to the
  text for good.
\<close>

theorem spaced_draft_is_never_confirmed:
  "''submitted_text_mismatch'' \<in> set (at_reasons (attempt_evidence demo_spaced 3)) \<and>
   (\<exists>a \<in> set (sb_attempts demo_spaced). ta_status a = ST_PASSED \<and> last_decision demo_spaced (hd (sb_submissions demo_spaced)) = ''approved'')"
  by code_simp

theorem reviews_agree_with_attempts_witness:
  "\<exists>a \<in> set (sb_attempts demo_spaced). submitted a \<and>
    ''review_projection_mismatch'' \<notin> set (answer_reasons demo_spaced a (attempt_submissions demo_spaced (ta_id a)))"
proof -
  from demo_spaced_row obtain a where a: "a \<in> set (sb_attempts demo_spaced)" "ta_status a = ST_PASSED" by auto
  from reviews_agree_with_attempts [OF demo_written_inv demo_spaced_history a(1)] a show ?thesis
    by (auto simp: submitted_def intro!: bexI [of _ a])
qed

end
