(* ===== verification/Spec2Isabelle.thy ===== *)
theory Spec2Isabelle
  imports Exam_Views Completion_Theorems Assessment_Theorems Metric_Theorems
    Notification_Theorems Evaluator_Theorems Worker_Theorems Review_Theorems
begin

text \<open>
  A verification development of the training platform, a Django application in which trainees take
  exams, solve tickets in a sandbox of containers, and are led through a probation by mentors, with
  awards for what they achieve. The root theory only imports the others.

  \<^bold>\<open>Reading the model.\<close> A database is a record of tables, a table a list of rows in the order of their
  creation, a row a record with the fields of the Django model (its name prefixed by two letters). An
  operation is a function from the database to a result and a database (\<open>('s, 'a) op\<close> in Prelude);
  \<open>Inl e\<close> is an exception, \<^verbatim>\<open>transaction.atomic\<close> is \<open>atomic\<close>, which restores the tables when
  its body raises, and \<^verbatim>\<open>try\<close>/\<^verbatim>\<open>except\<close> is \<open>catch\<close>. Row locks are not modelled: an
  operation is what runs between taking and releasing them, and histories interleave operations. Times
  and dates are natural numbers. Texts for people are replaced by short tags.

  \<^bold>\<open>Exams\<close> (\<^verbatim>\<open>assessment/\<close>). Assessment_Models: the tables. Question_Validation
  (\<^verbatim>\<open>question_validation.py\<close>), Answer_Grading, Question_Snapshot, Question_Selection, Exam_Flow,
  Exam_Results (\<^verbatim>\<open>services/\<close>: grading, frozen snapshots, the draw of questions, starting, answering,
  timing out, completing), Exam_Views (the employee's pages). The lemmas show that a selection meets the
  quotas and exists exactly when the pool suffices, that a frozen question asks for an answer that is
  graded 100, that the loop that opens the current question ends, that the tables stay consistent over any
  history (Exam_Invariants), and what the verdict of an attempt means in exact arithmetic.

  \<^bold>\<open>Sandbox\<close> (\<^verbatim>\<open>sandbox/\<close>). Sandbox_Models: the tables and the technical evidence. Ledger and
  Answer_Ledger: the append-only ledger of checks, environment operations, answers and reviews.
  Fenced_Runs states as locales what a queue worker needs of it, a run that begins once and a late result
  that is refused; Ledger interprets both for checks and for environments. Check_Execution
  (\<^verbatim>\<open>services/checks.py\<close> in the wrapper of \<^verbatim>\<open>ledger_execution.py\<close>) and Check_Properties:
  a pass needs exit code 0, stays, and every started run is closed. Completions and Progress: the immutable
  record of the program and the page of progress. Environments: building, restarting and cleaning up
  containers and the addresses of terminals; Environment_Runs and Environment_Theorems: a step relation
  with the workers between the two halves of a run, and the counter of resets in it. Sandbox_Views and
  Sandbox_Pages (\<^verbatim>\<open>views.py\<close>): requests, pages, polling, the check of rights of a terminal;
  Terminal_Theorems: the stored address is read back by the gateway. Ledger_Evidence
  (\<^verbatim>\<open>services/ledger_evidence.py\<close>): the account that the ledger gives, with the reasons for which
  it is incomplete; Sandbox_Theorems relates it to the histories. Review_Theorems: what an attempt on
  review shows is what the ledger holds.

  \<^bold>\<open>Trainee diary\<close> (\<^verbatim>\<open>traineediary/\<close>). Diary_Models, Journey (the life of a journey and its
  forms), Journey_Integrity (the integrity check, and the specification that it decides),
  Journey_Invariants, Journey_Steps and Journey_Theorems (histories over the passing days),
  Weekly_Metrics and Metric_Theorems, Diary_Assessment and Assessment_Theorems (readiness, risk,
  progress).

  \<^bold>\<open>Awards\<close> (\<^verbatim>\<open>achievements/\<close>). Award_Models (tables, catalog), Grants, Award_Journal
  and Award_Theorems (an award is the replay of its journal on an abstract machine, over any history of
  grants, revocations and disputes), Notifications and Notification_Theorems (leases),
  Evaluators, Sandbox_Evaluators and Evaluator_Theorems (what the evaluators trust and prove),
  Source_Events and Worker_Theorems (the worker of durable source records), Award_Views (the pages).

  \<^bold>\<open>Shared.\<close> Prelude: exceptions, operations, JSON, dictionaries, text helpers. Effects: the locale
  \<open>effect_order\<close>, a preorder on databases that the combinators keep; components interpret it for what
  their operations may do (a ledger that only grows, passes that are never lost, answers that are left
  alone). Rounding and Py_Random: \<^verbatim>\<open>Decimal\<close>, binary floating point and the random generator, as far
  as the platform uses them.

  \<^bold>\<open>Parameters.\<close> What is not in the repository is an argument: the generator of random numbers
  (\<open>random_ok\<close>: a draw lies in its range), Unicode case folding, digests and new UUIDs
  (\<open>services\<close>), what Docker, the sockets and the queue answer (\<open>docker\<close>, \<open>env_docker\<close>, \<open>delay\<close>), the
  settings, the texts of exceptions, and the local calendar (\<open>award_env\<close>). Hypotheses about them state
  documented behaviour, and each such property has a witness.

  \<^bold>\<open>Bounds.\<close> No fuel is used: loops are recursions on lists, and the loop of the current question ends
  by a measure on the unanswered questions. Percentages are computed at the precision of the code, and the
  bounds on them hold for the sizes named in the statements. A lease lasts \<open>LEASE_SECONDS\<close>, pages have
  \<open>PAGE_SIZE\<close> entries, a free port is drawn at most a hundred times.

  \<^bold>\<open>Not modelled.\<close> The path of the terminal broker (\<^verbatim>\<open>terminal/\<close>,
  \<^verbatim>\<open>services/terminal_lite.py\<close>) and the HTTP observation pilot, which are switched off by default and
  consist of processes and sockets; the rows of AI reviews, e-mails and logging; administration pages,
  forms of the question editor, dashboards and management commands, which render or loop over modelled
  services; the one-time unification of schemes; the roadmap projection; the trusted checkers, which
  isolate operating-system processes; deployment scripts and settings.
\<close>

end
